(* ===== verification/Prelude.thy ===== *)
theory Prelude
  imports Main
begin

text \<open>
  Shared vocabulary of the development: the exceptions a request can raise and the sum type that
  carries them, the part of Python's string, integer and date library the sources use, and the
  list-as-table operations the database model is built from.

  A Python \<open>str\<close> is a HOL \<open>string\<close> whose characters are the code points U+0000 to U+00FF (one
  \<open>char\<close> per code point), so \<open>length\<close> counts what Python's \<open>len\<close> counts.  Case mapping, white space
  and digit tests below are Python's on exactly that range.
\<close>

named_theorems exn_simps \<open>rewriting of error-carrying computations\<close>
named_theorems table_simps \<open>rewriting of table lookups and updates\<close>
named_theorems str_simps \<open>rewriting of string operations\<close>

section \<open>Exceptions\<close>

text \<open>
  \<open>HTTPException\<close> carries status and detail (\<open>HTTPExceptionObject\<close> where the detail is an object), \<open>WireRefused\<close> and \<open>IssuanceRefused\<close> their fixed
  reason; the other constructors are the built-in exceptions that can escape a handler.  \<open>OutsideModel\<close> is
  no exception of the program: it marks a text with a character above U+00FF, which the model's strings
  cannot hold, and no property speaks about it.
\<close>

datatype exn =
    HTTPException int string
  | HTTPExceptionObject int "(string \<times> string) list"
  | WireRefused string
  | IssuanceRefused string
  | ValueError
  | TypeError
  | KeyError
  | AttributeError
  | IndexError
  | OverflowError
  | RuntimeError string
  | IntegrityError
  | OutsideModel

type_synonym 'a res = "exn + 'a"

definition bindE :: "'e + 'a \<Rightarrow> ('a \<Rightarrow> 'e + 'b) \<Rightarrow> 'e + 'b" where
  "bindE m f = (case m of Inl e \<Rightarrow> Inl e | Inr x \<Rightarrow> f x)"

definition requireE :: "bool \<Rightarrow> 'e \<Rightarrow> 'e + unit" where
  "requireE c e = (if c then Inr () else Inl e)"

text \<open>\<open>ignoreE\<close> sequences a check whose value is not used.\<close>

definition ignoreE :: "'e + 'a \<Rightarrow> 'e + 'b \<Rightarrow> 'e + 'b" where
  "ignoreE m k = bindE m (\<lambda>_. k)"

fun mapE :: "('a \<Rightarrow> 'e + 'b) \<Rightarrow> 'a list \<Rightarrow> 'e + 'b list" where
  "mapE f [] = Inr []"
| "mapE f (x # xs) = bindE (f x) (\<lambda>y. bindE (mapE f xs) (\<lambda>ys. Inr (y # ys)))"

definition someE :: "'e \<Rightarrow> 'a option \<Rightarrow> 'e + 'a" where
  "someE e x = (case x of None \<Rightarrow> Inl e | Some y \<Rightarrow> Inr y)"

lemma bindE_Inl [simp, exn_simps]: "bindE (Inl e) f = Inl e"
  by (simp add: bindE_def)

lemma bindE_Inr [simp, exn_simps]: "bindE (Inr x) f = f x"
  by (simp add: bindE_def)

lemma bindE_eq_Inr [exn_simps]: "bindE m f = Inr y \<longleftrightarrow> (\<exists>x. m = Inr x \<and> f x = Inr y)"
  by (cases m) auto

lemma bindE_eq_Inl [exn_simps]:
  "bindE m f = Inl e \<longleftrightarrow> m = Inl e \<or> (\<exists>x. m = Inr x \<and> f x = Inl e)"
  by (cases m) auto

lemma requireE_True [simp]: "requireE True e = Inr ()"
  by (simp add: requireE_def)

lemma requireE_False [simp]: "requireE False e = Inl e"
  by (simp add: requireE_def)

lemma requireE_eq_Inr [simp, exn_simps]: "requireE c e = Inr u \<longleftrightarrow> c"
  by (simp add: requireE_def)

lemma requireE_eq_Inl [simp, exn_simps]: "requireE c e = Inl e' \<longleftrightarrow> \<not> c \<and> e = e'"
  by (auto simp: requireE_def)

lemma ignoreE_Inl [simp, exn_simps]: "ignoreE (Inl e) k = Inl e"
  by (simp add: ignoreE_def)

lemma ignoreE_Inr [simp, exn_simps]: "ignoreE (Inr x) k = k"
  by (simp add: ignoreE_def)

lemma ignoreE_eq_Inr [exn_simps]: "ignoreE m k = Inr y \<longleftrightarrow> (\<exists>x. m = Inr x) \<and> k = Inr y"
  by (simp add: ignoreE_def bindE_eq_Inr)

lemma ignoreE_eq_Inl [exn_simps]:
  "ignoreE m k = Inl e \<longleftrightarrow> m = Inl e \<or> ((\<exists>x. m = Inr x) \<and> k = Inl e)"
  by (simp add: ignoreE_def bindE_eq_Inl)

lemma someE_None [simp]: "someE e None = Inl e"
  by (simp add: someE_def)

lemma someE_Some [simp]: "someE e (Some y) = Inr y"
  by (simp add: someE_def)

lemma someE_eq_Inr [simp, exn_simps]: "someE e x = Inr y \<longleftrightarrow> x = Some y"
  by (cases x) auto

lemma someE_eq_Inl [simp, exn_simps]: "someE e x = Inl e' \<longleftrightarrow> x = None \<and> e = e'"
  by (cases x) auto

lemma mapE_Inr_length: "mapE f xs = Inr ys \<Longrightarrow> length ys = length xs"
  by (induction xs arbitrary: ys) (auto simp: bindE_eq_Inr)

lemma mapE_Inr_all: "mapE f xs = Inr ys \<Longrightarrow> x \<in> set xs \<Longrightarrow> \<exists>y. f x = Inr y \<and> y \<in> set ys"
  by (induction xs arbitrary: ys) (auto simp: bindE_eq_Inr)

lemma mapE_Inr_from: "mapE f xs = Inr ys \<Longrightarrow> y \<in> set ys \<Longrightarrow> \<exists>x \<in> set xs. f x = Inr y"
  by (induction xs arbitrary: ys) (auto simp: bindE_eq_Inr)

text \<open>
  A request handler maps the committed database to the response or exception and the database
  committed when it returns.  \<open>transact\<close> is the common shape: the handler commits once, at its
  end, and an exception before that leaves the stored data as it was.
\<close>

definition transact :: "'s \<Rightarrow> exn + ('a \<times> 's) \<Rightarrow> 'a res \<times> 's" where
  "transact s m = (case m of Inl e \<Rightarrow> (Inl e, s) | Inr (a, s') \<Rightarrow> (Inr a, s'))"

lemma transact_Inl [simp]: "transact s (Inl e) = (Inl e, s)"
  by (simp add: transact_def)

lemma transact_Inr [simp]: "transact s (Inr (a, s')) = (Inr a, s')"
  by (simp add: transact_def)

lemma transact_error: "transact s m = (Inl e, s') \<Longrightarrow> s' = s"
  by (auto simp: transact_def split: sum.splits prod.splits)

lemma transact_ok: "transact s m = (Inr a, s') \<longleftrightarrow> m = Inr (a, s')"
  by (auto simp: transact_def split: sum.splits prod.splits)

lemma transact_snd: "snd (transact s m) = (case m of Inl e \<Rightarrow> s | Inr (a, s') \<Rightarrow> s')"
  by (auto simp: transact_def split: sum.splits prod.splits)

section \<open>Strings\<close>

abbreviation quoted :: "string \<Rightarrow> string" where
  "quoted s \<equiv> CHR 0x27 # s @ [CHR 0x27]"

definition code :: "char \<Rightarrow> int" where
  "code c = of_char c"

text \<open>\<open>str.isspace\<close> on U+0000 to U+00FF, the characters \<open>str.strip()\<close> removes.\<close>

definition is_ws :: "char \<Rightarrow> bool" where
  "is_ws c = (let n = code c in
     (9 \<le> n \<and> n \<le> 13) \<or> (28 \<le> n \<and> n \<le> 32) \<or> n = 133 \<or> n = 160)"

definition lower_char :: "char \<Rightarrow> char" where
  "lower_char c = (let n = code c in
     if (65 \<le> n \<and> n \<le> 90) \<or> (192 \<le> n \<and> n \<le> 222 \<and> n \<noteq> 215) then char_of (n + 32) else c)"

definition lower :: "string \<Rightarrow> string" where
  "lower s = map lower_char s"

definition lstrip_where :: "(char \<Rightarrow> bool) \<Rightarrow> string \<Rightarrow> string" where
  "lstrip_where p s = dropWhile p s"

definition rstrip_where :: "(char \<Rightarrow> bool) \<Rightarrow> string \<Rightarrow> string" where
  "rstrip_where p s = rev (dropWhile p (rev s))"

definition strip :: "string \<Rightarrow> string" where
  "strip s = rstrip_where is_ws (lstrip_where is_ws s)"

definition rstrip_char :: "char \<Rightarrow> string \<Rightarrow> string" where
  "rstrip_char c s = rstrip_where (\<lambda>d. d = c) s"

definition startswith :: "string \<Rightarrow> string \<Rightarrow> bool" where
  "startswith s p = (take (length p) s = p)"

definition endswith :: "string \<Rightarrow> string \<Rightarrow> bool" where
  "endswith s p = startswith (rev s) (rev p)"

text \<open>\<open>find_sub p s\<close> is the index of the first occurrence of \<open>p\<close>; \<open>None\<close> is Python's \<open>-1\<close>.\<close>

fun find_sub :: "string \<Rightarrow> string \<Rightarrow> nat option" where
  "find_sub p [] = (if p = [] then Some 0 else None)"
| "find_sub p (c # cs) =
     (if startswith (c # cs) p then Some 0 else map_option Suc (find_sub p cs))"

definition contains :: "string \<Rightarrow> string \<Rightarrow> bool" where
  "contains s p = (find_sub p s \<noteq> None)"

text \<open>
  \<open>split_once p s\<close> is \<open>s.split(p, 1)\<close> when \<open>p\<close> occurs (the two pieces), and \<open>None\<close> when it does
  not.  \<open>before p s\<close> is \<open>s.split(p, 1)[0]\<close>, which is defined for every \<open>s\<close>.
\<close>

definition split_once :: "string \<Rightarrow> string \<Rightarrow> (string \<times> string) option" where
  "split_once p s = (case find_sub p s of None \<Rightarrow> None
     | Some i \<Rightarrow> Some (take i s, drop (i + length p) s))"

definition before :: "string \<Rightarrow> string \<Rightarrow> string" where
  "before p s = (case split_once p s of None \<Rightarrow> s | Some (a, b) \<Rightarrow> a)"

text \<open>\<open>s.split(c)\<close> for a one-character separator.\<close>

fun split_char :: "char \<Rightarrow> string \<Rightarrow> string list" where
  "split_char c [] = [[]]"
| "split_char c (x # xs) =
     (if x = c then [] # split_char c xs
      else (case split_char c xs of [] \<Rightarrow> [[x]] | y # ys \<Rightarrow> (x # y) # ys))"

fun join_with :: "string \<Rightarrow> string list \<Rightarrow> string" where
  "join_with p [] = []"
| "join_with p [x] = x"
| "join_with p (x # y # ys) = x @ p @ join_with p (y # ys)"

definition count_char :: "char \<Rightarrow> string \<Rightarrow> nat" where
  "count_char c s = length (filter (\<lambda>d. d = c) s)"

text \<open>
  \<open>str.isdigit\<close> holds for the superscripts \<open>U+00B2\<close>, \<open>U+00B3\<close> and \<open>U+00B9\<close> as well as for 0 to 9;
  \<open>int()\<close> accepts only the latter.
\<close>

definition is_decimal_char :: "char \<Rightarrow> bool" where
  "is_decimal_char c = (48 \<le> code c \<and> code c \<le> 57)"

definition is_digit_char :: "char \<Rightarrow> bool" where
  "is_digit_char c = (is_decimal_char c \<or> code c \<in> {178, 179, 185})"

definition isdigit :: "string \<Rightarrow> bool" where
  "isdigit s = (s \<noteq> [] \<and> list_all is_digit_char s)"

definition isascii :: "string \<Rightarrow> bool" where
  "isascii s = list_all (\<lambda>c. code c < 128) s"

definition digit_val :: "char \<Rightarrow> int" where
  "digit_val c = code c - 48"

fun digits_val :: "int \<Rightarrow> string \<Rightarrow> int" where
  "digits_val acc [] = acc"
| "digits_val acc (c # cs) = digits_val (10 * acc + digit_val c) cs"

text \<open>
  The digits of an \<open>int()\<close> literal: decimal digits with single underscores between them.  The
  flag says whether an underscore may come next.
\<close>

fun int_digits :: "bool \<Rightarrow> string \<Rightarrow> string option" where
  "int_digits us [] = (if us then Some [] else None)"
| "int_digits us (c # cs) =
     (if is_decimal_char c then map_option (\<lambda>ds. c # ds) (int_digits True cs)
      else if c = CHR ''_'' \<and> us \<and> cs \<noteq> [] then int_digits False cs
      else None)"

text \<open>
  \<open>int(s)\<close> for a string: surrounding white space, an optional sign, then digits.  Over 4300 digits
  raise \<open>ValueError\<close> as well (the interpreter's conversion limit).
\<close>

definition int_of_str :: "string \<Rightarrow> int res" where
  "int_of_str s =
     (let t = strip s;
          neg = (case t of c # _ \<Rightarrow> c = CHR ''-'' | [] \<Rightarrow> False);
          body = (case t of c # cs \<Rightarrow> if c = CHR ''-'' \<or> c = CHR ''+'' then cs else t | [] \<Rightarrow> [])
      in case int_digits False body of
           None \<Rightarrow> Inl ValueError
         | Some ds \<Rightarrow>
             if length ds > 4300 then Inl ValueError
             else Inr (if neg then - digits_val 0 ds else digits_val 0 ds))"

definition digit_char :: "int \<Rightarrow> char" where
  "digit_char n = char_of (48 + n)"

text \<open>The decimal digits of a non-negative integer, and \<open>str(i)\<close>.\<close>

function str_of_pos :: "int \<Rightarrow> string" where
  "str_of_pos n = (if n < 10 then [digit_char n] else str_of_pos (n div 10) @ [digit_char (n mod 10)])"
  by pat_completeness auto
termination
  by (relation "measure nat") auto

declare str_of_pos.simps [simp del]

definition str_of_int :: "int \<Rightarrow> string" where
  "str_of_int i = (if i < 0 then CHR ''-'' # str_of_pos (- i) else str_of_pos i)"

subsection \<open>Lemmas on strings\<close>

lemma startswith_iff: "startswith s p \<longleftrightarrow> (\<exists>r. s = p @ r)"
proof
  assume "startswith s p"
  then have "s = p @ drop (length p) s"
    by (metis append_take_drop_id startswith_def)
  then show "\<exists>r. s = p @ r" by blast
qed (auto simp: startswith_def)

lemma endswith_iff: "endswith s p \<longleftrightarrow> (\<exists>r. s = r @ p)"
proof
  assume "endswith s p"
  then obtain r where "rev s = rev p @ r"
    by (auto simp: endswith_def startswith_iff)
  then have "s = rev r @ p"
    by (metis rev_append rev_rev_ident)
  then show "\<exists>r. s = r @ p" by blast
qed (auto simp: endswith_def startswith_iff)

lemma startswith_Nil [simp]: "startswith s []"
  by (simp add: startswith_def)

lemma startswith_append [simp]: "startswith (p @ r) p"
  by (simp add: startswith_def)

lemma endswith_append [simp]: "endswith (r @ p) p"
  by (auto simp: endswith_iff)

lemma find_sub_Some:
  "find_sub p s = Some i \<Longrightarrow> s = take i s @ p @ drop (i + length p) s"
proof (induction s arbitrary: i)
  case Nil
  then show ?case by (auto split: if_splits)
next
  case (Cons c cs)
  show ?case
  proof (cases "startswith (c # cs) p")
    case True
    with Cons.prems have "i = 0" by simp
    with True show ?thesis
      by (metis add_0 append_Nil append_take_drop_id startswith_def take0)
  next
    case False
    with Cons.prems obtain j where "find_sub p cs = Some j" and "i = Suc j" by auto
    with Cons.IH show ?thesis by simp
  qed
qed

lemma find_sub_None: "find_sub p s = None \<Longrightarrow> \<not> (\<exists>a b. s = a @ p @ b)"
proof (induction s)
  case Nil
  then show ?case by (auto split: if_splits)
next
  case (Cons c cs)
  then have no: "\<not> startswith (c # cs) p" and IH: "\<not> (\<exists>a b. cs = a @ p @ b)"
    by (auto split: if_splits)
  show ?case
  proof
    assume "\<exists>a b. c # cs = a @ p @ b"
    then obtain a b where ab: "c # cs = a @ p @ b" by blast
    show False
    proof (cases a)
      case Nil
      with ab no show False by (simp add: startswith_iff)
    next
      case (Cons x xs)
      with ab IH show False by auto
    qed
  qed
qed

lemma contains_iff: "contains s p \<longleftrightarrow> (\<exists>a b. s = a @ p @ b)"
proof
  assume "contains s p"
  then obtain i where "find_sub p s = Some i" by (auto simp: contains_def)
  from find_sub_Some [OF this] show "\<exists>a b. s = a @ p @ b" by blast
next
  assume "\<exists>a b. s = a @ p @ b"
  with find_sub_None [of p s] show "contains s p" by (auto simp: contains_def)
qed

lemma split_once_Some: "split_once p s = Some (a, b) \<Longrightarrow> s = a @ p @ b"
  using find_sub_Some by (auto simp: split_once_def split: option.splits)

lemma split_once_None_iff: "split_once p s = None \<longleftrightarrow> \<not> contains s p"
  by (simp add: split_once_def contains_def split: option.splits)

lemma before_no: "\<not> contains s p \<Longrightarrow> before p s = s"
  by (simp add: before_def split_once_None_iff [THEN iffD2])

lemma find_sub_min:
  "find_sub p s = Some i \<Longrightarrow> j < i \<Longrightarrow> \<not> startswith (drop j s) p"
proof (induction s arbitrary: i j)
  case Nil
  then show ?case by (auto split: if_splits)
next
  case (Cons c cs)
  then have no: "\<not> startswith (c # cs) p" by (auto split: if_splits)
  with Cons.prems obtain i' where i': "find_sub p cs = Some i'" and "i = Suc i'" by auto
  show ?case
  proof (cases j)
    case 0
    with no show ?thesis by simp
  next
    case (Suc k)
    with Cons.IH [OF i'] Cons.prems \<open>i = Suc i'\<close> show ?thesis by simp
  qed
qed

lemma find_sub_char:
  "c \<notin> set a \<Longrightarrow> find_sub [c] (a @ c # b) = Some (length a)"
  by (induction a) (auto simp: startswith_def)

lemma split_once_char [str_simps]: "c \<notin> set a \<Longrightarrow> split_once [c] (a @ c # b) = Some (a, b)"
  by (simp add: split_once_def find_sub_char)

lemma contains_char: "contains s [c] \<longleftrightarrow> c \<in> set s"
  by (auto simp: contains_iff in_set_conv_decomp)

lemma before_char [str_simps]: "before [c] s = takeWhile (\<lambda>x. x \<noteq> c) s"
proof (cases "c \<in> set s")
  case True
  then obtain a b where s: "s = a @ c # b" and a: "c \<notin> set a"
    by (auto dest: split_list_first)
  have "takeWhile (\<lambda>x. x \<noteq> c) s = a"
    using a unfolding s by (subst takeWhile_append2) auto
  with s a show ?thesis by (simp add: before_def split_once_char)
next
  case False
  then have "takeWhile (\<lambda>x. x \<noteq> c) s = s" by (auto simp: takeWhile_eq_all_conv)
  moreover from False have "before [c] s = s" by (simp add: before_no contains_char)
  ultimately show ?thesis by metis
qed

lemma split_char_not_Nil [simp]: "split_char c s \<noteq> []"
  by (induction s) (auto split: list.splits)

lemma join_with_Cons: "ys \<noteq> [] \<Longrightarrow> join_with p (y # ys) = y @ p @ join_with p ys"
  by (cases ys) auto

lemma join_with_Cons_head: "join_with p ((x # y) # ys) = x # join_with p (y # ys)"
  by (cases ys) auto

lemma join_split_char: "join_with [c] (split_char c s) = s"
proof (induction s)
  case (Cons x xs)
  then show ?case
    by (cases "split_char c xs") (auto simp: join_with_Cons join_with_Cons_head)
qed simp

lemma split_char_no_sep: "p \<in> set (split_char c s) \<Longrightarrow> c \<notin> set p"
  by (induction s arbitrary: p) (auto split: list.splits if_splits)

lemma length_lower [simp]: "length (lower s) = length s"
  by (simp add: lower_def)

lemma lower_append [simp]: "lower (a @ b) = lower a @ lower b"
  by (simp add: lower_def)

lemma lower_Nil_iff [simp]: "lower s = [] \<longleftrightarrow> s = []"
  by (simp add: lower_def)

lemma code_char_of: "0 \<le> n \<Longrightarrow> n < 256 \<Longrightarrow> code (char_of n) = n"
  by (simp add: code_def)

lemma code_bounds: "0 \<le> code c" "code c < 256"
  by (cases c; simp add: code_def)+

lemma char_of_code [simp]: "char_of (code c) = c"
  by (simp add: code_def)

lemma lower_char_idem [simp]: "lower_char (lower_char c) = lower_char c"
proof -
  have "0 \<le> code c" "code c < 256" by (rule code_bounds)+
  then show ?thesis
    by (auto simp: lower_char_def Let_def code_char_of)
qed

lemma lower_idem [simp]: "lower (lower s) = lower s"
  by (simp add: lower_def)

lemma rstrip_where_suffix: "\<exists>t. s = rstrip_where p s @ t \<and> list_all p t"
proof -
  have "rev s = takeWhile p (rev s) @ dropWhile p (rev s)" by simp
  then have "s = rev (dropWhile p (rev s)) @ rev (takeWhile p (rev s))"
    by (metis rev_append rev_rev_ident)
  moreover have "list_all p (rev (takeWhile p (rev s)))"
    by (simp add: list_all_iff) (metis set_takeWhileD)
  ultimately show ?thesis unfolding rstrip_where_def by blast
qed

lemma strip_infix: "\<exists>a b. s = a @ strip s @ b"
proof -
  obtain b where "lstrip_where is_ws s = strip s @ b"
    using rstrip_where_suffix [of "lstrip_where is_ws s" is_ws] by (auto simp: strip_def)
  moreover have "s = takeWhile is_ws s @ lstrip_where is_ws s"
    by (simp add: lstrip_where_def)
  ultimately show ?thesis by metis
qed

lemma strip_id: "s \<noteq> [] \<Longrightarrow> \<not> is_ws (hd s) \<Longrightarrow> \<not> is_ws (last s) \<Longrightarrow> strip s = s"
proof -
  assume s: "s \<noteq> []" "\<not> is_ws (hd s)" "\<not> is_ws (last s)"
  then have "lstrip_where is_ws s = s"
    by (cases s) (auto simp: lstrip_where_def)
  moreover from s have "rstrip_where is_ws s = s"
    by (cases s rule: rev_cases) (auto simp: rstrip_where_def)
  ultimately show ?thesis by (simp add: strip_def)
qed

lemma rstrip_char_id: "s \<noteq> [] \<Longrightarrow> last s \<noteq> c \<Longrightarrow> rstrip_char c s = s"
  by (cases s rule: rev_cases) (auto simp: rstrip_char_def rstrip_where_def)

lemma rstrip_char_last: "rstrip_char c s = [] \<or> last (rstrip_char c s) \<noteq> c"
  by (cases "dropWhile (\<lambda>d. d = c) (rev s)")
    (auto simp: rstrip_char_def rstrip_where_def dest: dropWhile_eq_Cons_conv [THEN iffD1])

text \<open>Cutting a string up yields pieces with no new characters and no greater length.\<close>

definition piece :: "string \<Rightarrow> string \<Rightarrow> bool" where
  "piece x s = (set x \<subseteq> set s \<and> length x \<le> length s)"

lemma piece_refl [simp]: "piece s s"
  by (simp add: piece_def)

lemma piece_Nil [simp]: "piece [] s"
  by (simp add: piece_def)

lemma piece_trans: "piece x y \<Longrightarrow> piece y z \<Longrightarrow> piece x z"
  by (auto simp: piece_def)

lemma piece_infix: "s = a @ x @ b \<Longrightarrow> piece x s"
  by (auto simp: piece_def)

lemma piece_strip [simp]: "piece (strip s) s"
  using strip_infix piece_infix by metis

lemma piece_drop [simp]: "piece (drop n s) s"
  by (auto simp: piece_def dest: in_set_dropD)

lemma piece_split_once: "split_once p s = Some (a, b) \<Longrightarrow> piece a s \<and> piece b s"
  using split_once_Some [of p s a b] by (auto simp: piece_def)

lemma piece_before [simp]: "piece (before p s) s"
  using piece_split_once by (auto simp: before_def split: option.splits)

lemma isascii_piece: "isascii s \<Longrightarrow> piece x s \<Longrightarrow> isascii x"
  by (auto simp: isascii_def piece_def list_all_iff)

lemma isascii_lower: "isascii s \<Longrightarrow> isascii (lower s)"
proof -
  have "code (lower_char c) < 128" if "code c < 128" for c
    using that code_bounds [of c] by (auto simp: lower_char_def Let_def code_char_of)
  then show "isascii s \<Longrightarrow> isascii (lower s)"
    by (auto simp: isascii_def lower_def list_all_iff)
qed

lemma isdigit_ascii_decimal: "isdigit s \<Longrightarrow> isascii s \<Longrightarrow> list_all is_decimal_char s \<and> s \<noteq> []"
  by (fastforce simp: isdigit_def isascii_def list_all_iff is_digit_char_def)

subsection \<open>Decimal text\<close>

lemma code_digit_char: "0 \<le> n \<Longrightarrow> n < 10 \<Longrightarrow> code (digit_char n) = 48 + n"
  by (simp add: digit_char_def code_char_of)

lemma digit_char_decimal: "0 \<le> n \<Longrightarrow> n < 10 \<Longrightarrow> is_decimal_char (digit_char n)"
  by (simp add: is_decimal_char_def code_digit_char)

lemma digit_val_digit_char [simp]: "0 \<le> n \<Longrightarrow> n < 10 \<Longrightarrow> digit_val (digit_char n) = n"
  by (simp add: digit_val_def code_digit_char)

lemma digits_val_append: "digits_val acc (a @ [c]) = 10 * digits_val acc a + digit_val c"
  by (induction a arbitrary: acc) auto

lemma digits_val_nonneg: "0 \<le> acc \<Longrightarrow> list_all is_decimal_char s \<Longrightarrow> 0 \<le> digits_val acc s"
  by (induction s arbitrary: acc) (auto simp: digit_val_def is_decimal_char_def)

lemma str_of_pos_decimal: "0 \<le> n \<Longrightarrow> list_all is_decimal_char (str_of_pos n)"
proof (induction n rule: str_of_pos.induct)
  case (1 n)
  then show ?case
    by (subst str_of_pos.simps) (auto simp: digit_char_decimal)
qed

lemma str_of_pos_nonempty [simp]: "str_of_pos n \<noteq> []"
  by (subst str_of_pos.simps) simp

lemma digits_val_str_of_pos [simp]: "0 \<le> n \<Longrightarrow> digits_val 0 (str_of_pos n) = n"
proof (induction n rule: str_of_pos.induct)
  case (1 n)
  then show ?case
    by (subst str_of_pos.simps) (auto simp: digits_val_append)
qed

lemma int_digits_decimal: "list_all is_decimal_char s \<Longrightarrow> s \<noteq> [] \<or> us \<Longrightarrow> int_digits us s = Some s"
  by (induction s arbitrary: us) auto

lemma decimal_not_ws: "is_decimal_char c \<Longrightarrow> \<not> is_ws c"
  by (auto simp: is_decimal_char_def is_ws_def Let_def)

lemma decimal_not_sign: "is_decimal_char c \<Longrightarrow> c \<noteq> CHR ''-'' \<and> c \<noteq> CHR ''+'' \<and> c \<noteq> CHR ''_''"
  by (auto simp: is_decimal_char_def code_def)

lemma int_of_str_decimal:
  assumes "list_all is_decimal_char s" and "s \<noteq> []" and "length s \<le> 4300"
  shows "int_of_str s = Inr (digits_val 0 s)"
proof -
  from assms(1,2) obtain c cs where s: "s = c # cs" and c: "is_decimal_char c"
    by (cases s) auto
  have "is_decimal_char (last s)"
    using assms(1,2) by (simp add: list_all_iff)
  with s c have st: "strip s = s"
    by (intro strip_id) (auto dest: decimal_not_ws)
  show ?thesis
    using assms(2,3) s decimal_not_sign [OF c] int_digits_decimal [OF assms(1), of False]
    unfolding int_of_str_def st Let_def by (simp del: int_digits.simps)
qed

lemma str_of_pos_inject: "0 \<le> m \<Longrightarrow> 0 \<le> n \<Longrightarrow> str_of_pos m = str_of_pos n \<longleftrightarrow> m = n"
  by (metis digits_val_str_of_pos)


section \<open>Searching\<close>

lemma find_SomeD: "find p xs = Some x \<Longrightarrow> x \<in> set xs \<and> p x"
  by (induction xs) (auto split: if_splits)

lemma find_ex_iff: "(\<exists>x. find p xs = Some x) \<longleftrightarrow> (\<exists>x \<in> set xs. p x)"
  by (induction xs) auto

lemma find_NoneD: "find p xs = None \<Longrightarrow> x \<in> set xs \<Longrightarrow> \<not> p x"
  by (auto simp: find_None_iff)

lemma find_map_keep: "(\<And>x. p (f x) = p x) \<Longrightarrow> find p (map f xs) = map_option f (find p xs)"
  by (induction xs) auto

lemma find_filter_other: "(\<And>x. p x \<Longrightarrow> q x) \<Longrightarrow> find p (filter q xs) = find p xs"
  by (induction xs) auto

section \<open>Order-preserving deduplication\<close>

text \<open>\<open>[x for x in xs if not (x in seen or seen.add(x))]\<close>: the first occurrence of each is kept.\<close>

fun dedup :: "'a list \<Rightarrow> 'a list \<Rightarrow> 'a list" where
  "dedup seen [] = []"
| "dedup seen (x # xs) = (if x \<in> set seen then dedup seen xs else x # dedup (x # seen) xs)"

lemma set_dedup: "set (dedup seen xs) = set xs - set seen"
  by (induction seen xs rule: dedup.induct) auto

lemma set_dedup_Nil [simp]: "set (dedup [] xs) = set xs"
  by (simp add: set_dedup)

lemma distinct_dedup [simp]: "distinct (dedup seen xs)"
  by (induction seen xs rule: dedup.induct) (auto simp: set_dedup)

lemma length_dedup: "length (dedup seen xs) \<le> length xs"
  by (induction seen xs rule: dedup.induct) auto

section \<open>Dates\<close>

text \<open>
  A \<open>datetime\<close> is its wall-clock value in microseconds since the epoch and the UTC offset its
  \<open>tzinfo\<close> gives (\<open>None\<close> for a naive value).  Two aware values compare by \<open>instant\<close>.
\<close>

record datetime =
  dt_us :: int
  dt_off :: "int option"

definition instant :: "datetime \<Rightarrow> int" where
  "instant d = dt_us d - (case dt_off d of None \<Rightarrow> 0 | Some k \<Rightarrow> k)"

definition utc :: "int \<Rightarrow> datetime" where
  "utc t = \<lparr>dt_us = t, dt_off = Some 0\<rparr>"

abbreviation seconds :: "int \<Rightarrow> int" where
  "seconds n \<equiv> n * 1000000"

lemma instant_utc [simp]: "instant (utc t) = t"
  by (simp add: instant_def utc_def)

end
