(* ===== verification/Pyval.thy ===== *)
theory Pyval
  imports Prelude "HOL-Library.List_Lexorder" "HOL-Library.Char_ord"
begin

text \<open>
  Decoded JSON as Python holds it: the values of JSON columns, request bodies and signed
  documents, with the built-in operations the sources apply to them (truth, \<open>str\<close>, \<open>repr\<close>, \<open>int\<close>,
  dictionary access).  A dictionary is an association list in insertion order; a float is known by
  its \<open>repr\<close> and its truncation, which is all the sources observe of one.
\<close>

datatype pyfloat = Finite string int | Infinite bool | NotANumber

datatype pyval =
    VNone
  | VBool bool
  | VInt int
  | VFloat pyfloat
  | VStr string
  | VList "pyval list"
  | VDict "(string \<times> pyval) list"

type_synonym pydict = "(string \<times> pyval) list"

section \<open>Truth, type tests and dictionaries\<close>

fun truthy :: "pyval \<Rightarrow> bool" where
  "truthy VNone = False"
| "truthy (VBool b) = b"
| "truthy (VInt i) = (i \<noteq> 0)"
| "truthy (VFloat (Finite r _)) = (r \<noteq> ''0.0'' \<and> r \<noteq> ''-0.0'')"
| "truthy (VFloat _) = True"
| "truthy (VStr s) = (s \<noteq> [])"
| "truthy (VList xs) = (xs \<noteq> [])"
| "truthy (VDict d) = (d \<noteq> [])"

definition or_val :: "pyval \<Rightarrow> pyval \<Rightarrow> pyval" where
  "or_val a b = (if truthy a then a else b)"

fun is_str :: "pyval \<Rightarrow> bool" where
  "is_str (VStr _) = True" | "is_str _ = False"

fun is_list :: "pyval \<Rightarrow> bool" where
  "is_list (VList _) = True" | "is_list _ = False"

fun is_dict :: "pyval \<Rightarrow> bool" where
  "is_dict (VDict _) = True" | "is_dict _ = False"

fun is_bool :: "pyval \<Rightarrow> bool" where
  "is_bool (VBool _) = True" | "is_bool _ = False"

text \<open>\<open>type(v) is int\<close>: \<open>bool\<close> is a different type.\<close>

fun is_int :: "pyval \<Rightarrow> bool" where
  "is_int (VInt _) = True" | "is_int _ = False"

definition dhas :: "pydict \<Rightarrow> string \<Rightarrow> bool" where
  "dhas d k = (map_of d k \<noteq> None)"

text \<open>\<open>d.get(k)\<close>\<close>

definition dget :: "pydict \<Rightarrow> string \<Rightarrow> pyval" where
  "dget d k = (case map_of d k of None \<Rightarrow> VNone | Some v \<Rightarrow> v)"

text \<open>\<open>d[k] = v\<close>: replaces in place or appends.\<close>

fun dset :: "pydict \<Rightarrow> string \<Rightarrow> pyval \<Rightarrow> pydict" where
  "dset [] k v = [(k, v)]"
| "dset ((k', v') # d) k v = (if k' = k then (k, v) # d else (k', v') # dset d k v)"

definition ddel :: "pydict \<Rightarrow> string \<Rightarrow> pydict" where
  "ddel d k = filter (\<lambda>(k', _). k' \<noteq> k) d"

text \<open>\<open>v.get(k)\<close> where \<open>v\<close> must be a dictionary; anything else has no \<open>get\<close>.\<close>

definition vget :: "pyval \<Rightarrow> string \<Rightarrow> pyval res" where
  "vget v k = (case v of VDict d \<Rightarrow> Inr (dget d k) | _ \<Rightarrow> Inl AttributeError)"

text \<open>\<open>v[k]\<close> for a string key.\<close>

definition vindex :: "pyval \<Rightarrow> string \<Rightarrow> pyval res" where
  "vindex v k = (case v of VDict d \<Rightarrow> someE KeyError (map_of d k) | _ \<Rightarrow> Inl TypeError)"

section \<open>Text\<close>

definition hex_lower :: "int \<Rightarrow> char" where
  "hex_lower d = (if d < 10 then char_of (48 + d) else char_of (87 + d))"

text \<open>\<open>repr\<close> of one character inside quotes \<open>q\<close>.\<close>

definition repr_char :: "char \<Rightarrow> char \<Rightarrow> string" where
  "repr_char q c = (let n = code c in
     if c = q \<or> n = 92 then [CHR 0x5C, c]
     else if n = 10 then [CHR 0x5C, CHR ''n'']
     else if n = 13 then [CHR 0x5C, CHR ''r'']
     else if n = 9 then [CHR 0x5C, CHR ''t'']
     else if n < 32 \<or> (127 \<le> n \<and> n \<le> 160) \<or> n = 173
       then [CHR 0x5C, CHR ''x'', hex_lower (n div 16), hex_lower (n mod 16)]
     else [c])"

definition repr_str :: "string \<Rightarrow> string" where
  "repr_str s = (let q = (if CHR 0x27 \<in> set s \<and> CHR 0x22 \<notin> set s then CHR 0x22 else CHR 0x27)
     in q # concat (map (repr_char q) s) @ [q])"

fun repr_float :: "pyfloat \<Rightarrow> string" where
  "repr_float (Finite r _) = r"
| "repr_float (Infinite neg) = (if neg then ''-inf'' else ''inf'')"
| "repr_float NotANumber = ''nan''"

fun py_repr :: "pyval \<Rightarrow> string" where
  "py_repr VNone = ''None''"
| "py_repr (VBool b) = (if b then ''True'' else ''False'')"
| "py_repr (VInt i) = str_of_int i"
| "py_repr (VFloat f) = repr_float f"
| "py_repr (VStr s) = repr_str s"
| "py_repr (VList xs) = ''['' @ join_with '', '' (map py_repr xs) @ '']''"
| "py_repr (VDict d) =
     ''{'' @ join_with '', '' (map (\<lambda>(k, v). repr_str k @ '': '' @ py_repr v) d) @ ''}''"

fun py_str :: "pyval \<Rightarrow> string" where
  "py_str (VStr s) = s"
| "py_str v = py_repr v"

section \<open>int()\<close>

fun py_int :: "pyval \<Rightarrow> int res" where
  "py_int (VBool b) = Inr (if b then 1 else 0)"
| "py_int (VInt i) = Inr i"
| "py_int (VFloat (Finite _ t)) = Inr t"
| "py_int (VFloat (Infinite _)) = Inl OverflowError"
| "py_int (VFloat NotANumber) = Inl ValueError"
| "py_int (VStr s) = int_of_str s"
| "py_int _ = Inl TypeError"

section \<open>Equality\<close>

text \<open>
  \<open>v == w\<close>: numbers compare across their types (the booleans are integers, a float may be integral), lists
  item by item and dictionaries by key whatever their order.  \<open>num_key\<close> is the value of a number; a
  not-a-number equals nothing.
\<close>

definition num_key :: "pyval \<Rightarrow> (int + string) option" where
  "num_key v = (case v of
       VInt i \<Rightarrow> Some (Inl i)
     | VBool b \<Rightarrow> Some (Inl (if b then 1 else 0))
     | VFloat (Finite r i) \<Rightarrow> Some (if endswith r ''.0'' \<or> contains r ''e+'' then Inl i else Inr r)
     | VFloat (Infinite neg) \<Rightarrow> Some (Inr (if neg then ''-inf'' else ''inf''))
     | _ \<Rightarrow> None)"

fun py_eq :: "pyval \<Rightarrow> pyval \<Rightarrow> bool" where
  "py_eq VNone w = (w = VNone)"
| "py_eq (VStr s) w = (w = VStr s)"
| "py_eq (VList xs) w = (case w of VList ys \<Rightarrow> list_all2 py_eq xs ys | _ \<Rightarrow> False)"
| "py_eq (VDict d) w = (case w of
       VDict e \<Rightarrow> length d = length e \<and> list_all (\<lambda>(k, v). case map_of e k of None \<Rightarrow> False | Some u \<Rightarrow> py_eq v u) d
     | _ \<Rightarrow> False)"
| "py_eq v w = (num_key v \<noteq> None \<and> num_key v = num_key w)"

section \<open>Facts\<close>

lemma map_of_dset: "map_of (dset d k v) k' = (if k' = k then Some v else map_of d k')"
  by (induction d k v rule: dset.induct) auto

lemma dget_dset_same [simp]: "dget (dset d k v) k = v"
  by (simp add: dget_def map_of_dset)

lemma dget_dset_other [simp]: "k' \<noteq> k \<Longrightarrow> dget (dset d k v) k' = dget d k'"
  by (simp add: dget_def map_of_dset)

lemma dhas_dset: "dhas (dset d k v) k' \<longleftrightarrow> k' = k \<or> dhas d k'"
  by (simp add: dhas_def map_of_dset)

lemma keys_dset: "fst ` set (dset d k v) = insert k (fst ` set d)"
  by (induction d k v rule: dset.induct) auto

lemma dset_distinct: "distinct (map fst d) \<Longrightarrow> distinct (map fst (dset d k v))"
proof (induction d k v rule: dset.induct)
  case (2 k' v' d k v)
  then show ?case using keys_dset [of d k v] by (auto simp flip: set_map)
qed simp

lemma dget_not_has: "\<not> dhas d k \<Longrightarrow> dget d k = VNone"
  by (simp add: dhas_def dget_def)

lemma py_int_str_cases: "(\<exists>i. py_int (VStr s) = Inr i) \<or> py_int (VStr s) = Inl ValueError"
  by (auto simp: int_of_str_def Let_def split: option.splits)

end
