(* ===== verification/Job_Config.thy ===== *)
theory Job_Config
  imports Pyval
begin

text \<open>
  Queue-time validation of a scan job's \<open>config\<close> (\<open>backend/routers/jobs.py\<close>, lines 58 to 362): the
  allowed keys and bounds per tool, header, ffuf and rate-ceiling checks, and the guarantees a
  queued configuration has.
\<close>

abbreviation bad_request :: "string \<Rightarrow> exn" where
  "bad_request d \<equiv> HTTPException 400 d"

section \<open>Tables\<close>

definition VARDRGATE :: string where "VARDRGATE = ''vardrgate_api_test''"

definition VALID_TOOLS :: "string list" where
  "VALID_TOOLS = [''httpx'', ''nuclei'', ''subfinder'', ''nmap'', ''dnsx'', ''naabu'', ''katana'', ''gau'',
     ''ffuf'', ''dalfox'', VARDRGATE]"

definition VALID_SOURCES :: "string list" where
  "VALID_SOURCES = [''scope'', ''recon'']"

definition TOOL_CONFIG_KEYS :: "(string \<times> string list) list" where
  "TOOL_CONFIG_KEYS =
    [(''httpx'', [''status_code'', ''limit'', ''rate'', ''headers'']),
     (''nuclei'', [''severity'', ''templates'', ''rate'', ''headers'']),
     (''subfinder'', [''recursive'', ''sources'']),
     (''nmap'', [''top_ports'', ''timing'']),
     (''dnsx'', [''limit'', ''timeout'']),
     (''naabu'', [''top_ports'', ''limit'', ''timeout'']),
     (''katana'', [''limit'', ''status_code'', ''depth'', ''js_crawl'', ''timeout'', ''rate'', ''headers'']),
     (''gau'', [''subs'', ''providers'', ''timeout'']),
     (''dalfox'', [''limit'', ''status_code'', ''delay'', ''worker'', ''mining'', ''timeout'', ''headers'']),
     (''ffuf'', [''wordlist'', ''extensions'', ''match_codes'', ''rate'', ''limit'', ''timeout'', ''headers'']),
     (VARDRGATE, [''test_case_id'', ''timeout''])]"

definition NUCLEI_SEVERITIES :: "string list" where
  "NUCLEI_SEVERITIES = [''info'', ''low'', ''medium'', ''high'', ''critical'']"

definition GAU_PROVIDERS :: "string list" where
  "GAU_PROVIDERS = [''wayback'', ''commoncrawl'', ''otx'', ''urlscan'']"

definition BOOL_CONFIG_KEYS :: "(string \<times> string) list" where
  "BOOL_CONFIG_KEYS = [(''katana'', ''js_crawl''), (''gau'', ''subs''), (''dalfox'', ''mining'')]"

definition INT_CONFIG_BOUNDS :: "((string \<times> string) \<times> (int \<times> int)) list" where
  "INT_CONFIG_BOUNDS =
    [((''dnsx'', ''limit''), (1, 1000000)),
     ((''dnsx'', ''timeout''), (1, 86400)),
     ((''naabu'', ''top_ports''), (1, 65535)),
     ((''naabu'', ''limit''), (1, 1000000)),
     ((''naabu'', ''timeout''), (1, 86400)),
     ((''katana'', ''limit''), (1, 1000000)),
     ((''katana'', ''depth''), (1, 10)),
     ((''katana'', ''timeout''), (1, 86400)),
     ((''gau'', ''timeout''), (1, 86400)),
     ((''dalfox'', ''limit''), (1, 1000000)),
     ((''dalfox'', ''worker''), (1, 100)),
     ((''dalfox'', ''delay''), (0, 10000)),
     ((''dalfox'', ''timeout''), (1, 86400)),
     ((''ffuf'', ''rate''), (1, 1000)),
     ((''ffuf'', ''limit''), (1, 1000000)),
     ((''ffuf'', ''timeout''), (1, 86400)),
     ((''httpx'', ''rate''), (1, 1000)),
     ((''nuclei'', ''rate''), (1, 1000)),
     ((''katana'', ''rate''), (1, 1000))]"

definition MAX_HEADERS :: nat where "MAX_HEADERS = 20"
definition MAX_HEADER_LEN :: nat where "MAX_HEADER_LEN = 2000"

definition HEADER_TOOLS :: "string list" where
  "HEADER_TOOLS = [''httpx'', ''nuclei'', ''katana'', ''ffuf'', ''dalfox'']"

definition RATE_TOOL_DEFAULTS :: "(string \<times> int) list" where
  "RATE_TOOL_DEFAULTS = [(''httpx'', 150), (''nuclei'', 150), (''katana'', 150), (''ffuf'', 50)]"

section \<open>Patterns\<close>

text \<open>
  \<open>re.match\<close> of a pattern \<open>^...$\<close>: without \<open>MULTILINE\<close>, \<open>$\<close> also matches in front of one trailing
  newline.
\<close>

definition dollar_match :: "(string \<Rightarrow> bool) \<Rightarrow> string \<Rightarrow> bool" where
  "dollar_match p s = (p s \<or> (s \<noteq> [] \<and> code (last s) = 10 \<and> p (butlast s)))"

definition is_alnum :: "char \<Rightarrow> bool" where
  "is_alnum c = (let n = code c in (48 \<le> n \<and> n \<le> 57) \<or> (65 \<le> n \<and> n \<le> 90) \<or> (97 \<le> n \<and> n \<le> 122))"

definition is_lower_alnum :: "char \<Rightarrow> bool" where
  "is_lower_alnum c = (let n = code c in (48 \<le> n \<and> n \<le> 57) \<or> (97 \<le> n \<and> n \<le> 122))"

definition HEADER_NAME :: "string \<Rightarrow> bool" where
  "HEADER_NAME = dollar_match (\<lambda>s. 1 \<le> length s \<and> length s \<le> 100
     \<and> list_all (\<lambda>c. is_alnum c \<or> c \<in> set ''!#$%&*+.^_`|~-'' \<or> code c = 39) s)"

definition FFUF_WORDLIST :: "string \<Rightarrow> bool" where
  "FFUF_WORDLIST = dollar_match (\<lambda>s. 1 \<le> length s \<and> length s \<le> 40 \<and> is_lower_alnum (hd s)
     \<and> list_all (\<lambda>c. is_lower_alnum c \<or> c = CHR ''_'' \<or> c = CHR ''-'') (tl s))"

definition FFUF_EXTENSION :: "string \<Rightarrow> bool" where
  "FFUF_EXTENSION = dollar_match (\<lambda>s. 2 \<le> length s \<and> length s \<le> 11 \<and> hd s = CHR ''.''
     \<and> list_all is_alnum (tl s))"

definition FFUF_STATUS :: "string \<Rightarrow> bool" where
  "FFUF_STATUS = dollar_match (\<lambda>s. length s = 3 \<and> list_all is_decimal_char s)"

section \<open>Headers\<close>

text \<open>\<open>item.partition(":")\<close> with both pieces stripped; no colon is an error.\<close>

definition header_item :: "pyval \<Rightarrow> (string \<times> string) res" where
  "header_item v = (case v of
       VStr item \<Rightarrow> (case split_once '':'' item of
           None \<Rightarrow> Inl (bad_request (''header '' @ repr_str item @ '' must be '' @ quoted ''Name: value''))
         | Some (name, value) \<Rightarrow> Inr (strip name, strip value))
     | _ \<Rightarrow> Inl (bad_request (''invalid header entry '' @ py_repr v)))"

definition header_pairs :: "pyval \<Rightarrow> (string \<times> string) list res" where
  "header_pairs raw = (case raw of
       VDict d \<Rightarrow> Inr (map (\<lambda>(k, v). (k, py_str v)) d)
     | VList items \<Rightarrow> mapE header_item items
     | _ \<Rightarrow> Inl (bad_request ''config.headers must be an object or list''))"

fun check_headers :: "string list \<Rightarrow> (string \<times> string) list \<Rightarrow> unit res" where
  "check_headers seen [] = Inr ()"
| "check_headers seen ((name, value) # rest) =
     ignoreE (requireE (HEADER_NAME name) (bad_request (''invalid header name '' @ repr_str name)))
    (ignoreE (requireE (\<not> list_ex (\<lambda>c. code c < 32 \<or> code c = 127) value)
       (bad_request (''header '' @ repr_str name @ '' has an invalid value'')))
    (ignoreE (requireE (length name + length value + 2 \<le> MAX_HEADER_LEN)
       (bad_request (''header '' @ repr_str name @ '' is too long'')))
    (ignoreE (requireE (lower name \<notin> set seen) (bad_request (''duplicate header '' @ repr_str name)))
     (check_headers (lower name # seen) rest))))"

definition validate_headers :: "pydict \<Rightarrow> unit res" where
  "validate_headers config =
     (let raw = dget config ''headers'' in
      if raw \<in> {VNone, VStr [], VList []} then Inr ()
      else bindE (header_pairs raw) (\<lambda>pairs.
        ignoreE (requireE (length pairs \<le> MAX_HEADERS) (bad_request ''too many headers; the limit is 20''))
        (check_headers [] pairs)))"

section \<open>Rate ceiling\<close>

definition enforce_rate_ceiling :: "int option \<Rightarrow> string \<Rightarrow> pydict \<Rightarrow> pydict res" where
  "enforce_rate_ceiling ceiling tool config =
     (case (ceiling, map_of RATE_TOOL_DEFAULTS tool) of
        (Some c, Some dflt) \<Rightarrow>
          (let raw = dget config ''rate'' in
           if raw \<notin> {VNone, VStr []} then
             (case py_int raw of
                Inl TypeError \<Rightarrow> Inr config
              | Inl ValueError \<Rightarrow> Inr config
              | Inl e \<Rightarrow> Inl e
              | Inr requested \<Rightarrow>
                  if requested > c then
                    Inl (bad_request (tool @ '' config.rate '' @ str_of_int requested
                      @ '' exceeds this engagement'' @ [CHR 0x27] @ ''s ceiling of '' @ str_of_int c))
                  else Inr config)
           else Inr (dset config ''rate'' (VInt (min dflt c))))
      | _ \<Rightarrow> Inr config)"

section \<open>ffuf\<close>

text \<open>The comma-separated or listed entries of a field, stripped, empty ones dropped.\<close>

definition listed :: "pyval \<Rightarrow> string list" where
  "listed v = filter (\<lambda>s. s \<noteq> []) (map strip
     (case v of VList xs \<Rightarrow> map py_str xs | _ \<Rightarrow> split_char (CHR '','') (py_str v)))"

fun type_name :: "pyval \<Rightarrow> string" where
  "type_name VNone = ''NoneType''"
| "type_name (VBool _) = ''bool''"
| "type_name (VInt _) = ''int''"
| "type_name (VFloat _) = ''float''"
| "type_name (VStr _) = ''str''"
| "type_name (VList _) = ''list''"
| "type_name (VDict _) = ''dict''"

definition check_wordlist :: "pyval \<Rightarrow> unit res" where
  "check_wordlist v =
     (if v \<in> {VNone, VStr []} then Inr ()
      else requireE (case v of VStr w \<Rightarrow> FFUF_WORDLIST (strip w) | _ \<Rightarrow> False)
        (bad_request (''ffuf config.wordlist must be a wordlist name like '' @ quoted ''common'' @ '' or ''
           @ quoted ''api-paths'' @ '' (lowercase letters, digits, '' @ quoted ''-'' @ '' and '' @ quoted ''_''
           @ ''), not a path. The runner resolves it against its own wordlists directory.'')))"

definition check_extensions :: "pyval \<Rightarrow> unit res" where
  "check_extensions v =
     (if v \<in> {VNone, VStr []} then Inr ()
      else ignoreE (requireE (is_str v \<or> is_list v)
          (bad_request (''ffuf config.extensions must be a string or list, got '' @ type_name v)))
        (let normalized = map (\<lambda>n. if startswith n ''.'' then n else ''.'' @ n) (listed v);
             bad = filter (\<lambda>n. \<not> FFUF_EXTENSION n) normalized
         in requireE (bad = []) (bad_request (''ffuf config.extensions must look like '' @ quoted ''.php''
              @ '' or '' @ quoted ''.bak'' @ '', got: '' @ py_repr (VList (map VStr bad))))))"

definition check_match_codes :: "pyval \<Rightarrow> unit res" where
  "check_match_codes v =
     (if v \<in> {VNone, VStr []} then Inr ()
      else ignoreE (requireE (is_str v \<or> is_list v \<or> is_int v)
          (bad_request (''ffuf config.match_codes must be a status code, string or list, got '' @ type_name v)))
        (let codes = listed v;
             bad = filter (\<lambda>c. \<not> FFUF_STATUS c) codes
         in requireE (codes = [''all''] \<or> bad = [])
              (bad_request (''ffuf config.match_codes must be three-digit statuses like ''
                @ quoted ''200,301,403'' @ '', or '' @ quoted ''all'' @ '', got: '' @ py_repr (VList (map VStr bad))))))"

definition validate_ffuf_config :: "pydict \<Rightarrow> unit res" where
  "validate_ffuf_config config =
     ignoreE (check_wordlist (dget config ''wordlist''))
    (ignoreE (check_extensions (dget config ''extensions''))
     (check_match_codes (dget config ''match_codes'')))"

section \<open>The whole configuration\<close>

text \<open>\<open>int(v)\<close> under \<open>except (TypeError, ValueError)\<close>: those become \<open>e\<close>, an overflow escapes.\<close>

definition int_or :: "exn \<Rightarrow> pyval \<Rightarrow> int res" where
  "int_or e v = (case py_int v of
       Inl TypeError \<Rightarrow> Inl e
     | Inl ValueError \<Rightarrow> Inl e
     | Inl e' \<Rightarrow> Inl e'
     | Inr n \<Rightarrow> Inr n)"

fun check_bool_keys :: "string \<Rightarrow> pydict \<Rightarrow> (string \<times> string) list \<Rightarrow> unit res" where
  "check_bool_keys tool config [] = Inr ()"
| "check_bool_keys tool config ((t, key) # rest) =
     (if t \<noteq> tool \<or> \<not> dhas config key \<or> dget config key \<in> {VNone, VStr []}
      then check_bool_keys tool config rest
      else ignoreE (requireE (is_bool (dget config key)
               \<or> lower (strip (py_str (dget config key))) \<in> {''true'', ''false''})
             (bad_request (tool @ '' config.'' @ key @ '' must be true or false'')))
           (check_bool_keys tool config rest))"

fun check_int_bounds :: "string \<Rightarrow> pydict \<Rightarrow> ((string \<times> string) \<times> (int \<times> int)) list \<Rightarrow> unit res" where
  "check_int_bounds tool config [] = Inr ()"
| "check_int_bounds tool config (((t, key), (low, high)) # rest) =
     (if t \<noteq> tool \<or> \<not> dhas config key \<or> dget config key \<in> {VNone, VStr []}
      then check_int_bounds tool config rest
      else bindE (int_or (bad_request (tool @ '' config.'' @ key @ '' must be an integer'')) (dget config key))
        (\<lambda>value. ignoreE (requireE (low \<le> value \<and> value \<le> high)
             (bad_request (tool @ '' config.'' @ key @ '' must be between '' @ str_of_int low @ '' and '' @ str_of_int high)))
           (check_int_bounds tool config rest)))"

definition check_gate_timeout :: "string \<Rightarrow> pydict \<Rightarrow> unit res" where
  "check_gate_timeout tool config =
     (if tool = VARDRGATE \<and> dhas config ''timeout'' then
        requireE (case dget config ''timeout'' of VInt n \<Rightarrow> 1 \<le> n \<and> n \<le> 86400 | _ \<Rightarrow> False)
          (bad_request ''vardrgate_api_test config.timeout must be an integer between 1 and 86400'')
      else Inr ())"

definition unknown_keys :: "string \<Rightarrow> pydict \<Rightarrow> string list" where
  "unknown_keys tool config =
     (let allowed = (case map_of TOOL_CONFIG_KEYS tool of None \<Rightarrow> [] | Some ks \<Rightarrow> ks)
      in sort (filter (\<lambda>k. k \<notin> set allowed) (map fst config)))"

definition check_httpx_limit :: "string \<Rightarrow> pydict \<Rightarrow> unit res" where
  "check_httpx_limit tool config =
     (if tool = ''httpx'' \<and> dhas config ''limit'' then
        bindE (int_or (bad_request ''httpx config.limit must be an integer'') (dget config ''limit'')) (\<lambda>_. Inr ())
      else Inr ())"

definition check_nuclei_severity :: "string \<Rightarrow> pydict \<Rightarrow> unit res" where
  "check_nuclei_severity tool config =
     (if tool = ''nuclei'' \<and> truthy (dget config ''severity'') then
        (let parts = filter (\<lambda>s. s \<noteq> []) (map strip (split_char (CHR '','') (py_str (dget config ''severity''))));
             bad = filter (\<lambda>s. s \<notin> set NUCLEI_SEVERITIES) parts
         in requireE (bad = []) (bad_request (''nuclei severity must be info/low/medium/high/critical, got: ''
              @ py_repr (VList (map VStr bad)))))
      else Inr ())"

definition check_nmap_timing :: "string \<Rightarrow> pydict \<Rightarrow> unit res" where
  "check_nmap_timing tool config =
     (if tool = ''nmap'' \<and> dhas config ''timing'' then
        bindE (int_or (bad_request ''nmap config.timing must be 0-4'') (dget config ''timing''))
          (\<lambda>t. requireE (0 \<le> t \<and> t \<le> 4) (bad_request ''nmap config.timing must be 0-4''))
      else Inr ())"

definition check_gau_providers :: "string \<Rightarrow> pydict \<Rightarrow> unit res" where
  "check_gau_providers tool config =
     (if tool = ''gau'' \<and> truthy (dget config ''providers'') then
        (let bad = sort (remdups (filter (\<lambda>s. s \<notin> set GAU_PROVIDERS) (listed (dget config ''providers''))))
         in requireE (bad = []) (bad_request (''gau providers must be wayback/commoncrawl/otx/urlscan, got: ''
              @ py_repr (VList (map VStr bad)))))
      else Inr ())"

definition validate_job_config :: "string \<Rightarrow> pydict \<Rightarrow> unit res" where
  "validate_job_config tool config =
     ignoreE (check_gate_timeout tool config)
    (ignoreE (requireE (unknown_keys tool config = [])
       (bad_request (''unknown config keys for '' @ tool @ '': '' @ py_repr (VList (map VStr (unknown_keys tool config))))))
    (ignoreE (check_httpx_limit tool config)
    (ignoreE (check_nuclei_severity tool config)
    (ignoreE (check_nmap_timing tool config)
    (ignoreE (check_bool_keys tool config BOOL_CONFIG_KEYS)
    (ignoreE (check_gau_providers tool config)
    (ignoreE (if tool = ''ffuf'' then validate_ffuf_config config else Inr ())
    (ignoreE (if tool \<in> set HEADER_TOOLS then validate_headers config else Inr ())
     (check_int_bounds tool config INT_CONFIG_BOUNDS)))))))))"

text \<open>
  The configuration a new job is stored with: \<open>create_job\<close> and \<open>create_pipeline\<close> copy the body's
  config, validate it when it is not empty and apply the engagement's rate ceiling.
\<close>

definition queued_config :: "int option \<Rightarrow> string \<Rightarrow> pydict option \<Rightarrow> pydict res" where
  "queued_config ceiling tool body_config =
     (let config = (case body_config of None \<Rightarrow> [] | Some d \<Rightarrow> d)
      in ignoreE (if config \<noteq> [] then validate_job_config tool config else Inr ())
           (enforce_rate_ceiling ceiling tool config))"

section \<open>Facts\<close>

named_theorems config_checks \<open>unfolding the checks of a validated configuration\<close>

declare ignoreE_eq_Inr [config_checks] bindE_eq_Inr [config_checks] requireE_eq_Inr [config_checks]

lemma int_or_eq_Inr [config_checks]: "int_or e v = Inr n \<longleftrightarrow> py_int v = Inr n"
  by (auto simp: int_or_def split: sum.splits exn.splits)

lemma validate_job_config_parts:
  "validate_job_config tool config = Inr () \<longleftrightarrow>
     check_gate_timeout tool config = Inr () \<and> unknown_keys tool config = [] \<and>
     check_httpx_limit tool config = Inr () \<and> check_nuclei_severity tool config = Inr () \<and>
     check_nmap_timing tool config = Inr () \<and> check_bool_keys tool config BOOL_CONFIG_KEYS = Inr () \<and>
     check_gau_providers tool config = Inr () \<and>
     (tool = ''ffuf'' \<longrightarrow> validate_ffuf_config config = Inr ()) \<and>
     (tool \<in> set HEADER_TOOLS \<longrightarrow> validate_headers config = Inr ()) \<and>
     check_int_bounds tool config INT_CONFIG_BOUNDS = Inr ()"
  by (auto simp: validate_job_config_def config_checks)

lemma check_int_bounds_iff:
  "check_int_bounds tool config bounds = Inr () \<longleftrightarrow>
     (\<forall>key low high. ((tool, key), (low, high)) \<in> set bounds \<longrightarrow> dhas config key \<longrightarrow>
        dget config key \<notin> {VNone, VStr []} \<longrightarrow>
        (\<exists>n. py_int (dget config key) = Inr n \<and> low \<le> n \<and> n \<le> high))"
proof (induction tool config bounds rule: check_int_bounds.induct)
  case (2 tool config t key low high rest)
  then show ?case
    by (cases "t \<noteq> tool \<or> \<not> dhas config key \<or> dget config key \<in> {VNone, VStr []}")
      (auto simp: config_checks)
qed simp

lemma dget_present: "dget config key \<noteq> VNone \<Longrightarrow> dhas config key"
  using dget_not_has by blast

lemma check_int_bounds_at:
  assumes "check_int_bounds tool config bounds = Inr ()" and "((tool, key), (low, high)) \<in> set bounds"
    and "dget config key \<notin> {VNone, VStr []}"
  shows "\<exists>n. py_int (dget config key) = Inr n \<and> low \<le> n \<and> n \<le> high"
  using assms dget_present [of config key] unfolding check_int_bounds_iff by blast

lemma rate_tool_bounds:
  "map_of RATE_TOOL_DEFAULTS tool = Some dflt \<Longrightarrow>
     ((tool, ''rate''), (1, 1000)) \<in> set INT_CONFIG_BOUNDS \<and> 1 \<le> dflt \<and> dflt \<le> 1000"
  by (auto simp: RATE_TOOL_DEFAULTS_def INT_CONFIG_BOUNDS_def split: if_splits)

lemma enforce_rate_ceiling_given:
  assumes "enforce_rate_ceiling (Some c) tool config = Inr config'"
    and "map_of RATE_TOOL_DEFAULTS tool = Some dflt" and "dget config ''rate'' \<notin> {VNone, VStr []}"
    and "py_int (dget config ''rate'') = Inr n"
  shows "config' = config \<and> n \<le> c"
  using assms by (auto simp: enforce_rate_ceiling_def Let_def split: if_splits)

lemma enforce_rate_ceiling_absent:
  assumes "map_of RATE_TOOL_DEFAULTS tool = Some dflt" and "dget config ''rate'' \<in> {VNone, VStr []}"
  shows "enforce_rate_ceiling (Some c) tool config = Inr (dset config ''rate'' (VInt (min dflt c)))"
  using assms by (auto simp: enforce_rate_ceiling_def Let_def)



lemma set_unknown_keys:
  "set (unknown_keys tool config) =
     {k \<in> fst ` set config. \<not> (\<exists>ks. map_of TOOL_CONFIG_KEYS tool = Some ks \<and> k \<in> set ks)}"
  by (auto simp: unknown_keys_def split: option.splits)

lemma INT_CONFIG_BOUNDS_mem:
  "map_of INT_CONFIG_BOUNDS k = Some b \<Longrightarrow> (k, b) \<in> set INT_CONFIG_BOUNDS"
  by (rule map_of_SomeD)

text \<open>
  Every integer setting of a validated configuration is absent, empty, or reads as an integer
  within the bounds of its tool, whatever JSON type carried it; keys outside the tool's table are
  refused.
\<close>

theorem validated_config_within_bounds:
  assumes "validate_job_config tool config = Inr ()"
  shows "(\<forall>key low high. map_of INT_CONFIG_BOUNDS (tool, key) = Some (low, high) \<longrightarrow>
            dget config key \<in> {VNone, VStr []} \<or>
            (\<exists>n. py_int (dget config key) = Inr n \<and> low \<le> n \<and> n \<le> high))
       \<and> (\<forall>key. dhas config key \<longrightarrow> (\<exists>ks. map_of TOOL_CONFIG_KEYS tool = Some ks \<and> key \<in> set ks))"
proof (intro conjI allI impI)
  fix key low high
  assume "map_of INT_CONFIG_BOUNDS (tool, key) = Some (low, high)"
  then show "dget config key \<in> {VNone, VStr []} \<or>
      (\<exists>n. py_int (dget config key) = Inr n \<and> low \<le> n \<and> n \<le> high)"
    using assms check_int_bounds_at INT_CONFIG_BOUNDS_mem unfolding validate_job_config_parts by blast
next
  fix key
  assume "dhas config key"
  then have "key \<in> fst ` set config" by (force simp: dhas_def dest: map_of_SomeD)
  moreover from assms have "set (unknown_keys tool config) = {}" by (simp add: validate_job_config_parts)
  ultimately show "\<exists>ks. map_of TOOL_CONFIG_KEYS tool = Some ks \<and> key \<in> set ks"
    unfolding set_unknown_keys by blast
qed

theorem validated_config_within_bounds_witness:
  "py_int (dget [(''rate'', VStr '' 50 ''), (''limit'', VFloat (Finite ''9.5'' 9))] ''rate'') = Inr 50 \<and>
   validate_job_config ''ffuf'' [(''rate'', VStr '' 50 ''), (''limit'', VFloat (Finite ''9.5'' 9))] = Inr () \<and>
   (\<exists>n. py_int (dget [(''rate'', VStr '' 50 ''), (''limit'', VFloat (Finite ''9.5'' 9))] ''limit'') = Inr n
      \<and> 1 \<le> n \<and> n \<le> 1000000)"
proof -
  let ?c = "[(''rate'', VStr '' 50 ''), (''limit'', VFloat (Finite ''9.5'' 9))]"
  have v: "validate_job_config ''ffuf'' ?c = Inr ()" by code_simp
  have b: "map_of INT_CONFIG_BOUNDS (''ffuf'', ''limit'') = Some (1, 1000000)" by code_simp
  have p: "py_int (dget ?c ''rate'') = Inr 50" by code_simp
  have "dget ?c ''limit'' \<notin> {VNone, VStr []}" by (simp add: dget_def)
  with v b p validated_config_within_bounds [OF v] show ?thesis by blast
qed

lemma strip_last_not_ws: "strip s \<noteq> [] \<Longrightarrow> \<not> is_ws (last (strip s))"
  using dropWhile_eq_Cons_conv [of is_ws "rev (lstrip_where is_ws s)"]
  by (cases "dropWhile is_ws (rev (lstrip_where is_ws s))") (auto simp: strip_def rstrip_where_def)

lemma dollar_match_strip: "dollar_match p (strip s) \<longleftrightarrow> p (strip s)"
  using strip_last_not_ws [of s] by (auto simp: dollar_match_def is_ws_def)

definition wordlist_name :: "string \<Rightarrow> bool" where
  "wordlist_name s = (s \<noteq> [] \<and> length s \<le> 40
     \<and> list_all (\<lambda>c. is_lower_alnum c \<or> c = CHR ''_'' \<or> c = CHR ''-'') s)"

lemma FFUF_WORDLIST_name: "FFUF_WORDLIST (strip w) \<Longrightarrow> wordlist_name (strip w)"
  unfolding FFUF_WORDLIST_def dollar_match_strip wordlist_name_def by (cases "strip w") auto

lemma wordlist_name_no_path: "wordlist_name s \<Longrightarrow> CHR ''/'' \<notin> set s \<and> CHR ''.'' \<notin> set s \<and> CHR 0x5C \<notin> set s"
  by (auto simp: wordlist_name_def list_all_iff is_lower_alnum_def code_def)

text \<open>
  A queued ffuf job never names a file: its wordlist is absent, empty, or a string that, once
  stripped, is a plain name of at most 40 lower-case letters, digits, hyphens and underscores, with
  no slash, backslash or dot.
\<close>

theorem ffuf_wordlist_is_never_a_path:
  assumes "queued_config ceiling ''ffuf'' body_config = Inr config"
    and "dget config ''wordlist'' \<notin> {VNone, VStr []}"
  shows "\<exists>w. dget config ''wordlist'' = VStr w \<and> wordlist_name (strip w)
           \<and> CHR ''/'' \<notin> set (strip w) \<and> CHR ''.'' \<notin> set (strip w) \<and> CHR 0x5C \<notin> set (strip w)"
proof -
  define c0 where "c0 = (case body_config of None \<Rightarrow> [] | Some d \<Rightarrow> d)"
  have checked: "c0 \<noteq> [] \<longrightarrow> validate_job_config ''ffuf'' c0 = Inr ()"
    and enforced: "enforce_rate_ceiling ceiling ''ffuf'' c0 = Inr config"
    using assms(1) by (auto simp: queued_config_def config_checks c0_def [symmetric] split: if_splits)
  have same: "dget config ''wordlist'' = dget c0 ''wordlist''"
    using enforced by (auto simp: enforce_rate_ceiling_def Let_def split: option.splits if_splits sum.splits exn.splits)
  with assms(2) have "c0 \<noteq> []" by (auto simp: dget_def)
  with checked have "check_wordlist (dget c0 ''wordlist'') = Inr ()"
    by (simp add: validate_job_config_parts validate_ffuf_config_def config_checks)
  with same assms(2) obtain w where "dget config ''wordlist'' = VStr w" "FFUF_WORDLIST (strip w)"
    by (auto simp: check_wordlist_def split: pyval.splits)
  with FFUF_WORDLIST_name wordlist_name_no_path show ?thesis by blast
qed

theorem ffuf_wordlist_is_never_a_path_witness:
  "queued_config None ''ffuf'' (Some [(''wordlist'', VStr '' api-paths '')]) = Inr [(''wordlist'', VStr '' api-paths '')] \<and>
   queued_config None ''ffuf'' (Some [(''wordlist'', VStr ''../etc/passwd'')]) \<noteq> Inr [(''wordlist'', VStr ''../etc/passwd'')] \<and>
   wordlist_name (strip '' api-paths '')"
proof -
  have q: "queued_config None ''ffuf'' (Some [(''wordlist'', VStr '' api-paths '')])
    = Inr [(''wordlist'', VStr '' api-paths '')]" by code_simp
  have "queued_config None ''ffuf'' (Some [(''wordlist'', VStr ''../etc/passwd'')])
    \<noteq> Inr [(''wordlist'', VStr ''../etc/passwd'')]" by code_simp
  with q ffuf_wordlist_is_never_a_path [OF q] show ?thesis by (simp add: dget_def)
qed

lemma check_headers_iff:
  "check_headers seen pairs = Inr () \<longleftrightarrow>
     (\<forall>(name, value)\<in>set pairs. HEADER_NAME name \<and> (\<forall>c \<in> set value. 32 \<le> code c \<and> code c \<noteq> 127)
        \<and> length name + length value + 2 \<le> MAX_HEADER_LEN)
     \<and> distinct (map (lower \<circ> fst) pairs) \<and> set (map (lower \<circ> fst) pairs) \<inter> set seen = {}"
proof (induction seen pairs rule: check_headers.induct)
  case (2 seen name v rest)
  have "\<not> list_ex (\<lambda>c. code c < 32 \<or> code c = 127) v \<longleftrightarrow> (\<forall>c \<in> set v. 32 \<le> code c \<and> code c \<noteq> 127)"
    by (auto simp: list_ex_iff not_less)
  with 2 show ?case by (auto simp: config_checks)
qed simp

text \<open>A header name as RFC 9110 has it: one to a hundred token characters.\<close>

definition http_token :: "string \<Rightarrow> bool" where
  "http_token s = (1 \<le> length s \<and> length s \<le> 100
     \<and> list_all (\<lambda>c. is_alnum c \<or> c \<in> set ''!#$%&*+.^_`|~-'' \<or> code c = 39) s)"

lemma HEADER_NAME_token: "HEADER_NAME s \<longleftrightarrow> http_token s \<or> (\<exists>t. s = t @ [CHR 0x0A] \<and> http_token t)"
proof -
  have nl: "code c = 10 \<longleftrightarrow> c = CHR 0x0A" for c
    using char_of_code [of c] by (auto simp: code_def char_of_def)
  have "HEADER_NAME s \<longleftrightarrow> http_token s \<or> (s \<noteq> [] \<and> last s = CHR 0x0A \<and> http_token (butlast s))"
    by (simp add: HEADER_NAME_def dollar_match_def http_token_def nl [symmetric])
  then show ?thesis by (cases s rule: rev_cases) auto
qed

lemma list_header_token: "header_item v = Inr (name, val) \<Longrightarrow> HEADER_NAME name \<Longrightarrow> http_token name"
  using dollar_match_strip
  by (auto simp: header_item_def HEADER_NAME_def http_token_def [abs_def]
      split: pyval.splits option.splits)

text \<open>
  For a tool that takes request headers, the headers of a validated configuration are at most
  20 pairs with pairwise different names (ignoring case), no control character in any value and at
  most 2000 characters each; every name is an HTTP token when the headers came as a list, and a
  token possibly followed by one newline when they came as an object.
\<close>

theorem validated_headers:
  assumes "validate_job_config tool config = Inr ()" and "tool \<in> set HEADER_TOOLS"
    and "dget config ''headers'' \<notin> {VNone, VStr [], VList []}"
  shows "\<exists>pairs. header_pairs (dget config ''headers'') = Inr pairs \<and> length pairs \<le> 20
           \<and> distinct (map (lower \<circ> fst) pairs)
           \<and> (\<forall>(name, val)\<in>set pairs. (\<forall>c \<in> set val. 32 \<le> code c \<and> code c \<noteq> 127)
                \<and> length name + length val + 2 \<le> 2000
                \<and> (http_token name \<or> is_dict (dget config ''headers'') \<and> (\<exists>t. name = t @ [CHR 0x0A] \<and> http_token t)))"
proof -
  let ?raw = "dget config ''headers''"
  from assms have "validate_headers config = Inr ()" by (simp add: validate_job_config_parts)
  with assms(3) obtain pairs where pairs: "header_pairs ?raw = Inr pairs" "length pairs \<le> 20"
    and "check_headers [] pairs = Inr ()"
    by (auto simp: validate_headers_def Let_def config_checks MAX_HEADERS_def)
  then have dist: "distinct (map (lower \<circ> fst) pairs)"
    and each: "\<forall>(name, val)\<in>set pairs. HEADER_NAME name \<and> (\<forall>c \<in> set val. 32 \<le> code c \<and> code c \<noteq> 127)
       \<and> length name + length val + 2 \<le> 2000"
    unfolding check_headers_iff MAX_HEADER_LEN_def by blast+
  have "http_token name" if "(name, val) \<in> set pairs" "\<not> is_dict ?raw" for name val
  proof -
    from that(2) pairs(1) obtain items where "mapE header_item items = Inr pairs"
      by (cases ?raw) (auto simp: header_pairs_def)
    with that(1) obtain v where "header_item v = Inr (name, val)" using mapE_Inr_from by metis
    with each that(1) list_header_token show ?thesis by blast
  qed
  with pairs dist each show ?thesis unfolding HEADER_NAME_token by (intro exI [of _ pairs]) fast
qed

theorem validated_headers_witness:
  "validate_job_config ''httpx'' [(''headers'', VList [VStr ''X-Program: acme''])] = Inr () \<and>
   header_pairs (VList [VStr ''X-Program: acme'']) = Inr [(''X-Program'', ''acme'')] \<and> http_token ''X-Program''"
proof -
  have v: "validate_job_config ''httpx'' [(''headers'', VList [VStr ''X-Program: acme''])] = Inr ()" by code_simp
  have h: "header_pairs (VList [VStr ''X-Program: acme'']) = Inr [(''X-Program'', ''acme'')]" by code_simp
  have t: "''httpx'' \<in> set HEADER_TOOLS" by code_simp
  from validated_headers [OF v t] h v show ?thesis by (simp add: dget_def)
qed

text \<open>
  A header object whose key is a token followed by a newline passes validation and reaches the
  runner with the newline in the header's name, since the pattern's final anchor also matches in
  front of a trailing newline.
\<close>

theorem header_name_newline_accepted:
  "queued_config None ''httpx'' (Some [(''headers'', VDict [(''X-A'' @ [CHR 0x0A], VStr ''v'')])])
     = Inr [(''headers'', VDict [(''X-A'' @ [CHR 0x0A], VStr ''v'')])]"
  by code_simp

text \<open>
  An infinite number for any bounded integer setting is not refused with a 400: the
  \<open>OverflowError\<close> of \<open>int()\<close> escapes the validation.
\<close>

theorem infinite_setting_escapes:
  "validate_job_config ''katana'' [(''depth'', VFloat (Infinite False))] = Inl OverflowError
   \<and> (\<forall>tool key low high. check_int_bounds tool [(key, VFloat (Infinite False))] [((tool, key), (low, high))]
          = Inl OverflowError)"
proof
  show "validate_job_config ''katana'' [(''depth'', VFloat (Infinite False))] = Inl OverflowError"
    by code_simp
qed (simp add: dhas_def dget_def int_or_def)

end
