(* ===== verification/Ipaddr.thy ===== *)
theory Ipaddr
  imports Prelude
begin

text \<open>
  The part of Python's \<open>ipaddress\<close> module the sources use: \<open>ip_address\<close> (classification of a
  string as an IPv4 or IPv6 address) and membership of an address in \<open>ip_network(.., strict=False)\<close>.
  An address is its version and its integer value; an IPv6 scope id is checked and then ignored by
  every operation used here.  \<open>None\<close> stands for the module's \<open>ValueError\<close>.
\<close>

datatype ip_version = V4 | V6

type_synonym ip_addr = "ip_version \<times> int"

section \<open>IPv4\<close>

definition parse_octet :: "string \<Rightarrow> int option" where
  "parse_octet s =
     (if s \<noteq> [] \<and> isascii s \<and> isdigit s \<and> length s \<le> 3
         \<and> (s = ''0'' \<or> hd s \<noteq> CHR ''0'') \<and> digits_val 0 s \<le> 255
      then Some (digits_val 0 s) else None)"

definition ipv4_int :: "string \<Rightarrow> int option" where
  "ipv4_int s = (case map parse_octet (split_char (CHR ''.'') s) of
       [Some a, Some b, Some c, Some d] \<Rightarrow> Some (((a * 256 + b) * 256 + c) * 256 + d)
     | _ \<Rightarrow> None)"

section \<open>IPv6\<close>

definition hex_val :: "char \<Rightarrow> int option" where
  "hex_val c = (let n = code c in
     if 48 \<le> n \<and> n \<le> 57 then Some (n - 48)
     else if 97 \<le> n \<and> n \<le> 102 then Some (n - 87)
     else if 65 \<le> n \<and> n \<le> 70 then Some (n - 55) else None)"

fun hex_digits :: "int \<Rightarrow> string \<Rightarrow> int option" where
  "hex_digits acc [] = Some acc"
| "hex_digits acc (c # cs) =
     (case hex_val c of None \<Rightarrow> None | Some d \<Rightarrow> hex_digits (16 * acc + d) cs)"

definition parse_hextet :: "string \<Rightarrow> int option" where
  "parse_hextet s = (if s = [] \<or> length s > 4 then None else hex_digits 0 s)"

fun hextets :: "int \<Rightarrow> string list \<Rightarrow> int option" where
  "hextets acc [] = Some acc"
| "hextets acc (p # ps) =
     (case parse_hextet p of None \<Rightarrow> None | Some h \<Rightarrow> hextets (65536 * acc + h) ps)"

definition hex_digit_char :: "int \<Rightarrow> char" where
  "hex_digit_char d = (if d < 10 then char_of (48 + d) else char_of (87 + d))"

text \<open>\<open>'%x' % n\<close> for a 16-bit value.\<close>

definition hex4 :: "int \<Rightarrow> string" where
  "hex4 n = (let ds = [hex_digit_char (n div 4096), hex_digit_char (n div 256 mod 16),
                       hex_digit_char (n div 16 mod 16)]
     in dropWhile (\<lambda>c. c = CHR ''0'') ds @ [hex_digit_char (n mod 16)])"

text \<open>A dotted IPv4 tail stands for its last two hextets.\<close>

definition expand_v4_tail :: "string list \<Rightarrow> string list option" where
  "expand_v4_tail ps =
     (if CHR ''.'' \<in> set (last ps) then
        (case ipv4_int (last ps) of None \<Rightarrow> None
         | Some v \<Rightarrow> Some (butlast ps @ [hex4 (v div 65536), hex4 (v mod 65536)]))
      else Some ps)"

text \<open>The indices \<open>1 .. len - 2\<close> with an empty part: the places of a double colon.\<close>

definition skip_indices :: "string list \<Rightarrow> nat list" where
  "skip_indices ps = filter (\<lambda>i. ps ! i = []) [1..<length ps - 1]"

definition ipv6_parts :: "string list \<Rightarrow> int option" where
  "ipv6_parts ps =
     (case skip_indices ps of
        [] \<Rightarrow> if length ps = 8 \<and> hd ps \<noteq> [] \<and> last ps \<noteq> [] then hextets 0 ps else None
      | [k] \<Rightarrow>
          (let hi0 = k; lo0 = length ps - k - 1;
               hi = (if hd ps = [] then hi0 - 1 else hi0);
               lo = (if last ps = [] then lo0 - 1 else lo0)
           in if (hd ps = [] \<and> hi \<noteq> 0) \<or> (last ps = [] \<and> lo \<noteq> 0) \<or> hi + lo > 7 then None
              else (case hextets 0 (take hi ps) of None \<Rightarrow> None
                    | Some a \<Rightarrow> hextets (a * 65536 ^ (8 - (hi + lo))) (drop (length ps - lo) ps)))
      | _ \<Rightarrow> None)"

definition ipv6_int :: "string \<Rightarrow> int option" where
  "ipv6_int s =
     (let addr = (case split_once ''%'' s of
                    None \<Rightarrow> Some s
                  | Some (a, scope) \<Rightarrow>
                      if scope = [] \<or> CHR ''%'' \<in> set scope then None else Some a)
      in case addr of None \<Rightarrow> None
         | Some a \<Rightarrow>
             (let ps = split_char (CHR '':'') a in
              if a = [] \<or> length ps < 3 then None
              else (case expand_v4_tail ps of None \<Rightarrow> None
                    | Some qs \<Rightarrow> if length qs > 9 then None else ipv6_parts qs)))"

section \<open>ip_address and ip_network\<close>

definition ip_address :: "string \<Rightarrow> ip_addr option" where
  "ip_address s =
     (if CHR ''/'' \<in> set s then None
      else case ipv4_int s of
        Some v \<Rightarrow> Some (V4, v)
      | None \<Rightarrow> (case ipv6_int s of Some v \<Rightarrow> Some (V6, v) | None \<Rightarrow> None))"

definition prefix_string :: "nat \<Rightarrow> string \<Rightarrow> nat option" where
  "prefix_string w s = (if isascii s \<and> isdigit s \<and> length s \<le> 4300 \<and> digits_val 0 s \<le> int w
     then Some (nat (digits_val 0 s)) else None)"

text \<open>
  \<open>_prefix_from_ip_int\<close>: a mask is ones followed by zeros.  \<open>tz\<close> counts the trailing zero bits.
\<close>

fun trailing_zeros :: "nat \<Rightarrow> int \<Rightarrow> nat" where
  "trailing_zeros 0 v = 0"
| "trailing_zeros (Suc w) v = (if odd v then 0 else Suc (trailing_zeros w (v div 2)))"

definition prefix_from_ip_int :: "int \<Rightarrow> nat option" where
  "prefix_from_ip_int v = (let tz = trailing_zeros 32 v; p = 32 - tz in
     if v div 2 ^ tz = 2 ^ p - 1 then Some p else None)"

definition v4_prefix :: "string \<Rightarrow> nat option" where
  "v4_prefix s = (case prefix_string 32 s of
      Some p \<Rightarrow> Some p
    | None \<Rightarrow> (case ipv4_int s of None \<Rightarrow> None
        | Some v \<Rightarrow> (case prefix_from_ip_int v of
              Some p \<Rightarrow> Some p
            | None \<Rightarrow> prefix_from_ip_int (2 ^ 32 - 1 - v))))"

text \<open>A network: version, address value and prefix length.\<close>

definition ip_network :: "string \<Rightarrow> (ip_version \<times> int \<times> nat) option" where
  "ip_network s =
     (let v4 = (case split_char (CHR ''/'') s of
            [a] \<Rightarrow> map_option (\<lambda>v. (V4, v, 32)) (ipv4_int a)
          | [a, m] \<Rightarrow> (case ipv4_int a of None \<Rightarrow> None
               | Some v \<Rightarrow> map_option (\<lambda>p. (V4, v, p)) (v4_prefix m))
          | _ \<Rightarrow> None)
      in case v4 of Some n \<Rightarrow> Some n
         | None \<Rightarrow> (case split_char (CHR ''/'') s of
            [a] \<Rightarrow> map_option (\<lambda>v. (V6, v, 128)) (ipv6_int a)
          | [a, m] \<Rightarrow> (case ipv6_int a of None \<Rightarrow> None
               | Some v \<Rightarrow> map_option (\<lambda>p. (V6, v, p)) (prefix_string 128 m))
          | _ \<Rightarrow> None))"

text \<open>
  Membership compares the bits under the netmask, which is equality of the quotients by
  \<open>2 ^ (w - p)\<close>; addresses of different versions are never members.
\<close>

definition width :: "ip_version \<Rightarrow> nat" where
  "width v = (case v of V4 \<Rightarrow> 32 | V6 \<Rightarrow> 128)"

definition in_network :: "ip_addr \<Rightarrow> (ip_version \<times> int \<times> nat) \<Rightarrow> bool" where
  "in_network a n = (case (a, n) of ((va, x), (vn, y, p)) \<Rightarrow>
     va = vn \<and> x div 2 ^ (width vn - p) = y div 2 ^ (width vn - p))"

section \<open>Facts\<close>

lemma parse_octet_bound: "parse_octet s = Some n \<Longrightarrow> n < 256"
  by (auto simp: parse_octet_def split: if_splits)

lemma ipv4_int_bound: "ipv4_int s = Some v \<Longrightarrow> v < 2 ^ 32"
  by (auto simp: ipv4_int_def split: list.splits option.splits dest!: parse_octet_bound)

lemma prefix_string_bound: "prefix_string w s = Some p \<Longrightarrow> p \<le> w"
  by (auto simp: prefix_string_def split: if_splits)

lemma in_network_own: "in_network (v, x) (v, x, p)"
  by (simp add: in_network_def)

text \<open>A longer prefix names a smaller network.\<close>

lemma in_network_shorter:
  assumes "in_network a (v, y, p)" and "q \<le> p" and "p \<le> width v"
  shows "in_network a (v, y, q)"
proof -
  obtain va x where a: "a = (va, x)" by (cases a)
  have split: "width v - q = (width v - p) + (p - q)" using assms(2,3) by simp
  have "x div 2 ^ (width v - q) = x div 2 ^ (width v - p) div 2 ^ (p - q)"
    unfolding split power_add by (simp add: zdiv_zmult2_eq)
  moreover have "y div 2 ^ (width v - q) = y div 2 ^ (width v - p) div 2 ^ (p - q)"
    unfolding split power_add by (simp add: zdiv_zmult2_eq)
  ultimately show ?thesis
    using assms(1) by (simp add: in_network_def a)
qed

end
