(* ===== verification/Policy.thy ===== *)
theory Policy
  imports Ipaddr
begin

text \<open>
  The pure evaluator of \<open>backend/policy.py\<close>: target normalisation, scope-rule matching, the
  engagement gates and the decision procedure, followed by what the module promises of them.
  \<open>rule_matches\<close> and what is built on it live in the exception type because \<open>_scheme_and_port\<close>
  calls \<open>int()\<close> on text that is only known to satisfy \<open>str.isdigit\<close>.
\<close>

section \<open>Reason codes and data\<close>

definition ALLOWED :: string where "ALLOWED = ''allowed''"
definition ENGAGEMENT_NOT_ACTIVE :: string where "ENGAGEMENT_NOT_ACTIVE = ''engagement_not_active''"
definition STOP_WORK_ACTIVE :: string where "STOP_WORK_ACTIVE = ''stop_work_active''"
definition AUTHORIZATION_MISSING :: string where "AUTHORIZATION_MISSING = ''authorization_missing''"
definition AUTHORIZATION_NOT_ACTIVE :: string where "AUTHORIZATION_NOT_ACTIVE = ''authorization_not_active''"
definition OUTSIDE_TESTING_WINDOW :: string where "OUTSIDE_TESTING_WINDOW = ''outside_testing_window''"
definition CAPABILITY_PROHIBITED :: string where "CAPABILITY_PROHIBITED = ''capability_prohibited''"
definition TARGET_EXCLUDED :: string where "TARGET_EXCLUDED = ''target_excluded''"
definition TARGET_OUT_OF_SCOPE :: string where "TARGET_OUT_OF_SCOPE = ''target_out_of_scope''"
definition SCOPE_AMBIGUOUS :: string where "SCOPE_AMBIGUOUS = ''scope_ambiguous''"

lemmas reason_defs = ALLOWED_def ENGAGEMENT_NOT_ACTIVE_def STOP_WORK_ACTIVE_def
  AUTHORIZATION_MISSING_def AUTHORIZATION_NOT_ACTIVE_def OUTSIDE_TESTING_WINDOW_def
  CAPABILITY_PROHIBITED_def TARGET_EXCLUDED_def TARGET_OUT_OF_SCOPE_def SCOPE_AMBIGUOUS_def

definition SELF_AUTHORIZING_TYPES :: "string list" where
  "SELF_AUTHORIZING_TYPES = [''bug_bounty'']"

definition ACTIVE_ENGAGEMENT_STATUS :: string where "ACTIVE_ENGAGEMENT_STATUS = ''active''"
definition ACTIVE_AUTHORIZATION_STATUS :: string where "ACTIVE_AUTHORIZATION_STATUS = ''active''"

record ScopeRule =
  sr_value :: string
  sr_kind :: string
  sr_excluded :: bool

record AuthorizationSnapshot =
  as_status :: string
  as_window_start :: "datetime option"
  as_window_end :: "datetime option"
  as_permitted_capabilities :: "string list"

record PolicyInput =
  pi_engagement_status :: string
  pi_engagement_type :: string
  pi_target :: string
  pi_capability :: string
  pi_now :: datetime
  pi_stop_work :: bool
  pi_authorization :: "AuthorizationSnapshot option"
  pi_scope_rules :: "ScopeRule list"

record PolicyDecision =
  pd_allowed :: bool
  pd_reason :: string
  pd_detail :: string

abbreviation deny :: "string \<Rightarrow> string \<Rightarrow> PolicyDecision" where
  "deny r d \<equiv> \<lparr>pd_allowed = False, pd_reason = r, pd_detail = d\<rparr>"

abbreviation allow :: "string \<Rightarrow> PolicyDecision" where
  "allow d \<equiv> \<lparr>pd_allowed = True, pd_reason = ALLOWED, pd_detail = d\<rparr>"

definition as_utc :: "datetime \<Rightarrow> datetime" where
  "as_utc d = (case dt_off d of None \<Rightarrow> d\<lparr>dt_off := Some 0\<rparr> | Some _ \<Rightarrow> d)"

section \<open>Targets\<close>

text \<open>The host of an authority: a bracketed literal, or what precedes a single colon.\<close>

definition host_part :: "string \<Rightarrow> string option" where
  "host_part host =
     (if startswith host ''['' then
        (case find_sub '']'' host of None \<Rightarrow> None | Some closing \<Rightarrow> Some (drop 1 (take closing host)))
      else if count_char (CHR '':'') host = 1 then Some (before '':'' host) else Some host)"

definition classify_host :: "string \<Rightarrow> string \<times> string" where
  "classify_host h =
     (let host = lower (rstrip_char (CHR ''.'') h) in
      if host = [] then ([], [])
      else if ip_address host \<noteq> None then (''ip'', host)
      else if contains host '' '' \<or> \<not> contains host ''.'' then ([], [])
      else (''domain'', host))"

definition normalize_target :: "string \<Rightarrow> string \<times> string" where
  "normalize_target target =
     (let raw = strip target in
      if raw = [] then ([], [])
      else
        let r1 = (case split_once ''://'' raw of None \<Rightarrow> raw | Some (_, b) \<Rightarrow> b);
            r2 = (if contains (before ''/'' r1) ''@''
                  then (case split_once ''@'' r1 of None \<Rightarrow> r1 | Some (_, b) \<Rightarrow> b) else r1)
        in case host_part (before ''/'' r2) of
             None \<Rightarrow> ([], [])
           | Some h \<Rightarrow> classify_host h)"

section \<open>Rules\<close>

definition clean_rule :: "string \<Rightarrow> string" where
  "clean_rule v = lower (rstrip_char (CHR ''.'') (strip v))"

definition host_matches :: "string \<Rightarrow> string \<Rightarrow> bool" where
  "host_matches rule_value host =
     (let rule = clean_rule rule_value in
      if rule = [] then False
      else if startswith rule ''*.'' then endswith host (''.'' @ drop 2 rule)
      else if startswith rule ''*'' then
        (let suffix = drop 1 rule in host = suffix \<or> endswith host (''.'' @ suffix))
      else host = rule)"

definition excludes_host :: "string \<Rightarrow> string \<Rightarrow> bool" where
  "excludes_host rule_value host =
     (let rule = clean_rule rule_value in
      if rule = [] then False
      else if startswith rule ''*.'' then endswith host (''.'' @ drop 2 rule)
      else
        let r = (if startswith rule ''*'' then drop 1 rule else rule) in
        host = r \<or> endswith host (''.'' @ r))"

text \<open>\<open>tail.isdigit()\<close> guards \<open>int(tail)\<close>, which raises \<open>ValueError\<close> on a superscript digit.\<close>

definition port_of :: "string \<Rightarrow> int option res" where
  "port_of tail = (if isdigit tail then bindE (int_of_str tail) (\<lambda>n. Inr (Some n)) else Inr None)"

definition authority_port :: "string \<Rightarrow> int option res" where
  "authority_port authority =
     (if startswith authority ''['' then
        (let rest = (case find_sub '']'' authority of None \<Rightarrow> [] | Some i \<Rightarrow> drop (i + 1) authority)
         in if startswith rest '':'' then port_of (drop 1 rest) else Inr None)
      else if count_char (CHR '':'') authority = 1 then
        (case split_once '':'' authority of None \<Rightarrow> Inr None | Some (_, tail) \<Rightarrow> port_of tail)
      else Inr None)"

definition split_scheme :: "string \<Rightarrow> string \<times> string" where
  "split_scheme raw = (case split_once ''://'' raw of None \<Rightarrow> ([], raw) | Some (a, b) \<Rightarrow> (lower a, b))"

definition split_authority :: "string \<Rightarrow> string" where
  "split_authority remainder =
     (let authority = before ''/'' remainder
      in case split_once ''@'' authority of None \<Rightarrow> authority | Some (_, b) \<Rightarrow> b)"

definition scheme_and_port :: "string \<Rightarrow> (string \<times> int option) res" where
  "scheme_and_port target =
     (let (scheme, remainder) = split_scheme (strip target) in
      bindE (authority_port (split_authority remainder)) (\<lambda>port.
        Inr (scheme,
             case port of
               Some n \<Rightarrow> Some n
             | None \<Rightarrow> if scheme = ''https'' then Some 443
                       else if scheme = ''http'' then Some 80 else None)))"

definition path_within :: "string \<Rightarrow> string \<Rightarrow> bool" where
  "path_within target_path rule_path =
     (if target_path = rule_path then True
      else startswith target_path
        (if endswith rule_path ''/'' then rule_path else rule_path @ ''/''))"

definition path_of :: "string \<Rightarrow> string" where
  "path_of target =
     (let remainder = (case split_once ''://'' target of None \<Rightarrow> target | Some (_, b) \<Rightarrow> b)
      in case split_once ''/'' remainder of
           None \<Rightarrow> []
         | Some (_, tail) \<Rightarrow> ''/'' @ lower (rstrip_char (CHR ''/'') (before ''?'' tail)))"

definition url_rule_matches :: "string \<Rightarrow> string \<Rightarrow> string \<Rightarrow> bool res" where
  "url_rule_matches rule_value value raw_target =
     (let rule_host = snd (normalize_target rule_value) in
      if rule_host \<noteq> [] \<and> rule_host \<noteq> value then Inr False
      else bindE (scheme_and_port rule_value) (\<lambda>(rule_scheme, rule_port).
           bindE (scheme_and_port raw_target) (\<lambda>(target_scheme, target_port).
             if rule_scheme \<noteq> [] \<and> rule_scheme \<noteq> target_scheme then Inr False
             else if rule_port \<noteq> None \<and> rule_port \<noteq> target_port then Inr False
             else
               let rule_path = path_of rule_value in
               Inr (rule_path = [] \<or> path_within (path_of raw_target) rule_path))))"

definition rule_matches :: "ScopeRule \<Rightarrow> string \<Rightarrow> string \<Rightarrow> string \<Rightarrow> bool res" where
  "rule_matches rule kind value raw_target =
     (let rule_value = lower (strip (sr_value rule)) in
      if rule_value = [] then Inr False
      else if sr_kind rule = ''cidr'' then
        (if kind \<noteq> ''ip'' then Inr False
         else Inr (case (ip_address value, ip_network rule_value) of
                     (Some a, Some n) \<Rightarrow> in_network a n
                   | _ \<Rightarrow> False))
      else if sr_kind rule = ''url'' \<or> sr_kind rule = ''api'' then
        url_rule_matches rule_value value raw_target
      else if kind = ''ip'' then Inr (rule_value = value)
      else if sr_excluded rule then Inr (excludes_host rule_value value)
      else Inr (host_matches rule_value value))"

section \<open>Decisions\<close>

definition evaluate_engagement :: "PolicyInput \<Rightarrow> PolicyDecision" where
  "evaluate_engagement c =
     (if pi_stop_work c then
        deny STOP_WORK_ACTIVE ''Stop-work is engaged for this engagement.''
      else if pi_engagement_status c \<noteq> ACTIVE_ENGAGEMENT_STATUS then
        deny ENGAGEMENT_NOT_ACTIVE
          (''Engagement status is '' @ quoted (pi_engagement_status c) @ '', not '' @ quoted ''active'' @ ''.'')
      else
        let self_authorizing = List.member SELF_AUTHORIZING_TYPES (pi_engagement_type c) in
        case pi_authorization c of
          None \<Rightarrow>
            if \<not> self_authorizing then
              deny AUTHORIZATION_MISSING
                (''A '' @ quoted (pi_engagement_type c) @ '' engagement requires an authorization record.'')
            else allow ''Engagement-level checks passed.''
        | Some auth \<Rightarrow>
            if as_status auth \<noteq> ACTIVE_AUTHORIZATION_STATUS then
              deny AUTHORIZATION_NOT_ACTIVE
                (''Authorization status is '' @ quoted (as_status auth) @ '', not '' @ quoted ''active'' @ ''.'')
            else
              let now = instant (as_utc (pi_now c)) in
              if (case as_window_start auth of None \<Rightarrow> False | Some w \<Rightarrow> now < instant (as_utc w)) then
                deny OUTSIDE_TESTING_WINDOW ''The testing window has not opened yet.''
              else if (case as_window_end auth of None \<Rightarrow> False | Some w \<Rightarrow> now > instant (as_utc w)) then
                deny OUTSIDE_TESTING_WINDOW ''The testing window has closed.''
              else if as_permitted_capabilities auth \<noteq> []
                      \<and> \<not> List.member (as_permitted_capabilities auth) (pi_capability c) then
                deny CAPABILITY_PROHIBITED
                  (''Capability '' @ quoted (pi_capability c) @ '' is not permitted by this authorization.'')
              else allow ''Engagement-level checks passed.'')"

text \<open>The two loops over \<open>scope_rules\<close>: the first rule of the wanted polarity that matches.\<close>

fun first_match :: "bool \<Rightarrow> ScopeRule list \<Rightarrow> string \<Rightarrow> string \<Rightarrow> string \<Rightarrow> ScopeRule option res" where
  "first_match ex [] kind value target = Inr None"
| "first_match ex (r # rs) kind value target =
     (if sr_excluded r = ex then
        bindE (rule_matches r kind value target)
          (\<lambda>m. if m then Inr (Some r) else first_match ex rs kind value target)
      else first_match ex rs kind value target)"

definition evaluate :: "PolicyInput \<Rightarrow> PolicyDecision res" where
  "evaluate c =
     (let gate = evaluate_engagement c in
      if \<not> pd_allowed gate then Inr gate
      else
        let (kind, value) = normalize_target (pi_target c) in
        if kind = [] then
          Inr (deny SCOPE_AMBIGUOUS
            (''Target '' @ quoted (pi_target c) @ '' could not be resolved to a host, IP, or URL.''))
        else
          bindE (first_match True (pi_scope_rules c) kind value (pi_target c)) (\<lambda>ex.
            case ex of
              Some r \<Rightarrow> Inr (deny TARGET_EXCLUDED (''Target matches exclusion '' @ quoted (sr_value r) @ ''.''))
            | None \<Rightarrow>
                bindE (first_match False (pi_scope_rules c) kind value (pi_target c)) (\<lambda>inc.
                  case inc of
                    Some r \<Rightarrow> Inr (allow (''Target matches in-scope rule '' @ quoted (sr_value r) @ ''.''))
                  | None \<Rightarrow> Inr (deny TARGET_OUT_OF_SCOPE ''No in-scope rule matches this target.''))))"

fun evaluate_targets :: "PolicyInput \<Rightarrow> string list \<Rightarrow> PolicyDecision res" where
  "evaluate_targets c [] = Inr (allow ''All targets are in scope.'')"
| "evaluate_targets c (t # ts) =
     bindE (evaluate (c\<lparr>pi_target := t\<rparr>))
       (\<lambda>d. if \<not> pd_allowed d then Inr d else evaluate_targets c ts)"

definition evaluate_all :: "PolicyInput \<Rightarrow> string list \<Rightarrow> PolicyDecision res" where
  "evaluate_all c targets =
     (let gate = evaluate_engagement c in
      if \<not> pd_allowed gate then Inr gate else evaluate_targets c targets)"


section \<open>What matching means\<close>

lemma evaluate_engagement_frame [simp]:
  "evaluate_engagement (c\<lparr>pi_scope_rules := rs\<rparr>) = evaluate_engagement c"
  "evaluate_engagement (c\<lparr>pi_target := t\<rparr>) = evaluate_engagement c"
  by (cases c, simp only: evaluate_engagement_def PolicyInput.select_convs PolicyInput.update_convs)+

definition rule_hits :: "ScopeRule \<Rightarrow> string \<Rightarrow> string \<Rightarrow> string \<Rightarrow> bool" where
  "rule_hits r k v t = (rule_matches r k v t = Inr True)"

definition rule_total :: "ScopeRule \<Rightarrow> string \<Rightarrow> string \<Rightarrow> string \<Rightarrow> bool" where
  "rule_total r k v t = (case rule_matches r k v t of Inr _ \<Rightarrow> True | Inl _ \<Rightarrow> False)"

definition in_scope :: "string \<Rightarrow> string \<Rightarrow> string \<Rightarrow> ScopeRule list \<Rightarrow> bool" where
  "in_scope k v t rs = (first_match True rs k v t = Inr None
     \<and> (case first_match False rs k v t of Inr (Some r) \<Rightarrow> True | _ \<Rightarrow> False))"

definition permits :: "PolicyInput \<Rightarrow> bool" where
  "permits c = (case evaluate c of Inr d \<Rightarrow> pd_allowed d | Inl _ \<Rightarrow> False)"

lemma rule_total_cases: "rule_total r k v t \<Longrightarrow> rule_matches r k v t = Inr (rule_hits r k v t)"
  by (auto simp: rule_total_def rule_hits_def split: sum.splits)

lemma first_match_Some:
  "first_match ex rs k v t = Inr (Some r) \<Longrightarrow> r \<in> set rs \<and> sr_excluded r = ex \<and> rule_hits r k v t"
  by (induction rs) (auto simp: bindE_eq_Inr rule_hits_def split: if_splits)

lemma first_match_None_iff:
  "first_match ex rs k v t = Inr None
     \<longleftrightarrow> (\<forall>r \<in> set rs. sr_excluded r = ex \<longrightarrow> rule_matches r k v t = Inr False)"
  by (induction rs) (auto simp: bindE_eq_Inr split: if_splits)

lemma first_match_total:
  "\<forall>r \<in> set rs. rule_total r k v t \<Longrightarrow> \<exists>x. first_match ex rs k v t = Inr x"
  by (induction rs) (auto simp: rule_total_cases)

lemma in_scope_iff:
  assumes "\<forall>r \<in> set rs. rule_total r k v t"
  shows "in_scope k v t rs \<longleftrightarrow>
    (\<forall>r \<in> set rs. sr_excluded r \<longrightarrow> \<not> rule_hits r k v t)
    \<and> (\<exists>r \<in> set rs. \<not> sr_excluded r \<and> rule_hits r k v t)"
proof -
  have none: "first_match ex rs k v t = Inr None
      \<longleftrightarrow> (\<forall>r \<in> set rs. sr_excluded r = ex \<longrightarrow> \<not> rule_hits r k v t)" for ex
    using assms by (auto simp: first_match_None_iff rule_total_cases)
  obtain x where x: "first_match False rs k v t = Inr x"
    using first_match_total [OF assms] by blast
  show ?thesis
  proof (cases x)
    case None
    with x none [of False] show ?thesis by (auto simp: in_scope_def)
  next
    case (Some r)
    with x first_match_Some [of False rs k v t r] none [of True] show ?thesis
      by (auto simp: in_scope_def)
  qed
qed

lemma permits_iff_in_scope:
  "permits c \<longleftrightarrow> pd_allowed (evaluate_engagement c) \<and> fst (normalize_target (pi_target c)) \<noteq> []
     \<and> in_scope (fst (normalize_target (pi_target c))) (snd (normalize_target (pi_target c)))
          (pi_target c) (pi_scope_rules c)"
proof (cases "normalize_target (pi_target c)")
  case (Pair k v)
  show ?thesis
  proof (cases "first_match True (pi_scope_rules c) k v (pi_target c)")
    case (Inl e)
    with Pair show ?thesis by (simp add: permits_def evaluate_def in_scope_def Let_def)
  next
    case (Inr x)
    with Pair show ?thesis
      by (cases x; cases "first_match False (pi_scope_rules c) k v (pi_target c)")
        (auto simp: permits_def evaluate_def in_scope_def Let_def split: option.splits)
  qed
qed

subsection \<open>The contract of a scope check\<close>

text \<open>
  What every caller relies on: over rules whose match is defined, permission is "no exclusion
  applies and some inclusion does".  The consequences are proved once.
\<close>

locale scope_policy =
  fixes permitted :: "'r list \<Rightarrow> bool" and excl :: "'r \<Rightarrow> bool" and incl :: "'r \<Rightarrow> bool"
    and defined :: "'r \<Rightarrow> bool"
  assumes permitted_iff:
    "\<forall>r \<in> set rs. defined r \<Longrightarrow> permitted rs \<longleftrightarrow> (\<forall>r \<in> set rs. \<not> excl r) \<and> (\<exists>r \<in> set rs. incl r)"
begin

lemma order_irrelevant:
  assumes "set rs = set rs'" and "\<forall>r \<in> set rs. defined r"
  shows "permitted rs \<longleftrightarrow> permitted rs'"
  using assms by (simp add: permitted_iff)

lemma adding_exclusion_only_removes:
  assumes "\<forall>r \<in> set (xs @ e # ys). defined r" and "\<not> incl e" and "permitted (xs @ e # ys)"
  shows "permitted (xs @ ys) \<and> \<not> excl e"
  using assms by (auto simp: permitted_iff)

lemma empty_denies: "\<not> permitted []"
  by (simp add: permitted_iff)

end

interpretation scope: scope_policy "in_scope k v t"
    "\<lambda>r. sr_excluded r \<and> rule_hits r k v t" "\<lambda>r. \<not> sr_excluded r \<and> rule_hits r k v t"
    "\<lambda>r. rule_total r k v t" for k v t
  by unfold_locales (auto simp: in_scope_iff)

section \<open>Properties of the decision\<close>

text \<open>A bounty engagement with one in-scope wildcard and one exclusion, used by the witnesses.\<close>

definition example_rules :: "ScopeRule list" where
  "example_rules = [\<lparr>sr_value = ''*.acme.com'', sr_kind = ''domain'', sr_excluded = False\<rparr>,
     \<lparr>sr_value = ''prod.acme.com'', sr_kind = ''domain'', sr_excluded = True\<rparr>]"

definition example_input :: "string \<Rightarrow> ScopeRule list \<Rightarrow> PolicyInput" where
  "example_input t rs = \<lparr>pi_engagement_status = ''active'', pi_engagement_type = ''bug_bounty'',
     pi_target = t, pi_capability = ''httpx'', pi_now = utc 0, pi_stop_work = False,
     pi_authorization = None, pi_scope_rules = rs\<rparr>"

abbreviation target_rule_hits :: "PolicyInput \<Rightarrow> ScopeRule \<Rightarrow> bool" where
  "target_rule_hits c r \<equiv>
     rule_hits r (fst (normalize_target (pi_target c))) (snd (normalize_target (pi_target c))) (pi_target c)"

abbreviation target_rule_total :: "PolicyInput \<Rightarrow> ScopeRule \<Rightarrow> bool" where
  "target_rule_total c r \<equiv>
     rule_total r (fst (normalize_target (pi_target c))) (snd (normalize_target (pi_target c))) (pi_target c)"

text \<open>
  C25 (deny by default).  Where no rule's match raises, \<open>evaluate\<close> permits a target exactly when
  the engagement gates pass, the target can be classified, no exclusion matches it and at least
  one in-scope rule does: every other input is denied.
\<close>

theorem evaluate_deny_by_default:
  assumes "\<forall>r \<in> set (pi_scope_rules c). target_rule_total c r"
  shows "permits c \<longleftrightarrow> pd_allowed (evaluate_engagement c)
    \<and> fst (normalize_target (pi_target c)) \<noteq> []
    \<and> (\<forall>r \<in> set (pi_scope_rules c). sr_excluded r \<longrightarrow> \<not> target_rule_hits c r)
    \<and> (\<exists>r \<in> set (pi_scope_rules c). \<not> sr_excluded r \<and> target_rule_hits c r)"
  using assms by (auto simp: permits_iff_in_scope in_scope_iff)

theorem evaluate_deny_by_default_witness:
  "permits (example_input ''https://api.acme.com/v1'' example_rules)
   \<and> \<not> permits (example_input ''https://acme.com/'' example_rules)"
proof -
  have t: "\<forall>r \<in> set (pi_scope_rules (example_input x example_rules)).
      target_rule_total (example_input x example_rules) r"
    if "x = ''https://api.acme.com/v1'' \<or> x = ''https://acme.com/''" for x
    using that by (elim disjE; hypsubst) code_simp+
  show ?thesis
    unfolding evaluate_deny_by_default [OF t [of "''https://api.acme.com/v1''"], simplified]
      evaluate_deny_by_default [OF t [of "''https://acme.com/''"], simplified]
    by code_simp
qed

text \<open>
  C26 (exclusions beat inclusions, always).  A matching exclusion denies the target whatever other
  rules there are, wherever it stands among them and whatever they do.
\<close>

theorem exclusion_beats_inclusion:
  assumes "r \<in> set (pi_scope_rules c)" and "sr_excluded r" and "target_rule_hits c r"
  shows "\<not> permits c"
  using assms by (auto simp: permits_iff_in_scope in_scope_def first_match_None_iff rule_hits_def)

theorem exclusion_beats_inclusion_witness:
  "\<not> permits (example_input ''db.prod.acme.com'' example_rules)"
proof (rule exclusion_beats_inclusion)
  let ?r = "\<lparr>sr_value = ''prod.acme.com'', sr_kind = ''domain'', sr_excluded = True\<rparr>"
  show "?r \<in> set (pi_scope_rules (example_input ''db.prod.acme.com'' example_rules))"
    by (simp add: example_input_def example_rules_def)
  show "sr_excluded ?r" by simp
  show "target_rule_hits (example_input ''db.prod.acme.com'' example_rules) ?r" by code_simp
qed

text \<open>
  C20 (the decision does not depend on rule order).  Reordering the scope rules, or repeating one,
  changes no decision.
\<close>

theorem rule_order_irrelevant:
  assumes "set (pi_scope_rules c) = set rs" and "\<forall>r \<in> set rs. target_rule_total c r"
  shows "permits (c\<lparr>pi_scope_rules := rs\<rparr>) \<longleftrightarrow> permits c"
  using assms scope.order_irrelevant [of rs "pi_scope_rules c"] by (simp add: permits_iff_in_scope)


theorem rule_order_irrelevant_witness:
  "permits ((example_input ''api.acme.com'' example_rules)\<lparr>pi_scope_rules := rev example_rules\<rparr>)
     \<longleftrightarrow> permits (example_input ''api.acme.com'' example_rules)"
proof (rule rule_order_irrelevant)
  show "set (pi_scope_rules (example_input ''api.acme.com'' example_rules)) = set (rev example_rules)"
    by (simp add: example_input_def)
  show "\<forall>r \<in> set (rev example_rules). target_rule_total (example_input ''api.acme.com'' example_rules) r"
    by code_simp
qed

lemma evaluate_targets_allowed:
  "evaluate_targets c ts = Inr d \<Longrightarrow> pd_allowed d \<longleftrightarrow> (\<forall>t \<in> set ts. permits (c\<lparr>pi_target := t\<rparr>))"
proof (induction ts)
  case (Cons t ts)
  then obtain e where e: "evaluate (c\<lparr>pi_target := t\<rparr>) = Inr e"
    by (auto simp: bindE_eq_Inr)
  with Cons show ?case
    by (cases "pd_allowed e") (auto simp: permits_def)
qed auto

lemma evaluate_all_example_defined:
  "\<not> isl (evaluate_all (example_input [] example_rules) [''api.acme.com'', ''prod.acme.com''])"
  by code_simp

text \<open>
  C13 (a job's targets are decided as a unit).  When \<open>evaluate_all\<close> returns a decision, it allows
  exactly if the engagement gates pass and every single target is permitted on its own.
\<close>

theorem evaluate_all_unit:
  assumes "evaluate_all c ts = Inr d"
  shows "pd_allowed d \<longleftrightarrow> pd_allowed (evaluate_engagement c)
    \<and> (\<forall>t \<in> set ts. permits (c\<lparr>pi_target := t\<rparr>))"
  using assms evaluate_targets_allowed
  by (auto simp: evaluate_all_def Let_def permits_iff_in_scope split: if_splits)

theorem evaluate_all_unit_witness:
  "\<exists>d. evaluate_all (example_input [] example_rules) [''api.acme.com'', ''prod.acme.com''] = Inr d
     \<and> \<not> pd_allowed d"
proof -
  obtain d where d: "evaluate_all (example_input [] example_rules) [''api.acme.com'', ''prod.acme.com''] = Inr d"
    by (cases "evaluate_all (example_input [] example_rules) [''api.acme.com'', ''prod.acme.com'']")
      (use evaluate_all_example_defined in \<open>auto\<close>)
  have "\<not> permits ((example_input [] example_rules)\<lparr>pi_target := ''prod.acme.com''\<rparr>)" by code_simp
  with evaluate_all_unit [OF d] d show ?thesis by auto
qed

section \<open>Host rules\<close>

lemma host_matches_excludes: "host_matches v h \<Longrightarrow> excludes_host v h"
  by (auto simp: host_matches_def excludes_host_def Let_def split: if_splits)

text \<open>
  C39 (subdomains need an explicit wildcard; suffixes stop at a label boundary).  A rule without a
  leading star matches its own host only; \<open>*.d\<close> matches exactly the names with a label in front of
  \<open>.d\<close>; \<open>*d\<close> matches \<open>d\<close> and those.  Whatever an in-scope rule matches, the same value excludes
  when it is written as an exclusion.
\<close>

theorem host_rule_boundaries:
  "(host_matches v h \<longleftrightarrow> clean_rule v \<noteq> []
     \<and> (if startswith (clean_rule v) ''*.'' then \<exists>l. h = l @ ''.'' @ drop 2 (clean_rule v)
        else if startswith (clean_rule v) ''*''
          then h = drop 1 (clean_rule v) \<or> (\<exists>l. h = l @ ''.'' @ drop 1 (clean_rule v))
        else h = clean_rule v))
   \<and> {x. host_matches v x} \<subseteq> {x. excludes_host v x}"
  using host_matches_excludes [of v]
  by (auto simp: host_matches_def Let_def endswith_iff)

section \<open>Path rules\<close>

lemma join_with_append:
  "as \<noteq> [] \<Longrightarrow> bs \<noteq> [] \<Longrightarrow> join_with p (as @ bs) = join_with p as @ p @ join_with p bs"
proof (induction as)
  case (Cons a as)
  then show ?case by (cases "as = []") (simp_all add: join_with_Cons)
qed simp

lemma split_char_append_sep: "split_char c (a @ c # b) = split_char c a @ split_char c b"
  by (induction a) (auto split: list.splits)

lemma split_char_prefix_append:
  assumes "split_char c t = split_char c r @ xs" and "xs \<noteq> []"
  shows "\<exists>b. t = r @ c # b"
proof -
  have "join_with [c] (split_char c r @ xs) = join_with [c] (split_char c r) @ [c] @ join_with [c] xs"
    by (rule join_with_append) (simp_all add: assms(2))
  with assms(1) have "t = r @ [c] @ join_with [c] xs"
    by (simp add: join_split_char flip: assms(1))
  then show ?thesis by auto
qed

text \<open>
  C39 (paths match whole segments).  For a rule path without a trailing slash, a target path is
  within it exactly when the rule's list of \<open>/\<close>-separated segments is a prefix of the target's, so
  \<open>/v1/administrator\<close> is never within \<open>/v1/admin\<close>.
\<close>

theorem path_within_segments:
  assumes "\<not> endswith r ''/''"
  shows "path_within t r \<longleftrightarrow> (\<exists>xs. split_char (CHR ''/'') t = split_char (CHR ''/'') r @ xs)"
proof
  assume "path_within t r"
  then consider "t = r" | rest where "t = r @ ''/'' @ rest"
    using assms by (auto simp: path_within_def startswith_iff split: if_splits)
  then show "\<exists>xs. split_char (CHR ''/'') t = split_char (CHR ''/'') r @ xs"
    by cases (auto simp: split_char_append_sep)
next
  assume "\<exists>xs. split_char (CHR ''/'') t = split_char (CHR ''/'') r @ xs"
  then obtain xs where xs: "split_char (CHR ''/'') t = split_char (CHR ''/'') r @ xs" by blast
  show "path_within t r"
  proof (cases "xs = []")
    case True
    with xs have "t = r" by (metis append_Nil2 join_split_char)
    then show ?thesis by (simp add: path_within_def)
  next
    case False
    from split_char_prefix_append [OF xs False] show ?thesis
      using assms by (auto simp: path_within_def startswith_iff)
  qed
qed

theorem path_within_segments_witness:
  "\<not> path_within ''/v1/administrator'' ''/v1/admin''"
proof -
  have "\<not> endswith ''/v1/admin'' ''/''" by code_simp
  from path_within_segments [OF this, of "''/v1/administrator''"] show ?thesis by simp
qed


section \<open>When matching raises\<close>

lemma port_of_total: "isascii s \<Longrightarrow> length s \<le> 4300 \<Longrightarrow> \<exists>p. port_of s = Inr p"
  by (cases "isdigit s") (auto simp: port_of_def int_of_str_decimal dest: isdigit_ascii_decimal)

lemma piece_split_authority: "piece (split_authority r) r"
proof -
  have "piece (split_authority r) (before ''/'' r)"
    by (auto simp: split_authority_def Let_def dest: piece_split_once split: option.splits)
  then show ?thesis using piece_before by (rule piece_trans)
qed

lemma piece_split_scheme: "piece (snd (split_scheme r)) r"
  by (auto simp: split_scheme_def dest: piece_split_once split: option.splits)

lemma authority_port_total:
  assumes "isascii a" and "length a \<le> 4300"
  shows "\<exists>p. authority_port a = Inr p"
proof -
  have ok: "\<exists>p. port_of x = Inr p" if "piece x a" for x
    using that assms by (intro port_of_total) (auto simp: piece_def intro: isascii_piece [of a])
  have "\<exists>p. port_of (drop 1 (drop i a)) = Inr p" for i
    by (rule ok) (simp add: drop_drop del: One_nat_def)
  moreover have "\<exists>p. port_of b = Inr p" if "split_once '':'' a = Some (x, b)" for x b
    by (rule ok) (simp add: piece_split_once [OF that])
  moreover have "\<exists>p. port_of [] = Inr p"
    by (rule ok) simp
  ultimately show ?thesis
    unfolding authority_port_def Let_def
    by (cases "find_sub '']'' a"; cases "split_once '':'' a") (auto simp del: One_nat_def drop_drop)
qed

lemma scheme_and_port_total:
  assumes "isascii t" and "length t \<le> 4300"
  shows "\<exists>x. scheme_and_port t = Inr x"
proof -
  have "piece (split_authority (snd (split_scheme (strip t)))) t"
    using piece_split_authority piece_split_scheme piece_strip by (meson piece_trans)
  then obtain p where "authority_port (split_authority (snd (split_scheme (strip t)))) = Inr p"
    using authority_port_total assms isascii_piece by (metis order_trans piece_def)
  then show ?thesis by (simp add: scheme_and_port_def split_beta)
qed

text \<open>
  C40 (matching is total on ordinary input).  For ASCII rules and targets of at most 4300
  characters, deciding whether a rule matches never raises.
\<close>

theorem rule_matches_total:
  assumes "isascii t" and "length t \<le> 4300"
    and "isascii (sr_value r)" and "length (sr_value r) \<le> 4300"
  shows "rule_total r k v t"
proof -
  have p: "piece (strip (sr_value r)) (sr_value r)" by simp
  have "isascii (lower (strip (sr_value r)))"
    by (rule isascii_lower, rule isascii_piece [OF assms(3) p])
  moreover have "length (lower (strip (sr_value r))) \<le> 4300"
    using p assms(4) by (simp add: piece_def)
  ultimately obtain x y where "scheme_and_port (lower (strip (sr_value r))) = Inr x" "scheme_and_port t = Inr y"
    using scheme_and_port_total assms(1,2) by meson
  then show ?thesis
    by (auto simp: rule_total_def rule_matches_def url_rule_matches_def Let_def
        split: sum.splits prod.splits)
qed


theorem rule_matches_total_witness:
  "rule_total \<lparr>sr_value = ''https://acme.com:8443/v1'', sr_kind = ''url'', sr_excluded = False\<rparr>
     ''domain'' ''acme.com'' ''https://acme.com:8443/v1/users''"
  by (rule rule_matches_total) (simp_all add: isascii_def code_def)

text \<open>
  C27 (finding: digits that are not decimal).  A port of superscript digits passes \<open>isdigit\<close> and
  makes \<open>int()\<close> raise, so evaluating such a target against a URL rule for its host ends in an
  uncaught \<open>ValueError\<close> instead of a decision.
\<close>

theorem superscript_port_raises:
  "evaluate (example_input (''https://acme.com:'' @ [CHR 0xB2])
     [\<lparr>sr_value = ''https://acme.com'', sr_kind = ''url'', sr_excluded = False\<rparr>]) = Inl ValueError"
  by code_simp

section \<open>Where normalisation and the rules disagree with the module's invariants\<close>

text \<open>
  C36 (finding: an unresolvable URL rule admits every target).  When the host of a URL or API rule
  cannot be resolved, the host comparison is skipped.  A rule such as \<open>intranet\<close>, with no scheme,
  port or path either, then matches every target, although the module says ambiguity denies.
\<close>

theorem unresolvable_url_rule_permits_everything:
  assumes "pd_allowed (evaluate_engagement c)" and "fst (normalize_target (pi_target c)) \<noteq> []"
    and "isascii (pi_target c)" and "length (pi_target c) \<le> 4300"
    and "lower (strip v) \<noteq> []" and "snd (normalize_target (lower (strip v))) = []"
    and "scheme_and_port (lower (strip v)) = Inr ([], None)" and "path_of (lower (strip v)) = []"
  shows "permits (c\<lparr>pi_scope_rules := [\<lparr>sr_value = v, sr_kind = ''url'', sr_excluded = False\<rparr>]\<rparr>)"
proof -
  obtain sc po where "scheme_and_port (pi_target c) = Inr (sc, po)"
    using scheme_and_port_total [OF assms(3,4)] by auto
  with assms(5-8) have
    "rule_matches \<lparr>sr_value = v, sr_kind = ''url'', sr_excluded = False\<rparr> k x (pi_target c) = Inr True" for k x
    by (simp add: rule_matches_def url_rule_matches_def Let_def)
  then show ?thesis
    using assms(1,2) by (simp add: permits_iff_in_scope in_scope_def)
qed

theorem unresolvable_url_rule_permits_everything_witness:
  "permits ((example_input ''https://payments.example.net/'' [])
     \<lparr>pi_scope_rules := [\<lparr>sr_value = ''intranet'', sr_kind = ''url'', sr_excluded = False\<rparr>]\<rparr>)"
  by (rule unresolvable_url_rule_permits_everything) code_simp+

lemma split_once_https: "split_once ''://'' (''https://'' @ x) = Some (''https'', x)"
  by (simp add: split_once_def startswith_def)

text \<open>
  C29 (finding: credentials are cut out of the query).  The text before the first \<open>@\<close> is dropped
  even when it lies in the query, so a URL whose host is \<open>e\<close> is compared as \<open>acme.com\<close>: for every
  host and query without slash or at-sign, \<open>https://e?q@acme.com\<close> normalises to \<open>acme.com\<close>.
\<close>

theorem query_at_sign_replaces_host:
  assumes "CHR ''/'' \<notin> set e" and "CHR ''@'' \<notin> set e" and "CHR ''/'' \<notin> set q" and "CHR ''@'' \<notin> set q"
  shows "normalize_target (''https://'' @ e @ ''?'' @ q @ ''@acme.com'') = (''domain'', ''acme.com'')"
proof -
  let ?x = "e @ ''?'' @ q" and ?y = "e @ ''?'' @ q @ ''@acme.com''"
  have st: "strip (''https://'' @ ?y) = ''https://'' @ ?y"
    by (rule strip_id) (simp_all add: is_ws_def code_def)
  have "CHR ''@'' \<notin> set ?x" using assms by simp
  from split_once_char [OF this, of "''acme.com''"]
  have at: "split_once ''@'' ?y = Some (?x, ''acme.com'')" by simp
  have "before ''/'' ?y = ?y"
    using assms by (intro before_no) (auto simp: contains_char)
  then have "contains (before ''/'' ?y) ''@''"
    by (simp add: contains_char)
  moreover have "host_part (before ''/'' ''acme.com'') = Some ''acme.com''" by code_simp
  moreover have "classify_host ''acme.com'' = (''domain'', ''acme.com'')" by code_simp
  ultimately show ?thesis
    unfolding normalize_target_def st Let_def split_once_https by (simp add: at [simplified])
qed

theorem query_at_sign_replaces_host_witness:
  "normalize_target ''https://evil.example?x=@acme.com'' = (''domain'', ''acme.com'')"
  using query_at_sign_replaces_host [of "''evil.example''" "''x=''"] by simp

end
