(* ===== verification/Models.thy ===== *)
theory Models
  imports Pyval
begin

text \<open>
  The database schema (\<open>backend/models.py\<close>): one record per table the modelled operations read or
  write, with every column of the table, and the database as the record of the tables' rows in
  insertion order.  A string column is \<open>string\<close> (\<open>string option\<close> where it is declared nullable), a
  \<open>DateTime\<close> column the naive UTC value in microseconds, a JSON column a decoded value.

  Rows are looked up by primary key with \<open>find\<close>, which is \<open>Query.first()\<close> on a filtered table,
  and changed in place.  The keyed-table laws below are what every component relies on.
\<close>

section \<open>Rows\<close>

record User =
  usr_github_id :: string
  usr_username :: string
  usr_email :: string
  usr_webhook_url :: string
  usr_notify_min_severity :: string
  usr_created_at :: int

record LocalCredential =
  lc_user_id :: string
  lc_username :: string
  lc_password_hash :: string
  lc_failed_attempts :: int
  lc_last_failure_at :: "int option"
  lc_locked_until :: "int option"

record LocalSession =
  ls_token_hash :: string
  ls_user_id :: string
  ls_created_at :: int
  ls_last_seen_at :: int
  ls_expires_at :: int

record LocalBootstrap =
  lb_id :: int

record Organization =
  org_id :: string
  org_name :: string
  org_personal_for_github_id :: string
  org_created_at :: int

record OrganizationMember =
  om_id :: string
  om_org_id :: string
  om_github_id :: string
  om_role :: string
  om_created_at :: int

record Asset =
  ast_id :: string
  ast_program_id :: string
  ast_canonical_key :: string
  ast_asset_type :: string
  ast_label :: string
  ast_hostname :: string
  ast_ip :: string
  ast_port :: "int option"
  ast_scheme :: string
  ast_environment :: string
  ast_criticality :: string
  ast_exposure :: string
  ast_owner_note :: string
  ast_tags :: string
  ast_source :: string
  ast_confidence :: string
  ast_first_seen_at :: "int option"
  ast_last_seen_at :: "int option"
  ast_created_at :: int

record AssetRelationship =
  ar_id :: string
  ar_program_id :: string
  ar_src_asset_id :: string
  ar_dst_asset_id :: string
  ar_relationship :: string
  ar_source :: string
  ar_confidence :: string
  ar_first_seen_at :: "int option"
  ar_last_seen_at :: "int option"
  ar_created_at :: int

record Client =
  cl_id :: string
  cl_owner_github_id :: string
  cl_org_id :: "string option"
  cl_name :: string
  cl_contact_name :: string
  cl_contact_email :: string
  cl_notes :: string
  cl_created_at :: int

record Engagement =
  eng_concurrency_limit :: "int option"
  eng_target_limit :: "int option"
  eng_targets_spent :: int
  eng_duration_limit :: "int option"
  eng_duration_allocated :: int
  eng_id :: string
  eng_owner_github_id :: string
  eng_name :: string
  eng_platform :: string
  eng_program_url :: string
  eng_scope_summary :: string
  eng_severity_guidance :: string
  eng_safe_harbor_notes :: string
  eng_client_id :: "string option"
  eng_org_id :: "string option"
  eng_engagement_type :: string
  eng_engagement_status :: string
  eng_starts_at :: "int option"
  eng_ends_at :: "int option"
  eng_stop_work_at :: "int option"
  eng_stop_work_reason :: string
  eng_max_request_rate :: "int option"
  eng_managed_authority_revision :: int
  eng_created_at :: int

record Authorization =
  az_id :: string
  az_program_id :: string
  az_owner_github_id :: string
  az_permits :: string
  az_authorized_by :: string
  az_authorized_at :: "int option"
  az_reference :: string
  az_window_start :: "int option"
  az_window_end :: "int option"
  az_status :: string
  az_notes :: string
  az_created_at :: int

record ScopeItem =
  sc_id :: string
  sc_program_id :: string
  sc_scope_type :: string
  sc_value :: string
  sc_kind :: string
  sc_notes :: string
  sc_max_severity :: string
  sc_created_at :: "int option"

record ReconItem =
  ri_id :: string
  ri_program_id :: string
  ri_source :: string
  ri_url :: string
  ri_path :: string
  ri_host :: string
  ri_title :: string
  ri_status_code :: "int option"
  ri_webserver :: string
  ri_port :: string
  ri_tech :: string
  ri_content_type :: string
  ri_length :: "int option"
  ri_words :: "int option"
  ri_lines :: "int option"
  ri_notes :: string
  ri_asset_id :: "string option"
  ri_first_seen_at :: "int option"
  ri_job_id :: "string option"
  ri_created_at :: "int option"

record ScanItem =
  si_id :: string
  si_program_id :: string
  si_source :: string
  si_template_id :: string
  si_title :: string
  si_severity :: string
  si_asset :: string
  si_matched_at :: string
  si_type :: string
  si_description :: string
  si_status :: string
  si_cwe :: string
  si_cvss :: string
  si_detection_method :: string
  si_payload :: string
  si_match_evidence :: string
  si_confidence :: string
  si_asset_id :: "string option"
  si_job_id :: "string option"
  si_created_at :: "int option"

record Evidence =
  ev_id :: string
  ev_program_id :: string
  ev_finding_id :: "string option"
  ev_asset_id :: "string option"
  ev_kind :: string
  ev_title :: string
  ev_body :: string
  ev_content_hash :: string
  ev_job_id :: "string option"
  ev_case_id :: "string option"
  ev_case_ref :: "string option"
  ev_identity_id :: "string option"
  ev_observed_outcome :: "string option"
  ev_expected_decision :: "string option"
  ev_collector :: string
  ev_source :: string
  ev_sensitivity :: string
  ev_retention :: string
  ev_redacted :: bool
  ev_collected_at :: "int option"
  ev_created_at :: int

record AuditLog =
  audit_id :: string
  audit_github_id :: string
  audit_action :: string
  audit_resource_type :: string
  audit_resource_id :: string
  audit_program_id :: string
  audit_reason :: string
  audit_detail :: string
  audit_timestamp :: int

record ScanJob =
  job_id :: string
  job_program_id :: string
  job_owner_github_id :: string
  job_tool_type :: string
  job_target_source :: string
  job_config :: pyval
  job_case_snapshot :: pyval
  job_managed_approval_id :: "string option"
  job_authorization_contract_required :: bool
  job_assessment :: pyval
  job_status :: string
  job_depends_on :: "string option"
  job_created_at :: int
  job_started_at :: "int option"
  job_completed_at :: "int option"
  job_error_message :: string

record JobExecution =
  exe_job_id :: string
  exe_runner_id :: string
  exe_origin :: string
  exe_owner :: string
  exe_principal_hash :: string
  exe_token_hash :: string
  exe_expires_at :: int
  exe_state :: string
  exe_capacity_reserved :: bool
  exe_target_charge :: int
  exe_target_binding :: pyval
  exe_duration_seconds :: int

record ManagedEnrollment =
  enr_id :: string
  enr_api_key_id :: string
  enr_owner :: string
  enr_principal_hash :: string
  enr_runner_id :: string
  enr_origin :: string
  enr_revision :: int
  enr_revoked :: bool

record ManagedApproval =
  apv_id :: string
  apv_issuer :: string
  apv_approval_id :: string
  apv_job_id :: string
  apv_engagement_id :: string
  apv_enrollment_id :: string
  apv_authorization_id :: string
  apv_revision :: int
  apv_owner :: string
  apv_envelope :: pyval
  apv_plan :: pyval
  apv_context :: pyval
  apv_authority_snapshot :: pyval
  apv_issued :: int
  apv_revoked :: bool

record ManagedContract =
  con_id :: string
  con_job_id :: string
  con_approval_record_id :: string
  con_ordinal :: int
  con_attempt_id :: string
  con_fence :: int
  con_envelope :: pyval
  con_consumed :: bool

record ManagedClock =
  clk_id :: int
  clk_observed :: int

record JobResultReceipt =
  rcp_id :: string
  rcp_job_id :: string
  rcp_payload_hash :: string
  rcp_scan_items_created :: int
  rcp_evidence_created :: int
  rcp_created_at :: int

record JobEvent =
  je_id :: string
  je_job_id :: string
  je_owner_github_id :: string
  je_kind :: string
  je_text :: string
  je_created_at :: int

record ApiKey =
  key_id :: string
  key_github_id :: string
  key_key_hash :: string
  key_label :: string
  key_scope :: string
  key_created_at :: int
  key_last_used_at :: "int option"

record EngagementMember =
  mem_id :: string
  mem_program_id :: string
  mem_owner_github_id :: string
  mem_member_github_id :: string
  mem_role :: string
  mem_invited_at :: int

record AuthorizationTestCase =
  tc_id :: string
  tc_program_id :: string
  tc_owner_github_id :: string
  tc_name :: string
  tc_test_case_id :: string
  tc_description :: string
  tc_spec :: pyval
  tc_created_at :: int
  tc_updated_at :: "int option"

record JobResultLink =
  jl_id :: string
  jl_job_id :: string
  jl_recon_id :: "string option"
  jl_scan_id :: "string option"
  jl_service_id :: "string option"

record AgentProposal =
  ap_id :: string
  ap_program_id :: string
  ap_owner_github_id :: string
  ap_proposed_by :: string
  ap_kind :: string
  ap_payload :: pyval
  ap_reason :: string
  ap_source :: string
  ap_status :: string
  ap_applied_resource_id :: string
  ap_created_at :: "int option"
  ap_resolved_at :: "int option"
  ap_resolved_by :: string

record ManagedResult =
  mr_contract_id :: string
  mr_job_id :: string
  mr_attempt_id :: string
  mr_fence :: int
  mr_contract_sha256 :: string
  mr_artifact_sha256 :: string
  mr_case_sha256 :: string
  mr_receipt_sha256 :: string
  mr_evidence_created :: int
  mr_scan_items_created :: int
  mr_preflight_failed :: bool
  mr_outcome :: "string option"
  mr_finished_at :: "int option"

record ManagedStop =
  mst_contract_id :: string
  mst_job_id :: string
  mst_attempt_id :: string
  mst_fence :: int
  mst_contract_sha256 :: string
  mst_outcome :: string
  mst_cause :: string
  mst_receipt_sha256 :: string
  mst_finished_at :: int

section \<open>The database\<close>

record db =
  users :: "User list"
  local_credentials :: "LocalCredential list"
  local_sessions :: "LocalSession list"
  local_bootstrap :: "LocalBootstrap list"
  organizations :: "Organization list"
  organization_members :: "OrganizationMember list"
  assets :: "Asset list"
  asset_relationships :: "AssetRelationship list"
  clients :: "Client list"
  programs :: "Engagement list"
  authorizations :: "Authorization list"
  scope_items :: "ScopeItem list"
  recon_items :: "ReconItem list"
  scan_items :: "ScanItem list"
  evidence :: "Evidence list"
  audit_logs :: "AuditLog list"
  scan_jobs :: "ScanJob list"
  job_executions :: "JobExecution list"
  managed_enrollments :: "ManagedEnrollment list"
  managed_approvals :: "ManagedApproval list"
  managed_contracts :: "ManagedContract list"
  managed_clock :: "ManagedClock list"
  job_result_receipts :: "JobResultReceipt list"
  job_events :: "JobEvent list"
  api_keys :: "ApiKey list"
  program_members :: "EngagementMember list"
  authorization_test_cases :: "AuthorizationTestCase list"
  job_result_links :: "JobResultLink list"
  agent_proposals :: "AgentProposal list"
  managed_results :: "ManagedResult list"
  managed_stops :: "ManagedStop list"
  uuids_drawn :: nat

definition empty_db :: db where
  "empty_db = \<lparr>users = [], local_credentials = [], local_sessions = [], local_bootstrap = [], organizations = [], organization_members = [], assets = [],
     asset_relationships = [], clients = [], programs = [], authorizations = [], scope_items = [],
     recon_items = [], scan_items = [], evidence = [], audit_logs = [], scan_jobs = [], job_executions = [], managed_enrollments = [],
     managed_approvals = [], managed_contracts = [], managed_clock = [], job_result_receipts = [], job_events = [], api_keys = [], program_members = [], authorization_test_cases = [], job_result_links = [],
     agent_proposals = [], managed_results = [], managed_stops = [], uuids_drawn = 0\<rparr>"

section \<open>The environment of a request\<close>

text \<open>
  What a handler reads besides the database: the UTC clock at the request, the stream of identifiers
  \<open>new_uuid\<close> draws from, and the digest function of \<open>hashlib.sha256(...).hexdigest()\<close>.  The number
  of identifiers drawn so far is part of the database record, so that no two rows share a draw.
\<close>

record env =
  now :: int
  uuid :: "nat \<Rightarrow> string"
  sha256 :: "string \<Rightarrow> string"

definition new_uuid :: "env \<Rightarrow> db \<Rightarrow> string" where
  "new_uuid env s = uuid env (uuids_drawn s)"

definition drew :: "db \<Rightarrow> db" where
  "drew s = s\<lparr>uuids_drawn := Suc (uuids_drawn s)\<rparr>"

section \<open>Tables\<close>

definition amend :: "('r \<Rightarrow> bool) \<Rightarrow> ('r \<Rightarrow> 'r) \<Rightarrow> 'r list \<Rightarrow> 'r list" where
  "amend p f rows = map (\<lambda>r. if p r then f r else r) rows"

definition by_key :: "('r \<Rightarrow> 'k) \<Rightarrow> 'k \<Rightarrow> 'r list \<Rightarrow> 'r option" where
  "by_key key k rows = find (\<lambda>r. key r = k) rows"

definition amend_key :: "('r \<Rightarrow> 'k) \<Rightarrow> 'k \<Rightarrow> ('r \<Rightarrow> 'r) \<Rightarrow> 'r list \<Rightarrow> 'r list" where
  "amend_key key k f rows = amend (\<lambda>r. key r = k) f rows"

definition drop_key :: "('r \<Rightarrow> 'k) \<Rightarrow> 'k \<Rightarrow> 'r list \<Rightarrow> 'r list" where
  "drop_key key k rows = filter (\<lambda>r. key r \<noteq> k) rows"

lemma by_key_Some: "by_key key k rows = Some r \<Longrightarrow> r \<in> set rows \<and> key r = k"
  by (auto simp: by_key_def find_Some_iff)

lemma by_key_None: "by_key key k rows = None \<longleftrightarrow> k \<notin> key ` set rows"
  by (auto simp: by_key_def find_None_iff)

lemma by_key_append:
  "by_key key k (xs @ ys) = (case by_key key k xs of None \<Rightarrow> by_key key k ys | Some r \<Rightarrow> Some r)"
  by (induction xs) (auto simp: by_key_def)

lemma by_key_amend_key:
  assumes "\<And>r. key (f r) = key r"
  shows "by_key key k (amend_key key k' f rows)
    = (if k = k' then map_option f (by_key key k rows) else by_key key k rows)"
  using assms by (induction rows) (auto simp: by_key_def amend_key_def amend_def)

lemma by_key_drop_key: "by_key key k (drop_key key k' rows) = (if k = k' then None else by_key key k rows)"
  by (induction rows) (auto simp: by_key_def drop_key_def)

lemma by_key_unique: "distinct (map key rows) \<Longrightarrow> r \<in> set rows \<Longrightarrow> by_key key (key r) rows = Some r"
  by (induction rows) (auto simp: by_key_def)

lemma map_amend: "(\<And>r. g (f r) = g r) \<Longrightarrow> map g (amend p f rows) = map g rows"
  by (induction rows) (auto simp: amend_def)

lemma map_amend_key: "(\<And>r. g (f r) = g r) \<Longrightarrow> map g (amend_key key k f rows) = map g rows"
  by (simp add: amend_key_def map_amend)

lemma set_amend: "set (amend p f rows) = (\<lambda>r. if p r then f r else r) ` set rows"
  by (simp add: amend_def)

lemma set_amend_key: "set (amend_key key k f rows) = (\<lambda>r. if key r = k then f r else r) ` set rows"
  by (simp add: amend_key_def set_amend)

lemma distinct_drop_key: "distinct (map key rows) \<Longrightarrow> distinct (map key (drop_key key' k rows))"
  unfolding drop_key_def by (rule distinct_map_filter)

text \<open>
  The contract of a keyed table: what a lookup returns after an insertion of a new key, an update
  that keeps the key and a deletion.
\<close>

locale keyed_table =
  fixes key :: "'r \<Rightarrow> 'k"
    and get :: "'k \<Rightarrow> 't \<Rightarrow> 'r option"
    and add :: "'r \<Rightarrow> 't \<Rightarrow> 't"
    and upd :: "'k \<Rightarrow> ('r \<Rightarrow> 'r) \<Rightarrow> 't \<Rightarrow> 't"
    and del :: "'k \<Rightarrow> 't \<Rightarrow> 't"
  assumes get_key: "get k t = Some r \<Longrightarrow> key r = k"
    and get_add: "get (key r) t = None \<Longrightarrow> get k (add r t) = (if k = key r then Some r else get k t)"
    and get_upd: "(\<And>r. key (f r) = key r) \<Longrightarrow>
      get k (upd k' f t) = (if k = k' then map_option f (get k t) else get k t)"
    and get_del: "get k (del k' t) = (if k = k' then None else get k t)"
begin

lemma read_own_write: "(\<And>r. key (f r) = key r) \<Longrightarrow> get k t = Some r \<Longrightarrow> get k (upd k f t) = Some (f r)"
  by (simp add: get_upd)

lemma upd_other: "(\<And>r. key (f r) = key r) \<Longrightarrow> k \<noteq> k' \<Longrightarrow> get k (upd k' f t) = get k t"
  by (simp add: get_upd)

lemma upd_keeps_presence: "(\<And>r. key (f r) = key r) \<Longrightarrow> get k (upd k' f t) = None \<longleftrightarrow> get k t = None"
  by (simp add: get_upd)

lemma add_keeps: "get (key r) t = None \<Longrightarrow> get k t = Some r' \<Longrightarrow> get k (add r t) = Some r'"
  by (auto simp: get_add)

lemma fold_upd_other:
  "(\<And>x r. x \<in> set xs \<Longrightarrow> key (f x r) = key r) \<Longrightarrow> k \<notin> g ` set xs \<Longrightarrow>
     get k (fold (\<lambda>x. upd (g x) (f x)) xs t) = get k t"
  by (induction xs arbitrary: t) (auto simp: get_upd)

end

definition get_job :: "string \<Rightarrow> db \<Rightarrow> ScanJob option" where
  "get_job k s = by_key job_id k (scan_jobs s)"

definition add_job :: "ScanJob \<Rightarrow> db \<Rightarrow> db" where
  "add_job r s = s\<lparr>scan_jobs := scan_jobs s @ [r]\<rparr>"

definition set_job :: "string \<Rightarrow> (ScanJob \<Rightarrow> ScanJob) \<Rightarrow> db \<Rightarrow> db" where
  "set_job k f s = s\<lparr>scan_jobs := amend_key job_id k f (scan_jobs s)\<rparr>"

definition del_job :: "string \<Rightarrow> db \<Rightarrow> db" where
  "del_job k s = s\<lparr>scan_jobs := drop_key job_id k (scan_jobs s)\<rparr>"

interpretation jobs: keyed_table job_id get_job add_job set_job del_job
  by unfold_locales
    (auto simp: get_job_def add_job_def set_job_def del_job_def by_key_append by_key_amend_key by_key_drop_key
      by_key_def [of _ _ "[_]"] dest: by_key_Some split: option.splits)

definition get_engagement :: "string \<Rightarrow> db \<Rightarrow> Engagement option" where
  "get_engagement k s = by_key eng_id k (programs s)"

definition add_engagement :: "Engagement \<Rightarrow> db \<Rightarrow> db" where
  "add_engagement r s = s\<lparr>programs := programs s @ [r]\<rparr>"

definition set_engagement :: "string \<Rightarrow> (Engagement \<Rightarrow> Engagement) \<Rightarrow> db \<Rightarrow> db" where
  "set_engagement k f s = s\<lparr>programs := amend_key eng_id k f (programs s)\<rparr>"

definition del_engagement :: "string \<Rightarrow> db \<Rightarrow> db" where
  "del_engagement k s = s\<lparr>programs := drop_key eng_id k (programs s)\<rparr>"

interpretation engagements: keyed_table eng_id get_engagement add_engagement set_engagement del_engagement
  by unfold_locales
    (auto simp: get_engagement_def add_engagement_def set_engagement_def del_engagement_def by_key_append by_key_amend_key by_key_drop_key
      by_key_def [of _ _ "[_]"] dest: by_key_Some split: option.splits)

definition get_execution :: "string \<Rightarrow> db \<Rightarrow> JobExecution option" where
  "get_execution k s = by_key exe_job_id k (job_executions s)"

definition add_execution :: "JobExecution \<Rightarrow> db \<Rightarrow> db" where
  "add_execution r s = s\<lparr>job_executions := job_executions s @ [r]\<rparr>"

definition set_execution :: "string \<Rightarrow> (JobExecution \<Rightarrow> JobExecution) \<Rightarrow> db \<Rightarrow> db" where
  "set_execution k f s = s\<lparr>job_executions := amend_key exe_job_id k f (job_executions s)\<rparr>"

definition del_execution :: "string \<Rightarrow> db \<Rightarrow> db" where
  "del_execution k s = s\<lparr>job_executions := drop_key exe_job_id k (job_executions s)\<rparr>"

interpretation executions: keyed_table exe_job_id get_execution add_execution set_execution del_execution
  by unfold_locales
    (auto simp: get_execution_def add_execution_def set_execution_def del_execution_def by_key_append by_key_amend_key by_key_drop_key
      by_key_def [of _ _ "[_]"] dest: by_key_Some split: option.splits)

definition get_approval :: "string \<Rightarrow> db \<Rightarrow> ManagedApproval option" where
  "get_approval k s = by_key apv_id k (managed_approvals s)"

definition add_approval :: "ManagedApproval \<Rightarrow> db \<Rightarrow> db" where
  "add_approval r s = s\<lparr>managed_approvals := managed_approvals s @ [r]\<rparr>"

definition set_approval :: "string \<Rightarrow> (ManagedApproval \<Rightarrow> ManagedApproval) \<Rightarrow> db \<Rightarrow> db" where
  "set_approval k f s = s\<lparr>managed_approvals := amend_key apv_id k f (managed_approvals s)\<rparr>"

definition del_approval :: "string \<Rightarrow> db \<Rightarrow> db" where
  "del_approval k s = s\<lparr>managed_approvals := drop_key apv_id k (managed_approvals s)\<rparr>"

interpretation approvals: keyed_table apv_id get_approval add_approval set_approval del_approval
  by unfold_locales
    (auto simp: get_approval_def add_approval_def set_approval_def del_approval_def by_key_append by_key_amend_key by_key_drop_key
      by_key_def [of _ _ "[_]"] dest: by_key_Some split: option.splits)

definition get_contract :: "string \<Rightarrow> db \<Rightarrow> ManagedContract option" where
  "get_contract k s = by_key con_id k (managed_contracts s)"

definition add_contract :: "ManagedContract \<Rightarrow> db \<Rightarrow> db" where
  "add_contract r s = s\<lparr>managed_contracts := managed_contracts s @ [r]\<rparr>"

definition set_contract :: "string \<Rightarrow> (ManagedContract \<Rightarrow> ManagedContract) \<Rightarrow> db \<Rightarrow> db" where
  "set_contract k f s = s\<lparr>managed_contracts := amend_key con_id k f (managed_contracts s)\<rparr>"

definition del_contract :: "string \<Rightarrow> db \<Rightarrow> db" where
  "del_contract k s = s\<lparr>managed_contracts := drop_key con_id k (managed_contracts s)\<rparr>"

interpretation contracts: keyed_table con_id get_contract add_contract set_contract del_contract
  by unfold_locales
    (auto simp: get_contract_def add_contract_def set_contract_def del_contract_def by_key_append by_key_amend_key by_key_drop_key
      by_key_def [of _ _ "[_]"] dest: by_key_Some split: option.splits)

definition get_enrollment :: "string \<Rightarrow> db \<Rightarrow> ManagedEnrollment option" where
  "get_enrollment k s = by_key enr_id k (managed_enrollments s)"

definition add_enrollment :: "ManagedEnrollment \<Rightarrow> db \<Rightarrow> db" where
  "add_enrollment r s = s\<lparr>managed_enrollments := managed_enrollments s @ [r]\<rparr>"

definition set_enrollment :: "string \<Rightarrow> (ManagedEnrollment \<Rightarrow> ManagedEnrollment) \<Rightarrow> db \<Rightarrow> db" where
  "set_enrollment k f s = s\<lparr>managed_enrollments := amend_key enr_id k f (managed_enrollments s)\<rparr>"

definition del_enrollment :: "string \<Rightarrow> db \<Rightarrow> db" where
  "del_enrollment k s = s\<lparr>managed_enrollments := drop_key enr_id k (managed_enrollments s)\<rparr>"

interpretation enrollments: keyed_table enr_id get_enrollment add_enrollment set_enrollment del_enrollment
  by unfold_locales
    (auto simp: get_enrollment_def add_enrollment_def set_enrollment_def del_enrollment_def by_key_append by_key_amend_key by_key_drop_key
      by_key_def [of _ _ "[_]"] dest: by_key_Some split: option.splits)

end
