(* ===== verification/Access.thy ===== *)
theory Access
  imports Models
begin

text \<open>
  Who may reach an engagement (\<open>backend/deps.py\<close>): ownership, organization membership and
  invitation, the 404 that hides other tenants, and the write, ownership and scope guards of the
  routers.
\<close>

record current_user =
  cu_github_id :: string
  cu_username :: string
  cu_email :: string
  cu_scope :: string
  cu_auth_method :: string

definition ROLE_RANK :: "(string \<times> int) list" where
  "ROLE_RANK = [(''viewer'', 0), (''member'', 1), (''admin'', 2), (''owner'', 3)]"

definition role_rank :: "string \<Rightarrow> int" where
  "role_rank r = (case map_of ROLE_RANK r of None \<Rightarrow> 0 | Some n \<Rightarrow> n)"

section \<open>Organizations\<close>

definition personal_org :: "env \<Rightarrow> string \<Rightarrow> db \<Rightarrow> Organization \<times> db" where
  "personal_org env github_id s =
     (case by_key org_personal_for_github_id github_id (organizations s) of
        Some org \<Rightarrow> (org, s)
      | None \<Rightarrow>
          let org = \<lparr>org_id = new_uuid env s, org_name = github_id @ [CHR 0x27] @ ''s workspace'',
                     org_personal_for_github_id = github_id, org_created_at = now env\<rparr>;
              s1 = drew (s\<lparr>organizations := organizations s @ [org]\<rparr>);
              m = \<lparr>om_id = new_uuid env s1, om_org_id = org_id org, om_github_id = github_id,
                   om_role = ''owner'', om_created_at = now env\<rparr>
          in (org, drew (s1\<lparr>organization_members := organization_members s1 @ [m]\<rparr>)))"

definition org_role :: "string option \<Rightarrow> string \<Rightarrow> db \<Rightarrow> string option" where
  "org_role oid github_id s =
     (case oid of None \<Rightarrow> None
      | Some i \<Rightarrow> if i = [] then None
          else map_option om_role
            (find (\<lambda>m. om_org_id m = i \<and> om_github_id m = github_id) (organization_members s)))"

definition accessible_org_ids :: "string \<Rightarrow> db \<Rightarrow> string list" where
  "accessible_org_ids github_id s =
     (let ids = map om_org_id (filter (\<lambda>m. om_github_id m = github_id) (organization_members s))
      in case by_key org_personal_for_github_id github_id (organizations s) of
           None \<Rightarrow> ids
         | Some p \<Rightarrow> if org_id p \<in> set ids then ids else ids @ [org_id p])"

section \<open>Engagements\<close>

text \<open>\<open>max(roles, key=...)\<close>: the first role of greatest rank.\<close>

fun max_role :: "string \<Rightarrow> string list \<Rightarrow> string" where
  "max_role a [] = a"
| "max_role a (b # bs) = max_role (if role_rank b > role_rank a then b else a) bs"

definition granted_roles :: "Engagement \<Rightarrow> string \<Rightarrow> db \<Rightarrow> string list" where
  "granted_roles e github_id s =
     (case org_role (eng_org_id e) github_id s of None \<Rightarrow> [] | Some r \<Rightarrow> if r = [] then [] else [r])
   @ (case find (\<lambda>m. mem_program_id m = eng_id e \<and> mem_member_github_id m = github_id) (program_members s) of
        None \<Rightarrow> [] | Some m \<Rightarrow> [if mem_role m = [] then ''member'' else mem_role m])"

definition engagement_access :: "Engagement \<Rightarrow> string \<Rightarrow> db \<Rightarrow> string option" where
  "engagement_access e github_id s =
     (if eng_owner_github_id e = github_id then Some ''owner''
      else (case granted_roles e github_id s of [] \<Rightarrow> None | r # rs \<Rightarrow> Some (max_role r rs)))"

abbreviation engagement_not_found :: exn where
  "engagement_not_found \<equiv> HTTPException 404 ''Engagement not found''"

definition get_engagement_or_404 :: "string \<Rightarrow> current_user \<Rightarrow> db \<Rightarrow> Engagement res" where
  "get_engagement_or_404 program_id user s =
     (case get_engagement program_id s of
        None \<Rightarrow> Inl engagement_not_found
      | Some e \<Rightarrow> (case engagement_access e (cu_github_id user) s of
            None \<Rightarrow> Inl engagement_not_found
          | Some _ \<Rightarrow> Inr e))"

definition accessible_engagement_ids :: "string \<Rightarrow> db \<Rightarrow> string list" where
  "accessible_engagement_ids github_id s =
     (let owned = map eng_id (filter (\<lambda>e. eng_owner_github_id e = github_id) (programs s));
          org_ids = map om_org_id (filter (\<lambda>m. om_github_id m = github_id) (organization_members s));
          via_org = map eng_id (filter (\<lambda>e. case eng_org_id e of None \<Rightarrow> False | Some i \<Rightarrow> i \<in> set org_ids) (programs s));
          invited = map mem_program_id (filter (\<lambda>m. mem_member_github_id m = github_id) (program_members s))
      in dedup [] (owned @ via_org @ invited))"

section \<open>Guards\<close>

definition require_engagement_owner :: "Engagement \<Rightarrow> current_user \<Rightarrow> unit res" where
  "require_engagement_owner e user =
     requireE (eng_owner_github_id e = cu_github_id user)
       (HTTPException 403 ''This action requires engagement ownership'')"

definition require_member_write :: "Engagement \<Rightarrow> current_user \<Rightarrow> db \<Rightarrow> unit res" where
  "require_member_write e user s =
     requireE (engagement_access e (cu_github_id user) s \<noteq> Some ''viewer'')
       (HTTPException 403 ''Viewers cannot make changes to this engagement'')"

definition require_full_scope :: "current_user \<Rightarrow> current_user res" where
  "require_full_scope user =
     (if cu_scope user = ''runner''
      then Inl (HTTPException 403 ''This endpoint requires a full-access API key (scope=full)'')
      else Inr user)"

definition log_action :: "env \<Rightarrow> string \<Rightarrow> string \<Rightarrow> string \<Rightarrow> string \<Rightarrow> string option \<Rightarrow> db \<Rightarrow> db" where
  "log_action env github_id action resource_type resource_id program_id s =
     drew (s\<lparr>audit_logs := audit_logs s @ [\<lparr>audit_id = new_uuid env s, audit_github_id = github_id,
       audit_action = action, audit_resource_type = resource_type, audit_resource_id = resource_id,
       audit_program_id = (case program_id of None \<Rightarrow> [] | Some p \<Rightarrow> p), audit_reason = [],
       audit_detail = [], audit_timestamp = now env\<rparr>]\<rparr>)"

definition resolve_owned_client_id :: "string option \<Rightarrow> current_user \<Rightarrow> db \<Rightarrow> string option res" where
  "resolve_owned_client_id client_id user s =
     (case client_id of None \<Rightarrow> Inr None
      | Some i \<Rightarrow> if i = [] then Inr None
          else let g = cu_github_id user; org_ids = accessible_org_ids g s
               in case find (\<lambda>c. cl_id c = i \<and> (cl_owner_github_id c = g
                      \<or> (case cl_org_id c of None \<Rightarrow> False | Some k \<Rightarrow> k \<in> set org_ids))) (clients s) of
                    None \<Rightarrow> Inl (HTTPException 404 ''Client not found'')
                  | Some c \<Rightarrow> Inr (Some (cl_id c)))"

section \<open>Facts\<close>

text \<open>
  What the schema's constraints and the routers guarantee of the tenancy tables: engagement ids are
  primary keys, organization ids and roles are not empty.
\<close>

definition tenancy_wf :: "db \<Rightarrow> bool" where
  "tenancy_wf s = (distinct (map eng_id (programs s)) \<and>
     list_all (\<lambda>m. om_org_id m \<noteq> [] \<and> om_role m \<noteq> []) (organization_members s))"

lemma org_role_Some_iff:
  assumes "list_all (\<lambda>m. om_org_id m \<noteq> [] \<and> om_role m \<noteq> []) (organization_members s)"
  shows "(\<exists>r. org_role oid g s = Some r \<and> r \<noteq> []) \<longleftrightarrow>
    (\<exists>m \<in> set (organization_members s). om_github_id m = g \<and> oid = Some (om_org_id m))"
proof (cases oid)
  case (Some i)
  let ?p = "\<lambda>m. om_org_id m = i \<and> om_github_id m = g"
  have ids: "om_org_id m \<noteq> []" "om_role m \<noteq> []" if "m \<in> set (organization_members s)" for m
    using that assms by (auto simp: list_all_iff)
  show ?thesis
  proof (cases "find ?p (organization_members s)")
    case None
    with Some show ?thesis by (auto simp: org_role_def dest: find_NoneD)
  next
    case (Some m)
    from find_SomeD [OF Some] ids Some \<open>oid = Some i\<close> show ?thesis by (auto simp: org_role_def)
  qed
qed (simp add: org_role_def)

lemma granted_roles_Nil_iff:
  assumes "list_all (\<lambda>m. om_org_id m \<noteq> [] \<and> om_role m \<noteq> []) (organization_members s)"
  shows "granted_roles e g s \<noteq> [] \<longleftrightarrow>
    (\<exists>m \<in> set (organization_members s). om_github_id m = g \<and> eng_org_id e = Some (om_org_id m))
    \<or> (\<exists>m \<in> set (program_members s). mem_program_id m = eng_id e \<and> mem_member_github_id m = g)"
proof -
  have "granted_roles e g s \<noteq> [] \<longleftrightarrow> (\<exists>r. org_role (eng_org_id e) g s = Some r \<and> r \<noteq> [])
    \<or> (\<exists>m. find (\<lambda>m. mem_program_id m = eng_id e \<and> mem_member_github_id m = g) (program_members s) = Some m)"
    by (auto simp: granted_roles_def split: option.splits)
  then show ?thesis unfolding org_role_Some_iff [OF assms] find_ex_iff .
qed

lemma max_role_in: "max_role a bs \<in> insert a (set bs)"
  by (induction a bs rule: max_role.induct) auto

lemma max_role_max: "role_rank a \<le> role_rank (max_role a bs) \<and> (\<forall>b \<in> set bs. role_rank b \<le> role_rank (max_role a bs))"
  by (induction a bs rule: max_role.induct) (auto split: if_splits)

lemma accessible_engagement_ids_mem:
  "i \<in> set (accessible_engagement_ids g s) \<longleftrightarrow>
    (\<exists>e \<in> set (programs s). eng_id e = i \<and> (eng_owner_github_id e = g
       \<or> (\<exists>m \<in> set (organization_members s). om_github_id m = g \<and> eng_org_id e = Some (om_org_id m))))
    \<or> (\<exists>m \<in> set (program_members s). mem_program_id m = i \<and> mem_member_github_id m = g)"
  unfolding accessible_engagement_ids_def Let_def set_dedup_Nil by (auto split: option.splits) (metis option.inject)

lemma engagement_access_iff:
  assumes "list_all (\<lambda>m. om_org_id m \<noteq> [] \<and> om_role m \<noteq> []) (organization_members s)"
  shows "engagement_access e g s \<noteq> None \<longleftrightarrow> eng_owner_github_id e = g
       \<or> (\<exists>m \<in> set (organization_members s). om_github_id m = g \<and> eng_org_id e = Some (om_org_id m))
       \<or> (\<exists>m \<in> set (program_members s). mem_program_id m = eng_id e \<and> mem_member_github_id m = g)"
  using granted_roles_Nil_iff [OF assms, of e g]
  by (cases "granted_roles e g s") (auto simp: engagement_access_def)

text \<open>
  C27: The two answers to ``may this caller reach this engagement'' agree: an engagement's id is in the
  list the job endpoints filter on exactly when the per-engagement check grants some role.
\<close>

theorem accessible_ids_agree_with_access:
  assumes "tenancy_wf s" and "e \<in> set (programs s)"
  shows "eng_id e \<in> set (accessible_engagement_ids g s) \<longleftrightarrow> engagement_access e g s \<noteq> None"
proof -
  have "e' = e" if "e' \<in> set (programs s)" "eng_id e' = eng_id e" for e'
    using assms that by (auto simp: tenancy_wf_def distinct_map inj_on_def)
  moreover have "list_all (\<lambda>m. om_org_id m \<noteq> [] \<and> om_role m \<noteq> []) (organization_members s)"
    using assms(1) by (simp add: tenancy_wf_def)
  ultimately show ?thesis
    using assms(2) unfolding accessible_engagement_ids_mem engagement_access_iff [OF \<open>list_all _ _\<close>] by blast
qed

definition example_engagement :: Engagement where
  "example_engagement = \<lparr>eng_concurrency_limit = None, eng_target_limit = None, eng_targets_spent = 0,
     eng_duration_limit = None, eng_duration_allocated = 0, eng_id = ''e1'', eng_owner_github_id = ''alice'',
     eng_name = ''Acme'', eng_platform = [], eng_program_url = [], eng_scope_summary = [],
     eng_severity_guidance = [], eng_safe_harbor_notes = [], eng_client_id = None, eng_org_id = Some ''o1'',
     eng_engagement_type = ''bug_bounty'', eng_engagement_status = ''active'', eng_starts_at = None,
     eng_ends_at = None, eng_stop_work_at = None, eng_stop_work_reason = [], eng_max_request_rate = None,
     eng_managed_authority_revision = 0, eng_created_at = 0\<rparr>"

definition example_tenancy :: db where
  "example_tenancy = empty_db\<lparr>programs := [example_engagement],
     organization_members := [\<lparr>om_id = ''m1'', om_org_id = ''o1'', om_github_id = ''bob'',
        om_role = ''viewer'', om_created_at = 0\<rparr>],
     program_members := [\<lparr>mem_id = ''m2'', mem_program_id = ''e1'', mem_owner_github_id = ''alice'',
        mem_member_github_id = ''bob'', mem_role = ''member'', mem_invited_at = 0\<rparr>]\<rparr>"

theorem accessible_ids_agree_with_access_witness:
  "engagement_access example_engagement ''bob'' example_tenancy = Some ''member'' \<and>
   eng_id example_engagement \<in> set (accessible_engagement_ids ''bob'' example_tenancy) \<and>
   eng_id example_engagement \<notin> set (accessible_engagement_ids ''eve'' example_tenancy)"
proof -
  have wf: "tenancy_wf example_tenancy" by code_simp
  have mem: "example_engagement \<in> set (programs example_tenancy)" by (simp add: example_tenancy_def)
  have "engagement_access example_engagement ''bob'' example_tenancy = Some ''member''" by code_simp
  moreover have "engagement_access example_engagement ''eve'' example_tenancy = None" by code_simp
  ultimately show ?thesis
    using accessible_ids_agree_with_access [OF wf mem, of "''bob''"]
      accessible_ids_agree_with_access [OF wf mem, of "''eve''"] by simp
qed

text \<open>
  The effective role is the owner's for the direct owner, otherwise one of the granted roles, and no
  grant outranks it: adding a grant never lowers what a caller may do.
\<close>

theorem highest_grant_wins:
  assumes "engagement_access e g s = Some r"
  shows "(eng_owner_github_id e = g \<longrightarrow> r = ''owner'') \<and>
    (eng_owner_github_id e \<noteq> g \<longrightarrow> r \<in> set (granted_roles e g s) \<and>
       (\<forall>r' \<in> set (granted_roles e g s). role_rank r' \<le> role_rank r))"
proof (cases "granted_roles e g s")
  case (Cons a bs)
  with assms max_role_in [of a bs] max_role_max [of a bs] show ?thesis
    by (auto simp: engagement_access_def split: if_splits)
qed (use assms in \<open>auto simp: engagement_access_def split: if_splits\<close>)

theorem highest_grant_wins_witness:
  "engagement_access example_engagement ''bob'' example_tenancy = Some ''member'' \<and>
   granted_roles example_engagement ''bob'' example_tenancy = [''viewer'', ''member''] \<and>
   role_rank ''viewer'' \<le> role_rank ''member''"
proof -
  have a: "engagement_access example_engagement ''bob'' example_tenancy = Some ''member''" by code_simp
  have g: "granted_roles example_engagement ''bob'' example_tenancy = [''viewer'', ''member'']" by code_simp
  from highest_grant_wins [OF a] a g show ?thesis by (simp add: example_engagement_def)
qed

lemma filter_drop_key:
  "(\<And>x. x \<in> set rows \<Longrightarrow> p x \<Longrightarrow> key x \<noteq> k) \<Longrightarrow> filter p (drop_key key k rows) = filter p rows"
  unfolding drop_key_def filter_filter by (rule filter_cong) auto

text \<open>
  An engagement the caller has no access to might as well not exist: the 404 guard answers for it
  exactly as it would if the engagement were deleted, and the list of reachable engagements is the
  same list.
\<close>

theorem hidden_engagement_is_absent:
  assumes "tenancy_wf s" and "get_engagement program_id s = Some e"
    and "engagement_access e (cu_github_id user) s = None"
  shows "get_engagement_or_404 program_id user s = get_engagement_or_404 program_id user (del_engagement program_id s)
    \<and> accessible_engagement_ids (cu_github_id user) (del_engagement program_id s)
      = accessible_engagement_ids (cu_github_id user) s"
proof
  show "get_engagement_or_404 program_id user s = get_engagement_or_404 program_id user (del_engagement program_id s)"
    using assms(2,3) by (simp add: get_engagement_or_404_def engagements.get_del)
  have e: "e \<in> set (programs s)" "eng_id e = program_id"
    using assms(2) by (auto simp: get_engagement_def dest: by_key_Some)
  then have only: "x = e" if "x \<in> set (programs s)" "eng_id x = program_id" for x
    using assms(1) that by (auto simp: tenancy_wf_def distinct_map inj_on_def)
  have "list_all (\<lambda>m. om_org_id m \<noteq> [] \<and> om_role m \<noteq> []) (organization_members s)"
    using assms(1) by (simp add: tenancy_wf_def)
  note none = engagement_access_iff [OF this, of e "cu_github_id user", THEN iffD2]
  have "filter (\<lambda>x. eng_owner_github_id x = cu_github_id user) (drop_key eng_id program_id (programs s))
     = filter (\<lambda>x. eng_owner_github_id x = cu_github_id user) (programs s)"
    using assms(3) none only by (intro filter_drop_key) blast
  moreover have "filter (\<lambda>x. case eng_org_id x of None \<Rightarrow> False | Some i \<Rightarrow> i \<in> set (map om_org_id
        (filter (\<lambda>m. om_github_id m = cu_github_id user) (organization_members s)))) (drop_key eng_id program_id (programs s))
     = filter (\<lambda>x. case eng_org_id x of None \<Rightarrow> False | Some i \<Rightarrow> i \<in> set (map om_org_id
        (filter (\<lambda>m. om_github_id m = cu_github_id user) (organization_members s)))) (programs s)"
    using assms(3) none only by (intro filter_drop_key) (fastforce split: option.splits)
  ultimately show "accessible_engagement_ids (cu_github_id user) (del_engagement program_id s)
      = accessible_engagement_ids (cu_github_id user) s"
    by (simp add: accessible_engagement_ids_def del_engagement_def Let_def)
qed

definition example_user :: "string \<Rightarrow> current_user" where
  "example_user g = \<lparr>cu_github_id = g, cu_username = g, cu_email = [], cu_scope = ''full'', cu_auth_method = []\<rparr>"

theorem hidden_engagement_is_absent_witness:
  "get_engagement_or_404 ''e1'' (example_user ''eve'') example_tenancy
     = get_engagement_or_404 ''e1'' (example_user ''eve'') (del_engagement ''e1'' example_tenancy) \<and>
   get_engagement_or_404 ''e1'' (example_user ''bob'') example_tenancy = Inr example_engagement"
proof -
  have wf: "tenancy_wf example_tenancy" by code_simp
  have g: "get_engagement ''e1'' example_tenancy = Some example_engagement" by code_simp
  have n: "engagement_access example_engagement (cu_github_id (example_user ''eve'')) example_tenancy = None"
    by code_simp
  have "get_engagement_or_404 ''e1'' (example_user ''bob'') example_tenancy = Inr example_engagement" by code_simp
  with hidden_engagement_is_absent [OF wf g n] show ?thesis by simp
qed

end
