(* ===== verification/Enforcement.thy ===== *)
theory Enforcement
  imports Policy Access
begin

text \<open>
  The database side of the policy evaluator (\<open>backend/enforcement.py\<close>): scope rules and the governing
  authorization are read from the tables, the decision is advisory, and only stop-work refuses.
\<close>

definition scope_rules :: "string \<Rightarrow> db \<Rightarrow> ScopeRule list" where
  "scope_rules program_id s =
     map (\<lambda>i. \<lparr>sr_value = sc_value i, sr_kind = (if sc_kind i = [] then ''domain'' else sc_kind i),
               sr_excluded = (sc_scope_type i = ''out'')\<rparr>)
       (filter (\<lambda>i. sc_program_id i = program_id \<and> sc_value i \<noteq> []) (scope_items s))"

text \<open>A naive column value as the \<open>datetime\<close> the evaluator compares.\<close>

definition naive :: "int \<Rightarrow> datetime" where
  "naive t = \<lparr>dt_us = t, dt_off = None\<rparr>"

definition authorization :: "string \<Rightarrow> db \<Rightarrow> AuthorizationSnapshot option" where
  "authorization program_id s =
     (case sort_key (\<lambda>a. - az_created_at a) (filter (\<lambda>a. az_program_id a = program_id) (authorizations s)) of
        [] \<Rightarrow> None
      | row # _ \<Rightarrow> Some \<lparr>as_status = az_status row, as_window_start = map_option naive (az_window_start row),
          as_window_end = map_option naive (az_window_end row), as_permitted_capabilities = []\<rparr>)"

definition build_input :: "Engagement \<Rightarrow> string \<Rightarrow> db \<Rightarrow> int \<Rightarrow> PolicyInput" where
  "build_input e capability s t =
     \<lparr>pi_engagement_status = eng_engagement_status e, pi_engagement_type = eng_engagement_type e,
      pi_target = [], pi_capability = capability, pi_now = utc t,
      pi_stop_work = (eng_stop_work_at e \<noteq> None), pi_authorization = authorization (eng_id e) s,
      pi_scope_rules = scope_rules (eng_id e) s\<rparr>"

text \<open>The \<open>warnings\<close> array of a response: pairs of reason and message.\<close>

definition as_warnings :: "PolicyDecision option \<Rightarrow> (string \<times> string) list" where
  "as_warnings d = (case d of None \<Rightarrow> []
     | Some d \<Rightarrow> if pd_allowed d then [] else [(pd_reason d, pd_detail d)])"

definition stop_work_refusal :: "PolicyDecision \<Rightarrow> exn" where
  "stop_work_refusal d = HTTPExceptionObject 403
     [(''error'', ''stop_work_active''), (''reason'', pd_reason d), (''message'', pd_detail d)]"

definition check :: "db \<Rightarrow> Engagement \<Rightarrow> string \<Rightarrow> string list \<Rightarrow> int \<Rightarrow> PolicyDecision option res" where
  "check s e capability targets t =
     bindE (evaluate_all (build_input e capability s t) targets) (\<lambda>d.
       if pd_allowed d then Inr None
       else if pd_reason d = STOP_WORK_ACTIVE then Inl (stop_work_refusal d)
       else Inr (Some d))"

section \<open>Facts\<close>

lemmas reason_codes = STOP_WORK_ACTIVE_def ENGAGEMENT_NOT_ACTIVE_def AUTHORIZATION_MISSING_def
  AUTHORIZATION_NOT_ACTIVE_def OUTSIDE_TESTING_WINDOW_def CAPABILITY_PROHIBITED_def TARGET_EXCLUDED_def
  TARGET_OUT_OF_SCOPE_def SCOPE_AMBIGUOUS_def ALLOWED_def

lemma evaluate_engagement_stop_work_iff:
  "pd_reason (evaluate_engagement c) = STOP_WORK_ACTIVE \<longleftrightarrow> pi_stop_work c"
  by (auto simp: evaluate_engagement_def Let_def reason_codes split: option.splits)

lemma evaluate_engagement_stop_work_denies: "pi_stop_work c \<Longrightarrow> \<not> pd_allowed (evaluate_engagement c)"
  by (simp add: evaluate_engagement_def)

lemma evaluate_reason:
  "evaluate c = Inr d \<Longrightarrow> d = evaluate_engagement c \<or> pd_reason d \<in> {SCOPE_AMBIGUOUS, TARGET_EXCLUDED, TARGET_OUT_OF_SCOPE, ALLOWED}"
  by (auto simp: evaluate_def Let_def bindE_eq_Inr split: if_splits prod.splits option.splits)

lemma evaluate_targets_reason:
  "evaluate_targets c ts = Inr d \<Longrightarrow>
     d = evaluate_engagement c \<or> pd_reason d \<in> {SCOPE_AMBIGUOUS, TARGET_EXCLUDED, TARGET_OUT_OF_SCOPE, ALLOWED}"
proof (induction c ts rule: evaluate_targets.induct)
  case (2 c t ts)
  then show ?case
    using evaluate_reason [of "c\<lparr>pi_target := t\<rparr>"] by (auto simp: bindE_eq_Inr split: if_splits)
qed auto

lemma evaluate_all_stop_work:
  assumes "evaluate_all c ts = Inr d"
  shows "pd_reason d = STOP_WORK_ACTIVE \<longleftrightarrow> pi_stop_work c"
proof (cases "pd_allowed (evaluate_engagement c)")
  case True
  with assms have "evaluate_targets c ts = Inr d" by (simp add: evaluate_all_def)
  moreover from True have "\<not> pi_stop_work c" using evaluate_engagement_stop_work_denies by blast
  ultimately show ?thesis
    using evaluate_targets_reason evaluate_engagement_stop_work_iff [of c] by (fastforce simp: reason_codes)
next
  case False
  with assms show ?thesis
    using evaluate_engagement_stop_work_iff [of c] by (auto simp: evaluate_all_def)
qed

text \<open>
  C28: Where the evaluator returns a decision, the check refuses with a 403 exactly when stop-work is
  engaged; every other negative decision comes back as a warning, with the reason the evaluator gave.
\<close>

theorem only_stop_work_refuses:
  assumes "evaluate_all (build_input e capability s t) targets = Inr d"
  shows "check s e capability targets t =
    (if eng_stop_work_at e \<noteq> None then Inl (stop_work_refusal d)
     else if pd_allowed d then Inr None else Inr (Some d))"
proof -
  have "pd_reason d = STOP_WORK_ACTIVE \<longleftrightarrow> eng_stop_work_at e \<noteq> None"
    using evaluate_all_stop_work [OF assms] by (simp add: build_input_def)
  moreover have "\<not> pd_allowed d" if "eng_stop_work_at e \<noteq> None"
    using that assms evaluate_engagement_stop_work_denies [of "build_input e capability s t"]
    by (auto simp: evaluate_all_def build_input_def)
  ultimately show ?thesis using assms by (auto simp: check_def)
qed

text \<open>With stop-work engaged no rule is evaluated, so the refusal never depends on the targets.\<close>

lemma check_stop_work:
  assumes "eng_stop_work_at e \<noteq> None"
  shows "check s e capability targets t = Inl (HTTPExceptionObject 403
    [(''error'', ''stop_work_active''), (''reason'', ''stop_work_active''),
     (''message'', ''Stop-work is engaged for this engagement.'')])"
  using assms
  by (simp add: check_def evaluate_all_def evaluate_engagement_def build_input_def stop_work_refusal_def STOP_WORK_ACTIVE_def)

lemma check_ok_not_stopped: "check s e capability targets t = Inr d \<Longrightarrow> eng_stop_work_at e = None"
  using check_stop_work by fastforce

theorem only_stop_work_refuses_witness:
  "check (example_tenancy\<lparr>scope_items := [\<lparr>sc_id = ''s1'', sc_program_id = ''e1'', sc_scope_type = ''in'',
      sc_value = ''*.acme.com'', sc_kind = [], sc_notes = [], sc_max_severity = [], sc_created_at = None\<rparr>]\<rparr>)
     example_engagement ''httpx'' [''api.acme.com'', ''evil.example''] 0
   = Inr (Some (deny TARGET_OUT_OF_SCOPE ''No in-scope rule matches this target.''))"
proof -
  have d: "evaluate_all (build_input example_engagement ''httpx''
      (example_tenancy\<lparr>scope_items := [\<lparr>sc_id = ''s1'', sc_program_id = ''e1'', sc_scope_type = ''in'',
      sc_value = ''*.acme.com'', sc_kind = [], sc_notes = [], sc_max_severity = [], sc_created_at = None\<rparr>]\<rparr>) 0)
      [''api.acme.com'', ''evil.example'']
    = Inr (deny TARGET_OUT_OF_SCOPE ''No in-scope rule matches this target.'')" by code_simp
  have "eng_stop_work_at example_engagement = None" by (simp add: example_engagement_def)
  with only_stop_work_refuses [OF d] show ?thesis by simp
qed

lemma evaluate_engagement_capability:
  "pi_authorization c = map_option (\<lambda>a. a\<lparr>as_permitted_capabilities := []\<rparr>) auth \<Longrightarrow>
     pd_reason (evaluate_engagement c) \<noteq> CAPABILITY_PROHIBITED"
  by (cases auth) (auto simp: evaluate_engagement_def Let_def reason_codes split: option.splits)

lemma authorization_permits_all:
  "authorization program_id s = map_option (\<lambda>a. a\<lparr>as_permitted_capabilities := []\<rparr>) (authorization program_id s)"
  by (simp add: authorization_def split: list.splits)

text \<open>
  The documented warning \<open>capability_prohibited\<close> is never reported: the snapshot built from an
  authorization row carries no permitted capabilities, so the evaluator's capability gate is always open.
\<close>

theorem capability_prohibited_never_reported:
  assumes "check s e capability targets t = Inr d"
  shows "CAPABILITY_PROHIBITED \<notin> fst ` set (as_warnings d)"
proof (cases d)
  case (Some d')
  with assms obtain "evaluate_all (build_input e capability s t) targets = Inr d'"
    by (auto simp: check_def bindE_eq_Inr split: if_splits)
  then have "d' = evaluate_engagement (build_input e capability s t)
      \<or> pd_reason d' \<in> {SCOPE_AMBIGUOUS, TARGET_EXCLUDED, TARGET_OUT_OF_SCOPE, ALLOWED}"
    using evaluate_targets_reason by (auto simp: evaluate_all_def Let_def split: if_splits)
  moreover have "pd_reason (evaluate_engagement (build_input e capability s t)) \<noteq> CAPABILITY_PROHIBITED"
    by (rule evaluate_engagement_capability [where auth = "authorization (eng_id e) s"])
      (simp add: build_input_def authorization_permits_all [symmetric])
  ultimately show ?thesis using Some by (auto simp: as_warnings_def reason_codes)
qed (simp add: as_warnings_def)

theorem capability_prohibited_never_reported_witness:
  "check example_tenancy example_engagement ''httpx'' [''evil.example''] 0
     = Inr (Some (deny TARGET_OUT_OF_SCOPE ''No in-scope rule matches this target.'')) \<and>
   CAPABILITY_PROHIBITED \<notin> fst ` set (as_warnings (Some (deny TARGET_OUT_OF_SCOPE ''No in-scope rule matches this target.'')))"
proof -
  have c: "check example_tenancy example_engagement ''httpx'' [''evil.example''] 0
     = Inr (Some (deny TARGET_OUT_OF_SCOPE ''No in-scope rule matches this target.''))" by code_simp
  from capability_prohibited_never_reported [OF c] c show ?thesis by simp
qed

end
