(* ===== verification/Urls.thy ===== *)
theory Urls
  imports Ipaddr
begin

text \<open>
  \<open>urllib.parse.urlsplit\<close> (Python 3.12) and the attributes of its result the sources read, and the
  compressed text of an IPv6 address (\<open>str(ipaddress.IPv6Address(..))\<close>).  \<open>Inl ValueError\<close> is the
  exception the library raises.
\<close>

record urlparts =
  us_scheme :: string
  us_netloc :: string
  us_path :: string
  us_query :: string
  us_fragment :: string

definition is_alpha :: "char \<Rightarrow> bool" where
  "is_alpha c = (let n = code c in (65 \<le> n \<and> n \<le> 90) \<or> (97 \<le> n \<and> n \<le> 122))"

definition scheme_char :: "char \<Rightarrow> bool" where
  "scheme_char c = (is_alpha c \<or> is_decimal_char c \<or> c \<in> set ''+-.'')"

text \<open>Leading control characters and spaces go, then tabs and line ends anywhere.\<close>

definition clean_url :: "string \<Rightarrow> string" where
  "clean_url u = filter (\<lambda>c. code c \<notin> {9, 10, 13}) (dropWhile (\<lambda>c. code c \<le> 32) u)"

definition cut_scheme :: "string \<Rightarrow> string \<times> string" where
  "cut_scheme u = (case split_once '':'' u of
       Some (a, rest) \<Rightarrow> if a \<noteq> [] \<and> is_alpha (hd a) \<and> list_all scheme_char a then (lower a, rest) else ([], u)
     | None \<Rightarrow> ([], u))"

definition bracketed_host_ok :: "string \<Rightarrow> bool" where
  "bracketed_host_ok h =
     (if startswith h ''v'' then
        (case split_once ''.'' (tl h) of
           None \<Rightarrow> False
         | Some (a, b) \<Rightarrow> a \<noteq> [] \<and> list_all (\<lambda>c. hex_val c \<noteq> None) a \<and> b \<noteq> [] \<and> list_all (\<lambda>c. code c \<noteq> 10) b)
      else (case ip_address h of Some (V6, _) \<Rightarrow> True | _ \<Rightarrow> False))"

text \<open>\<open>s.rpartition(c)[2]\<close> and \<open>s.rpartition(c)[0]\<close>.\<close>

definition after_last :: "char \<Rightarrow> string \<Rightarrow> string" where
  "after_last c s = rev (takeWhile (\<lambda>x. x \<noteq> c) (rev s))"

definition upto_last :: "char \<Rightarrow> string \<Rightarrow> string" where
  "upto_last c s = (if c \<in> set s then rev (tl (dropWhile (\<lambda>x. x \<noteq> c) (rev s))) else [])"

definition bracketed_netloc_ok :: "string \<Rightarrow> bool" where
  "bracketed_netloc_ok netloc =
     (let hp = after_last (CHR ''@'') netloc
      in case split_once ''['' hp of
           Some (pre, rest) \<Rightarrow>
             (let h = before '']'' rest;
                  port = (case split_once '']'' rest of None \<Rightarrow> [] | Some (_, p) \<Rightarrow> p)
              in pre = [] \<and> (port = [] \<or> hd port = CHR '':'') \<and> bracketed_host_ok h)
         | None \<Rightarrow> bracketed_host_ok (before '':'' hp))"

definition urlsplit :: "string \<Rightarrow> urlparts res" where
  "urlsplit raw =
     (let (scheme, rest) = cut_scheme (clean_url raw);
          has = startswith rest ''//'';
          netloc = (if has then takeWhile (\<lambda>c. c \<notin> set ''/?#'') (drop 2 rest) else []);
          tail = (if has then drop (2 + length netloc) rest else rest);
          lb = CHR ''['' \<in> set netloc;
          rb = CHR '']'' \<in> set netloc
      in if lb \<noteq> rb \<or> (lb \<and> rb \<and> \<not> bracketed_netloc_ok netloc) then Inl ValueError
         else
           let frag = (case split_once ''#'' tail of None \<Rightarrow> [] | Some (_, f) \<Rightarrow> f);
               pq = before ''#'' tail;
               query = (case split_once ''?'' pq of None \<Rightarrow> [] | Some (_, q) \<Rightarrow> q)
           in Inr \<lparr>us_scheme = scheme, us_netloc = netloc, us_path = before ''?'' pq,
                   us_query = query, us_fragment = frag\<rparr>)"

definition hostinfo :: "urlparts \<Rightarrow> string \<times> string option" where
  "hostinfo p =
     (let hi = after_last (CHR ''@'') (us_netloc p);
          (h, port) = (case split_once ''['' hi of
             Some (_, rest) \<Rightarrow>
               (before '']'' rest,
                (case split_once '']'' rest of None \<Rightarrow> []
                 | Some (_, q) \<Rightarrow> (case split_once '':'' q of None \<Rightarrow> [] | Some (_, n) \<Rightarrow> n)))
           | None \<Rightarrow> (before '':'' hi, (case split_once '':'' hi of None \<Rightarrow> [] | Some (_, n) \<Rightarrow> n)))
      in (h, if port = [] then None else Some port))"

definition url_hostname :: "urlparts \<Rightarrow> string option" where
  "url_hostname p =
     (let h = fst (hostinfo p)
      in if h = [] then None
         else Some (case split_once ''%'' h of None \<Rightarrow> lower h | Some (a, zone) \<Rightarrow> lower a @ ''%'' @ zone))"

definition url_port :: "urlparts \<Rightarrow> int option res" where
  "url_port p = (case snd (hostinfo p) of
       None \<Rightarrow> Inr None
     | Some s \<Rightarrow>
         if isdigit s \<and> isascii s then
           bindE (int_of_str s) (\<lambda>n. if 0 \<le> n \<and> n \<le> 65535 then Inr (Some n) else Inl ValueError)
         else Inl ValueError)"

definition url_username :: "urlparts \<Rightarrow> string option" where
  "url_username p = (if CHR ''@'' \<in> set (us_netloc p)
     then Some (before '':'' (upto_last (CHR ''@'') (us_netloc p))) else None)"

definition url_password :: "urlparts \<Rightarrow> string option" where
  "url_password p = (if CHR ''@'' \<in> set (us_netloc p)
     then map_option snd (split_once '':'' (upto_last (CHR ''@'') (us_netloc p))) else None)"

section \<open>Text of an IPv6 address\<close>

fun hextets_of :: "nat \<Rightarrow> int \<Rightarrow> string list" where
  "hextets_of 0 v = []"
| "hextets_of (Suc n) v = hextets_of n (v div 65536) @ [hex4 (v mod 65536)]"

definition zero_run :: "string list \<Rightarrow> nat \<Rightarrow> nat" where
  "zero_run hs i = length (takeWhile (\<lambda>h. h = ''0'') (drop i hs))"

text \<open>Start and length of the first longest run of zero groups.\<close>

definition best_run :: "string list \<Rightarrow> nat \<times> nat" where
  "best_run hs = fold (\<lambda>i (b, n). if zero_run hs i > n then (i, zero_run hs i) else (b, n)) [0..<length hs] (0, 0)"

definition compress_hextets :: "string list \<Rightarrow> string list" where
  "compress_hextets hs = (case best_run hs of (i, n) \<Rightarrow>
     if n > 1 then
       (if i = 0 then [[]] else []) @ take i hs @ [[]] @ drop (i + n) hs @ (if i + n = length hs then [[]] else [])
     else hs)"

definition ipv6_str :: "int \<Rightarrow> string" where
  "ipv6_str v = join_with '':'' (compress_hextets (hextets_of 8 v))"

end
