(* ===== verification/Json.thy ===== *)
theory Json
  imports Pyval
begin

text \<open>
  \<open>json.dumps(v, sort_keys=True, separators=(",", ":"))\<close>: the canonical text the sources hash.  Keys
  are sorted, nothing is indented and characters outside ASCII are escaped, as \<open>ensure_ascii\<close> does.
\<close>

definition json_char :: "char \<Rightarrow> string" where
  "json_char c = (let n = code c in
     if n = 34 then [CHR 0x5C, CHR 0x22]
     else if n = 92 then [CHR 0x5C, CHR 0x5C]
     else if n = 10 then [CHR 0x5C, CHR ''n'']
     else if n = 13 then [CHR 0x5C, CHR ''r'']
     else if n = 9 then [CHR 0x5C, CHR ''t'']
     else if n = 12 then [CHR 0x5C, CHR ''f'']
     else if n = 8 then [CHR 0x5C, CHR ''b'']
     else if n < 32 \<or> 126 < n then [CHR 0x5C, CHR ''u'', CHR ''0'', CHR ''0'', hex_lower (n div 16), hex_lower (n mod 16)]
     else [c])"

definition json_str :: "string \<Rightarrow> string" where
  "json_str s = [CHR 0x22] @ concat (map json_char s) @ [CHR 0x22]"

fun json_float :: "pyfloat \<Rightarrow> string" where
  "json_float (Finite r _) = r"
| "json_float (Infinite neg) = (if neg then ''-Infinity'' else ''Infinity'')"
| "json_float NotANumber = ''NaN''"

fun dumps :: "pyval \<Rightarrow> string" where
  "dumps VNone = ''null''"
| "dumps (VBool b) = (if b then ''true'' else ''false'')"
| "dumps (VInt i) = str_of_int i"
| "dumps (VFloat f) = json_float f"
| "dumps (VStr s) = json_str s"
| "dumps (VList xs) = ''['' @ join_with '','' (map dumps xs) @ '']''"
| "dumps (VDict d) =
     ''{'' @ join_with '','' (map (\<lambda>(k, t). json_str k @ '':'' @ t)
       (sort_key fst (map (\<lambda>(k, v). (k, dumps v)) d))) @ ''}''"

end
