(* ===== verification/Local_Auth.thy ===== *)
theory Local_Auth
  imports Access Job_Config
begin

text \<open>
  Who the caller is (\<open>backend/local_auth.py\<close>, \<open>routers/local_auth.py\<close>, \<open>auth_methods.py\<close> and the
  authentication half of \<open>deps.py\<close>): local passwords with lockout, revocable cookie sessions with CSRF
  tokens, API keys and browser JWTs.

  Argon2, HMAC and the JWT library are parameters (the fields of \<open>auth_env\<close>), as are the random tokens
  a handler draws.
\<close>

record auth_env =
  ac_methods :: string
  ac_jwt_secret :: string
  ac_allowed_origins :: string
  pw_hash :: "string \<Rightarrow> string"
  pw_verify :: "string \<Rightarrow> string \<Rightarrow> bool"
  pw_needs_rehash :: "string \<Rightarrow> bool"
  dummy_hash :: string
  hmac_hex :: "string \<Rightarrow> string \<Rightarrow> string"
  jwt_decode :: "string \<Rightarrow> pydict option"

record request =
  rq_method :: string
  rq_scheme :: string
  rq_origin :: "string option"
  rq_cookie :: "string option"
  rq_csrf :: "string option"
  rq_authorization :: "string option"

abbreviation minutes :: "int \<Rightarrow> int" where "minutes n \<equiv> seconds (60 * n)"

definition SESSION_LIFETIME :: int where "SESSION_LIFETIME = minutes 480"
definition IDLE_LIFETIME :: int where "IDLE_LIFETIME = minutes 30"
definition FAILURE_WINDOW :: int where "FAILURE_WINDOW = minutes 15"

abbreviation unauthorized :: exn where "unauthorized \<equiv> HTTPException 401 ''Unauthorized''"
abbreviation sign_in_failed :: exn where "sign_in_failed \<equiv> HTTPException 401 ''Sign-in failed''"

section \<open>Configuration\<close>

definition auth_methods :: "auth_env \<Rightarrow> string list res" where
  "auth_methods ac =
     (let values = dedup [] (map strip (split_char (CHR '','') (ac_methods ac)))
      in if values = [] \<or> list_ex (\<lambda>v. v \<notin> {''github'', ''local''}) values
         then Inl (RuntimeError ''VARDRMAP_AUTH_METHODS must contain github, local, or both'')
         else Inr values)"

definition require_local :: "auth_env \<Rightarrow> unit res" where
  "require_local ac = bindE (auth_methods ac) (\<lambda>ms.
     requireE (''local'' \<in> set ms) (HTTPException 404 ''Not found''))"

definition validate_password :: "string \<Rightarrow> unit res" where
  "validate_password p = requireE (15 \<le> length p \<and> length p \<le> 128 \<and> strip p \<noteq> []) ValueError"

definition csrf_token :: "auth_env \<Rightarrow> string \<Rightarrow> string res" where
  "csrf_token ac raw =
     (if length (ac_jwt_secret ac) < 32
      then Inl (HTTPException 500 ''Local authentication is not configured'')
      else Inr (hmac_hex ac (ac_jwt_secret ac) (''vardrmap-csrf-v1:'' @ raw)))"

definition allowed_origins :: "auth_env \<Rightarrow> string list" where
  "allowed_origins ac = filter (\<lambda>a. a \<noteq> []) (map strip (split_char (CHR '','') (ac_allowed_origins ac)))"

definition check_transport :: "auth_env \<Rightarrow> request \<Rightarrow> bool \<Rightarrow> unit res" where
  "check_transport ac rq write =
     ignoreE (require_local ac)
    (ignoreE (requireE (rq_scheme rq = ''https'') (HTTPException 400 ''Local authentication requires HTTPS''))
     (if write then requireE (case rq_origin rq of None \<Rightarrow> False | Some a \<Rightarrow> a \<in> set (allowed_origins ac))
          (HTTPException 403 ''Invalid request origin'')
      else Inr ()))"

section \<open>Accounts\<close>

text \<open>\<open>re.fullmatch(r"[a-z0-9][a-z0-9._-]{2,63}", s)\<close>\<close>

definition username_ok :: "string \<Rightarrow> bool" where
  "username_ok s = (3 \<le> length s \<and> length s \<le> 64 \<and> is_lower_alnum (hd s)
     \<and> list_all (\<lambda>c. is_lower_alnum c \<or> c = CHR ''.'' \<or> c = CHR ''_'' \<or> c = CHR ''-'') (tl s))"

text \<open>
  The insertions of the singleton row and of the credential raise \<open>IntegrityError\<close> when the row or the
  username exists; the transaction is rolled back and the caller sees a \<open>ValueError\<close>.
\<close>

definition bootstrap :: "auth_env \<Rightarrow> env \<Rightarrow> string \<Rightarrow> string \<Rightarrow> db \<Rightarrow> string res \<times> db" where
  "bootstrap ac env username password s = transact s (
     let username = lower (strip username) in
     ignoreE (require_local ac)
    (ignoreE (requireE (username_ok username) ValueError)
    (ignoreE (validate_password password)
    (ignoreE (requireE (1 \<notin> lb_id ` set (local_bootstrap s) \<and> username \<notin> lc_username ` set (local_credentials s)) ValueError)
     (let s1 = s\<lparr>local_bootstrap := local_bootstrap s @ [\<lparr>lb_id = 1\<rparr>]\<rparr>;
          user_id = ''local:'' @ new_uuid env s1;
          s2 = drew (s1\<lparr>users := users s1 @ [\<lparr>usr_github_id = user_id, usr_username = username, usr_email = [],
                 usr_webhook_url = [], usr_notify_min_severity = ''high'', usr_created_at = now env\<rparr>]\<rparr>);
          s3 = s2\<lparr>local_credentials := local_credentials s2 @ [\<lparr>lc_user_id = user_id, lc_username = username,
                 lc_password_hash = pw_hash ac password, lc_failed_attempts = 0, lc_last_failure_at = None,
                 lc_locked_until = None\<rparr>]\<rparr>
      in Inr (user_id, snd (personal_org env user_id s3)))))))"

definition get_credential :: "string \<Rightarrow> db \<Rightarrow> LocalCredential option" where
  "get_credential u s = by_key lc_username u (local_credentials s)"

definition set_credential :: "string \<Rightarrow> (LocalCredential \<Rightarrow> LocalCredential) \<Rightarrow> db \<Rightarrow> db" where
  "set_credential u f s = s\<lparr>local_credentials := amend_key lc_username u f (local_credentials s)\<rparr>"

definition blocked :: "int \<Rightarrow> LocalCredential \<Rightarrow> bool" where
  "blocked t c = (case lc_locked_until c of None \<Rightarrow> False | Some l \<Rightarrow> l > t)"

text \<open>What a wrong password leaves in the row.\<close>

definition failed_login :: "int \<Rightarrow> LocalCredential \<Rightarrow> LocalCredential" where
  "failed_login t c =
     (let n = (case lc_last_failure_at c of None \<Rightarrow> 0
               | Some l \<Rightarrow> if l \<le> t - FAILURE_WINDOW then 0 else lc_failed_attempts c) + 1
      in c\<lparr>lc_failed_attempts := n, lc_last_failure_at := Some t,
           lc_locked_until := (if n \<ge> 5 then Some (t + FAILURE_WINDOW) else lc_locked_until c)\<rparr>)"

definition passed_login :: "auth_env \<Rightarrow> string \<Rightarrow> LocalCredential \<Rightarrow> LocalCredential" where
  "passed_login ac password c = c\<lparr>lc_failed_attempts := 0, lc_locked_until := None, lc_last_failure_at := None,
     lc_password_hash := (if pw_needs_rehash ac (lc_password_hash c) then pw_hash ac password else lc_password_hash c)\<rparr>"

text \<open>
  A failure is committed before it is reported; a success leaves the reset counters to the commit
  of the caller.
\<close>

definition verify_login :: "auth_env \<Rightarrow> int \<Rightarrow> string \<Rightarrow> string \<Rightarrow> db \<Rightarrow> LocalCredential res \<times> db" where
  "verify_login ac t username password s =
     (let normalized = lower (strip username)
      in case (if username_ok normalized then get_credential normalized s else None) of
           None \<Rightarrow> (Inl sign_in_failed, s)
         | Some c \<Rightarrow>
             if blocked t c then (Inl sign_in_failed, s)
             else if \<not> pw_verify ac (lc_password_hash c) password
               then (Inl sign_in_failed, set_credential normalized (failed_login t) s)
             else (Inr (passed_login ac password c), set_credential normalized (passed_login ac password) s))"

section \<open>Sessions\<close>

definition issue_session :: "auth_env \<Rightarrow> env \<Rightarrow> string \<Rightarrow> string \<Rightarrow> string option \<Rightarrow> db \<Rightarrow> exn + db" where
  "issue_session ac env raw user_id previous s =
     ignoreE (csrf_token ac raw)
     (let kept = filter (\<lambda>l. (case previous of None \<Rightarrow> True
                    | Some p \<Rightarrow> p = [] \<or> ls_token_hash l \<noteq> sha256 env p) \<and> \<not> ls_expires_at l \<le> now env) (local_sessions s)
      in Inr (s\<lparr>local_sessions := kept @ [\<lparr>ls_token_hash = sha256 env raw, ls_user_id = user_id,
            ls_created_at = now env, ls_last_seen_at = now env,
            ls_expires_at = now env + SESSION_LIFETIME\<rparr>]\<rparr>))"

definition SAFE_METHODS :: "string list" where
  "SAFE_METHODS = [''GET'', ''HEAD'', ''OPTIONS'']"

text \<open>\<open>re.fullmatch(r"[0-9a-f]{64}", s)\<close>\<close>

definition hex64 :: "string \<Rightarrow> bool" where
  "hex64 s = (length s = 64 \<and> list_all (\<lambda>c. is_decimal_char c \<or> (97 \<le> code c \<and> code c \<le> 102)) s)"

definition session_live :: "int \<Rightarrow> LocalSession \<Rightarrow> bool" where
  "session_live t l = (\<not> ls_expires_at l \<le> t \<and> \<not> ls_last_seen_at l \<le> t - IDLE_LIFETIME)"

definition check_csrf :: "auth_env \<Rightarrow> request \<Rightarrow> string \<Rightarrow> unit res" where
  "check_csrf ac rq raw =
     (if rq_method rq \<in> set SAFE_METHODS then Inr ()
      else let supplied = (case rq_csrf rq of None \<Rightarrow> [] | Some v \<Rightarrow> v) in
        if \<not> hex64 supplied then Inl (HTTPException 403 ''Invalid CSRF token'')
        else bindE (csrf_token ac raw) (\<lambda>t. requireE (supplied = t) (HTTPException 403 ''Invalid CSRF token'')))"

definition touch_session :: "int \<Rightarrow> LocalSession \<Rightarrow> LocalSession" where
  "touch_session t l = (if ls_last_seen_at l \<le> t - minutes 1 then l\<lparr>ls_last_seen_at := t\<rparr> else l)"

definition resolve_session :: "auth_env \<Rightarrow> env \<Rightarrow> request \<Rightarrow> db \<Rightarrow> current_user res \<times> db" where
  "resolve_session ac env rq s = transact s (
     bindE (auth_methods ac) (\<lambda>ms.
     ignoreE (requireE (''local'' \<in> set ms) unauthorized)
    (ignoreE (check_transport ac rq (rq_method rq \<notin> set SAFE_METHODS))
     (let raw = (case rq_cookie rq of None \<Rightarrow> [] | Some c \<Rightarrow> c) in
      ignoreE (requireE (raw \<noteq> [] \<and> length raw \<le> 128) unauthorized)
      (case by_key ls_token_hash (sha256 env raw) (local_sessions s) of
         None \<Rightarrow> Inl unauthorized
       | Some l \<Rightarrow>
           ignoreE (requireE (session_live (now env) l) unauthorized)
          (ignoreE (check_csrf ac rq raw)
           (case by_key usr_github_id (ls_user_id l) (users s) of
              None \<Rightarrow> Inl unauthorized
            | Some user \<Rightarrow>
                ignoreE (requireE (ls_user_id l \<in> lc_user_id ` set (local_credentials s)) unauthorized)
                (Inr (\<lparr>cu_github_id = usr_github_id user, cu_username = usr_username user,
                       cu_email = usr_email user, cu_scope = ''full'', cu_auth_method = ''local''\<rparr>,
                      s\<lparr>local_sessions := amend_key ls_token_hash (sha256 env raw) (touch_session (now env))
                          (local_sessions s)\<rparr>)))))))))"

section \<open>The caller of a request\<close>

definition API_KEY_PREFIX :: string where "API_KEY_PREFIX = ''vmap_''"

definition resolve_api_key :: "env \<Rightarrow> string \<Rightarrow> db \<Rightarrow> current_user res \<times> db" where
  "resolve_api_key env token s =
     (case by_key key_key_hash (sha256 env token) (api_keys s) of
        None \<Rightarrow> (Inl unauthorized, s)
      | Some k \<Rightarrow>
          let user = by_key usr_github_id (key_github_id k) (users s) in
          (Inr \<lparr>cu_github_id = key_github_id k,
               cu_username = (case user of None \<Rightarrow> [] | Some u \<Rightarrow> usr_username u),
               cu_email = (case user of None \<Rightarrow> [] | Some u \<Rightarrow> usr_email u),
               cu_scope = (if key_scope k = [] then ''full'' else key_scope k), cu_auth_method = []\<rparr>,
           s\<lparr>api_keys := amend_key key_key_hash (sha256 env token) (\<lambda>r. r\<lparr>key_last_used_at := Some (now env)\<rparr>) (api_keys s)\<rparr>))"

definition str_or_empty :: "pydict \<Rightarrow> string \<Rightarrow> string" where
  "str_or_empty d k = (if dhas d k then py_str (dget d k) else [])"

definition resolve_jwt :: "auth_env \<Rightarrow> string \<Rightarrow> current_user res" where
  "resolve_jwt ac token =
     bindE (auth_methods ac) (\<lambda>ms.
     ignoreE (requireE (''github'' \<in> set ms) unauthorized)
     (case jwt_decode ac token of
        None \<Rightarrow> Inl unauthorized
      | Some payload \<Rightarrow>
          let sub = dget payload ''sub'' in
          if \<not> truthy sub \<or> startswith (py_str sub) ''local:'' then Inl unauthorized
          else Inr \<lparr>cu_github_id = py_str sub, cu_username = str_or_empty payload ''username'',
                 cu_email = str_or_empty payload ''email'', cu_scope = ''full'', cu_auth_method = []\<rparr>))"

definition get_current_user :: "auth_env \<Rightarrow> env \<Rightarrow> request \<Rightarrow> db \<Rightarrow> current_user res \<times> db" where
  "get_current_user ac env rq s =
     (if ac_jwt_secret ac = [] then (Inl (HTTPException 500 ''Server auth not configured''), s)
      else case rq_authorization rq of
        Some (c # cs) \<Rightarrow>
          if \<not> startswith (c # cs) ''Bearer '' then (Inl unauthorized, s)
          else let token = strip (drop 7 (c # cs)) in
            if startswith token API_KEY_PREFIX then resolve_api_key env token s
            else (resolve_jwt ac token, s)
      | _ \<Rightarrow> (case rq_cookie rq of
            Some (c # cs) \<Rightarrow> resolve_session ac env rq s
          | _ \<Rightarrow> (Inl unauthorized, s)))"

section \<open>Handlers\<close>

text \<open>
  Login keeps the reset counters only together with the new session: when the session cannot be issued
  nothing is committed.
\<close>

definition login :: "auth_env \<Rightarrow> env \<Rightarrow> string \<Rightarrow> request \<Rightarrow> string \<Rightarrow> string \<Rightarrow> db \<Rightarrow> string res \<times> db" where
  "login ac env raw rq username password s =
     (case check_transport ac rq True of
        Inl e \<Rightarrow> (Inl e, s)
      | Inr _ \<Rightarrow>
          (case verify_login ac (now env) username password s of
             (Inl e, s') \<Rightarrow> (Inl e, s')
           | (Inr c, s') \<Rightarrow> transact s (bindE (issue_session ac env raw (lc_user_id c) (rq_cookie rq) s')
               (\<lambda>s''. Inr (raw, s'')))))"

definition require_local_user :: "current_user \<Rightarrow> unit res" where
  "require_local_user user = requireE (cu_auth_method user = ''local'') unauthorized"

definition logout :: "env \<Rightarrow> request \<Rightarrow> current_user \<Rightarrow> db \<Rightarrow> unit res \<times> db" where
  "logout env rq user s = transact s (
     ignoreE (require_local_user user)
     (case rq_cookie rq of
        None \<Rightarrow> Inl KeyError
      | Some raw \<Rightarrow> Inr ((), s\<lparr>local_sessions := drop_key ls_token_hash (sha256 env raw) (local_sessions s)\<rparr>)))"

definition change_password ::
  "auth_env \<Rightarrow> env \<Rightarrow> string \<Rightarrow> current_user \<Rightarrow> string \<Rightarrow> string \<Rightarrow> db \<Rightarrow> string res \<times> db" where
  "change_password ac env raw user current new s =
     (case ignoreE (require_local_user user) (validate_password new) of
        Inl ValueError \<Rightarrow> (Inl (HTTPException 400 ''Use a password or passphrase containing 15 to 128 characters''), s)
      | Inl e \<Rightarrow> (Inl e, s)
      | Inr _ \<Rightarrow>
          (case verify_login ac (now env) (cu_username user) current s of
             (Inl e, s') \<Rightarrow> (Inl e, s')
           | (Inr c, s') \<Rightarrow>
               let s1 = set_credential (lc_username c) (\<lambda>r. r\<lparr>lc_password_hash := pw_hash ac new\<rparr>) s';
                   s2 = s1\<lparr>local_sessions := filter (\<lambda>l. ls_user_id l \<noteq> cu_github_id user) (local_sessions s1)\<rparr>
               in transact s (bindE (issue_session ac env raw (cu_github_id user) None s2) (\<lambda>s3. Inr (raw, s3)))))"

section \<open>Facts\<close>

lemma get_set_credential:
  assumes "\<And>c. lc_username (f c) = lc_username c"
  shows "get_credential u (set_credential v f s) = (if u = v then map_option f (get_credential u s) else get_credential u s)"
  using assms by (simp add: get_credential_def set_credential_def by_key_amend_key)

lemma login_keeps_username [simp]:
  "lc_username (failed_login t c) = lc_username c" "lc_username (passed_login ac p c) = lc_username c"
  by (simp_all add: failed_login_def passed_login_def Let_def)

lemma failed_login_hash [simp]: "lc_password_hash (failed_login t c) = lc_password_hash c"
  by (simp add: failed_login_def Let_def)

text \<open>A sequence of sign-in attempts on one name, each at its time.\<close>

fun attempts :: "auth_env \<Rightarrow> string \<Rightarrow> (int \<times> string) list \<Rightarrow> db \<Rightarrow> db" where
  "attempts ac u [] s = s"
| "attempts ac u ((t, p) # rest) s = attempts ac u rest (snd (verify_login ac t u p s))"

text \<open>
  The state of an account \<open>k\<close> wrong guesses into a window that began at \<open>t0\<close>: locked for the rest of
  the window, or unlocked with at least \<open>k\<close> and fewer than five failures on record.
\<close>

definition guessed :: "int \<Rightarrow> nat \<Rightarrow> LocalCredential \<Rightarrow> bool" where
  "guessed t0 k c = ((\<exists>l. lc_locked_until c = Some l \<and> t0 + FAILURE_WINDOW \<le> l) \<or>
     (\<not> blocked t0 c \<and> int k \<le> lc_failed_attempts c \<and> k < 5 \<and>
        (k > 0 \<longrightarrow> (\<exists>l. lc_last_failure_at c = Some l \<and> t0 \<le> l))))"

lemma guessed_step:
  assumes "guessed t0 k c" and "t0 \<le> t" and "t < t0 + FAILURE_WINDOW" and "\<not> blocked t c"
  shows "guessed t0 (Suc k) (failed_login t c)"
proof -
  let ?n = "(case lc_last_failure_at c of None \<Rightarrow> 0
     | Some l \<Rightarrow> if l \<le> t - FAILURE_WINDOW then 0 else lc_failed_attempts c) + 1"
  have open_: "\<not> blocked t0 c" "int k \<le> lc_failed_attempts c" "k < 5"
    "k > 0 \<longrightarrow> (\<exists>l. lc_last_failure_at c = Some l \<and> t0 \<le> l)"
    using assms unfolding guessed_def blocked_def by auto
  then have n: "int (Suc k) \<le> ?n"
    using assms(2,3) by (cases "k = 0") (auto split: option.splits)
  show ?thesis
  proof (cases "?n \<ge> 5")
    case True
    then show ?thesis using assms(2) unfolding guessed_def failed_login_def Let_def by simp
  next
    case False
    with n have "Suc k < 5" by linarith
    with False n open_(1) assms(2) show ?thesis
      unfolding guessed_def failed_login_def Let_def blocked_def by simp
  qed
qed

lemma guessed_blocked: "guessed t0 k c \<Longrightarrow> k \<ge> 5 \<Longrightarrow> t < t0 + FAILURE_WINDOW \<Longrightarrow> blocked t c"
  by (auto simp: guessed_def blocked_def)

lemma guessed_locked_mono: "guessed t0 k c \<Longrightarrow> t0 \<le> t \<Longrightarrow> blocked t c \<Longrightarrow> guessed t0 (Suc k) c"
  by (auto simp: guessed_def blocked_def split: option.splits)

lemma attempts_guessed:
  assumes "username_ok n" and "n = lower (strip u)"
    and "get_credential n s = Some c" and "guessed t0 k c"
    and "\<forall>(t, p) \<in> set tps. t0 \<le> t \<and> t < t0 + FAILURE_WINDOW \<and> \<not> pw_verify ac (lc_password_hash c) p"
  shows "\<exists>c'. get_credential n (attempts ac u tps s) = Some c' \<and> guessed t0 (k + length tps) c'"
  using assms(3-5)
proof (induction tps arbitrary: s c k)
  case (Cons tp tps)
  obtain t p where tp: "tp = (t, p)" by (cases tp)
  have t: "t0 \<le> t" "t < t0 + FAILURE_WINDOW" "\<not> pw_verify ac (lc_password_hash c) p"
    using Cons.prems(3) by (auto simp: tp)
  show ?case
  proof (cases "blocked t c")
    case True
    then have "snd (verify_login ac t u p s) = s"
      using Cons.prems(1) assms(1,2) by (simp add: verify_login_def)
    with Cons.IH [OF Cons.prems(1) guessed_locked_mono [OF Cons.prems(2) t(1) True]] Cons.prems(3) tp
    show ?thesis by simp
  next
    case False
    then have s': "snd (verify_login ac t u p s) = set_credential n (failed_login t) s"
      using Cons.prems(1) assms(1,2) t(3) by (simp add: verify_login_def)
    have c': "get_credential n (set_credential n (failed_login t) s) = Some (failed_login t c)"
      using Cons.prems(1) by (simp add: get_set_credential)
    from Cons.IH [OF c' guessed_step [OF Cons.prems(2) t(1,2) False]] Cons.prems(3) s' tp
    show ?thesis by simp
  qed
qed auto


definition example_auth :: auth_env where
  "example_auth = \<lparr>ac_methods = ''local'', ac_jwt_secret = replicate 32 (CHR ''k''),
     ac_allowed_origins = ''https://map.example'', pw_hash = (\<lambda>p. ''#'' @ p),
     pw_verify = (\<lambda>h p. h = ''#'' @ p), pw_needs_rehash = (\<lambda>_. False), dummy_hash = [],
     hmac_hex = (\<lambda>k m. replicate 64 (CHR ''a'')), jwt_decode = (\<lambda>_. None)\<rparr>"

definition example_account :: db where
  "example_account = empty_db\<lparr>local_credentials := [\<lparr>lc_user_id = ''local:u1'', lc_username = ''alice'',
     lc_password_hash = ''#correct horse battery'', lc_failed_attempts = 0, lc_last_failure_at = None,
     lc_locked_until = None\<rparr>],
     users := [\<lparr>usr_github_id = ''local:u1'', usr_username = ''alice'', usr_email = [], usr_webhook_url = [],
       usr_notify_min_severity = ''high'', usr_created_at = 0\<rparr>]\<rparr>"


text \<open>
  C30: A cookie authenticates a request only over HTTPS, with a stored session that is neither expired nor
  idle for 30 minutes, as the session's own user; a request that may change state must also come from
  an allowed origin and carry the session's CSRF token.
\<close>

theorem session_request_is_authentic:
  assumes "resolve_session ac env rq s = (Inr user, s')"
  shows "\<exists>raw l. rq_cookie rq = Some raw \<and> by_key ls_token_hash (sha256 env raw) (local_sessions s) = Some l
    \<and> cu_github_id user = ls_user_id l \<and> rq_scheme rq = ''https''
    \<and> now env < ls_expires_at l \<and> now env - IDLE_LIFETIME < ls_last_seen_at l
    \<and> (rq_method rq \<notin> set SAFE_METHODS \<longrightarrow>
         (\<exists>a. rq_origin rq = Some a \<and> a \<in> set (allowed_origins ac))
         \<and> csrf_token ac raw = Inr (the (rq_csrf rq)) \<and> rq_csrf rq \<noteq> None)"
proof -
  obtain raw l u where cookie: "rq_cookie rq = Some raw" "raw \<noteq> []"
    and transport: "check_transport ac rq (rq_method rq \<notin> set SAFE_METHODS) = Inr ()"
    and l: "by_key ls_token_hash (sha256 env raw) (local_sessions s) = Some l"
    and live: "session_live (now env) l" and csrf: "check_csrf ac rq raw = Inr ()"
    and u: "by_key usr_github_id (ls_user_id l) (users s) = Some u" "cu_github_id user = usr_github_id u"
    using assms unfolding resolve_session_def transact_ok
    by (auto simp: exn_simps Let_def split: option.splits)
  have "cu_github_id user = ls_user_id l" using u by (auto dest: by_key_Some)
  moreover have "rq_scheme rq = ''https''"
    using transport by (simp add: check_transport_def exn_simps)
  moreover have "rq_method rq \<notin> set SAFE_METHODS \<longrightarrow> (\<exists>a. rq_origin rq = Some a \<and> a \<in> set (allowed_origins ac))"
    using transport by (auto simp: check_transport_def exn_simps split: option.splits if_splits)
  moreover have "rq_method rq \<notin> set SAFE_METHODS \<longrightarrow> csrf_token ac raw = Inr (the (rq_csrf rq)) \<and> rq_csrf rq \<noteq> None"
    using csrf by (auto simp: check_csrf_def hex64_def exn_simps split: if_splits option.splits)
  ultimately show ?thesis using cookie l live by (auto simp: session_live_def not_le)
qed

definition example_session :: db where
  "example_session = example_account\<lparr>local_sessions := [\<lparr>ls_token_hash = ''h:tok'', ls_user_id = ''local:u1'',
     ls_created_at = 0, ls_last_seen_at = 0, ls_expires_at = SESSION_LIFETIME\<rparr>]\<rparr>"

definition example_env :: env where
  "example_env = \<lparr>now = 1000, uuid = (\<lambda>n. replicate n (CHR ''u'')), sha256 = (\<lambda>x. ''h:'' @ x)\<rparr>"

definition example_request :: request where
  "example_request = \<lparr>rq_method = ''POST'', rq_scheme = ''https'', rq_origin = Some ''https://map.example'',
     rq_cookie = Some ''tok'', rq_csrf = Some (replicate 64 (CHR ''a'')), rq_authorization = None\<rparr>"

theorem session_request_is_authentic_witness:
  "\<exists>user s'. resolve_session example_auth example_env example_request example_session = (Inr user, s')
     \<and> cu_github_id user = ''local:u1'' \<and> rq_scheme example_request = ''https''"
proof -
  let ?r = "resolve_session example_auth example_env example_request example_session"
  have "map_sum (\<lambda>_. ()) cu_github_id (fst ?r) = Inr ''local:u1''" by code_simp
  then obtain user where u: "fst ?r = Inr user" "cu_github_id user = ''local:u1''"
    by (cases "fst ?r") auto
  then have r: "?r = (Inr user, snd ?r)" by (metis prod.collapse)
  from session_request_is_authentic [OF r] u r show ?thesis by blast
qed

text \<open>
  A password change revokes every session of the account: afterwards the only cookie of the account
  that still resolves is the one the change itself issued (digests taken as distinct).
\<close>

theorem password_change_revokes_sessions:
  assumes "change_password ac env raw user current new s = (Inr raw', s')"
    and "l \<in> set (local_sessions s')" and "ls_user_id l = cu_github_id user"
  shows "ls_token_hash l = sha256 env raw \<and> raw' = raw \<and> ls_expires_at l = now env + SESSION_LIFETIME"
proof -
  obtain c s1 where v: "verify_login ac (now env) (cu_username user) current s = (Inr c, s1)"
    using assms(1) unfolding change_password_def
    by (auto split: sum.splits exn.splits prod.splits)
  define s2 where "s2 = (set_credential (lc_username c) (\<lambda>r. r\<lparr>lc_password_hash := pw_hash ac new\<rparr>) s1)
     \<lparr>local_sessions := filter (\<lambda>l. ls_user_id l \<noteq> cu_github_id user)
        (local_sessions (set_credential (lc_username c) (\<lambda>r. r\<lparr>lc_password_hash := pw_hash ac new\<rparr>) s1))\<rparr>"
  have "transact s (bindE (issue_session ac env raw (cu_github_id user) None s2) (\<lambda>s3. Inr (raw, s3))) = (Inr raw', s')"
    using assms(1) v unfolding change_password_def s2_def
    by (auto simp: Let_def split: sum.splits exn.splits)
  then have "raw' = raw" and "issue_session ac env raw (cu_github_id user) None s2 = Inr s'"
    unfolding transact_ok by (auto simp: exn_simps)
  then show ?thesis
    using assms(2,3) by (auto simp: issue_session_def exn_simps Let_def s2_def)
qed

theorem password_change_revokes_sessions_witness:
  "\<exists>s'. change_password example_auth example_env ''new'' ((example_user ''local:u1'')\<lparr>cu_username := ''alice'', cu_auth_method := ''local''\<rparr>)
       ''correct horse battery'' ''another long passphrase'' example_session = (Inr ''new'', s')
     \<and> (\<forall>l \<in> set (local_sessions s'). ls_token_hash l = ''h:new'')"
proof -
  let ?u = "(example_user ''local:u1'')\<lparr>cu_username := ''alice'', cu_auth_method := ''local''\<rparr>"
  let ?r = "change_password example_auth example_env ''new'' ?u ''correct horse battery'' ''another long passphrase'' example_session"
  have f: "fst ?r = Inr ''new''" by code_simp
  then have r: "?r = (Inr ''new'', snd ?r)" by (metis prod.collapse)
  have "list_all (\<lambda>l. ls_user_id l = cu_github_id ?u) (local_sessions (snd ?r))" by code_simp
  then have "\<forall>l \<in> set (local_sessions (snd ?r)). ls_user_id l = cu_github_id ?u" by (simp only: list_all_iff)
  moreover have "sha256 example_env ''new'' = ''h:new''" by code_simp
  ultimately have "\<forall>l \<in> set (local_sessions (snd ?r)). ls_token_hash l = ''h:new''"
    using password_change_revokes_sessions [OF r] by metis
  with r show ?thesis by blast
qed

text \<open>
  Local bootstrap happens at most once: after a success every further attempt, with any name and
  password, is refused and changes nothing.
\<close>

theorem bootstrap_once:
  assumes "bootstrap ac env username password s = (Inr user_id, s')"
  shows "\<exists>e. bootstrap ac' env' username' password' s' = (Inl e, s')"
proof -
  have "1 \<in> lb_id ` set (local_bootstrap s')"
    using assms unfolding bootstrap_def transact_ok
    by (auto simp: exn_simps Let_def personal_org_def drew_def split: option.splits)
  then show ?thesis
    by (auto simp: bootstrap_def transact_def Let_def exn_simps split: sum.splits prod.splits)
qed

theorem bootstrap_once_witness:
  "\<exists>user_id s'. bootstrap example_auth example_env ''Alice'' ''correct horse battery'' empty_db = (Inr user_id, s') \<and>
     (\<exists>e. bootstrap example_auth example_env ''mallory'' ''another long passphrase'' s' = (Inl e, s'))"
proof -
  let ?r = "bootstrap example_auth example_env ''Alice'' ''correct horse battery'' empty_db"
  have f: "fst ?r = Inr ''local:''" by code_simp
  then have r: "?r = (Inr ''local:'', snd ?r)" by (metis prod.collapse)
  from bootstrap_once [OF r] r show ?thesis by blast
qed

end
