(* ===== verification/Execution_Control.thy ===== *)
theory Execution_Control
  imports Access Urls Json Local_Auth
begin

text \<open>
  Owned execution of a claimed job (\<open>backend/execution_control.py\<close>) and the three engagement budgets a
  claim draws on: concurrent reservations (\<open>concurrency_budget.py\<close>), represented origins
  (\<open>target_budget.py\<close>) and allocated seconds (\<open>duration_budget.py\<close>).
\<close>

abbreviation not_found :: exn where "not_found \<equiv> HTTPException 404 ''Not Found''"
abbreviation conflict :: "string \<Rightarrow> exn" where "conflict d \<equiv> HTTPException 409 d"

section \<open>Requests\<close>

record TargetBinding =
  tb_profile :: string
  tb_case_sha256 :: string
  tb_origins :: "string list"

record ClaimControl =
  cc_runner_id :: string
  cc_origin :: string
  cc_concurrency_budget :: bool
  cc_target_binding :: "TargetBinding option"
  cc_duration_seconds :: "int option"

record ControlRequest = ClaimControl +
  cc_token :: string

record FinishControl = ControlRequest +
  cc_outcome :: string

text \<open>The field constraints of the request models; a body that fails one never reaches a handler.\<close>

definition target_binding_ok :: "TargetBinding \<Rightarrow> bool" where
  "target_binding_ok b = (tb_profile b = ''gate-fixed-http/1'' \<and> hex64 (tb_case_sha256 b)
     \<and> 1 \<le> length (tb_origins b) \<and> length (tb_origins b) \<le> 100)"

definition non_empty :: "string option \<Rightarrow> bool" where
  "non_empty v = (case v of None \<Rightarrow> False | Some s \<Rightarrow> s \<noteq> [])"

definition origin_valid :: "string \<Rightarrow> unit res" where
  "origin_valid v = bindE (urlsplit v) (\<lambda>p.
     requireE (us_scheme p \<in> {''http'', ''https''} \<and> url_hostname p \<noteq> None
       \<and> \<not> non_empty (url_username p) \<and> \<not> non_empty (url_password p)
       \<and> us_query p = [] \<and> us_fragment p = [] \<and> \<not> endswith v ''/''
       \<and> \<not> (us_scheme p = ''http'' \<and> url_hostname p \<notin> {Some ''localhost'', Some ''127.0.0.1'', Some ''::1''}))
       ValueError)"

definition claim_control_ok :: "('a) ClaimControl_scheme \<Rightarrow> bool" where
  "claim_control_ok b = (length (cc_origin b) \<le> 500 \<and> origin_valid (cc_origin b) = Inr ()
     \<and> (case cc_target_binding b of None \<Rightarrow> True | Some t \<Rightarrow> target_binding_ok t)
     \<and> (case cc_duration_seconds b of None \<Rightarrow> True | Some d \<Rightarrow> 1 \<le> d \<and> d \<le> 86400))"

section \<open>Locks and ownership\<close>

definition LEASE_SECONDS :: int where "LEASE_SECONDS = 10"

text \<open>The job row as every job endpoint selects it: by id, within the caller's engagements.\<close>

definition accessible_job :: "string \<Rightarrow> current_user \<Rightarrow> db \<Rightarrow> ScanJob option" where
  "accessible_job jid user s = find (\<lambda>j. job_id j = jid
     \<and> job_program_id j \<in> set (accessible_engagement_ids (cu_github_id user) s)) (scan_jobs s)"

definition lock_job :: "string \<Rightarrow> current_user \<Rightarrow> db \<Rightarrow> ScanJob res" where
  "lock_job jid user s = bindE (someE not_found (accessible_job jid user s)) (\<lambda>j.
     ignoreE (someE (RuntimeError ''NoResultFound'') (get_engagement (job_program_id j) s))
     (someE (RuntimeError ''NoResultFound'') (get_job jid s)))"

definition principal :: "env \<Rightarrow> request \<Rightarrow> string res" where
  "principal env rq =
     (let a = (case rq_authorization rq of None \<Rightarrow> [] | Some h \<Rightarrow> h)
      in if startswith a ''Bearer vmap_'' then Inr (sha256 env a)
         else Inl (HTTPException 403 ''controlled execution requires an API key''))"

text \<open>\<open>owned\<close>: the caller must be the very principal, runner and origin the attempt was issued to.\<close>

definition owned :: "env \<Rightarrow> request \<Rightarrow> string \<Rightarrow> current_user \<Rightarrow> ('a) ControlRequest_scheme \<Rightarrow> db \<Rightarrow> JobExecution res" where
  "owned env rq jid user body s =
     ignoreE (lock_job jid user s)
     (case get_execution jid s of
        None \<Rightarrow> Inl not_found
      | Some row \<Rightarrow>
          if exe_owner row \<noteq> cu_github_id user \<or> exe_runner_id row \<noteq> cc_runner_id body
             \<or> exe_origin row \<noteq> cc_origin body then Inl not_found
          else bindE (principal env rq) (\<lambda>p.
            ignoreE (requireE (exe_principal_hash row = p \<and> exe_token_hash row = sha256 env (cc_token body)) not_found)
            (Inr row)))"

section \<open>Concurrent reservations\<close>

definition reserved_rows :: "string \<Rightarrow> db \<Rightarrow> JobExecution list" where
  "reserved_rows eid s = filter (\<lambda>x. exe_capacity_reserved x
     \<and> (\<exists>j \<in> set (scan_jobs s). job_id j = exe_job_id x \<and> job_program_id j = eid)) (job_executions s)"

definition reserved :: "string \<Rightarrow> db \<Rightarrow> nat" where
  "reserved eid s = length (reserved_rows eid s)"

definition require_idle :: "string \<Rightarrow> db \<Rightarrow> unit res" where
  "require_idle eid s = requireE (reserved eid s = 0
       \<and> \<not> list_ex (\<lambda>j. job_program_id j = eid \<and> job_status j = ''running'') (scan_jobs s))
     (conflict ''running or unresolved work prevents policy change or deletion'')"

definition before_claim :: "db \<Rightarrow> Engagement \<Rightarrow> ClaimControl option \<Rightarrow> unit res" where
  "before_claim s e body =
     (let opted_in = (case body of None \<Rightarrow> False | Some b \<Rightarrow> cc_concurrency_budget b)
      in case eng_concurrency_limit e of
           None \<Rightarrow> requireE (\<not> opted_in) (conflict ''explicit engagement concurrency policy required'')
         | Some limit \<Rightarrow>
             ignoreE (requireE opted_in (conflict ''engagement requires budgeted owned execution''))
             (requireE (int (reserved (eng_id e) s) < limit) (conflict ''engagement execution capacity exhausted'')))"

section \<open>Represented origins\<close>

definition case_hash :: "env \<Rightarrow> pyval \<Rightarrow> string" where
  "case_hash env spec = sha256 env (dumps spec)"

text \<open>Iterating a value: a list gives its items, a string its characters, a dictionary its keys.\<close>

definition iter_val :: "pyval \<Rightarrow> pyval list res" where
  "iter_val v = (case v of
       VList xs \<Rightarrow> Inr xs
     | VStr t \<Rightarrow> Inr (map (\<lambda>c. VStr [c]) t)
     | VDict d \<Rightarrow> Inr (map (\<lambda>(k, _). VStr k) d)
     | _ \<Rightarrow> Inl TypeError)"

definition case_identities :: "pyval \<Rightarrow> pyval list res" where
  "case_identities spec =
     bindE (vget spec ''identities'') (\<lambda>ids.
     bindE (iter_val (or_val ids (VList []))) (\<lambda>identities.
     bindE (vget spec ''write_verification'') (\<lambda>v.
     Inr (case v of VDict d \<Rightarrow> if dhas d ''identity'' then identities @ [dget d ''identity''] else identities
          | _ \<Rightarrow> identities))))"

definition utf8_length :: "string \<Rightarrow> nat" where
  "utf8_length s = length s + length (filter (\<lambda>c. code c \<ge> 128) s)"

definition preflight_origin :: "pyval \<Rightarrow> (string \<times> string \<times> int) res" where
  "preflight_origin raw = (case raw of
       VStr u \<Rightarrow>
         if utf8_length u > 2000 then Inl ValueError
         else bindE (urlsplit u) (\<lambda>p.
           case url_hostname p of
             None \<Rightarrow> Inl ValueError
           | Some host \<Rightarrow>
               ignoreE (requireE (us_scheme p \<in> {''http'', ''https''} \<and> url_username p = None \<and> us_fragment p = []) ValueError)
               (bindE (url_port p) (\<lambda>port.
                  ignoreE (requireE (port \<noteq> Some 0) ValueError)
                  (Inr (us_scheme p, lower host,
                     case port of Some n \<Rightarrow> n | None \<Rightarrow> if us_scheme p = ''https'' then 443 else 80)))))
     | _ \<Rightarrow> Inl ValueError)"

text \<open>The request objects of a case: its own, those of setup steps, preflights and write verification.\<close>

definition case_requests :: "pyval \<Rightarrow> pyval list res" where
  "case_requests c =
     bindE (vindex c ''request'') (\<lambda>r0.
     bindE (vget c ''setup'') (\<lambda>setup.
     bindE (iter_val (or_val setup (VList []))) (\<lambda>steps.
     bindE (mapE (\<lambda>st. vindex st ''request'') steps) (\<lambda>rs1.
     bindE (case_identities c) (\<lambda>ids.
     bindE (mapE (\<lambda>i. vget i ''preflight'') ids) (\<lambda>ps.
     bindE (vget c ''write_verification'') (\<lambda>v.
     bindE (if v = VNone then Inr [] else
        bindE (vindex v ''request'') (\<lambda>r.
        bindE (vget v ''reset'') (\<lambda>reset.
        if reset = VNone then Inr [r]
        else bindE (vindex reset ''request'') (\<lambda>r'. Inr [r, r'])))) (\<lambda>rs3.
     Inr ([r0] @ rs1 @ filter (\<lambda>p. p \<noteq> VNone) ps @ rs3)))))))))"

definition origin_of :: "pyval \<Rightarrow> string res" where
  "origin_of r =
     bindE (vindex r ''url'') (\<lambda>u.
     bindE (preflight_origin u) (\<lambda>(scheme, host, port).
     ignoreE (requireE (isascii host \<and> \<not> endswith host ''.'' \<and> CHR ''%'' \<notin> set host) ValueError)
     (bindE (if CHR '':'' \<in> set host
             then (if CHR ''/'' \<in> set host then Inl ValueError
                   else bindE (someE ValueError (ipv6_int host)) (\<lambda>v. Inr (''['' @ ipv6_str v @ '']'')))
             else Inr host)
        (\<lambda>h. Inr (scheme @ ''://'' @ h @ '':'' @ str_of_int port)))))"

definition case_origins :: "pyval \<Rightarrow> string list res" where
  "case_origins c =
     bindE (case_requests c) (\<lambda>rs.
     bindE (mapE origin_of rs) (\<lambda>os.
       let origins = sort (remdups os)
       in ignoreE (requireE (origins \<noteq> [] \<and> length origins \<le> 100) ValueError) (Inr origins)))"

definition binding :: "env \<Rightarrow> pyval \<Rightarrow> TargetBinding res" where
  "binding env c = (case case_origins c of
       Inr os \<Rightarrow> Inr \<lparr>tb_profile = ''gate-fixed-http/1'', tb_case_sha256 = case_hash env c, tb_origins = os\<rparr>
     | Inl e \<Rightarrow> if e \<in> {ValueError, TypeError, KeyError, AttributeError}
         then Inl (conflict ''unsupported target budget case'') else Inl e)"

record target_receipt =
  tr_binding :: TargetBinding
  tr_charged :: int
  tr_spent :: int
  tr_limit :: int

definition charge :: "env \<Rightarrow> Engagement \<Rightarrow> ScanJob \<Rightarrow> pyval \<Rightarrow> ClaimControl option \<Rightarrow> (target_receipt option \<times> Engagement) res" where
  "charge env e job c body =
     (let supplied = (case body of None \<Rightarrow> None | Some b \<Rightarrow> cc_target_binding b)
      in case eng_target_limit e of
           None \<Rightarrow> ignoreE (requireE (supplied = None) (conflict ''explicit engagement target policy required'')) (Inr (None, e))
         | Some limit \<Rightarrow>
             if supplied = None \<or> job_tool_type job \<noteq> ''vardrgate_api_test'' \<or> c = VNone
             then Inl (conflict ''target policy requires bound fixed Gate owned execution'')
             else bindE (binding env c) (\<lambda>expected.
               ignoreE (requireE (supplied = Some expected) (conflict ''target binding mismatch''))
               (let count = int (length (tb_origins expected)); spent = eng_targets_spent e + count
                in ignoreE (requireE (spent \<le> limit) (conflict ''engagement target allowance exhausted''))
                   (Inr (Some \<lparr>tr_binding = expected, tr_charged = count, tr_spent = spent, tr_limit = limit\<rparr>,
                         e\<lparr>eng_targets_spent := spent\<rparr>)))))"

section \<open>Allocated seconds\<close>

record duration_receipt =
  dr_allocated_seconds :: int
  dr_total_allocated_seconds :: int
  dr_limit_seconds :: int

definition allocate :: "Engagement \<Rightarrow> ClaimControl option \<Rightarrow> (duration_receipt option \<times> Engagement) res" where
  "allocate e body =
     (let secs = (case body of None \<Rightarrow> None | Some b \<Rightarrow> cc_duration_seconds b)
      in case eng_duration_limit e of
           None \<Rightarrow> ignoreE (requireE (secs = None) (conflict ''explicit engagement duration policy required'')) (Inr (None, e))
         | Some limit \<Rightarrow>
             (case secs of
                None \<Rightarrow> Inl (conflict ''duration policy requires a finite owned allocation'')
              | Some d \<Rightarrow>
                  let total = eng_duration_allocated e + d
                  in ignoreE (requireE (total \<le> limit) (conflict ''engagement duration allocation exhausted''))
                     (Inr (Some \<lparr>dr_allocated_seconds = d, dr_total_allocated_seconds = total, dr_limit_seconds = limit\<rparr>,
                           e\<lparr>eng_duration_allocated := total\<rparr>))))"

section \<open>Issuing an attempt\<close>

text \<open>The token is drawn by the caller; only its digest is stored.  A second row for a job violates the primary key.\<close>

definition issue :: "env \<Rightarrow> request \<Rightarrow> string \<Rightarrow> string \<Rightarrow> current_user \<Rightarrow> ClaimControl \<Rightarrow>
    target_receipt option \<Rightarrow> duration_receipt option \<Rightarrow> db \<Rightarrow> (JobExecution \<times> db) res" where
  "issue env rq token jid user body tr dr s =
     bindE (principal env rq) (\<lambda>p.
     ignoreE (requireE (get_execution jid s = None) IntegrityError)
     (let row = \<lparr>exe_job_id = jid, exe_runner_id = cc_runner_id body, exe_origin = cc_origin body,
            exe_owner = cu_github_id user, exe_principal_hash = p, exe_token_hash = sha256 env token,
            exe_expires_at = now env + seconds LEASE_SECONDS, exe_state = ''active'',
            exe_capacity_reserved = cc_concurrency_budget body,
            exe_target_charge = (case tr of None \<Rightarrow> 0 | Some r \<Rightarrow> tr_charged r),
            exe_target_binding = (case tr of None \<Rightarrow> VNone | Some r \<Rightarrow> VDict
               [(''profile'', VStr (tb_profile (tr_binding r))), (''case_sha256'', VStr (tb_case_sha256 (tr_binding r))),
                (''origins'', VList (map VStr (tb_origins (tr_binding r))))]),
            exe_duration_seconds = (case dr of None \<Rightarrow> 0 | Some r \<Rightarrow> dr_allocated_seconds r)\<rparr>
      in Inr (row, add_execution row s)))"

end
