(* ===== verification/Jobs.thy ===== *)
theory Jobs
  imports Job_Config Enforcement Execution_Control
begin

text \<open>
  The scan-job endpoints (\<open>backend/routers/jobs.py\<close> from line 365): queueing, pipelines, hand-off to
  runners, claims, owned execution control and deletion.  A handler maps the request, the caller and the
  stored data to the response or exception and the data committed when it ends; JSON rendering of rows,
  server-sent events and webhooks are left out, so a response carries the row itself.
\<close>

text \<open>A handler that decides its response, an error included, at its commit.\<close>

definition settle :: "'s \<Rightarrow> exn + ('a res \<times> 's) \<Rightarrow> 'a res \<times> 's" where
  "settle s m = (case m of Inl e \<Rightarrow> (Inl e, s) | Inr (r, s') \<Rightarrow> (r, s'))"

section \<open>Request bodies\<close>

record JobCreate =
  jc_tool_type :: string
  jc_target_source :: string
  jc_config :: "pydict option"
  jc_depends_on :: "string option"
  jc_authorization_contract_required :: bool

record PipelineStage =
  ps_tool_type :: string
  ps_target_source :: string
  ps_config :: "pydict option"
  ps_authorization_contract_required :: bool

record PipelineCreate =
  pc_stages :: "PipelineStage list"
  pc_authorization_contract_required :: bool

record JobStatusUpdate =
  su_status :: string
  su_error_message :: "string option"

definition as_dict :: "pyval \<Rightarrow> pydict" where
  "as_dict v = (case v of VDict d \<Rightarrow> d | _ \<Rightarrow> [])"

text \<open>\<open>str((config or {}).get("test_case_id") or "")\<close>\<close>

definition case_ref :: "pydict \<Rightarrow> string" where
  "case_ref config = py_str (or_val (dget config ''test_case_id'') (VStr []))"

definition PATCH_TRANSITIONS :: "(string \<times> string list) list" where
  "PATCH_TRANSITIONS = [(''pending'', [''done'', ''failed'']), (''running'', [''pending'', ''done'', ''failed'']),
     (''done'', []), (''failed'', [])]"

section \<open>Queueing\<close>

definition stored_case :: "string \<Rightarrow> string \<Rightarrow> db \<Rightarrow> AuthorizationTestCase option" where
  "stored_case cid program_id s =
     find (\<lambda>c. tc_id c = cid \<and> tc_program_id c = program_id) (authorization_test_cases s)"

definition validate_test_case_ref :: "string \<Rightarrow> pydict \<Rightarrow> db \<Rightarrow> unit res" where
  "validate_test_case_ref program_id config s =
     (let cid = strip (case_ref config) in
      ignoreE (requireE (cid \<noteq> []) (bad_request (VARDRGATE @ '' requires config.test_case_id'')))
      (requireE (stored_case cid program_id s \<noteq> None) (HTTPException 404 ''Test case not found'')))"

definition validate_dependency :: "string \<Rightarrow> string \<Rightarrow> string \<Rightarrow> db \<Rightarrow> unit res" where
  "validate_dependency parent program_id github_id s =
     requireE (list_ex (\<lambda>j. job_id j = parent \<and> job_program_id j \<in> set (accessible_engagement_ids github_id s)
         \<and> job_program_id j = program_id) (scan_jobs s))
       (bad_request ''depends_on must reference an existing job in this engagement'')"

text \<open>\<open>xs[:n]\<close>\<close>

definition slice_to :: "int \<Rightarrow> 'a list \<Rightarrow> 'a list" where
  "slice_to n xs = (if n < 0 then take (length xs - nat (- n)) xs else take (nat n) xs)"

definition source_targets :: "string \<Rightarrow> string \<Rightarrow> db \<Rightarrow> string list" where
  "source_targets program_id target_source s =
     (if target_source = ''scope'' then
        filter (\<lambda>v. v \<noteq> []) (map sc_value
          (filter (\<lambda>i. sc_program_id i = program_id \<and> sc_scope_type i = ''in'') (scope_items s)))
      else
        filter (\<lambda>v. v \<noteq> []) (map (\<lambda>r. if ri_url r \<noteq> [] then ri_url r else ri_host r)
          (filter (\<lambda>r. ri_program_id r = program_id) (recon_items s))))"

definition resolve_targets :: "string \<Rightarrow> string \<Rightarrow> pydict \<Rightarrow> db \<Rightarrow> string list res" where
  "resolve_targets program_id target_source config s =
     (let deduped = dedup [] (source_targets program_id target_source s)
      in if truthy (dget config ''limit'') then
           (case py_int (dget config ''limit'') of
              Inr n \<Rightarrow> Inr (slice_to n deduped)
            | Inl TypeError \<Rightarrow> Inr deduped
            | Inl ValueError \<Rightarrow> Inr deduped
            | Inl e \<Rightarrow> Inl e)
         else Inr deduped)"

definition tool_type_error :: "string \<Rightarrow> exn" where
  "tool_type_error prefix = bad_request (prefix @ ''tool_type must be one of '' @ py_repr (VList (map VStr (sort VALID_TOOLS))))"

definition new_job :: "env \<Rightarrow> string \<Rightarrow> current_user \<Rightarrow> string \<Rightarrow> string \<Rightarrow> pydict \<Rightarrow> string option \<Rightarrow> bool \<Rightarrow> db \<Rightarrow> ScanJob" where
  "new_job env program_id user tool src config dep contract s =
     \<lparr>job_id = new_uuid env s, job_program_id = program_id, job_owner_github_id = cu_github_id user,
      job_tool_type = tool, job_target_source = src, job_config = VDict config, job_case_snapshot = VNone,
      job_managed_approval_id = None, job_authorization_contract_required = contract, job_assessment = VNone,
      job_status = ''pending'', job_depends_on = dep, job_created_at = now env, job_started_at = None,
      job_completed_at = None, job_error_message = []\<rparr>"

text \<open>\<open>db.add(job)\<close>, flush and the audit entry.\<close>

definition insert_job :: "env \<Rightarrow> current_user \<Rightarrow> ScanJob \<Rightarrow> db \<Rightarrow> db" where
  "insert_job env user job s =
     log_action env (cu_github_id user) ''create'' ''scan_job'' (job_id job) (Some (job_program_id job))
       (drew (add_job job s))"

definition create_job :: "env \<Rightarrow> current_user \<Rightarrow> string \<Rightarrow> JobCreate \<Rightarrow> db \<Rightarrow> (ScanJob \<times> (string \<times> string) list) res \<times> db" where
  "create_job env user program_id body s = transact s (
     bindE (get_engagement_or_404 program_id user s) (\<lambda>e.
     ignoreE (require_member_write e user s)
    (ignoreE (requireE (jc_tool_type body \<in> set VALID_TOOLS) (tool_type_error []))
    (ignoreE (requireE (\<not> (jc_authorization_contract_required body \<and> jc_tool_type body \<noteq> VARDRGATE))
       (bad_request ''authorization contract profile supports fixed Gate jobs only''))
    (ignoreE (requireE (jc_target_source body \<in> set VALID_SOURCES) (bad_request ''target_source must be scope or recon''))
    (bindE (queued_config (eng_max_request_rate e) (jc_tool_type body) (jc_config body)) (\<lambda>config.
     ignoreE (if jc_tool_type body = VARDRGATE then validate_test_case_ref program_id config s else Inr ())
    (ignoreE (case jc_depends_on body of None \<Rightarrow> Inr ()
        | Some d \<Rightarrow> if d = [] then Inr () else validate_dependency d program_id (cu_github_id user) s)
    (bindE (resolve_targets program_id (jc_target_source body) config s) (\<lambda>targets.
     bindE (check s e (jc_tool_type body) targets (now env)) (\<lambda>decision.
     let job = new_job env program_id user (jc_tool_type body) (jc_target_source body) config (jc_depends_on body)
                 (jc_authorization_contract_required body) s
     in Inr ((job, as_warnings decision), insert_job env user job s))))))))))))"

text \<open>The per-stage checks of a pipeline; errors carry the stage's index.\<close>

definition stage_config :: "Engagement \<Rightarrow> string \<Rightarrow> db \<Rightarrow> nat \<times> PipelineStage \<Rightarrow> pydict res" where
  "stage_config e program_id s = (\<lambda>(i, st).
     ignoreE (requireE (ps_tool_type st \<in> set VALID_TOOLS) (tool_type_error (''stage '' @ str_of_int (int i) @ '': '')))
    (ignoreE (requireE (ps_target_source st \<in> set VALID_SOURCES)
       (bad_request (''stage '' @ str_of_int (int i) @ '': target_source must be scope or recon'')))
    (bindE (queued_config (eng_max_request_rate e) (ps_tool_type st) (ps_config st)) (\<lambda>config.
     ignoreE (if ps_tool_type st = VARDRGATE then validate_test_case_ref program_id config s else Inr ())
     (Inr config)))))"

fun insert_stages :: "env \<Rightarrow> current_user \<Rightarrow> string \<Rightarrow> string option \<Rightarrow> (PipelineStage \<times> pydict) list \<Rightarrow> db \<Rightarrow> ScanJob list \<times> db" where
  "insert_stages env user program_id prev [] s = ([], s)"
| "insert_stages env user program_id prev ((st, config) # rest) s =
     (let job = new_job env program_id user (ps_tool_type st) (ps_target_source st) config prev False s;
          (jobs, s') = insert_stages env user program_id (Some (job_id job)) rest (insert_job env user job s)
      in (job # jobs, s'))"

definition create_pipeline :: "env \<Rightarrow> current_user \<Rightarrow> string \<Rightarrow> PipelineCreate \<Rightarrow> db \<Rightarrow> ScanJob list res \<times> db" where
  "create_pipeline env user program_id body s = transact s (
     bindE (get_engagement_or_404 program_id user s) (\<lambda>e.
     ignoreE (require_member_write e user s)
    (ignoreE (requireE (\<not> (pc_authorization_contract_required body
          \<or> list_ex ps_authorization_contract_required (pc_stages body)))
        (bad_request ''contract-required pipelines are unsupported''))
    (bindE (mapE (stage_config e program_id s) (enumerate 0 (pc_stages body))) (\<lambda>configs.
     Inr (insert_stages env user program_id None (zip (pc_stages body) configs) s))))))"

record job_preview =
  jp_count :: nat
  jp_sample :: "string list"
  jp_truncated :: bool

definition preview_job :: "current_user \<Rightarrow> string \<Rightarrow> string \<Rightarrow> string \<Rightarrow> pydict option \<Rightarrow> db \<Rightarrow> job_preview res" where
  "preview_job user program_id tool src config s =
     (let c = (case config of None \<Rightarrow> [] | Some d \<Rightarrow> d) in
      ignoreE (get_engagement_or_404 program_id user s)
     (ignoreE (requireE (tool \<in> set VALID_TOOLS) (tool_type_error []))
     (ignoreE (requireE (src \<in> set VALID_SOURCES) (bad_request ''target_source must be scope or recon''))
     (ignoreE (if c \<noteq> [] then validate_job_config tool c else Inr ())
     (bindE (resolve_targets program_id src c s) (\<lambda>targets.
      Inr \<lparr>jp_count = length targets, jp_sample = take 20 targets, jp_truncated = (length targets > 20)\<rparr>))))))"

definition page :: "nat option \<Rightarrow> nat \<Rightarrow> 'a list \<Rightarrow> 'a list" where
  "page limit offset xs = (case limit of None \<Rightarrow> drop offset xs | Some n \<Rightarrow> take n (drop offset xs))"

definition list_jobs :: "current_user \<Rightarrow> string \<Rightarrow> string option \<Rightarrow> nat option \<Rightarrow> nat \<Rightarrow> db \<Rightarrow> (ScanJob list \<times> nat) res" where
  "list_jobs user program_id status limit offset s =
     ignoreE (get_engagement_or_404 program_id user s)
     (let q = filter (\<lambda>j. job_program_id j = program_id
                 \<and> (case status of None \<Rightarrow> True | Some st \<Rightarrow> st = [] \<or> job_status j = st)) (scan_jobs s)
      in Inr (page limit offset (sort_key (\<lambda>j. - job_created_at j) (sort_key job_id q)), length q))"

section \<open>Hand-off\<close>

definition fail_job :: "int \<Rightarrow> string \<Rightarrow> ScanJob \<Rightarrow> ScanJob" where
  "fail_job t msg j = j\<lparr>job_status := ''failed'', job_completed_at := Some t, job_error_message := msg\<rparr>"

text \<open>
  One pass over the pending jobs: a job is handed on, held back, or failed.  \<open>triage\<close> is given the
  verdict of each job.
\<close>

datatype verdict = Eligible | Held | Refused string

definition triage :: "int \<Rightarrow> (ScanJob \<Rightarrow> verdict) \<Rightarrow> ScanJob list \<Rightarrow> db \<Rightarrow> ScanJob list \<times> db" where
  "triage t v jobs s =
     (filter (\<lambda>j. v j = Eligible) jobs,
      fold (\<lambda>j s. case v j of Refused msg \<Rightarrow> set_job (job_id j) (fail_job t msg) s | _ \<Rightarrow> s) jobs s)"

definition dependency_verdict :: "db \<Rightarrow> ScanJob \<Rightarrow> verdict" where
  "dependency_verdict s j =
     (case job_depends_on j of None \<Rightarrow> Eligible
      | Some d \<Rightarrow> if d = [] then Eligible
          else (case map_option job_status (get_job d s) of
                  None \<Rightarrow> Refused ''upstream pipeline stage not found''
                | Some st \<Rightarrow> if st = ''done'' then Eligible
                    else if st = ''failed'' then Refused ''upstream pipeline stage failed'' else Held))"

definition filter_by_dependencies :: "int \<Rightarrow> ScanJob list \<Rightarrow> db \<Rightarrow> ScanJob list \<times> db" where
  "filter_by_dependencies t pending s = triage t (dependency_verdict s) pending s"

definition job_spec :: "db \<Rightarrow> ScanJob \<Rightarrow> pyval option" where
  "job_spec s j =
     (let cid = case_ref (as_dict (job_config j))
      in if cid = [] then None
         else case stored_case cid (job_program_id j) s of
           None \<Rightarrow> None
         | Some c \<Rightarrow> if truthy (tc_spec c) then Some (tc_spec c) else None)"

definition case_verdict :: "db \<Rightarrow> ScanJob \<Rightarrow> verdict" where
  "case_verdict s j =
     (if job_tool_type j \<noteq> VARDRGATE \<or> job_spec s j \<noteq> None then Eligible
      else Refused (''authorization test case '' @ (let cid = case_ref (as_dict (job_config j))
              in if cid = [] then ''(unset)'' else cid) @ '' no longer exists''))"

definition resolve_test_cases :: "int \<Rightarrow> ScanJob list \<Rightarrow> db \<Rightarrow> (ScanJob \<times> pyval option) list \<times> db" where
  "resolve_test_cases t jobs s =
     (let (eligible, s') = triage t (case_verdict s) jobs s
      in (map (\<lambda>j. (j, if job_tool_type j = VARDRGATE then job_spec s j else None)) eligible, s'))"

definition pending_jobs :: "current_user \<Rightarrow> db \<Rightarrow> ScanJob list" where
  "pending_jobs user s = sort_key job_created_at (filter (\<lambda>j. job_status j = ''pending''
     \<and> job_program_id j \<in> set (accessible_engagement_ids (cu_github_id user) s)) (scan_jobs s))"

definition get_pending_jobs :: "env \<Rightarrow> current_user \<Rightarrow> db \<Rightarrow> (ScanJob \<times> pyval option) list \<times> db" where
  "get_pending_jobs env user s =
     (let (eligible, s1) = filter_by_dependencies (now env) (pending_jobs user s) s
      in resolve_test_cases (now env) eligible s1)"

section \<open>Status changes\<close>

definition writable_engagement :: "ScanJob \<Rightarrow> current_user \<Rightarrow> db \<Rightarrow> Engagement res" where
  "writable_engagement job user s =
     bindE (get_engagement_or_404 (job_program_id job) user s) (\<lambda>e.
       ignoreE (require_member_write e user s) (Inr e))"

definition VALID_STATUSES :: "string list" where
  "VALID_STATUSES = [''pending'', ''running'', ''done'', ''failed'']"

definition status_error :: exn where
  "status_error = bad_request (''status must be one of ('' @ join_with '', '' (map repr_str VALID_STATUSES) @ '')'')"

definition patched_job :: "int \<Rightarrow> JobStatusUpdate \<Rightarrow> ScanJob \<Rightarrow> ScanJob" where
  "patched_job t body j = j\<lparr>job_status := su_status body,
     job_completed_at := (if su_status body \<in> {''done'', ''failed''} then Some t else job_completed_at j),
     job_error_message := (case su_error_message body of None \<Rightarrow> job_error_message j | Some m \<Rightarrow> m)\<rparr>"

text \<open>The cancellation of a controlled execution by its operator, and a change under the transition table.\<close>

definition cancel_controlled :: "current_user \<Rightarrow> string \<Rightarrow> JobStatusUpdate \<Rightarrow> ScanJob \<Rightarrow> JobExecution \<Rightarrow> db \<Rightarrow> ((ScanJob \<times> string option) \<times> db) res" where
  "cancel_controlled user jid body job x s =
     ignoreE (require_full_scope user)
     (if su_status body = ''failed'' \<and> job_status job = ''running'' then
        (if exe_state x = ''active''
         then Inr ((job, Some ''cancel_requested''), set_execution jid (\<lambda>r. r\<lparr>exe_state := ''cancel_requested''\<rparr>) s)
         else Inr ((job, Some (exe_state x)), s))
      else Inl (conflict ''controlled execution requires owned finalization''))"

definition patch_status :: "int \<Rightarrow> string \<Rightarrow> JobStatusUpdate \<Rightarrow> ScanJob \<Rightarrow> db \<Rightarrow> ((ScanJob \<times> string option) \<times> db) res" where
  "patch_status t jid body job s =
     (if su_status body = job_status job \<and> su_status body \<noteq> ''running'' then Inr ((job, None), s)
      else bindE (someE KeyError (map_of PATCH_TRANSITIONS (job_status job))) (\<lambda>allowed.
        ignoreE (requireE (su_status body \<in> set allowed)
          (conflict (''job is '' @ job_status job @ ''; it cannot be set to '' @ su_status body
             @ (if su_status body = ''running'' then ''; claim it with POST /jobs/{id}/claim'' else []))))
        (Inr ((patched_job t body job, None), set_job jid (patched_job t body) s))))"

text \<open>The response is the job and, for a controlled execution, the attempt's state.\<close>

definition update_job :: "env \<Rightarrow> current_user \<Rightarrow> string \<Rightarrow> JobStatusUpdate \<Rightarrow> db \<Rightarrow> (ScanJob \<times> string option) res \<times> db" where
  "update_job env user jid body s = transact s (
     ignoreE (lock_job jid user s)
    (bindE (someE not_found (accessible_job jid user s)) (\<lambda>job.
     ignoreE (requireE (su_status body \<in> set VALID_STATUSES) status_error)
    (ignoreE (writable_engagement job user s)
     (case get_execution jid s of
        Some x \<Rightarrow> cancel_controlled user jid body job x s
      | None \<Rightarrow> patch_status (now env) jid body job s)))))"

section \<open>Claims\<close>

definition managed :: "ScanJob \<Rightarrow> bool" where
  "managed j = (job_authorization_contract_required j \<or> (case job_managed_approval_id j of None \<Rightarrow> False | Some a \<Rightarrow> a \<noteq> []))"

definition claim_snapshot :: "ScanJob \<Rightarrow> db \<Rightarrow> pyval res" where
  "claim_snapshot j s =
     (if job_tool_type j = VARDRGATE then
        bindE (someE (HTTPException 404 ''Test case not found'')
          (stored_case (case_ref (as_dict (job_config j))) (job_program_id j) s)) (\<lambda>c. Inr (tc_spec c))
      else Inr VNone)"

text \<open>The WHERE clause of the conditional update that arbitrates a claim.\<close>

definition claimable :: "current_user \<Rightarrow> db \<Rightarrow> ScanJob \<Rightarrow> bool" where
  "claimable user s j = (job_program_id j \<in> set (accessible_engagement_ids (cu_github_id user) s)
     \<and> job_status j = ''pending'' \<and> \<not> job_authorization_contract_required j \<and> job_managed_approval_id j = None
     \<and> \<not> list_ex (\<lambda>e. eng_stop_work_at e \<noteq> None \<and> eng_id e = job_program_id j) (programs s))"

definition claimed_job :: "int \<Rightarrow> pyval \<Rightarrow> ScanJob \<Rightarrow> ScanJob" where
  "claimed_job t snapshot j = j\<lparr>job_status := ''running'', job_started_at := Some t, job_case_snapshot := snapshot\<rparr>"

record claim_response =
  cr_job :: ScanJob
  cr_warnings :: "(string \<times> string) list"
  cr_execution :: "JobExecution option"

text \<open>
  What a won claim writes: the job starts, the engagement is charged, and an attempt is issued when the
  runner asked for control.
\<close>

definition take_claim :: "env \<Rightarrow> string \<Rightarrow> request \<Rightarrow> current_user \<Rightarrow> ScanJob \<Rightarrow> Engagement \<Rightarrow> pyval \<Rightarrow> ClaimControl option \<Rightarrow> db
    \<Rightarrow> (JobExecution option \<times> db) res" where
  "take_claim env token rq user j e snapshot body s =
     (let s1 = set_job (job_id j) (claimed_job (now env) snapshot) s in
      bindE (charge env e j snapshot body) (\<lambda>(tr, e1).
      bindE (allocate e1 body) (\<lambda>(dr, e2).
      let s2 = set_engagement (eng_id e) (\<lambda>r. r\<lparr>eng_targets_spent := eng_targets_spent e2,
                 eng_duration_allocated := eng_duration_allocated e2\<rparr>) s1
      in case body of
           None \<Rightarrow> Inr (None, s2)
         | Some b \<Rightarrow> bindE (issue env rq token (job_id j) user b tr dr s2) (\<lambda>(row, s3). Inr (Some row, s3)))))"

definition claim_job :: "env \<Rightarrow> string \<Rightarrow> request \<Rightarrow> current_user \<Rightarrow> string \<Rightarrow> ClaimControl option \<Rightarrow> db \<Rightarrow> claim_response res \<times> db" where
  "claim_job env token rq user jid body s = transact s (
     bindE (someE not_found (accessible_job jid user s)) (\<lambda>j.
     ignoreE (writable_engagement j user s)
    (ignoreE (requireE (\<not> managed j) (conflict ''managed authorization required; legacy claim refused''))
    (ignoreE (requireE (job_status j = ''pending'') (conflict (''job is already '' @ job_status j)))
    (bindE (someE (RuntimeError ''NoResultFound'') (get_engagement (job_program_id j) s)) (\<lambda>e.
     ignoreE (before_claim s e body)
    (bindE (resolve_targets (job_program_id j) (job_target_source j) (as_dict (job_config j)) s) (\<lambda>targets.
     bindE (check s e (job_tool_type j) targets (now env)) (\<lambda>decision.
     bindE (claim_snapshot j s) (\<lambda>snapshot.
     ignoreE (requireE (claimable user s j) (conflict (''job is already '' @ job_status j)))
    (bindE (take_claim env token rq user j e snapshot body s) (\<lambda>(x, s3).
     Inr (\<lparr>cr_job = claimed_job (now env) snapshot j, cr_warnings = as_warnings decision,
           cr_execution = x\<rparr>, s3)))))))))))))"

section \<open>Owned execution\<close>

definition execution_status :: "env \<Rightarrow> current_user \<Rightarrow> string \<Rightarrow> db \<Rightarrow> (string \<times> string \<times> bool) res" where
  "execution_status env user jid s =
     bindE (someE not_found (accessible_job jid user s)) (\<lambda>j.
     bindE (someE not_found (get_execution jid s)) (\<lambda>x.
     Inr (if exe_state x = ''active'' \<and> exe_expires_at x \<le> now env then ''uncertain'' else exe_state x,
          job_status j, exe_state x = ''cancelled'')))"

definition refreshed :: "int \<Rightarrow> bool \<Rightarrow> JobExecution \<Rightarrow> JobExecution" where
  "refreshed t stopped x =
     (let x1 = (if stopped \<and> exe_state x = ''active'' then x\<lparr>exe_state := ''cancel_requested''\<rparr> else x)
      in if exe_expires_at x1 \<le> t \<and> exe_state x1 = ''active'' then x1\<lparr>exe_state := ''uncertain''\<rparr> else x1)"

definition refresh_row :: "int \<Rightarrow> bool \<Rightarrow> bool \<Rightarrow> JobExecution \<Rightarrow> JobExecution" where
  "refresh_row t stopped running x =
     (let x1 = refreshed t stopped x
      in if exe_state x1 = ''active'' \<and> running then x1\<lparr>exe_expires_at := t + seconds LEASE_SECONDS\<rparr> else x1)"

definition job_stopped :: "ScanJob \<Rightarrow> db \<Rightarrow> bool" where
  "job_stopped j s = (case get_engagement (job_program_id j) s of None \<Rightarrow> False | Some e \<Rightarrow> eng_stop_work_at e \<noteq> None)"

definition refresh_execution :: "env \<Rightarrow> request \<Rightarrow> current_user \<Rightarrow> string \<Rightarrow> ControlRequest \<Rightarrow> db \<Rightarrow> string res \<times> db" where
  "refresh_execution env rq user jid body s = transact s (
     bindE (owned env rq jid user body s) (\<lambda>x.
     bindE (someE (RuntimeError ''NoResultFound'') (get_job jid s)) (\<lambda>j.
     ignoreE (writable_engagement j user s)
    (ignoreE (requireE (\<not> managed j) (conflict ''managed live control unsupported by legacy adapter''))
     (let running = (job_status j = ''running'');
          x1 = refresh_row (now env) (job_stopped j s) running x
      in Inr (if exe_state x1 = ''active'' \<and> running then ''continue'' else ''cancel'',
              set_execution jid (refresh_row (now env) (job_stopped j s) running) s))))))"

definition FINAL_STATES :: "string list" where
  "FINAL_STATES = [''completed'', ''failed'', ''cancelled'']"

definition finished_job :: "int \<Rightarrow> string \<Rightarrow> ScanJob \<Rightarrow> ScanJob" where
  "finished_job t outcome j = j\<lparr>job_status := (if outcome = ''completed'' then ''done'' else ''failed''),
     job_completed_at := Some t, job_error_message := (if outcome = ''completed'' then [] else outcome)\<rparr>"

text \<open>The decision of \<open>finish_execution\<close> on the caller's own attempt \<open>x\<close> of job \<open>j\<close>.\<close>

definition settle_attempt :: "int \<Rightarrow> string \<Rightarrow> string \<Rightarrow> JobExecution \<Rightarrow> ScanJob \<Rightarrow> db \<Rightarrow> exn + (string res \<times> db)" where
  "settle_attempt t outcome jid x j s =
     (if exe_state x \<in> set FINAL_STATES then
        (if exe_state x \<noteq> outcome then Inl (conflict ''execution already finalized'')
         else Inr (Inr (exe_state x), s))
      else if outcome = ''completed'' \<and> (exe_state x \<noteq> ''active'' \<or> exe_expires_at x \<le> t \<or> job_stopped j s) then
        Inr (Inl (conflict ''stop or expired lease prevents successful completion''),
             set_execution jid (\<lambda>r. r\<lparr>exe_state := ''cancel_requested''\<rparr>) s)
      else if outcome = ''uncertain'' then
        Inr (Inr ''uncertain'', set_execution jid (\<lambda>r. r\<lparr>exe_state := ''uncertain''\<rparr>) s)
      else
        Inr (Inr outcome,
             set_job jid (finished_job t outcome)
               (set_execution jid (\<lambda>r. r\<lparr>exe_state := outcome, exe_capacity_reserved := False\<rparr>) s)))"

definition finish_execution :: "env \<Rightarrow> request \<Rightarrow> current_user \<Rightarrow> string \<Rightarrow> FinishControl \<Rightarrow> db \<Rightarrow> string res \<times> db" where
  "finish_execution env rq user jid body s = settle s (
     bindE (owned env rq jid user body s) (\<lambda>x.
     bindE (someE (RuntimeError ''NoResultFound'') (get_job jid s)) (\<lambda>j.
     ignoreE (writable_engagement j user s)
    (ignoreE (requireE (\<not> managed j) (conflict ''managed finalization unsupported by legacy adapter''))
     (settle_attempt (now env) (cc_outcome body) jid x j s)))))"

section \<open>Events and deletion\<close>

definition create_job_event :: "env \<Rightarrow> current_user \<Rightarrow> string \<Rightarrow> string \<Rightarrow> string \<Rightarrow> db \<Rightarrow> JobEvent res \<times> db" where
  "create_job_event env user jid kind text s = transact s (
     bindE (someE not_found (accessible_job jid user s)) (\<lambda>j.
     ignoreE (writable_engagement j user s)
     (let e = \<lparr>je_id = new_uuid env s, je_job_id = jid, je_owner_github_id = cu_github_id user, je_kind = kind,
                je_text = text, je_created_at = now env\<rparr>
      in Inr (e, drew (s\<lparr>job_events := job_events s @ [e]\<rparr>)))))"

definition get_job_events :: "current_user \<Rightarrow> string \<Rightarrow> nat option \<Rightarrow> nat \<Rightarrow> db \<Rightarrow> (JobEvent list \<times> nat) res" where
  "get_job_events user jid limit offset s =
     ignoreE (someE not_found (accessible_job jid user s))
     (let q = filter (\<lambda>e. je_job_id e = jid) (job_events s)
      in Inr (page limit offset (sort_key je_created_at (sort_key je_id q)), length q))"

text \<open>Deleting a job row takes its events, links, execution and receipt with it and detaches its evidence.\<close>

definition cascade_job :: "string \<Rightarrow> db \<Rightarrow> db" where
  "cascade_job jid s = (del_job jid (del_execution jid s))\<lparr>
     job_events := filter (\<lambda>e. je_job_id e \<noteq> jid) (job_events s),
     job_result_links := filter (\<lambda>l. jl_job_id l \<noteq> jid) (job_result_links s),
     job_result_receipts := filter (\<lambda>r. rcp_job_id r \<noteq> jid) (job_result_receipts s),
     evidence := map (\<lambda>v. if ev_job_id v = Some jid then v\<lparr>ev_job_id := None\<rparr> else v) (evidence s)\<rparr>"

definition delete_job :: "env \<Rightarrow> current_user \<Rightarrow> string \<Rightarrow> db \<Rightarrow> unit res \<times> db" where
  "delete_job env user jid s = transact s (
     ignoreE (require_full_scope user)
    (ignoreE (someE not_found (accessible_job jid user s))
    (bindE (lock_job jid user s) (\<lambda>j.
     ignoreE (requireE (case get_execution jid s of None \<Rightarrow> True | Some x \<Rightarrow> \<not> exe_capacity_reserved x)
       (conflict ''unresolved execution capacity cannot be deleted''))
    (ignoreE (writable_engagement j user s)
     (Inr ((), cascade_job jid (log_action env (cu_github_id user) ''delete'' ''scan_job'' jid (Some (job_program_id j)) s))))))))"

end
