(* ===== verification/Json_Loads.thy ===== *)
theory Json_Loads
  imports Json
begin

text \<open>
  \<open>json.loads\<close> as \<open>backend/managed_wire.py\<close> calls it: the standard decoder with a hook that refuses
  repeated keys, refused constants (\<open>NaN\<close>, \<open>Infinity\<close>) and a float hook.  Every error inside the decoder
  is a \<open>ValueError\<close>, which the caller turns into one refusal.

  The value of a float literal is given by a parameter \<open>flt\<close> (Python's \<open>float(text)\<close>).  The decoder is
  recursive descent; \<open>fuel\<close> bounds the recursion and is shown never to run out when it exceeds twice the
  length of the text.
\<close>

definition no_fuel :: exn where "no_fuel = RuntimeError ''fuel''"

section \<open>Tokens\<close>

definition json_ws :: "char \<Rightarrow> bool" where
  "json_ws c = (code c \<in> {32, 9, 10, 13})"

definition skip :: "string \<Rightarrow> string" where
  "skip s = dropWhile json_ws s"

definition hex_value :: "char \<Rightarrow> int option" where
  "hex_value c = (let n = code c in
     if 48 \<le> n \<and> n \<le> 57 then Some (n - 48)
     else if 97 \<le> n \<and> n \<le> 102 then Some (n - 87)
     else if 65 \<le> n \<and> n \<le> 70 then Some (n - 55) else None)"

definition hex4_value :: "char \<Rightarrow> char \<Rightarrow> char \<Rightarrow> char \<Rightarrow> int option" where
  "hex4_value a b c d = (case (hex_value a, hex_value b, hex_value c, hex_value d) of
       (Some w, Some x, Some y, Some z) \<Rightarrow> Some (((w * 16 + x) * 16 + y) * 16 + z)
     | _ \<Rightarrow> None)"

definition unescape :: "char \<Rightarrow> char option" where
  "unescape e =
     (if e = CHR 0x22 \<or> e = CHR 0x5C \<or> e = CHR ''/'' then Some e
      else if e = CHR ''b'' then Some (CHR 0x08)
      else if e = CHR ''f'' then Some (CHR 0x0C)
      else if e = CHR ''n'' then Some (CHR 0x0A)
      else if e = CHR ''r'' then Some (CHR 0x0D)
      else if e = CHR ''t'' then Some (CHR 0x09) else None)"

definition consE :: "'a \<Rightarrow> ('a list \<times> string) res \<Rightarrow> ('a list \<times> string) res" where
  "consE x m = bindE m (\<lambda>(xs, r). Inr (x # xs, r))"

text \<open>The rest of a string literal after its opening quote.\<close>

fun str_body :: "string \<Rightarrow> (string \<times> string) res" where
  "str_body [] = Inl ValueError"
| "str_body (c # r) =
     (if c = CHR 0x22 then Inr ([], r)
      else if c = CHR 0x5C then
        (case r of
           [] \<Rightarrow> Inl ValueError
         | e # r1 \<Rightarrow>
             if e = CHR ''u'' then
               (case r1 of
                  h1 # h2 # h3 # h4 # r2 \<Rightarrow>
                    (case hex4_value h1 h2 h3 h4 of
                       None \<Rightarrow> Inl ValueError
                     | Some n \<Rightarrow> if n > 255 then Inl OutsideModel else consE (char_of n) (str_body r2))
                | _ \<Rightarrow> Inl ValueError)
             else (case unescape e of None \<Rightarrow> Inl ValueError | Some d \<Rightarrow> consE d (str_body r1)))
      else if code c < 32 then Inl ValueError
      else consE c (str_body r))"

text \<open>
  The longest number at the head of a text: whether it has a fraction or an exponent, its text and the
  rest.
\<close>

definition digits_of :: "string \<Rightarrow> string \<times> string" where
  "digits_of s = (takeWhile is_decimal_char s, dropWhile is_decimal_char s)"

definition int_part :: "string \<Rightarrow> (string \<times> string) option" where
  "int_part s = (case s of
       [] \<Rightarrow> None
     | c # r \<Rightarrow> if c = CHR ''0'' then Some ([c], r)
         else if is_decimal_char c then Some (digits_of s) else None)"

definition frac_part :: "string \<Rightarrow> string \<times> string" where
  "frac_part s = (case s of
       c # d # r \<Rightarrow> if c = CHR ''.'' \<and> is_decimal_char d
         then (let (ds, r') = digits_of (d # r) in (c # ds, r')) else ([], s)
     | _ \<Rightarrow> ([], s))"

definition exp_part :: "string \<Rightarrow> string \<times> string" where
  "exp_part s = (case s of
       c # r \<Rightarrow>
         if c = CHR ''e'' \<or> c = CHR ''E'' then
           (let (sg, r1) = (case r of d # r' \<Rightarrow> if d = CHR ''+'' \<or> d = CHR ''-'' then ([d], r') else ([], r) | [] \<Rightarrow> ([], r));
                (ds, r2) = digits_of r1
            in if ds = [] then ([], s) else (c # sg @ ds, r2))
         else ([], s)
     | [] \<Rightarrow> ([], s))"

definition sign_part :: "string \<Rightarrow> string \<times> string" where
  "sign_part s = (case s of c # r \<Rightarrow> if c = CHR ''-'' then ([c], r) else ([], s) | [] \<Rightarrow> ([], s))"

definition scan_number :: "string \<Rightarrow> ((bool \<times> string) \<times> string) option" where
  "scan_number s =
     (let (sg, s0) = sign_part s
      in case int_part s0 of
           None \<Rightarrow> None
         | Some (ip, s1) \<Rightarrow>
             let (fp, s2) = frac_part s1; (ep, s3) = exp_part s2
             in Some ((fp @ ep \<noteq> [], sg @ ip @ fp @ ep), s3))"

definition number_value :: "(string \<Rightarrow> pyfloat) \<Rightarrow> bool \<times> string \<Rightarrow> pyval res" where
  "number_value flt = (\<lambda>(is_float, t).
     if is_float then (case flt t of Finite r i \<Rightarrow> Inr (VFloat (Finite r i)) | _ \<Rightarrow> Inl ValueError)
     else bindE (int_of_str t) (\<lambda>i. Inr (VInt i)))"

section \<open>Values\<close>

text \<open>A string, a literal name or a number.\<close>

definition parse_atom :: "(string \<Rightarrow> pyfloat) \<Rightarrow> string \<Rightarrow> (pyval \<times> string) res" where
  "parse_atom flt s =
     (if startswith s [CHR 0x22] then bindE (str_body (drop 1 s)) (\<lambda>(t, r). Inr (VStr t, r))
      else if startswith s ''null'' then Inr (VNone, drop 4 s)
      else if startswith s ''true'' then Inr (VBool True, drop 4 s)
      else if startswith s ''false'' then Inr (VBool False, drop 5 s)
      else (case scan_number s of
           None \<Rightarrow> Inl ValueError
         | Some (t, r) \<Rightarrow> bindE (number_value flt t) (\<lambda>v. Inr (v, r))))"

definition close_list :: "(pyval list \<times> string) res \<Rightarrow> (pyval \<times> string) res" where
  "close_list m = bindE m (\<lambda>(vs, r). Inr (VList vs, r))"

text \<open>\<open>object_pairs_hook\<close>: a repeated key is refused.\<close>

definition close_dict :: "(pydict \<times> string) res \<Rightarrow> (pyval \<times> string) res" where
  "close_dict m = bindE m (\<lambda>(ms, r). ignoreE (requireE (distinct (map fst ms)) ValueError) (Inr (VDict ms, r)))"

text \<open>A member's key and the text of its value.\<close>

definition member_key :: "string \<Rightarrow> (string \<times> string) res" where
  "member_key s =
     (if startswith s [CHR 0x22] then
        bindE (str_body (drop 1 s)) (\<lambda>(k, r).
          if startswith (skip r) '':'' then Inr (k, skip (drop 1 (skip r))) else Inl ValueError)
      else Inl ValueError)"

fun parse_value :: "nat \<Rightarrow> (string \<Rightarrow> pyfloat) \<Rightarrow> string \<Rightarrow> (pyval \<times> string) res"
  and parse_elements :: "nat \<Rightarrow> (string \<Rightarrow> pyfloat) \<Rightarrow> string \<Rightarrow> (pyval list \<times> string) res"
  and parse_members :: "nat \<Rightarrow> (string \<Rightarrow> pyfloat) \<Rightarrow> string \<Rightarrow> (pydict \<times> string) res"
where
  "parse_value 0 flt s = Inl no_fuel"
| "parse_value (Suc fuel) flt s =
     (if startswith s ''['' then
        (let r = skip (drop 1 s) in
         if startswith r '']'' then Inr (VList [], drop 1 r) else close_list (parse_elements fuel flt r))
      else if startswith s ''{'' then
        (let r = skip (drop 1 s) in
         if startswith r ''}'' then Inr (VDict [], drop 1 r) else close_dict (parse_members fuel flt r))
      else parse_atom flt s)"
| "parse_elements 0 flt s = Inl no_fuel"
| "parse_elements (Suc fuel) flt s =
     bindE (parse_value fuel flt s) (\<lambda>(v, r).
       if startswith (skip r) '']'' then Inr ([v], drop 1 (skip r))
       else if startswith (skip r) '','' then consE v (parse_elements fuel flt (skip (drop 1 (skip r))))
       else Inl ValueError)"
| "parse_members 0 flt s = Inl no_fuel"
| "parse_members (Suc fuel) flt s =
     bindE (member_key s) (\<lambda>(k, t). bindE (parse_value fuel flt t) (\<lambda>(v, r).
       if startswith (skip r) ''}'' then Inr ([(k, v)], drop 1 (skip r))
       else if startswith (skip r) '','' then consE (k, v) (parse_members fuel flt (skip (drop 1 (skip r))))
       else Inl ValueError))"

definition loads :: "(string \<Rightarrow> pyfloat) \<Rightarrow> string \<Rightarrow> pyval res" where
  "loads flt s =
     bindE (parse_value (2 * length s + 1) flt (skip s)) (\<lambda>(v, r).
       if skip r = [] then Inr v else Inl ValueError)"

section \<open>The decoder consumes its input\<close>

lemma consE_eq_Inr [exn_simps]: "consE x m = Inr (ys, r) \<longleftrightarrow> (\<exists>xs. m = Inr (xs, r) \<and> ys = x # xs)"
  by (auto simp: consE_def bindE_eq_Inr)

lemma consE_eq_Inl [simp]: "consE x m = Inl e \<longleftrightarrow> m = Inl e"
  by (auto simp: consE_def bindE_eq_Inl)

lemma length_skip [simp]: "length (skip s) \<le> length s"
  by (simp add: skip_def length_dropWhile_le)

lemma skip_Cons_length: "skip s = c # r \<Longrightarrow> length r < length s"
  using length_skip [of s] by simp

declare str_body.simps(2) [simp del]

lemma str_body_shorter: "str_body s = Inr (t, r) \<Longrightarrow> length r < length s"
proof (induction s arbitrary: t r rule: length_induct)
  case (1 s)
  show ?case
  proof (cases s)
    case (Cons c s1)
    with 1 show ?thesis
      by (auto simp: str_body.simps(2) [of c s1] exn_simps split: if_splits list.splits option.splits)
        (meson less_SucI less_trans_Suc lessI Suc_lessD)+
  qed (use 1 in simp)
qed

lemma digits_of_length: "digits_of s = (d, r) \<Longrightarrow> s = d @ r"
  by (auto simp: digits_of_def)

lemma int_part_text: "int_part s = Some (d, r) \<Longrightarrow> s = d @ r \<and> d \<noteq> []"
  by (auto simp: int_part_def digits_of_def split: list.splits if_splits)

lemma frac_part_text: "frac_part s = (d, r) \<Longrightarrow> s = d @ r"
  by (auto simp: frac_part_def digits_of_def split: list.splits if_splits)

lemma exp_part_text: "exp_part s = (d, r) \<Longrightarrow> s = d @ r"
  by (auto simp: exp_part_def digits_of_def Let_def split: list.splits if_splits prod.splits)

lemma scan_number_text: "scan_number s = Some ((b, t), r) \<Longrightarrow> s = t @ r \<and> t \<noteq> []"
  by (auto simp: scan_number_def sign_part_def Let_def split: list.splits if_splits prod.splits option.splits
      dest!: int_part_text frac_part_text exp_part_text)

lemma drop_shorter: "startswith s p \<Longrightarrow> p \<noteq> [] \<Longrightarrow> 0 < n \<Longrightarrow> length (drop n s) < length s"
  by (cases s) (auto simp: startswith_def)

lemma skip_drop_shorter: "startswith s p \<Longrightarrow> p \<noteq> [] \<Longrightarrow> 0 < n \<Longrightarrow> length (skip (drop n s)) < length s"
  using drop_shorter [of s p n] length_skip [of "drop n s"] by linarith

lemma drop_skip_shorter: "startswith (skip s) p \<Longrightarrow> p \<noteq> [] \<Longrightarrow> 0 < n \<Longrightarrow> length (drop n (skip s)) < length s"
  using drop_shorter [of "skip s" p n] length_skip [of s] by linarith

lemma skip_skip_shorter:
  "startswith (skip s) p \<Longrightarrow> p \<noteq> [] \<Longrightarrow> 0 < n \<Longrightarrow> length (skip (drop n (skip s))) < length s"
  using drop_skip_shorter [of s p n] length_skip [of "drop n (skip s)"] by linarith

lemma str_body_not_fuel [simp]: "str_body s \<noteq> Inl no_fuel"
proof (induction s rule: str_body.induct)
  case (2 c r)
  then show ?case
    by (auto simp: str_body.simps(2) [of c r] no_fuel_def split: list.splits option.splits if_splits)
qed (simp add: no_fuel_def)

lemma parse_atom_shorter: "parse_atom flt s = Inr (v, r) \<Longrightarrow> length r < length s"
proof -
  assume a: "parse_atom flt s = Inr (v, r)"
  show ?thesis
  proof (cases "startswith s [CHR 0x22]")
    case True
    with a drop_shorter [OF True] show ?thesis
      by (auto simp: parse_atom_def bindE_eq_Inr dest!: str_body_shorter)
  next
    case False
    with a show ?thesis
      by (auto simp: parse_atom_def bindE_eq_Inr split: if_splits option.splits
          dest: scan_number_text drop_shorter)
  qed
qed

lemma member_key_shorter: "member_key s = Inr (k, t) \<Longrightarrow> length t < length s"
proof -
  assume a: "member_key s = Inr (k, t)"
  then have q: "startswith s [CHR 0x22]" by (auto simp: member_key_def split: if_splits)
  with a obtain r where r: "str_body (drop 1 s) = Inr (k, r)" "startswith (skip r) '':''" "t = skip (drop 1 (skip r))"
    by (auto simp: member_key_def bindE_eq_Inr split: if_splits)
  have "length t < length r" using skip_skip_shorter [OF r(2)] r(3) by simp
  also have "\<dots> < length (drop 1 s)" by (rule str_body_shorter [OF r(1)])
  also have "\<dots> \<le> length s" by simp
  finally show ?thesis .
qed

lemma atom_not_fuel [simp]: "parse_atom flt s \<noteq> Inl no_fuel" "member_key s \<noteq> Inl no_fuel"
proof -
  have "int_of_str t \<noteq> Inl no_fuel" for t
    by (auto simp: int_of_str_def no_fuel_def Let_def split: option.splits)
  then have "number_value flt n \<noteq> Inl no_fuel" for n
    by (auto simp: number_value_def bindE_eq_Inl no_fuel_def split: prod.splits pyfloat.splits)
  then show "parse_atom flt s \<noteq> Inl no_fuel"
    by (auto simp: parse_atom_def bindE_eq_Inl no_fuel_def [symmetric] split: option.splits) (simp add: no_fuel_def)
  show "member_key s \<noteq> Inl no_fuel"
    by (auto simp: member_key_def bindE_eq_Inl no_fuel_def [symmetric] split: if_splits) (simp_all add: no_fuel_def)
qed

lemma close_eq_Inr [exn_simps]:
  "close_list m = Inr (v, r) \<longleftrightarrow> (\<exists>vs. m = Inr (vs, r) \<and> v = VList vs)"
  "close_dict n = Inr (v, r) \<longleftrightarrow> (\<exists>ms. n = Inr (ms, r) \<and> distinct (map fst ms) \<and> v = VDict ms)"
  by (auto simp: close_list_def close_dict_def exn_simps)

lemma close_eq_fuel [simp]:
  "close_list m = Inl no_fuel \<longleftrightarrow> m = Inl no_fuel" "close_dict n = Inl no_fuel \<longleftrightarrow> n = Inl no_fuel"
  by (auto simp: close_list_def close_dict_def exn_simps no_fuel_def)

lemma parse_shorter:
  "(\<forall>s v r. parse_value n flt s = Inr (v, r) \<longrightarrow> length r < length s)
   \<and> (\<forall>s vs r. parse_elements n flt s = Inr (vs, r) \<longrightarrow> length r < length s)
   \<and> (\<forall>s ms r. parse_members n flt s = Inr (ms, r) \<longrightarrow> length r < length s)"
proof (induction n)
  case (Suc n)
  have v: "length r < length s" if pv: "parse_value (Suc n) flt s = Inr (v, r)" for s v r
  proof -
    consider "startswith s ''[''" | "startswith s ''{''" | "parse_atom flt s = Inr (v, r)"
      using pv by (auto split: if_splits)
    then show ?thesis
    proof cases
      case 1
      with pv Suc skip_drop_shorter [OF 1, of 1] drop_skip_shorter [of "drop 1 s" _ 1] show ?thesis
        by (fastforce simp: Let_def exn_simps split: if_splits)
    next
      case 2
      then have "\<not> startswith s ''[''" by (cases s) (auto simp: startswith_def)
      with 2 pv Suc skip_drop_shorter [OF 2, of 1] drop_skip_shorter [of "drop 1 s" _ 1] show ?thesis
        by (fastforce simp: Let_def exn_simps split: if_splits)
    qed (rule parse_atom_shorter)
  qed
  moreover have "length r < length s" if "parse_elements (Suc n) flt s = Inr (vs, r)" for s vs r
  proof -
    from that obtain v r0 where v: "parse_value n flt s = Inr (v, r0)" by (auto simp: bindE_eq_Inr)
    with Suc have "length r0 < length s" by blast
    moreover have "length r < length r0"
      using v that Suc drop_skip_shorter [of r0 _ 1] skip_skip_shorter [of r0 _ 1]
      by (fastforce simp: exn_simps split: if_splits)
    ultimately show ?thesis by simp
  qed
  moreover have "length r < length s" if "parse_members (Suc n) flt s = Inr (ms, r)" for s ms r
  proof -
    from that obtain k t v r0 where v: "member_key s = Inr (k, t)" "parse_value n flt t = Inr (v, r0)"
      by (auto simp: bindE_eq_Inr)
    with Suc have "length r0 < length t" by blast
    moreover have "length t < length s" by (rule member_key_shorter [OF v(1)])
    moreover have "length r < length r0"
      using v that Suc drop_skip_shorter [of r0 _ 1] skip_skip_shorter [of r0 _ 1]
      by (fastforce simp: exn_simps split: if_splits)
    ultimately show ?thesis by simp
  qed
  ultimately show ?case by blast
qed simp

lemma parse_value_shorter: "parse_value n flt s = Inr (v, r) \<Longrightarrow> length r < length s"
  using parse_shorter by blast

lemma value_not_fuel: "(Inl ValueError :: 'a res) = Inl no_fuel \<longleftrightarrow> False" "ValueError = no_fuel \<longleftrightarrow> False"
  by (simp_all add: no_fuel_def)

text \<open>Twice the length of the text is fuel enough.\<close>

lemma parse_fuel:
  "(\<forall>s. parse_value n flt s = Inl no_fuel \<longrightarrow> n \<le> 2 * length s)
   \<and> (\<forall>s. parse_elements n flt s = Inl no_fuel \<longrightarrow> n \<le> 2 * length s + 1)
   \<and> (\<forall>s. parse_members n flt s = Inl no_fuel \<longrightarrow> n \<le> 2 * length s + 1)"
proof (induction n)
  case (Suc n)
  have "Suc n \<le> 2 * length s" if nf: "parse_value (Suc n) flt s = Inl no_fuel" for s
  proof -
    obtain p where "startswith s p" "p \<noteq> []"
      and "parse_elements n flt (skip (drop 1 s)) = Inl no_fuel \<or> parse_members n flt (skip (drop 1 s)) = Inl no_fuel"
    proof (cases "startswith s ''['' \<or> startswith s ''{''")
      case True
      with nf that show ?thesis by (auto simp: Let_def split: if_splits)
    qed (use nf in auto)
    with Suc skip_drop_shorter [of s p 1] show ?thesis by fastforce
  qed
  moreover have "Suc n \<le> 2 * length s + 1" if nf: "parse_elements (Suc n) flt s = Inl no_fuel" for s
  proof (cases "parse_value n flt s")
    case (Inl e)
    with nf Suc show ?thesis by auto
  next
    case (Inr x)
    then obtain v r where v: "parse_value n flt s = Inr (v, r)" by (cases x) auto
    with nf have "startswith (skip r) '',''" "parse_elements n flt (skip (drop 1 (skip r))) = Inl no_fuel"
      by (auto simp: value_not_fuel split: if_splits)
    with Suc parse_value_shorter [OF v] skip_skip_shorter [of r "'',''" 1] show ?thesis by fastforce
  qed
  moreover have "Suc n \<le> 2 * length s + 1" if nf: "parse_members (Suc n) flt s = Inl no_fuel" for s
  proof (cases "member_key s")
    case (Inl e)
    with nf have "member_key s = Inl no_fuel" by simp
    then show ?thesis by simp
  next
    case (Inr x)
    then obtain k t where k: "member_key s = Inr (k, t)" by (cases x) auto
    show ?thesis
    proof (cases "parse_value n flt t")
      case (Inl e)
      with nf k Suc member_key_shorter [OF k] show ?thesis by fastforce
    next
      case (Inr x)
      then obtain v r where v: "parse_value n flt t = Inr (v, r)" by (cases x) auto
      with nf k have "startswith (skip r) '',''" "parse_members n flt (skip (drop 1 (skip r))) = Inl no_fuel"
        by (auto simp: value_not_fuel split: if_splits)
      with Suc parse_value_shorter [OF v] member_key_shorter [OF k] skip_skip_shorter [of r "'',''" 1] show ?thesis
        by fastforce
    qed
  qed
  ultimately show ?case by blast
qed simp

lemma loads_not_fuel: "loads flt s \<noteq> Inl no_fuel"
proof
  assume "loads flt s = Inl no_fuel"
  then have "parse_value (2 * length s + 1) flt (skip s) = Inl no_fuel"
    by (auto simp: loads_def bindE_eq_Inl no_fuel_def split: if_splits)
  then have "2 * length s + 1 \<le> 2 * length (skip s)" using parse_fuel by blast
  with length_skip [of s] show False by linarith
qed

section \<open>Decoding what was encoded\<close>

text \<open>
  The encoder sorts keys, so decoding gives back the value with its dictionaries in key order; as Python
  dictionaries compare, the same value.
\<close>

fun in_key_order :: "pyval \<Rightarrow> pyval" where
  "in_key_order (VList xs) = VList (map in_key_order xs)"
| "in_key_order (VDict d) = VDict (sort_key fst (map (\<lambda>(k, v). (k, in_key_order v)) d))"
| "in_key_order v = v"

text \<open>What a decoder can return: distinct keys, finite floats that read back, integers below the digit limit.\<close>

fun encodable :: "(string \<Rightarrow> pyfloat) \<Rightarrow> pyval \<Rightarrow> bool" where
  "encodable flt (VInt i) = (length (str_of_pos \<bar>i\<bar>) \<le> 4300)"
| "encodable flt (VFloat (Finite r t)) = (scan_number r = Some ((True, r), []) \<and> flt r = Finite r t)"
| "encodable flt (VFloat _) = False"
| "encodable flt (VList xs) = list_all (encodable flt) xs"
| "encodable flt (VDict d) = (distinct (map fst d) \<and> list_all (\<lambda>(k, v). encodable flt v) d)"
| "encodable flt _ = True"

definition follow :: "string \<Rightarrow> bool" where
  "follow s = (s = [] \<or> hd s \<in> {CHR '','', CHR '']'', CHR ''}''})"

lemma follow_simps [simp]: "follow []" "follow (CHR '','' # s)" "follow (CHR '']'' # s)" "follow (CHR ''}'' # s)"
  by (simp_all add: follow_def)

lemma hex_value_hex_lower: "0 \<le> n \<Longrightarrow> n < 16 \<Longrightarrow> hex_value (hex_lower n) = Some n"
  by (auto simp: hex_value_def hex_lower_def code_char_of Let_def)

lemma code_inject: "code c = code d \<longleftrightarrow> c = d"
  using char_of_code [of c] char_of_code [of d] by metis

lemma str_body_char:
  "str_body (json_char c @ rest) = consE c (str_body rest)"
proof -
  have b: "0 \<le> code c" "code c < 256" by (rule code_bounds)+
  have h: "hex4_value (CHR ''0'') (CHR ''0'') (hex_lower (code c div 16)) (hex_lower (code c mod 16)) = Some (code c)"
    using b by (simp add: hex4_value_def hex_value_hex_lower) (simp add: hex_value_def code_def)
  have c: "code c = 34 \<longleftrightarrow> c = CHR 0x22" "code c = 92 \<longleftrightarrow> c = CHR 0x5C" "code c = 10 \<longleftrightarrow> c = CHR 0x0A"
    "code c = 13 \<longleftrightarrow> c = CHR 0x0D" "code c = 9 \<longleftrightarrow> c = CHR 0x09" "code c = 12 \<longleftrightarrow> c = CHR 0x0C" "code c = 8 \<longleftrightarrow> c = CHR 0x08"
    using code_inject [of c "CHR 0x22"] code_inject [of c "CHR 0x5C"] code_inject [of c "CHR 0x0A"]
      code_inject [of c "CHR 0x0D"] code_inject [of c "CHR 0x09"] code_inject [of c "CHR 0x0C"] code_inject [of c "CHR 0x08"]
    by (simp_all add: code_def)
  show ?thesis
    using b h by (auto simp: json_char_def Let_def str_body.simps(2) unescape_def c)
qed

lemma str_body_str: "str_body (concat (map json_char s) @ CHR 0x22 # rest) = Inr (s, rest)"
  by (induction s) (simp_all add: str_body.simps(2) str_body_char consE_def)

subsection \<open>Numbers\<close>

lemma follow_hd:
  assumes "follow rest" and "rest = c # r"
  shows "\<not> is_decimal_char c" "c \<notin> {CHR ''.'', CHR ''e'', CHR ''E'', CHR ''+'', CHR ''-''}"
  using assms by (auto simp: follow_def is_decimal_char_def code_def)

lemma digits_of_follow: "follow rest \<Longrightarrow> digits_of (s @ rest) = (fst (digits_of s), snd (digits_of s) @ rest)"
proof (induction s)
  case Nil
  then show ?case by (cases rest) (auto simp: digits_of_def dest: follow_hd)
qed (simp add: digits_of_def)

lemma int_part_follow: "follow rest \<Longrightarrow> int_part s = Some (d, r) \<Longrightarrow> int_part (s @ rest) = Some (d, r @ rest)"
  using digits_of_follow [of rest s]
  by (cases s) (auto simp: int_part_def split: if_splits)

lemma frac_part_follow: "follow rest \<Longrightarrow> frac_part s = (d, r) \<Longrightarrow> frac_part (s @ rest) = (d, r @ rest)"
proof -
  assume f: "follow rest" and s: "frac_part s = (d, r)"
  consider "s = []" | c where "s = [c]" | c e t where "s = c # e # t" by (cases s; cases "tl s") auto
  then show ?thesis
  proof cases
    case 1
    with f s show ?thesis by (cases rest; cases "tl rest") (auto simp: frac_part_def dest: follow_hd)
  next
    case (2 c)
    with f s show ?thesis by (cases rest) (auto simp: frac_part_def dest: follow_hd)
  next
    case (3 c e t)
    with s digits_of_follow [OF f, of "e # t"] show ?thesis
      by (auto simp: frac_part_def split: if_splits prod.splits)
  qed
qed

lemma exp_part_follow: "follow rest \<Longrightarrow> exp_part s = (d, r) \<Longrightarrow> exp_part (s @ rest) = (d, r @ rest)"
proof -
  assume f: "follow rest" and s: "exp_part s = (d, r)"
  consider "s = []" | c where "s = [c]" | c e t where "s = c # e # t" by (cases s; cases "tl s") auto
  then show ?thesis
  proof cases
    case 1
    with f s show ?thesis by (cases rest) (auto simp: exp_part_def dest: follow_hd)
  next
    case (2 c)
    with f s digits_of_follow [OF f, of "[]"] show ?thesis
      by (cases rest) (auto simp: exp_part_def digits_of_def dest: follow_hd)
  next
    case (3 c e t)
    with s digits_of_follow [OF f, of "e # t"] digits_of_follow [OF f, of t] show ?thesis
      by (auto simp: exp_part_def Let_def split: if_splits prod.splits)
  qed
qed

lemma scan_number_follow:
  assumes "follow rest" and "scan_number s = Some ((b, t), r)"
  shows "scan_number (s @ rest) = Some ((b, t), r @ rest)"
proof -
  obtain sg s0 where sg: "sign_part s = (sg, s0)" by fastforce
  with assms(2) obtain ip s1 where ip: "int_part s0 = Some (ip, s1)"
    by (auto simp: scan_number_def split: option.splits)
  obtain fp s2 where fp: "frac_part s1 = (fp, s2)" by fastforce
  obtain ep s3 where ep: "exp_part s2 = (ep, s3)" by fastforce
  have "s \<noteq> []" using scan_number_text [OF assms(2)] by auto
  then have "sign_part (s @ rest) = (sg, s0 @ rest)" using sg by (cases s) (auto simp: sign_part_def split: if_splits)
  moreover note int_part_follow [OF assms(1) ip] frac_part_follow [OF assms(1) fp] exp_part_follow [OF assms(1) ep]
  ultimately show ?thesis using assms(2) sg ip fp ep by (auto simp: scan_number_def)
qed

lemma str_of_pos_leading: "0 < n \<Longrightarrow> hd (str_of_pos n) \<noteq> CHR ''0''"
proof (induction n rule: str_of_pos.induct)
  case (1 n)
  show ?case
  proof (cases "n < 10")
    case True
    with 1 have "code (digit_char n) \<noteq> code (CHR ''0'')" by (simp add: code_digit_char) (simp add: code_def)
    with True show ?thesis by (auto simp: str_of_pos.simps [of n])
  next
    case False
    with 1 show ?thesis by (simp add: str_of_pos.simps [of n])
  qed
qed

lemma int_part_str_of_pos: "0 \<le> n \<Longrightarrow> int_part (str_of_pos n) = Some (str_of_pos n, [])"
proof (cases "n = 0")
  case True
  then have "str_of_pos n = ''0''" using code_inject [of "digit_char 0" "CHR ''0''"]
    by (simp add: str_of_pos.simps code_digit_char) (simp add: code_def)
  then show ?thesis by (simp add: int_part_def)
next
  case False
  assume "0 \<le> n"
  then have d: "list_all is_decimal_char (str_of_pos n)" by (rule str_of_pos_decimal)
  moreover have "hd (str_of_pos n) \<noteq> CHR ''0''" using False \<open>0 \<le> n\<close> str_of_pos_leading by simp
  moreover obtain c r where "str_of_pos n = c # r" using str_of_pos_nonempty by (meson list.exhaust)
  ultimately show ?thesis by (auto simp: int_part_def digits_of_def list_all_iff takeWhile_eq_all_conv [THEN iffD2])
qed

lemma scan_number_str_of_int: "scan_number (str_of_int i) = Some ((False, str_of_int i), [])"
proof -
  have pos: "scan_number (str_of_pos n) = Some ((False, str_of_pos n), [])"
    "scan_number (CHR ''-'' # str_of_pos n) = Some ((False, CHR ''-'' # str_of_pos n), [])" if "0 \<le> n" for n
  proof -
    obtain c r where c: "str_of_pos n = c # r" using str_of_pos_nonempty by (meson list.exhaust)
    with str_of_pos_decimal [OF that] decimal_not_sign have "c \<noteq> CHR ''-''" by auto
    with c int_part_str_of_pos [OF that] show "scan_number (str_of_pos n) = Some ((False, str_of_pos n), [])"
      "scan_number (CHR ''-'' # str_of_pos n) = Some ((False, CHR ''-'' # str_of_pos n), [])"
      by (auto simp: scan_number_def sign_part_def frac_part_def exp_part_def)
  qed
  then show ?thesis by (auto simp: str_of_int_def)
qed

lemma int_of_str_str_of_int:
  assumes "length (str_of_pos \<bar>i\<bar>) \<le> 4300"
  shows "int_of_str (str_of_int i) = Inr i"
proof (cases "0 \<le> i")
  case True
  with assms int_of_str_decimal [OF str_of_pos_decimal [of i]] show ?thesis by (simp add: str_of_int_def)
next
  case False
  let ?t = "str_of_pos (- i)"
  have d: "list_all is_decimal_char ?t" using False by (intro str_of_pos_decimal) simp
  have "strip (CHR ''-'' # ?t) = CHR ''-'' # ?t"
  proof (rule strip_id)
    show "\<not> is_ws (hd (CHR ''-'' # ?t))" by (simp add: is_ws_def code_def)
    show "\<not> is_ws (last (CHR ''-'' # ?t))" using d decimal_not_ws by (simp add: list_all_iff)
  qed simp
  with False assms int_digits_decimal [OF d, of False] digits_val_str_of_pos [of "- i"] show ?thesis
    by (simp add: str_of_int_def int_of_str_def Let_def del: int_digits.simps)
qed

subsection \<open>Values\<close>

lemma map_sort_key: "map f (sort_key f xs) = sort (map f xs)"
proof -
  have "map f (insort_key f x ys) = insort (f x) (map f ys)" for x ys by (induction ys) auto
  then show ?thesis by (induction xs) auto
qed

lemma sort_key_map_snd: "sort_key fst (map (\<lambda>(k, v). (k, f v)) d) = map (\<lambda>(k, v). (k, f v)) (sort_key fst d)"
proof -
  have ins: "insort_key fst (k, f v) (map (\<lambda>(k, v). (k, f v)) ys) = map (\<lambda>(k, v). (k, f v)) (insort_key fst (k, v) ys)" for k v ys
    by (induction ys) auto
  show ?thesis by (induction d) (auto simp: ins)
qed

lemma scan_number_hd: "scan_number (c # s) = Some x \<Longrightarrow> c = CHR ''-'' \<or> is_decimal_char c"
  by (auto simp: scan_number_def sign_part_def int_part_def is_decimal_char_def code_def
      split: if_splits option.splits list.splits prod.splits)

lemma number_hd:
  assumes "c = CHR ''-'' \<or> is_decimal_char c"
  shows "\<not> json_ws c" "c \<notin> {CHR 0x22, CHR ''['', CHR '']'', CHR ''{'', CHR ''n'', CHR ''t'', CHR ''f''}"
  using assms by (auto simp: json_ws_def is_decimal_char_def code_def)

lemma dumps_hd: "encodable flt v \<Longrightarrow> \<exists>c r. dumps v = c # r \<and> \<not> json_ws c \<and> c \<noteq> CHR '']''"
proof (cases v)
  case (VInt i)
  obtain c r where "str_of_int i = c # r" using scan_number_text [OF scan_number_str_of_int [of i]] by (cases "str_of_int i") auto
  with VInt show ?thesis using scan_number_hd [of c r] scan_number_str_of_int [of i] number_hd by fastforce
next
  case (VFloat f)
  assume "encodable flt v"
  with VFloat obtain r t where f: "f = Finite r t" "scan_number r = Some ((True, r), [])" by (cases f) auto
  then obtain c r' where "r = c # r'" using scan_number_text [OF f(2)] by (cases r) auto
  with VFloat f show ?thesis using scan_number_hd number_hd by fastforce
qed (auto simp: json_ws_def json_str_def code_def)

lemma skip_dumps: "encodable flt v \<Longrightarrow> skip (dumps v @ rest) = dumps v @ rest"
  using dumps_hd [of flt v] by (auto simp: skip_def)

lemma dumps_nonempty: "encodable flt v \<Longrightarrow> 0 < length (dumps v)"
  using dumps_hd [of flt v] by auto

lemma startswith_Cons: "startswith (c # s) [d] \<longleftrightarrow> c = d"
  by (auto simp: startswith_def)

lemma parse_number:
  assumes "scan_number t = Some ((b, t), [])" and "follow rest" and "number_value flt (b, t) = Inr v" and "0 < n"
  shows "parse_value n flt (t @ rest) = Inr (v, rest)"
proof -
  obtain c t' where t: "t = c # t'" using scan_number_text [OF assms(1)] by (cases t) auto
  have "c = CHR ''-'' \<or> is_decimal_char c" using scan_number_hd assms(1) t by blast
  from number_hd [OF this] t have "\<not> startswith (t @ rest) p" if "p \<in> {[CHR 0x22], ''['', ''{'', ''null'', ''true'', ''false''}" for p
    using that by (auto simp: startswith_def)
  moreover obtain m where "n = Suc m" using assms(4) by (cases n) auto
  ultimately show ?thesis
    using scan_number_follow [OF assms(2,1)] assms(3) by (simp add: parse_atom_def)
qed

definition reads_back :: "(string \<Rightarrow> pyfloat) \<Rightarrow> pyval \<Rightarrow> bool" where
  "reads_back flt v = (\<forall>n rest. follow rest \<longrightarrow> 2 * length (dumps v) \<le> n \<longrightarrow>
     parse_value n flt (dumps v @ rest) = Inr (in_key_order v, rest))"

lemma parse_elements_dumps:
  "xs \<noteq> [] \<Longrightarrow> list_all (encodable flt) xs \<Longrightarrow> list_all (reads_back flt) xs \<Longrightarrow>
   2 * length (join_with '','' (map dumps xs)) < n \<Longrightarrow>
   parse_elements n flt (join_with '','' (map dumps xs) @ CHR '']'' # rest) = Inr (map in_key_order xs, rest)"
proof (induction xs arbitrary: n)
  case (Cons x xs)
  obtain m where n: "n = Suc m" using Cons.prems(4) by (cases n) auto
  have x: "reads_back flt x" "encodable flt x" using Cons.prems by auto
  show ?case
  proof (cases xs)
    case Nil
    with Cons.prems n x have "parse_value m flt (dumps x @ CHR '']'' # rest) = Inr (in_key_order x, CHR '']'' # rest)"
      by (simp add: reads_back_def)
    with Nil n show ?thesis by (simp add: skip_def json_ws_def code_def startswith_Cons)
  next
    case (Cons y ys)
    let ?j = "join_with '','' (map dumps xs)"
    have l: "2 * length (dumps x) \<le> m" "2 * length ?j < m" using Cons.prems(4) Cons n by auto
    then have "parse_value m flt (dumps x @ CHR '','' # ?j @ CHR '']'' # rest)
        = Inr (in_key_order x, CHR '','' # ?j @ CHR '']'' # rest)"
      using x(1) by (simp add: reads_back_def)
    moreover have "parse_elements m flt (?j @ CHR '']'' # rest) = Inr (map in_key_order xs, rest)"
      using Cons.IH Cons.prems Cons l(2) by simp
    moreover have "skip (?j @ CHR '']'' # rest) = ?j @ CHR '']'' # rest"
    proof -
      have "\<exists>z. ?j = dumps y @ z" using Cons by (cases ys) auto
      then show ?thesis using skip_dumps [of flt y] Cons.prems(2) Cons by auto
    qed
    ultimately show ?thesis
      using Cons n by (simp add: skip_def [of "CHR '','' # _"] json_ws_def code_def startswith_Cons consE_def)
  qed
qed simp

abbreviation member_text :: "string \<times> pyval \<Rightarrow> string" where
  "member_text \<equiv> \<lambda>(k, v). json_str k @ '':'' @ dumps v"

lemma member_key_text:
  assumes "encodable flt v"
  shows "member_key (json_str k @ CHR '':'' # dumps v @ rest) = Inr (k, dumps v @ rest)"
proof -
  have "json_str k @ CHR '':'' # dumps v @ rest
      = CHR 0x22 # concat (map json_char k) @ CHR 0x22 # CHR '':'' # dumps v @ rest" by (simp add: json_str_def)
  then show ?thesis
    using skip_dumps [OF assms] str_body_str [of k "CHR '':'' # dumps v @ rest"]
    by (simp add: member_key_def startswith_Cons skip_def [of "CHR '':'' # _"] json_ws_def code_def)
qed

lemma parse_members_dumps:
  "ms \<noteq> [] \<Longrightarrow> list_all (\<lambda>(k, v). encodable flt v \<and> reads_back flt v) ms \<Longrightarrow>
   2 * length (join_with '','' (map member_text ms)) < n \<Longrightarrow>
   parse_members n flt (join_with '','' (map member_text ms) @ CHR ''}'' # rest)
     = Inr (map (\<lambda>(k, v). (k, in_key_order v)) ms, rest)"
proof (induction ms arbitrary: n)
  case (Cons m ms)
  obtain k v where m: "m = (k, v)" by fastforce
  obtain f where n: "n = Suc f" using Cons.prems(3) by (cases n) auto
  have v: "reads_back flt v" "encodable flt v" using Cons.prems m by auto
  show ?case
  proof (cases ms)
    case Nil
    with Cons.prems m n have "parse_value f flt (dumps v @ CHR ''}'' # rest) = Inr (in_key_order v, CHR ''}'' # rest)"
      using v(1) by (simp add: reads_back_def)
    with Nil n m show ?thesis
      by (simp add: member_key_text [OF v(2)] skip_def json_ws_def code_def startswith_Cons)
  next
    case (Cons y ys)
    let ?j = "join_with '','' (map member_text ms)"
    have l: "2 * length (dumps v) \<le> f" "2 * length ?j < f" using Cons.prems(3) Cons n m by auto
    then have "parse_value f flt (dumps v @ CHR '','' # ?j @ CHR ''}'' # rest)
        = Inr (in_key_order v, CHR '','' # ?j @ CHR ''}'' # rest)"
      using v(1) by (simp add: reads_back_def)
    moreover have "parse_members f flt (?j @ CHR ''}'' # rest) = Inr (map (\<lambda>(k, v). (k, in_key_order v)) ms, rest)"
      using Cons.IH Cons.prems Cons l(2) by simp
    moreover have "skip (?j @ CHR ''}'' # rest) = ?j @ CHR ''}'' # rest"
    proof -
      have "\<exists>z. ?j = CHR 0x22 # z" using Cons by (cases y; cases ys) (auto simp: json_str_def)
      then show ?thesis by (auto simp: skip_def json_ws_def code_def)
    qed
    ultimately show ?thesis
      using Cons n m by (simp add: member_key_text [OF v(2)] skip_def [of "CHR '','' # _"] json_ws_def code_def
          startswith_Cons consE_def)
  qed
qed simp

lemma reads_backI:
  assumes "encodable flt v"
    and "\<And>f rest. follow rest \<Longrightarrow> 2 * length (dumps v) \<le> Suc f \<Longrightarrow>
      parse_value (Suc f) flt (dumps v @ rest) = Inr (in_key_order v, rest)"
  shows "reads_back flt v"
  unfolding reads_back_def
proof (intro allI impI)
  fix n rest
  assume "follow rest" and n: "2 * length (dumps v) \<le> n"
  moreover obtain f where "n = Suc f" using n dumps_nonempty [OF assms(1)] by (cases n) auto
  ultimately show "parse_value n flt (dumps v @ rest) = Inr (in_key_order v, rest)" using assms(2) by blast
qed

lemma list_reads_back:
  assumes "list_all (encodable flt) xs" and "list_all (reads_back flt) xs"
  shows "reads_back flt (VList xs)"
proof (rule reads_backI)
  fix f :: nat and rest
  assume f: "2 * length (dumps (VList xs)) \<le> Suc f"
  show "parse_value (Suc f) flt (dumps (VList xs) @ rest) = Inr (in_key_order (VList xs), rest)"
  proof (cases xs)
    case Nil
    then show ?thesis by (simp add: startswith_def skip_def json_ws_def code_def)
  next
    case (Cons y ys)
    let ?j = "join_with '','' (map dumps xs)"
    obtain c r where "dumps y = c # r" "\<not> json_ws c" "c \<noteq> CHR '']''" using dumps_hd [of flt y] assms(1) Cons by auto
    then obtain z where "?j = c # z" "\<not> json_ws c" "c \<noteq> CHR '']''" using Cons by (cases ys) auto
    with f Cons parse_elements_dumps [OF _ assms, of f rest] show ?thesis
      by (simp add: startswith_Cons skip_def close_list_def)
  qed
qed (use assms in simp)

lemma dict_reads_back:
  assumes "encodable flt (VDict d)" and "list_all (\<lambda>(k, v). reads_back flt v) d"
  shows "reads_back flt (VDict d)"
proof (rule reads_backI)
  fix f :: nat and rest
  assume f: "2 * length (dumps (VDict d)) \<le> Suc f"
  let ?ms = "sort_key fst d"
  let ?j = "join_with '','' (map member_text ?ms)"
  have shape: "dumps (VDict d) = CHR ''{'' # ?j @ ''}''"
    unfolding dumps.simps sort_key_map_snd by (simp add: case_prod_beta' comp_def)
  have "distinct (map fst ?ms)" using assms(1) by (simp add: map_sort_key)
  then have keys: "distinct (map fst (map (\<lambda>(k, v). (k, in_key_order v)) ?ms))" by (simp add: case_prod_beta' comp_def)
  show "parse_value (Suc f) flt (dumps (VDict d) @ rest) = Inr (in_key_order (VDict d), rest)"
  proof (cases "d = []")
    case True
    then show ?thesis by (simp add: startswith_def skip_def json_ws_def code_def)
  next
    case False
    moreover have "set ?ms = set d" by simp
    ultimately obtain y ys where ms: "?ms = y # ys" by (cases ?ms) auto
    have "list_all (\<lambda>(k, v). encodable flt v \<and> reads_back flt v) ?ms" using assms by (auto simp: list_all_iff)
    moreover have "\<exists>z. ?j = CHR 0x22 # z" using ms by (cases y; cases ys) (auto simp: json_str_def)
    ultimately show ?thesis
      using f shape ms keys parse_members_dumps [of ?ms flt f rest]
      by (auto simp: startswith_Cons skip_def json_ws_def code_def close_dict_def sort_key_map_snd)
  qed
qed (use assms in simp)

lemma dumps_reads_back: "encodable flt v \<Longrightarrow> reads_back flt v"
proof (induction v)
  case (VInt i)
  then show ?case
    by (intro reads_backI) (auto intro!: parse_number [OF scan_number_str_of_int] simp: number_value_def int_of_str_str_of_int
        simp del: parse_value.simps)
next
  case (VFloat f)
  then obtain r t where f: "f = Finite r t" "scan_number r = Some ((True, r), [])" "flt r = Finite r t" by (cases f) auto
  with VFloat show ?case
    by (intro reads_backI) (auto intro!: parse_number [OF f(2)] simp: number_value_def simp del: parse_value.simps)
next
  case (VStr s)
  have "parse_value (Suc f) flt (json_str s @ rest) = Inr (VStr s, rest)" for f rest
    using str_body_str [of s rest] by (simp add: parse_atom_def json_str_def startswith_def)
  then show ?case by (intro reads_backI) simp_all
next
  case (VList xs)
  then show ?case by (intro list_reads_back) (auto simp: list_all_iff)
next
  case (VDict d)
  have "list_all (\<lambda>(k, v). reads_back flt v) d"
    unfolding list_all_iff
  proof safe
    fix k v
    assume kv: "(k, v) \<in> set d"
    moreover have "encodable flt v" using VDict.prems kv by (auto simp: list_all_iff)
    ultimately show "reads_back flt v" using VDict.IH [of "(k, v)" v] by simp
  qed
  with VDict.prems show ?case by (intro dict_reads_back)
qed (auto intro!: reads_backI simp: parse_atom_def startswith_def)

text \<open>The decoder returns exactly the encoded value, its keys in order.\<close>

lemma loads_dumps:
  assumes "encodable flt v"
  shows "loads flt (dumps v) = Inr (in_key_order v)"
proof -
  have "parse_value (2 * length (dumps v) + 1) flt (dumps v @ []) = Inr (in_key_order v, [])"
    using dumps_reads_back [OF assms] unfolding reads_back_def by (metis follow_simps(1) le_add1)
  with skip_dumps [OF assms, of "[]"] show ?thesis
    by (simp add: loads_def del: parse_value.simps) (simp add: skip_def)
qed

end
