(* ===== verification/Calendar.thy ===== *)
theory Calendar
  imports Prelude
begin

text \<open>
  The proleptic Gregorian calendar as Python's \<open>datetime\<close> computes it, and the second-precision UTC texts
  \<open>YYYY-MM-DDTHH:MM:SSZ\<close> of the signed documents (\<open>timestamp\<close> and \<open>stamp\<close> of
  \<open>backend/managed_wire.py\<close>).  An instant is a number of microseconds since 1970-01-01T00:00:00Z.
\<close>

section \<open>Dates\<close>

definition is_leap :: "int \<Rightarrow> bool" where
  "is_leap y = (y mod 4 = 0 \<and> (y mod 100 \<noteq> 0 \<or> y mod 400 = 0))"

definition DAYS_BEFORE_MONTH :: "int list" where
  "DAYS_BEFORE_MONTH = [0, 0, 31, 59, 90, 120, 151, 181, 212, 243, 273, 304, 334, 365]"

definition DAYS_IN_MONTH :: "int list" where
  "DAYS_IN_MONTH = [0, 31, 28, 31, 30, 31, 30, 31, 31, 30, 31, 30, 31]"

definition days_before_year :: "int \<Rightarrow> int" where
  "days_before_year y = (let p = y - 1 in p * 365 + p div 4 - p div 100 + p div 400)"

definition days_before_month :: "bool \<Rightarrow> int \<Rightarrow> int" where
  "days_before_month leap m = DAYS_BEFORE_MONTH ! nat m + (if m > 2 \<and> leap then 1 else 0)"

definition days_in_month :: "bool \<Rightarrow> int \<Rightarrow> int" where
  "days_in_month leap m = (if m = 2 \<and> leap then 29 else DAYS_IN_MONTH ! nat m)"

definition ymd2ord :: "int \<Rightarrow> int \<Rightarrow> int \<Rightarrow> int" where
  "ymd2ord y m d = days_before_year y + days_before_month (is_leap y) m + d"

text \<open>Month and day of the \<open>n\<close>-th day of a year, counted from 0.\<close>

definition month_day :: "bool \<Rightarrow> int \<Rightarrow> int \<times> int" where
  "month_day leap n =
     (let m = (n + 50) div 32;
          p = days_before_month leap m
      in if p > n then (m - 1, n - (p - days_in_month leap (m - 1)) + 1) else (m, n - p + 1))"

definition ord2ymd :: "int \<Rightarrow> int \<times> int \<times> int" where
  "ord2ymd ord =
     (let n = ord - 1;
          n400 = n div 146097; n = n mod 146097;
          n100 = n div 36524; n = n mod 36524;
          n4 = n div 1461; n = n mod 1461;
          n1 = n div 365; n = n mod 365;
          year = n400 * 400 + n100 * 100 + n4 * 4 + n1 + 1
      in if n1 = 4 \<or> n100 = 4 then (year - 1, 12, 31)
         else (year, month_day (is_leap year) n))"

section \<open>Facts\<close>

definition valid_date :: "int \<Rightarrow> int \<Rightarrow> int \<Rightarrow> bool" where
  "valid_date y m d = (1 \<le> y \<and> y \<le> 9999 \<and> 1 \<le> m \<and> m \<le> 12 \<and> 1 \<le> d \<and> d \<le> days_in_month (is_leap y) m)"

definition month_day_ok :: "bool \<Rightarrow> int \<Rightarrow> bool" where
  "month_day_ok leap n = (case month_day leap n of (m, d) \<Rightarrow>
     1 \<le> m \<and> m \<le> 12 \<and> 1 \<le> d \<and> d \<le> days_in_month leap m \<and> days_before_month leap m + d = n + 1)"

lemma month_day_table: "list_all (month_day_ok False) [0..364] \<and> list_all (month_day_ok True) [0..365]"
  by code_simp

lemma month_day_correct:
  assumes "0 \<le> n" and "n < (if leap then 366 else 365)"
  shows "month_day_ok leap n"
proof (cases leap)
  case True
  have "month_day_ok True n" if "n \<in> {0..365}"
    using month_day_table [THEN conjunct2, unfolded list_all_iff set_upto] that by (rule bspec)
  with True assms show ?thesis by simp
next
  case False
  have "month_day_ok False n" if "n \<in> {0..364}"
    using month_day_table [THEN conjunct1, unfolded list_all_iff set_upto] that by (rule bspec)
  with False assms show ?thesis by simp
qed

text \<open>The year of a day: its cycles of 400, 100 and 4 years, and which year of the last cycle.\<close>

lemma days_before_year_parts:
  fixes a b c e :: int
  assumes "0 \<le> b" "b \<le> 3" "0 \<le> c" "c \<le> 24" "0 \<le> e" "e \<le> 3"
  shows "days_before_year (a * 400 + b * 100 + c * 4 + e + 1) = 146097 * a + 36524 * b + 1461 * c + 365 * e"
proof -
  have "(a * 400 + b * 100 + c * 4 + e) div 4 = a * 100 + b * 25 + c"
    using assms by (intro int_div_pos_eq [where r = e]) auto
  moreover have "(a * 400 + b * 100 + c * 4 + e) div 100 = a * 4 + b"
    using assms by (intro int_div_pos_eq [where r = "c * 4 + e"]) auto
  moreover have "(a * 400 + b * 100 + c * 4 + e) div 400 = a"
    using assms by (intro int_div_pos_eq [where r = "b * 100 + c * 4 + e"]) auto
  ultimately show ?thesis by (simp add: days_before_year_def)
qed

lemma ymd2ord_ord2ymd:
  assumes "ord2ymd n = (y, m, d)"
  shows "ymd2ord y m d = n \<and> 1 \<le> m \<and> m \<le> 12 \<and> 1 \<le> d \<and> d \<le> days_in_month (is_leap y) m"
proof -
  define a where "a = (n - 1) div 146097"
  define r1 where "r1 = (n - 1) mod 146097"
  define b where "b = r1 div 36524"
  define r2 where "r2 = r1 mod 36524"
  define c where "c = r2 div 1461"
  define r3 where "r3 = r2 mod 1461"
  define e where "e = r3 div 365"
  define r4 where "r4 = r3 mod 365"
  define year where "year = a * 400 + b * 100 + c * 4 + e + 1"
  have n: "n - 1 = 146097 * a + r1" "0 \<le> r1" "r1 < 146097" by (simp_all add: a_def r1_def)
  have r1: "r1 = 36524 * b + r2" "0 \<le> r2" "r2 < 36524" by (simp_all add: b_def r2_def)
  have r2: "r2 = 1461 * c + r3" "0 \<le> r3" "r3 < 1461" by (simp_all add: c_def r3_def)
  have r3: "r3 = 365 * e + r4" "0 \<le> r4" "r4 < 365" by (simp_all add: e_def r4_def)
  have bounds: "0 \<le> b" "b \<le> 4" "0 \<le> c" "c \<le> 24" "0 \<le> e" "e \<le> 4" using n r1 r2 r3 by linarith+
  have ord: "ord2ymd n = (if e = 4 \<or> b = 4 then (year - 1, 12, 31) else (year, month_day (is_leap year) r4))"
    by (simp add: ord2ymd_def Let_def a_def r1_def b_def r2_def c_def r3_def e_def r4_def year_def)
  show ?thesis
  proof (cases "e = 4 \<or> b = 4")
    case True
    have last_day: "ymd2ord y 12 31 = days_before_year y + 366 \<and> days_in_month (is_leap y) 12 = 31" if "is_leap y" for y
      using that by (simp add: ymd2ord_def days_before_month_def days_in_month_def DAYS_BEFORE_MONTH_def DAYS_IN_MONTH_def)
    have md: "y = year - 1" "m = 12" "d = 31" using True ord assms by auto
    show ?thesis
    proof (cases "b = 4")
      case True
      with n r1 have r: "r1 = 146096" "r2 = 0" by linarith+
      then have "r1 = 146096" "c = 0" "e = 0" by (simp_all add: c_def e_def r3_def)
      then have y: "y = a * 400 + 3 * 100 + 24 * 4 + 3 + 1" using True md by (simp add: year_def)
      moreover have "y mod 400 = 0" using y by simp
      then have "is_leap y" unfolding is_leap_def by presburger
      ultimately show ?thesis
        using days_before_year_parts [of 3 24 3 a] last_day [of y] n \<open>r1 = 146096\<close> md by simp
    next
      case False
      with \<open>e = 4 \<or> b = 4\<close> have e: "e = 4" by simp
      with r3 r2 have "r3 = 1460" by linarith
      with r1 r2 have c: "c \<le> 23" by linarith
      have y: "y = a * 400 + b * 100 + c * 4 + 3 + 1" using e md by (simp add: year_def)
      have "y mod 4 = 0" using y by presburger
      moreover have "y mod 100 = c * 4 + 4" using y bounds c by (intro int_mod_pos_eq [where q = "a * 4 + b"]) auto
      ultimately have leap: "is_leap y" using bounds by (simp add: is_leap_def)
      have "days_before_year y = 146097 * a + 36524 * b + 1461 * c + 365 * 3"
        unfolding y using bounds False by (intro days_before_year_parts) auto
      then show ?thesis using last_day [OF leap] n(1) r1(1) r2(1) \<open>r3 = 1460\<close> md(2,3) leap by simp
    qed
  next
    case False
    then have "days_before_year year = 146097 * a + 36524 * b + 1461 * c + 365 * e"
      unfolding year_def using bounds by (intro days_before_year_parts) auto
    moreover have "month_day_ok (is_leap year) r4" using r3 by (intro month_day_correct) auto
    moreover have "y = year" "month_day (is_leap year) r4 = (m, d)" using assms ord False by auto
    ultimately show ?thesis using n r1 r2 r3 by (simp add: month_day_ok_def ymd2ord_def)
  qed
qed

end
