(* ===== verification/Wire.thy ===== *)
theory Wire
  imports Json_Loads Calendar
begin

text \<open>
  The signed documents of the managed authorization protocol (\<open>backend/managed_wire.py\<close>): canonical
  bytes and their digest, the field readers, second-precision times, the bounded document parser,
  unpadded base64 and the two operations of \<open>ContractWire\<close>: checking an operator's approval and issuing a
  contract.  Byte strings are \<open>string\<close>s (one \<open>char\<close> per byte).  SHA-256, Ed25519 and Python's
  \<open>float(text)\<close> are library code: parameters of the definitions, gathered in the record \<open>crypto\<close>.

  Python's recursion limit is not modelled: a document nested deeply enough to hit it is refused by the
  code as malformed and by the model for its depth.
\<close>

named_theorems wire_simps \<open>unfolding of the wire readers\<close>

record crypto =
  sha_hex :: "string \<Rightarrow> string"
  ed_verify :: "string \<Rightarrow> string \<Rightarrow> string \<Rightarrow> bool"
  ed_sign :: "string \<Rightarrow> string \<Rightarrow> string"
  ed_public :: "string \<Rightarrow> string"
  float_of :: "string \<Rightarrow> pyfloat"

definition wire_require :: "bool \<Rightarrow> string \<Rightarrow> unit res" where
  "wire_require c reason = requireE c (WireRefused reason)"

section \<open>Canonical bytes\<close>

text \<open>What \<open>json.dumps(..., allow_nan=False)\<close> refuses: a float that is no number, an integer over the digit limit.\<close>

fun serializable :: "pyval \<Rightarrow> bool" where
  "serializable (VFloat (Finite r t)) = True"
| "serializable (VFloat _) = False"
| "serializable (VInt i) = (length (str_of_pos \<bar>i\<bar>) \<le> 4300)"
| "serializable (VList xs) = list_all serializable xs"
| "serializable (VDict d) = list_all (\<lambda>(k, v). serializable v) d"
| "serializable _ = True"

definition canonical :: "pyval \<Rightarrow> string res" where
  "canonical v = (if serializable v then Inr (dumps v) else Inl (WireRefused ''invalid_document''))"

definition digest :: "crypto \<Rightarrow> pyval \<Rightarrow> string res" where
  "digest k v = bindE (canonical v) (\<lambda>b. Inr (sha_hex k b))"

section \<open>Field readers\<close>

definition read_fields :: "pyval \<Rightarrow> string list \<Rightarrow> pydict res" where
  "read_fields v names = (case v of
       VDict d \<Rightarrow> ignoreE (wire_require (set (map fst d) = set names) ''invalid_fields'') (Inr d)
     | _ \<Rightarrow> Inl (WireRefused ''invalid_fields''))"

definition identifier_char :: "char \<Rightarrow> bool" where
  "identifier_char c = (let n = code c in
     65 \<le> n \<and> n \<le> 90 \<or> 97 \<le> n \<and> n \<le> 122 \<or> 48 \<le> n \<and> n \<le> 57 \<or> c \<in> {CHR ''_'', CHR ''.'', CHR '':'', CHR ''-''})"

definition read_identifier :: "pyval \<Rightarrow> string res" where
  "read_identifier v = (case v of
       VStr s \<Rightarrow> ignoreE (wire_require (list_all identifier_char s \<and> 1 \<le> length s \<and> length s \<le> 128) ''invalid_identifier'') (Inr s)
     | _ \<Rightarrow> Inl (WireRefused ''invalid_identifier''))"

definition MAX_INTEGER :: int where "MAX_INTEGER = 2 ^ 53 - 1"

definition integer :: "pyval \<Rightarrow> int \<Rightarrow> int \<Rightarrow> int res" where
  "integer v minimum maximum = (case v of
       VInt i \<Rightarrow> ignoreE (wire_require (minimum \<le> i \<and> i \<le> maximum) ''invalid_integer'') (Inr i)
     | _ \<Rightarrow> Inl (WireRefused ''invalid_integer''))"

section \<open>Times\<close>

text \<open>\<open>\d{4}-\d\d-\d\dT\d\d:\d\d:\d\dZ\<close>: every 0 of the template stands for a digit.\<close>

definition time_shape :: "string \<Rightarrow> bool" where
  "time_shape s = list_all2 (\<lambda>p c. if p = CHR ''0'' then is_decimal_char c else c = p) ''0000-00-00T00:00:00Z'' s"

definition EPOCH_ORDINAL :: int where "EPOCH_ORDINAL = 719163"

text \<open>\<open>strptime\<close> admits seconds up to 61, \<open>datetime\<close> does not.\<close>

definition timestamp :: "pyval \<Rightarrow> int res" where
  "timestamp v = (case v of
       VStr s \<Rightarrow>
         if time_shape s then
           (let field = (\<lambda>i n. digits_val 0 (take n (drop i s)));
                y = field 0 4; mo = field 5 2; d = field 8 2; h = field 11 2; mi = field 14 2; sec = field 17 2
            in if valid_date y mo d \<and> h \<le> 23 \<and> mi \<le> 59 \<and> sec \<le> 59
               then Inr (seconds ((ymd2ord y mo d - EPOCH_ORDINAL) * 86400 + h * 3600 + mi * 60 + sec))
               else Inl (WireRefused ''invalid_time''))
         else Inl (WireRefused ''invalid_time'')
     | _ \<Rightarrow> Inl (WireRefused ''invalid_time''))"

definition pad2 :: "int \<Rightarrow> string" where
  "pad2 n = [digit_char (n div 10), digit_char (n mod 10)]"

definition pad4 :: "int \<Rightarrow> string" where
  "pad4 n = pad2 (n div 100) @ pad2 (n mod 100)"

text \<open>
  \<open>strftime\<close> of the UTC value.  \<open>datetime\<close> ends with the years 1 and 9999; how \<open>%Y\<close> prints a year below
  1000 differs between C libraries and is left open.
\<close>

definition stamp :: "datetime \<Rightarrow> string res" where
  "stamp t = ignoreE (wire_require (dt_off t \<noteq> None) ''trusted_clock_required'')
     (let sec = instant t div 1000000;
          (y, mo, d) = ord2ymd (sec div 86400 + EPOCH_ORDINAL);
          r = sec mod 86400
      in if y < 1 \<or> 9999 < y then Inl OverflowError
         else if y < 1000 then Inl OutsideModel
         else Inr (pad4 y @ ''-'' @ pad2 mo @ ''-'' @ pad2 d @ ''T''
                   @ pad2 (r div 3600) @ '':'' @ pad2 (r mod 3600 div 60) @ '':'' @ pad2 (r mod 60) @ ''Z''))"

section \<open>Documents\<close>

text \<open>
  \<open>bytes.decode("utf-8")\<close>.  Lead bytes C2 and C3 give the characters U+0080 to U+00FF; the higher lead
  bytes stand for characters the model's strings do not hold.
\<close>

fun decode_utf8 :: "string \<Rightarrow> string res" where
  "decode_utf8 [] = Inr []"
| "decode_utf8 (c # r) =
     (if code c < 128 then bindE (decode_utf8 r) (\<lambda>t. Inr (c # t))
      else if code c \<in> {194, 195} then
        (case r of
           [] \<Rightarrow> Inl ValueError
         | d # r' \<Rightarrow>
             if 128 \<le> code d \<and> code d < 192
             then bindE (decode_utf8 r') (\<lambda>t. Inr (char_of (code d + (code c - 194) * 64) # t))
             else Inl ValueError)
      else if 196 \<le> code c \<and> code c \<le> 244 then Inl OutsideModel
      else Inl ValueError)"

fun depth :: "nat \<Rightarrow> pyval \<Rightarrow> bool" where
  "depth level (VList xs) = (level \<le> 32 \<and> list_all (depth (Suc level)) xs)"
| "depth level (VDict d) = (level \<le> 32 \<and> list_all (\<lambda>(k, v). depth (Suc level) v) d)"
| "depth level _ = (level \<le> 32)"

definition MAX_DOCUMENT :: int where "MAX_DOCUMENT = 1024 * 1024"

text \<open>Every \<open>ValueError\<close> of the decoder, the hooks' own refusals included, is reported as a malformed document.\<close>

definition wire_parse :: "crypto \<Rightarrow> string \<Rightarrow> int \<Rightarrow> pyval res" where
  "wire_parse k data maximum =
     ignoreE (wire_require (0 < length data \<and> int (length data) \<le> maximum) ''document_size'')
     (case bindE (decode_utf8 data) (loads (float_of k)) of
        Inl e \<Rightarrow> Inl (if e = OutsideModel then e else WireRefused ''malformed_document'')
      | Inr v \<Rightarrow> ignoreE (wire_require (depth 0 v) ''document_depth'') (Inr v))"

section \<open>Base64\<close>

definition b64_char :: "int \<Rightarrow> char" where
  "b64_char n = (if n < 26 then char_of (65 + n) else if n < 52 then char_of (71 + n)
     else if n < 62 then char_of (n - 4) else if n = 62 then CHR ''-'' else CHR ''_'')"

definition b64_value :: "char \<Rightarrow> int option" where
  "b64_value c = (let n = code c in
     if 65 \<le> n \<and> n \<le> 90 then Some (n - 65) else if 97 \<le> n \<and> n \<le> 122 then Some (n - 71)
     else if 48 \<le> n \<and> n \<le> 57 then Some (n + 4) else if c = CHR ''-'' then Some 62
     else if c = CHR ''_'' then Some 63 else None)"

fun b64 :: "string \<Rightarrow> string" where
  "b64 [] = []"
| "b64 [a] = [b64_char (code a div 4), b64_char (code a mod 4 * 16)]"
| "b64 [a, b] = [b64_char (code a div 4), b64_char (code a mod 4 * 16 + code b div 16), b64_char (code b mod 16 * 4)]"
| "b64 (a # b # c # r) = b64_char (code a div 4) # b64_char (code a mod 4 * 16 + code b div 16)
     # b64_char (code b mod 16 * 4 + code c div 64) # b64_char (code c mod 64) # b64 r"

text \<open>\<open>b64decode\<close> of the values of a text whose length the caller padded to a multiple of four.\<close>

fun b64_bytes :: "int list \<Rightarrow> string option" where
  "b64_bytes [] = Some []"
| "b64_bytes [w] = None"
| "b64_bytes [w, x] = Some [char_of (w * 4 + x div 16)]"
| "b64_bytes [w, x, y] = Some [char_of (w * 4 + x div 16), char_of (x mod 16 * 16 + y div 4)]"
| "b64_bytes (w # x # y # z # r) = map_option (\<lambda>t. char_of (w * 4 + x div 16) # char_of (x mod 16 * 16 + y div 4)
     # char_of (y mod 4 * 64 + z) # t) (b64_bytes r)"

definition unb64 :: "pyval \<Rightarrow> int \<Rightarrow> string res" where
  "unb64 v maximum = (case v of
       VStr s \<Rightarrow>
         ignoreE (wire_require (0 < length s \<and> int (length s) \<le> (maximum * 4 + 2) div 3
             \<and> list_all (\<lambda>c. b64_value c \<noteq> None) s) ''invalid_base64'')
         (bindE (someE (WireRefused ''invalid_base64'') (b64_bytes (map (the \<circ> b64_value) s))) (\<lambda>data.
          ignoreE (wire_require (int (length data) \<le> maximum \<and> b64 data = s) ''invalid_base64'') (Inr data)))
     | _ \<Rightarrow> Inl (WireRefused ''invalid_base64''))"

definition message :: "string \<Rightarrow> string \<Rightarrow> string" where
  "message purpose data = ''VardrSec.AuthorizationContract.v1'' @ [CHR 0x00] @ purpose @ [CHR 0x00] @ data"

section \<open>ContractWire\<close>

record OperatorAnchor =
  oa_issuer_id :: string
  oa_key_id :: string
  oa_approver_id :: string
  oa_public_key :: string
  oa_revoked :: bool

record ContractWire =
  cw_issuer_id :: string
  cw_key_id :: string
  cw_signer :: string
  cw_operators :: "OperatorAnchor list"

definition contract_wire :: "crypto \<Rightarrow> string \<Rightarrow> string \<Rightarrow> string \<Rightarrow> OperatorAnchor list \<Rightarrow> ContractWire res" where
  "contract_wire k issuer key contract_key operators =
     ignoreE (read_identifier (VStr issuer)) (ignoreE (read_identifier (VStr key))
     (ignoreE (requireE (length contract_key = 32) ValueError)
     (ignoreE (wire_require (operators \<noteq> []) ''operator_trust_required'')
     (ignoreE (wire_require (distinct (map (\<lambda>a. (oa_issuer_id a, oa_key_id a)) operators)) ''duplicate_trust'')
     (ignoreE (mapE (\<lambda>a.
        ignoreE (read_identifier (VStr (oa_issuer_id a))) (ignoreE (read_identifier (VStr (oa_key_id a)))
        (ignoreE (read_identifier (VStr (oa_approver_id a)))
        (wire_require (oa_issuer_id a = issuer \<and> oa_key_id a \<noteq> key \<and> oa_public_key a \<noteq> ed_public k contract_key
           \<and> length (oa_public_key a) = 32) ''separate_approval_key_required'')))) operators)
     (Inr \<lparr>cw_issuer_id = issuer, cw_key_id = key, cw_signer = contract_key, cw_operators = operators\<rparr>))))))"

definition MAX_PAYLOAD :: int where "MAX_PAYLOAD = 256 * 1024"

abbreviation ENVELOPE_FIELDS :: "string list" where
  "ENVELOPE_FIELDS \<equiv> [''format'', ''purpose'', ''payload'', ''signature'']"

abbreviation APPROVAL_FIELDS :: "string list" where
  "APPROVAL_FIELDS \<equiv> [''schema'', ''issuer'', ''origin'', ''approval_id'', ''approver_id'', ''approved_at'', ''context'']"

definition find_anchor :: "ContractWire \<Rightarrow> pydict \<Rightarrow> OperatorAnchor option" where
  "find_anchor w issuer = find (\<lambda>a. VStr (oa_issuer_id a) = dget issuer ''id'' \<and> VStr (oa_key_id a) = dget issuer ''key_id'')
     (cw_operators w)"

text \<open>The signature, its own encoding included, has one refusal.\<close>

definition verify_signature :: "crypto \<Rightarrow> OperatorAnchor \<Rightarrow> pyval \<Rightarrow> string \<Rightarrow> unit res" where
  "verify_signature k a signature data = (case unb64 signature 64 of
       Inl _ \<Rightarrow> Inl (WireRefused ''invalid_signature'')
     | Inr sig \<Rightarrow> wire_require (ed_verify k (oa_public_key a) sig (message ''approval'' data)) ''invalid_signature'')"

text \<open>The time conditions, evaluated left to right up to the first that fails.\<close>

definition in_window :: "pyval \<Rightarrow> string \<Rightarrow> string \<Rightarrow> int \<Rightarrow> bool res" where
  "in_window context from_field to_field t =
     bindE (vindex context from_field) (\<lambda>f. bindE (timestamp f) (\<lambda>start.
     if t < start then Inr False
     else bindE (vindex context to_field) (\<lambda>l. bindE (timestamp l) (\<lambda>stop. Inr (t < stop)))))"

definition approval_times :: "pydict \<Rightarrow> pyval \<Rightarrow> int \<Rightarrow> bool res" where
  "approval_times payload context t =
     bindE (timestamp (dget payload ''approved_at'')) (\<lambda>approved.
     if t < approved then Inr False
     else bindE (in_window context ''not_before'' ''expires_at'' t) (\<lambda>valid.
     if \<not> valid then Inr False else in_window context ''testing_start'' ''testing_end'' t))"

definition approval :: "crypto \<Rightarrow> ContractWire \<Rightarrow> pyval \<Rightarrow> pyval \<Rightarrow> string \<Rightarrow> datetime \<Rightarrow> pydict res" where
  "approval k w envelope context owner t =
     bindE (read_fields envelope ENVELOPE_FIELDS) (\<lambda>env.
     ignoreE (wire_require (dget env ''format'' = VStr ''vardr.authorization-envelope/1''
         \<and> dget env ''purpose'' = VStr ''approval'') ''envelope_version_or_purpose'')
     (bindE (unb64 (dget env ''payload'') MAX_PAYLOAD) (\<lambda>data.
     bindE (wire_parse k data MAX_PAYLOAD) (\<lambda>v.
     bindE (read_fields v APPROVAL_FIELDS) (\<lambda>payload.
     bindE (read_fields (dget payload ''issuer'') [''id'', ''key_id'']) (\<lambda>issuer.
     case find_anchor w issuer of
       None \<Rightarrow> Inl (WireRefused ''operator_not_trusted'')
     | Some a \<Rightarrow>
         ignoreE (wire_require (\<not> oa_revoked a) ''operator_not_trusted'')
         (ignoreE (wire_require (dget payload ''schema'' = VStr ''vardr.execution-approval/1''
             \<and> dget payload ''origin'' = VStr ''map'') ''approval_schema_or_origin'')
         (ignoreE (wire_require (dget payload ''approver_id'' = VStr (oa_approver_id a) \<and> oa_approver_id a = owner)
             ''operator_owner_mismatch'')
         (ignoreE (read_identifier (dget payload ''approval_id''))
         (ignoreE (verify_signature k a (dget env ''signature'') data)
         (bindE (canonical (dget payload ''context'')) (\<lambda>signed. bindE (canonical context) (\<lambda>current.
         ignoreE (wire_require (signed = current) ''approval_context_changed'')
         (bindE (vget context ''control'') (\<lambda>control. bindE (vget context ''mode'') (\<lambda>mode.
          bindE (vget context ''exceptions'') (\<lambda>exceptions.
         ignoreE (wire_require (control = VStr ''managed_online'' \<and> mode = VStr ''strict'' \<and> exceptions = VList [])
             ''unsupported_managed_mode'')
         (bindE (stamp t) (\<lambda>text. ignoreE (timestamp (VStr text))
         (bindE (approval_times payload context (instant t)) (\<lambda>valid.
         ignoreE (wire_require valid ''approval_expired_or_not_yet_valid'')
         (bindE (vindex context ''max_executions'') (\<lambda>m.
         ignoreE (integer m 1 1000) (Inr payload))))))))))))))))))))))))"

text \<open>\<open>issue\<close>: the contract document in the order the code evaluates its fields.\<close>

definition contract_payload :: "crypto \<Rightarrow> ContractWire \<Rightarrow> pyval \<Rightarrow> pydict \<Rightarrow> pyval \<Rightarrow> datetime \<Rightarrow> string \<Rightarrow> string \<Rightarrow> int \<Rightarrow> int \<Rightarrow> pyval res" where
  "contract_payload k w envelope receipt context t contract_id attempt_id fence ordinal =
     bindE (read_identifier (VStr contract_id)) (\<lambda>cid.
     bindE (digest k envelope) (\<lambda>sha.
     bindE (vindex context ''max_executions'') (\<lambda>m.
     bindE (py_int m) (\<lambda>top.
     bindE (integer (VInt ordinal) 1 top) (\<lambda>index.
     bindE (vindex context ''plan_sha256'') (\<lambda>plan.
     bindE (vindex context ''runner_id'') (\<lambda>v. bindE (read_identifier v) (\<lambda>runner.
     bindE (vindex context ''engagement_id'') (\<lambda>v. bindE (read_identifier v) (\<lambda>engagement.
     bindE (vindex context ''job_id'') (\<lambda>v. bindE (read_identifier v) (\<lambda>job.
     bindE (read_identifier (VStr attempt_id)) (\<lambda>attempt.
     bindE (integer (VInt fence) 1 MAX_INTEGER) (\<lambda>fe.
     bindE (stamp t) (\<lambda>issued.
     bindE (vindex context ''expires_at'') (\<lambda>expires.
     bindE (vindex context ''authority_revision'') (\<lambda>v. bindE (integer v 0 MAX_INTEGER) (\<lambda>revision.
     Inr (VDict [
       (''schema'', VStr ''vardr.authorization/1''),
       (''issuer'', VDict [(''id'', VStr (cw_issuer_id w)), (''key_id'', VStr (cw_key_id w))]),
       (''origin'', VStr ''map''),
       (''contract_id'', VStr cid),
       (''approval_sha256'', VStr sha),
       (''approval_id'', dget receipt ''approval_id''),
       (''execution_index'', VInt index),
       (''plan_sha256'', plan),
       (''runner_id'', VStr runner),
       (''engagement_id'', VStr engagement),
       (''job_id'', VStr job),
       (''attempt_id'', VStr attempt),
       (''fence'', VInt fe),
       (''issued_at'', VStr issued),
       (''expires_at'', expires),
       (''authority_revision'', VInt revision)])))))))))))))))))))"

definition sign_contract :: "crypto \<Rightarrow> ContractWire \<Rightarrow> pyval \<Rightarrow> pyval res" where
  "sign_contract k w payload =
     bindE (canonical payload) (\<lambda>data.
     ignoreE (wire_require (int (length data) \<le> MAX_PAYLOAD) ''document_size'')
     (Inr (VDict [
       (''format'', VStr ''vardr.authorization-envelope/1''),
       (''purpose'', VStr ''contract''),
       (''payload'', VStr (b64 data)),
       (''signature'', VStr (b64 (ed_sign k (cw_signer w) (message ''contract'' data))))])))"

definition wire_issue :: "crypto \<Rightarrow> ContractWire \<Rightarrow> pyval \<Rightarrow> pyval \<Rightarrow> string \<Rightarrow> datetime \<Rightarrow> string \<Rightarrow> string \<Rightarrow> int \<Rightarrow> int \<Rightarrow> pyval res" where
  "wire_issue k w envelope context owner t contract_id attempt_id fence ordinal =
     bindE (approval k w envelope context owner t) (\<lambda>receipt.
     bindE (contract_payload k w envelope receipt context t contract_id attempt_id fence ordinal) (sign_contract k w))"

section \<open>Facts: readers\<close>

lemma wire_require_eq_Inr [simp, exn_simps]: "wire_require c r = Inr u \<longleftrightarrow> c"
  by (simp add: wire_require_def)

lemma wire_require_True [simp]: "wire_require True r = Inr ()"
  by (simp add: wire_require_def)

lemma read_fields_Inr [wire_simps]: "read_fields v names = Inr d \<longleftrightarrow> v = VDict d \<and> set (map fst d) = set names"
  by (cases v) (auto simp: read_fields_def exn_simps)

lemma read_identifier_Inr [wire_simps]:
  "read_identifier v = Inr s \<longleftrightarrow> v = VStr s \<and> list_all identifier_char s \<and> 1 \<le> length s \<and> length s \<le> 128"
  by (cases v) (auto simp: read_identifier_def exn_simps)

lemma integer_Inr [wire_simps]: "integer v lo hi = Inr i \<longleftrightarrow> v = VInt i \<and> lo \<le> i \<and> i \<le> hi"
  by (cases v) (auto simp: integer_def exn_simps)

section \<open>Facts: base64\<close>

lemma b64_value_char: "0 \<le> n \<Longrightarrow> n < 64 \<Longrightarrow> b64_value (b64_char n) = Some n"
proof -
  assume n: "0 \<le> n" "n < 64"
  have "list_all (\<lambda>n. b64_value (b64_char n) = Some n) [0..63]" by code_simp
  then have "\<forall>n \<in> {0..63}. b64_value (b64_char n) = Some n" unfolding list_all_iff set_upto .
  then show ?thesis using n by (simp add: Ball_def)
qed

lemma b64_alphabet: "list_all (\<lambda>c. b64_value c \<noteq> None) (b64 d)"
proof (induction d rule: b64.induct)
  case (2 a) then show ?case using code_bounds [of a] by (simp add: b64_value_char)
next
  case (3 a b) then show ?case using code_bounds [of a] code_bounds [of b] by (simp add: b64_value_char)
next
  case (4 a b c r)
  then show ?case using code_bounds [of a] code_bounds [of b] code_bounds [of c] by (simp add: b64_value_char)
qed simp

lemma b64_bytes_b64: "b64_bytes (map (the \<circ> b64_value) (b64 d)) = Some d"
proof (induction d rule: b64.induct)
  case (2 a) then show ?case using code_bounds [of a] by (simp add: b64_value_char)
next
  case (3 a b)
  then show ?case using code_bounds [of a] code_bounds [of b] by (simp add: b64_value_char)
next
  case (4 a b c r)
  have "code a mod 4 * 16 + code b div 16 < 64" "code b mod 16 * 4 + code c div 64 < 64"
    using code_bounds [of b] code_bounds [of c] by presburger+
  with 4 show ?case using code_bounds [of a] code_bounds [of b] code_bounds [of c] by (simp add: b64_value_char)
qed simp

lemma length_b64: "length (b64 d) = (length d * 4 + 2) div 3"
  by (induction d rule: b64.induct) simp_all

lemma unb64_b64:
  assumes "d \<noteq> []" and "int (length d) \<le> maximum"
  shows "unb64 (VStr (b64 d)) maximum = Inr d"
proof -
  have "int ((length d * 4 + 2) div 3) \<le> (maximum * 4 + 2) div 3" using assms(2) by (simp add: zdiv_int zdiv_mono1)
  moreover have "0 < (length d * 4 + 2) div 3" using assms(1) by (cases d) simp_all
  ultimately show ?thesis
    using b64_alphabet [of d] assms(2) by (simp add: unb64_def length_b64 b64_bytes_b64)
qed

text \<open>Only the encoder's own text is read: two texts never stand for the same bytes.\<close>

lemma unb64_Inr: "unb64 v maximum = Inr d \<Longrightarrow> v = VStr (b64 d) \<and> int (length d) \<le> maximum \<and> d \<noteq> []"
  by (cases v) (auto simp: unb64_def exn_simps)

section \<open>Facts: times\<close>

lemma is_decimal_digit_char: "0 \<le> n \<Longrightarrow> n < 10 \<Longrightarrow> is_decimal_char (digit_char n)"
  by (rule digit_char_decimal)

lemma digits_pad2 [simp]: "0 \<le> n \<Longrightarrow> n < 100 \<Longrightarrow> digits_val acc (pad2 n) = 100 * acc + n"
  by (simp add: pad2_def)

lemma stamp_shape:
  assumes "0 \<le> y" "y < 10000" "0 \<le> mo" "mo < 100" "0 \<le> d" "d < 100" "0 \<le> h" "h < 100" "0 \<le> mi" "mi < 100" "0 \<le> sec" "sec < 100"
  shows "time_shape (pad4 y @ ''-'' @ pad2 mo @ ''-'' @ pad2 d @ ''T'' @ pad2 h @ '':'' @ pad2 mi @ '':'' @ pad2 sec @ ''Z'')"
  using assms by (simp add: time_shape_def pad4_def pad2_def digit_char_decimal)

lemma digits_pad4: "0 \<le> n \<Longrightarrow> n < 10000 \<Longrightarrow> digits_val 0 (pad4 n) = n"
  by (simp add: pad4_def pad2_def)

lemma timestamp_fields:
  assumes "valid_date y mo d" "0 \<le> h" "h \<le> 23" "0 \<le> mi" "mi \<le> 59" "0 \<le> sec" "sec \<le> 59"
  shows "timestamp (VStr (pad4 y @ ''-'' @ pad2 mo @ ''-'' @ pad2 d @ ''T'' @ pad2 h @ '':'' @ pad2 mi @ '':'' @ pad2 sec @ ''Z''))
    = Inr (seconds ((ymd2ord y mo d - EPOCH_ORDINAL) * 86400 + h * 3600 + mi * 60 + sec))"
    (is "timestamp (VStr ?t) = _")
proof -
  have y: "0 \<le> y" "y < 10000" and mo: "0 \<le> mo" "mo < 100" and d0: "0 \<le> d"
    using assms(1) by (auto simp: valid_date_def)
  have "days_in_month leap m < 100" if "1 \<le> m" "m \<le> 12" for leap m
  proof -
    have "list_all (\<lambda>m. days_in_month True m < 100 \<and> days_in_month False m < 100) [1..12]" by code_simp
    then have "\<forall>m \<in> {1..12}. days_in_month True m < 100 \<and> days_in_month False m < 100" unfolding list_all_iff set_upto .
    with that show ?thesis by (cases leap) simp_all
  qed
  from this [of mo "is_leap y"] have d: "d < 100" using assms(1) by (auto simp: valid_date_def)
  have "time_shape ?t" by (rule stamp_shape) (use y mo d0 d assms in auto)
  moreover have "take 4 ?t = pad4 y" "take 2 (drop 5 ?t) = pad2 mo" "take 2 (drop 8 ?t) = pad2 d"
    "take 2 (drop 11 ?t) = pad2 h" "take 2 (drop 14 ?t) = pad2 mi" "take 2 (drop 17 ?t) = pad2 sec"
    by (simp_all add: pad4_def pad2_def)
  ultimately show ?thesis using assms y mo d0 d by (simp add: timestamp_def digits_pad4 Let_def)
qed

lemma timestamp_stamp:
  assumes "stamp t = Inr s"
  shows "timestamp (VStr s) = Inr (seconds (instant t div 1000000))"
proof -
  define q where "q = instant t div 1000000"
  define r where "r = q mod 86400"
  obtain y mo d where o: "ord2ymd (q div 86400 + EPOCH_ORDINAL) = (y, mo, d)" by (metis prod_cases3)
  have r: "0 \<le> r" "r < 86400" by (simp_all add: r_def)
  have y: "1000 \<le> y" "y \<le> 9999" and s: "s = pad4 y @ ''-'' @ pad2 mo @ ''-'' @ pad2 d @ ''T''
       @ pad2 (r div 3600) @ '':'' @ pad2 (r mod 3600 div 60) @ '':'' @ pad2 (r mod 60) @ ''Z''"
    using assms o by (auto simp: stamp_def Let_def exn_simps q_def [symmetric] r_def [symmetric] split: if_splits)
  have o': "ymd2ord y mo d = q div 86400 + EPOCH_ORDINAL" and "valid_date y mo d"
    using ymd2ord_ord2ymd [OF o] y by (auto simp: valid_date_def)
  then have "timestamp (VStr s) = Inr (seconds ((ymd2ord y mo d - EPOCH_ORDINAL) * 86400
       + r div 3600 * 3600 + r mod 3600 div 60 * 60 + r mod 60))"
    unfolding s using r by (intro timestamp_fields) auto
  moreover have "(ymd2ord y mo d - EPOCH_ORDINAL) * 86400 + r div 3600 * 3600 + r mod 3600 div 60 * 60 + r mod 60 = q"
  proof -
    have "r mod 3600 mod 60 = r mod 60" by (simp add: mod_mod_cancel)
    then have "r div 3600 * 3600 + r mod 3600 div 60 * 60 + r mod 60 = r"
      using div_mult_mod_eq [of r 3600] div_mult_mod_eq [of "r mod 3600" 60] by linarith
    moreover have "q div 86400 * 86400 + r = q" unfolding r_def by (rule div_mult_mod_eq)
    ultimately show ?thesis unfolding o' by (simp only: add_diff_cancel_right' add.assoc)
  qed
  ultimately show ?thesis by (simp add: q_def)
qed


section \<open>Facts: documents\<close>

lemma serializable_encodable: "encodable flt v \<Longrightarrow> serializable v"
proof (induction v)
  case (VFloat f) then show ?case by (cases f) simp_all
next
  case (VList xs) then show ?case by (simp add: list_all_iff)
next
  case (VDict d) then show ?case by (fastforce simp: list_all_iff)
qed simp_all

abbreviation ascii_text :: "string \<Rightarrow> bool" where "ascii_text s \<equiv> list_all (\<lambda>c. code c < 128) s"

lemma decode_ascii: "ascii_text s \<Longrightarrow> decode_utf8 s = Inr s"
  by (induction s) simp_all

lemma ascii_json_char: "ascii_text (json_char c)"
proof -
  have "code (hex_lower n) < 128" if "0 \<le> n" "n < 16" for n using that by (simp add: hex_lower_def code_char_of)
  then show ?thesis using code_bounds [of c] by (simp add: json_char_def Let_def code_def)
qed

lemma ascii_json_str: "ascii_text (json_str s)"
  using ascii_json_char by (auto simp: json_str_def list_all_iff code_def)

lemma ascii_decimal: "list_all is_decimal_char s \<Longrightarrow> ascii_text s"
  by (auto simp: list_all_iff is_decimal_char_def)

lemma ascii_join: "list_all ascii_text ts \<Longrightarrow> ascii_text sep \<Longrightarrow> ascii_text (join_with sep ts)"
  by (induction sep ts rule: join_with.induct) auto

lemma ascii_str_of_int: "ascii_text (str_of_int i)"
  using ascii_decimal [OF str_of_pos_decimal] by (simp add: str_of_int_def code_def)

lemma scan_number_ascii:
  assumes "scan_number s = Some ((b, s), [])"
  shows "ascii_text s"
proof -
  have d: "digits_of t = (d, r) \<Longrightarrow> ascii_text d" for t d r
    using ascii_decimal [of d] by (auto simp: digits_of_def list_all_iff dest: set_takeWhileD)
  have i: "int_part t = Some (d, r) \<Longrightarrow> ascii_text d" for t d r
    using d by (auto simp: int_part_def is_decimal_char_def code_def split: list.splits if_splits prod.splits)
  have f: "frac_part t = (d, r) \<Longrightarrow> ascii_text d" for t d r
    using d by (auto simp: frac_part_def is_decimal_char_def code_def split: list.splits if_splits prod.splits)
  have e: "exp_part t = (d, r) \<Longrightarrow> ascii_text d" for t d r
    using d by (auto simp: exp_part_def Let_def is_decimal_char_def code_def split: list.splits if_splits prod.splits)
  have g: "sign_part t = (d, r) \<Longrightarrow> ascii_text d" for t d r
    by (auto simp: sign_part_def code_def split: list.splits if_splits)
  show ?thesis using assms
    by (auto simp: scan_number_def Let_def split: option.splits prod.splits dest!: g i f e)
qed

lemma ascii_dumps: "encodable flt v \<Longrightarrow> ascii_text (dumps v)"
proof (induction v)
  case (VFloat f) then show ?case by (cases f) (auto intro: scan_number_ascii)
next
  case (VList xs)
  then have "list_all ascii_text (map dumps xs)" by (simp add: list_all_iff)
  then have "ascii_text (join_with '','' (map dumps xs))" by (rule ascii_join) (simp add: code_def)
  then show ?case by (simp add: code_def)
next
  case (VDict d)
  then have "list_all ascii_text (map (\<lambda>(k, t). json_str k @ '':'' @ t) (sort_key fst (map (\<lambda>(k, v). (k, dumps v)) d)))"
    using ascii_json_str by (fastforce simp: list_all_iff code_def)
  then have "ascii_text (join_with '','' (map (\<lambda>(k, t). json_str k @ '':'' @ t) (sort_key fst (map (\<lambda>(k, v). (k, dumps v)) d))))"
    by (rule ascii_join) (simp add: code_def)
  then show ?case by (simp add: code_def)
qed (use ascii_str_of_int ascii_json_str in \<open>auto simp: code_def\<close>)

lemma depth_in_key_order: "depth n (in_key_order v) = depth n v"
proof (induction v arbitrary: n)
  case (VList xs) then show ?case by (simp add: list_all_iff)
next
  case (VDict d) then show ?case by (force simp: list_all_iff)
qed simp_all

lemma canonical_Inr: "canonical v = Inr b \<Longrightarrow> b = dumps v"
  by (auto simp: canonical_def split: if_splits)

lemma wire_parse_canonical:
  assumes "encodable (float_of k) v" and "depth 0 v" and "canonical v = Inr b" and "int (length b) \<le> maximum"
  shows "wire_parse k b maximum = Inr (in_key_order v)"
proof -
  have b: "b = dumps v" by (rule canonical_Inr) (rule assms(3))
  have "0 < length b" unfolding b by (rule dumps_nonempty) (rule assms(1))
  then show ?thesis using assms b
    by (simp add: wire_parse_def decode_ascii ascii_dumps loads_dumps depth_in_key_order)
qed

text \<open>Documents with equal canonical bytes are equal as Python compares dictionaries.\<close>

lemma canonical_inject:
  assumes "encodable flt v" and "encodable flt w" and "canonical v = canonical w"
  shows "in_key_order v = in_key_order w"
proof -
  have "dumps v = dumps w" using assms by (simp add: canonical_def serializable_encodable)
  then show ?thesis using loads_dumps [OF assms(1)] loads_dumps [OF assms(2)] by simp
qed

lemma wire_parse_depth: "wire_parse k b maximum = Inr v \<Longrightarrow> depth 0 v \<and> int (length b) \<le> maximum"
  by (auto simp: wire_parse_def exn_simps split: sum.splits if_splits)

lemma wire_parse_outcome:
  "wire_parse k b maximum = Inl e \<Longrightarrow>
   e \<in> {WireRefused ''document_size'', WireRefused ''malformed_document'', WireRefused ''document_depth'', OutsideModel}"
  by (auto simp: wire_parse_def wire_require_def exn_simps split: sum.splits if_splits)

section \<open>Facts: signed messages\<close>

lemma message_inject:
  assumes "CHR 0x00 \<notin> set p" and "CHR 0x00 \<notin> set q" and "message p d = message q e"
  shows "p = q \<and> d = e"
proof -
  have "p @ CHR 0x00 # d = q @ CHR 0x00 # e" using assms(3) by (simp add: message_def)
  then have "takeWhile (\<lambda>c. c \<noteq> CHR 0x00) (p @ CHR 0x00 # d) = takeWhile (\<lambda>c. c \<noteq> CHR 0x00) (q @ CHR 0x00 # e)" by simp
  then have "p = q" using assms(1,2) by (simp add: takeWhile_append takeWhile_eq_all_conv split: if_splits)
  then show ?thesis using \<open>p @ CHR 0x00 # d = q @ CHR 0x00 # e\<close> by simp
qed


section \<open>Facts: approvals\<close>

lemma in_window_True:
  "in_window context f l t = Inr True \<longleftrightarrow> (\<exists>a b. bindE (vindex context f) timestamp = Inr a
     \<and> bindE (vindex context l) timestamp = Inr b \<and> a \<le> t \<and> t < b)"
proof -
  have bind: "bindE m (\<lambda>x. if t < x then Inr False else f x) = Inr True \<longleftrightarrow> (\<exists>x. m = Inr x \<and> x \<le> t \<and> f x = Inr True)"
    for m :: "int res" and f :: "int \<Rightarrow> bool res" by (cases m) auto
  show ?thesis
    by (cases "vindex context f"; cases "vindex context l") (simp_all add: in_window_def bind, auto simp: bindE_eq_Inr)
qed

lemma approval_times_True:
  "approval_times payload context t = Inr True \<longleftrightarrow> (\<exists>a. timestamp (dget payload ''approved_at'') = Inr a \<and> a \<le> t)
     \<and> in_window context ''not_before'' ''expires_at'' t = Inr True \<and> in_window context ''testing_start'' ''testing_end'' t = Inr True"
proof -
  have bind: "bindE m (\<lambda>x. if t < x then Inr False else g) = Inr True \<longleftrightarrow> (\<exists>x. m = Inr x \<and> x \<le> t) \<and> g = Inr True"
    for m :: "int res" and g :: "bool res" by (cases m) auto
  have bind2: "bindE m (\<lambda>x. if \<not> x then Inr False else g) = Inr True \<longleftrightarrow> m = Inr True \<and> g = Inr True"
    for m g :: "bool res" by (cases m) auto
  show ?thesis unfolding approval_times_def by (simp only: bind bind2)
qed

lemma verify_signature_Inr:
  "verify_signature k a signature data = Inr u \<longleftrightarrow> (\<exists>sig. unb64 signature 64 = Inr sig
     \<and> ed_verify k (oa_public_key a) sig (message ''approval'' data))"
  by (auto simp: verify_signature_def split: sum.splits)

text \<open>Every condition an accepted approval met.\<close>

lemma approvalE:
  assumes "approval k w envelope context owner t = Inr receipt"
  obtains env data sig a m bytes issuer where "envelope = VDict env" and "unb64 (dget env ''payload'') MAX_PAYLOAD = Inr data"
    and "dget env ''format'' = VStr ''vardr.authorization-envelope/1''" and "dget env ''purpose'' = VStr ''approval''"
    and "wire_parse k data MAX_PAYLOAD = Inr (VDict receipt)" and "set (map fst receipt) = set APPROVAL_FIELDS"
    and "dget receipt ''issuer'' = VDict issuer" and "find_anchor w issuer = Some a" and "\<not> oa_revoked a" and "oa_approver_id a = owner"
    and "dget receipt ''approver_id'' = VStr owner"
    and "unb64 (dget env ''signature'') 64 = Inr sig" and "ed_verify k (oa_public_key a) sig (message ''approval'' data)"
    and "canonical (dget receipt ''context'') = Inr bytes" and "canonical context = Inr bytes"
    and "vget context ''control'' = Inr (VStr ''managed_online'')" and "vget context ''mode'' = Inr (VStr ''strict'')"
    and "vget context ''exceptions'' = Inr (VList [])" and "approval_times receipt context (instant t) = Inr True"
    and "dt_off t \<noteq> None"
    and "vindex context ''max_executions'' = Inr (VInt m)" and "1 \<le> m" and "m \<le> 1000"
    and "\<exists>aid. dget receipt ''approval_id'' = VStr aid"
  using assms unfolding approval_def
  apply (simp only: exn_simps wire_simps)
  apply (clarsimp simp: wire_simps exn_simps split: option.splits)
  apply (simp only: verify_signature_Inr stamp_def exn_simps wire_require_eq_Inr)
  apply blast
  done


section \<open>Facts: contracts\<close>

lemma str_of_pos_length: "0 \<le> n \<Longrightarrow> n < 10 ^ Suc k \<Longrightarrow> length (str_of_pos n) \<le> Suc k"
proof (induction k arbitrary: n)
  case 0 then show ?case by (subst str_of_pos.simps) simp
next
  case (Suc k)
  have "n div 10 < 10 ^ Suc k" using Suc.prems by simp
  then have "length (str_of_pos (n div 10)) \<le> Suc k" using Suc.IH [of "n div 10"] Suc.prems by simp
  then show ?case by (subst str_of_pos.simps) simp
qed

lemma small_int_encodable: "0 \<le> i \<Longrightarrow> i \<le> MAX_INTEGER \<Longrightarrow> encodable flt (VInt i)"
  using str_of_pos_length [of i 16] by (simp add: MAX_INTEGER_def)

lemma dget_in_key_order:
  assumes "distinct (map fst d)" and "in_key_order (VDict d) = VDict d'"
  shows "dget d' f = in_key_order (dget d f)"
proof -
  let ?m = "map (\<lambda>(k, v). (k, in_key_order v)) d"
  have d': "d' = sort_key fst ?m" using assms(2) by simp
  have keys: "map fst ?m = map fst d" by (simp add: case_prod_beta comp_def)
  have "distinct (map fst d')" unfolding d' map_sort_key keys by (simp add: assms(1))
  then have "map_of d' = map_of ?m"
    by (subst map_of_inject_set) (use assms(1) keys d' in \<open>simp_all del: map_map\<close>)
  moreover have "map_of ?m f = map_option in_key_order (map_of d f)" by (simp add: map_of_map)
  ultimately show ?thesis by (simp add: dget_def split: option.splits)
qed

lemma dget_keys: "distinct (map fst d) \<Longrightarrow> in_key_order (VDict d) = VDict d' \<Longrightarrow> set (map fst d') = set (map fst d)"
  by (force simp: case_prod_beta image_image)

lemma vindex_Inr: "vindex v f = Inr x \<longleftrightarrow> (\<exists>d. v = VDict d \<and> map_of d f = Some x)"
  by (cases v) (auto simp: vindex_def)

lemma vindex_timestamp: "bindE (vindex context f) timestamp = Inr x \<Longrightarrow> \<exists>s. vindex context f = Inr (VStr s)"
proof -
  have "timestamp v = Inr y \<Longrightarrow> \<exists>s. v = VStr s" for v y by (cases v) (simp_all add: timestamp_def)
  then show "bindE (vindex context f) timestamp = Inr x \<Longrightarrow> \<exists>s. vindex context f = Inr (VStr s)"
    unfolding bindE_eq_Inr by blast
qed

text \<open>What a contract that \<open>contract_payload\<close> builds says.\<close>

lemma contract_payloadE:
  assumes "contract_payload k w envelope receipt context t cid aid fence ordinal = Inr payload"
  obtains sha m top plan runner engagement job issued expires revision where
    "digest k envelope = Inr sha" and "vindex context ''max_executions'' = Inr m" and "py_int m = Inr top"
    and "1 \<le> ordinal" and "ordinal \<le> top" and "vindex context ''plan_sha256'' = Inr plan"
    and "vindex context ''runner_id'' = Inr (VStr runner)" and "vindex context ''engagement_id'' = Inr (VStr engagement)"
    and "vindex context ''job_id'' = Inr (VStr job)" and "1 \<le> fence" and "fence \<le> MAX_INTEGER"
    and "stamp t = Inr issued" and "vindex context ''expires_at'' = Inr expires"
    and "vindex context ''authority_revision'' = Inr (VInt revision)" and "0 \<le> revision" and "revision \<le> MAX_INTEGER"
    and "payload = VDict [
       (''schema'', VStr ''vardr.authorization/1''),
       (''issuer'', VDict [(''id'', VStr (cw_issuer_id w)), (''key_id'', VStr (cw_key_id w))]),
       (''origin'', VStr ''map''),
       (''contract_id'', VStr cid),
       (''approval_sha256'', VStr sha),
       (''approval_id'', dget receipt ''approval_id''),
       (''execution_index'', VInt ordinal),
       (''plan_sha256'', plan),
       (''runner_id'', VStr runner),
       (''engagement_id'', VStr engagement),
       (''job_id'', VStr job),
       (''attempt_id'', VStr aid),
       (''fence'', VInt fence),
       (''issued_at'', VStr issued),
       (''expires_at'', expires),
       (''authority_revision'', VInt revision)]"
  using assms unfolding contract_payload_def by (auto simp: exn_simps wire_simps)

lemma sign_contractE:
  assumes "sign_contract k w payload = Inr c"
  obtains data where "canonical payload = Inr data" and "int (length data) \<le> MAX_PAYLOAD"
    and "c = VDict [(''format'', VStr ''vardr.authorization-envelope/1''), (''purpose'', VStr ''contract''),
       (''payload'', VStr (b64 data)), (''signature'', VStr (b64 (ed_sign k (cw_signer w) (message ''contract'' data))))]"
  using assms by (auto simp: sign_contract_def exn_simps)

text \<open>
  C21: An approval that \<open>ContractWire.approval\<close> accepts was signed for exactly what is being authorized.
  Its signature verifies, over the approval-purpose message of the very bytes that were parsed, under
  the key of a provisioned, unrevoked operator anchor that is the engagement's owner; the context inside
  it has the canonical bytes of the current authority's context, in strict managed mode without
  exceptions; the current instant is at or after its approval time and inside both its validity and
  testing windows; and its allowance is between 1 and 1000 executions.
\<close>

theorem accepted_approval_is_authentic:
  assumes "approval k w envelope context owner t = Inr receipt"
  shows "\<exists>env data sig a approved nb ex ts te m.
    envelope = VDict env \<and> dget env ''payload'' = VStr (b64 data) \<and> dget env ''signature'' = VStr (b64 sig)
    \<and> wire_parse k data MAX_PAYLOAD = Inr (VDict receipt)
    \<and> a \<in> set (cw_operators w) \<and> \<not> oa_revoked a \<and> oa_approver_id a = owner
    \<and> dget receipt ''approver_id'' = VStr owner
    \<and> ed_verify k (oa_public_key a) sig (message ''approval'' data)
    \<and> (\<exists>b. canonical (dget receipt ''context'') = Inr b \<and> canonical context = Inr b)
    \<and> vget context ''control'' = Inr (VStr ''managed_online'') \<and> vget context ''mode'' = Inr (VStr ''strict'')
    \<and> vget context ''exceptions'' = Inr (VList [])
    \<and> timestamp (dget receipt ''approved_at'') = Inr approved \<and> approved \<le> instant t
    \<and> bindE (vindex context ''not_before'') timestamp = Inr nb \<and> bindE (vindex context ''expires_at'') timestamp = Inr ex
    \<and> nb \<le> instant t \<and> instant t < ex
    \<and> bindE (vindex context ''testing_start'') timestamp = Inr ts \<and> bindE (vindex context ''testing_end'') timestamp = Inr te
    \<and> ts \<le> instant t \<and> instant t < te
    \<and> vindex context ''max_executions'' = Inr (VInt m) \<and> 1 \<le> m \<and> m \<le> 1000"
proof -
  from assms obtain env data sig a m bytes issuer where r: "envelope = VDict env"
      "unb64 (dget env ''payload'') MAX_PAYLOAD = Inr data" "unb64 (dget env ''signature'') 64 = Inr sig"
      "wire_parse k data MAX_PAYLOAD = Inr (VDict receipt)" "find_anchor w issuer = Some a" "\<not> oa_revoked a" "oa_approver_id a = owner"
      "dget receipt ''approver_id'' = VStr owner" "ed_verify k (oa_public_key a) sig (message ''approval'' data)"
      "canonical (dget receipt ''context'') = Inr bytes" "canonical context = Inr bytes"
      "vget context ''control'' = Inr (VStr ''managed_online'')" "vget context ''mode'' = Inr (VStr ''strict'')"
      "vget context ''exceptions'' = Inr (VList [])" "approval_times receipt context (instant t) = Inr True"
      "vindex context ''max_executions'' = Inr (VInt m)" "1 \<le> m" "m \<le> 1000"
    by (rule approvalE)
  have "a \<in> set (cw_operators w)" using r(5) by (auto simp: find_anchor_def dest: find_SomeD)
  moreover obtain approved nb ex ts te where "timestamp (dget receipt ''approved_at'') = Inr approved" "approved \<le> instant t"
      "bindE (vindex context ''not_before'') timestamp = Inr nb" "bindE (vindex context ''expires_at'') timestamp = Inr ex"
      "nb \<le> instant t" "instant t < ex" "bindE (vindex context ''testing_start'') timestamp = Inr ts"
      "bindE (vindex context ''testing_end'') timestamp = Inr te" "ts \<le> instant t" "instant t < te"
    using r(15) unfolding approval_times_True in_window_True by blast
  moreover have "dget env ''payload'' = VStr (b64 data)" "dget env ''signature'' = VStr (b64 sig)"
    using unb64_Inr [OF r(2)] unb64_Inr [OF r(3)] by auto
  ultimately show ?thesis using r by blast
qed

text \<open>
  C22: A contract that \<open>ContractWire.issue\<close> returns is a document the wire can read back: its payload
  decodes to canonical bytes within the size limit, the bounded parser accepts them, and the document
  so read names the identifiers, the fence and the ordinal it was issued with, the digest of the very
  approval, the expiry of the current context, and an ordinal between 1 and the context's allowance.
\<close>

theorem issued_contract_reads_back:
  assumes "wire_issue k w envelope context owner t cid aid fence ordinal = Inr c"
    and "vindex context ''plan_sha256'' = Inr (VStr plan)"
  shows "\<exists>env data payload sha m. c = VDict env \<and> unb64 (dget env ''payload'') MAX_PAYLOAD = Inr data
    \<and> wire_parse k data MAX_PAYLOAD = Inr (VDict payload)
    \<and> dget env ''signature'' = VStr (b64 (ed_sign k (cw_signer w) (message ''contract'' data)))
    \<and> digest k envelope = Inr sha \<and> dget payload ''approval_sha256'' = VStr sha
    \<and> dget payload ''contract_id'' = VStr cid \<and> dget payload ''attempt_id'' = VStr aid
    \<and> dget payload ''fence'' = VInt fence \<and> dget payload ''execution_index'' = VInt ordinal
    \<and> Inr (dget payload ''expires_at'') = vindex context ''expires_at''
    \<and> Inr (dget payload ''job_id'') = vindex context ''job_id''
    \<and> vindex context ''max_executions'' = Inr (VInt m) \<and> 1 \<le> ordinal \<and> ordinal \<le> m \<and> m \<le> 1000"
proof -
  from assms(1) obtain receipt payload where ap: "approval k w envelope context owner t = Inr receipt"
      and cp: "contract_payload k w envelope receipt context t cid aid fence ordinal = Inr payload"
      and sg: "sign_contract k w payload = Inr c"
    by (auto simp: wire_issue_def exn_simps)
  from ap obtain m where m: "vindex context ''max_executions'' = Inr (VInt m)" "m \<le> 1000"
      and times: "approval_times receipt context (instant t) = Inr True" and aid: "\<exists>x. dget receipt ''approval_id'' = VStr x"
    by (rule approvalE)
  obtain expires where expires: "vindex context ''expires_at'' = Inr (VStr expires)"
    using times vindex_timestamp [of "context" "''expires_at''"] unfolding approval_times_True in_window_True by blast
  from cp obtain sha top runner engagement job issued revision where p: "digest k envelope = Inr sha" "1 \<le> ordinal" "ordinal \<le> top"
      "top = m" "vindex context ''job_id'' = Inr (VStr job)" "1 \<le> fence" "fence \<le> MAX_INTEGER" "0 \<le> revision" "revision \<le> MAX_INTEGER"
    and payload: "payload = VDict [
       (''schema'', VStr ''vardr.authorization/1''),
       (''issuer'', VDict [(''id'', VStr (cw_issuer_id w)), (''key_id'', VStr (cw_key_id w))]),
       (''origin'', VStr ''map''), (''contract_id'', VStr cid), (''approval_sha256'', VStr sha),
       (''approval_id'', dget receipt ''approval_id''), (''execution_index'', VInt ordinal), (''plan_sha256'', VStr plan),
       (''runner_id'', VStr runner), (''engagement_id'', VStr engagement), (''job_id'', VStr job), (''attempt_id'', VStr aid),
       (''fence'', VInt fence), (''issued_at'', VStr issued), (''expires_at'', VStr expires), (''authority_revision'', VInt revision)]"
    using m assms(2) expires by (elim contract_payloadE) auto
  obtain d where d: "payload = VDict d" "distinct (map fst d)" using payload by simp
  from sg obtain data where data: "canonical payload = Inr data" "int (length data) \<le> MAX_PAYLOAD"
    and c: "c = VDict [(''format'', VStr ''vardr.authorization-envelope/1''), (''purpose'', VStr ''contract''),
       (''payload'', VStr (b64 data)), (''signature'', VStr (b64 (ed_sign k (cw_signer w) (message ''contract'' data))))]"
    by (rule sign_contractE)
  have ints: "encodable (float_of k) (VInt ordinal)" "encodable (float_of k) (VInt fence)" "encodable (float_of k) (VInt revision)"
    using p m by (auto intro!: small_int_encodable simp del: encodable.simps simp: MAX_INTEGER_def)
  have enc: "encodable (float_of k) payload" and dep: "depth 0 payload"
    unfolding payload using ints aid by auto
  obtain d' where d': "in_key_order payload = VDict d'" using d by simp
  have read: "wire_parse k data MAX_PAYLOAD = Inr (VDict d')"
    using wire_parse_canonical [OF enc dep data] d' by simp
  have get: "dget d' f = in_key_order (dget d f)" for f
    using dget_in_key_order [OF d(2)] d' d(1) by simp
  have "unb64 (VStr (b64 data)) MAX_PAYLOAD = Inr data"
    using data(2) dumps_nonempty [OF enc] canonical_Inr [OF data(1)] by (intro unb64_b64) auto
  then show ?thesis using read get c p m expires d(1) payload by (auto simp: dget_def)
qed


text \<open>
  Writing an instant and reading it back gives the instant without its microseconds, whatever the
  UTC offset of the clock: \<open>timestamp(stamp(t))\<close> is \<open>t\<close> rounded down to the second, so times recorded in a
  signed document are ordered as the instants they record.
\<close>

theorem stamp_reads_back:
  assumes "stamp t = Inr s"
  shows "time_shape s \<and> timestamp (VStr s) = Inr (seconds (instant t div 1000000))
    \<and> seconds (instant t div 1000000) \<le> instant t \<and> instant t < seconds (instant t div 1000000) + 1000000"
proof -
  have r: "timestamp (VStr s) = Inr (seconds (instant t div 1000000))" by (rule timestamp_stamp) (rule assms)
  then have "time_shape s" by (auto simp: timestamp_def split: if_splits)
  moreover have "seconds (instant t div 1000000) \<le> instant t \<and> instant t < seconds (instant t div 1000000) + 1000000" by linarith
  ultimately show ?thesis using r by blast
qed

text \<open>A wall clock at UTC+1 with microseconds, 2026-02-28T23:59:59.000007 there.\<close>

definition example_clock :: datetime where
  "example_clock = \<lparr>dt_us = seconds 1772323199 + 7, dt_off = Some (seconds 3600)\<rparr>"

lemma example_stamp: "stamp example_clock = Inr ''2026-02-28T22:59:59Z''"
  by code_simp

theorem stamp_reads_back_witness:
  "time_shape ''2026-02-28T22:59:59Z'' \<and> timestamp (VStr ''2026-02-28T22:59:59Z'') = Inr (seconds 1772319599)"
  using stamp_reads_back [OF example_stamp] by (simp add: example_clock_def instant_def)


text \<open>
  C35: A document survives the wire. If a value can be written (distinct keys, finite floats that read back,
  integers within the digit limit), is nested at most 32 deep and its canonical bytes fit the limit, then
  encoding the bytes for an envelope, decoding them and parsing them gives the same value with its keys in
  order; and two such values have the same canonical bytes only when they are the same value.
\<close>

theorem document_roundtrip:
  assumes "encodable (float_of k) v" and "depth 0 v" and "canonical v = Inr b" and "int (length b) \<le> maximum"
  shows "bindE (unb64 (VStr (b64 b)) maximum) (\<lambda>data. wire_parse k data maximum) = Inr (in_key_order v)
    \<and> (encodable (float_of k) u \<longrightarrow> canonical u = Inr b \<longrightarrow> in_key_order u = in_key_order v)"
proof -
  have "b \<noteq> []" using dumps_nonempty [OF assms(1)] canonical_Inr [OF assms(3)] by auto
  then show ?thesis
    using unb64_b64 [of b maximum] wire_parse_canonical [OF assms] canonical_inject [of "float_of k" u v] assms by auto
qed

definition example_crypto :: crypto where
  "example_crypto = \<lparr>sha_hex = (\<lambda>b. replicate 64 (CHR ''a'')), ed_verify = (\<lambda>p sig m. sig = take 64 (p @ m)),
     ed_sign = (\<lambda>p m. take 64 (p @ m)), ed_public = (\<lambda>p. map (\<lambda>_. CHR ''k'') p), float_of = (\<lambda>t. NotANumber)\<rparr>"

definition example_document :: pyval where
  "example_document = VDict [(''b'', VList [VInt 1, VNone]), (''a'', VStr [CHR 0xE9, CHR 0x22])]"

theorem document_roundtrip_witness:
  "bindE (unb64 (VStr (b64 (dumps example_document))) 64) (\<lambda>data. wire_parse example_crypto data 64)
     = Inr (VDict [(''a'', VStr [CHR 0xE9, CHR 0x22]), (''b'', VList [VInt 1, VNone])])"
proof -
  have e: "encodable flt example_document" for flt by (simp add: example_document_def) code_simp
  have d: "depth 0 example_document" by code_simp
  have c: "canonical example_document = Inr (dumps example_document)" by code_simp
  have l: "int (length (dumps example_document)) \<le> 64" by code_simp
  have o: "in_key_order example_document = VDict [(''a'', VStr [CHR 0xE9, CHR 0x22]), (''b'', VList [VInt 1, VNone])]"
    by code_simp
  show ?thesis using document_roundtrip [of example_crypto, OF e d c l, THEN conjunct1] by (simp only: o)
qed

definition example_operator :: OperatorAnchor where
  "example_operator = \<lparr>oa_issuer_id = ''issuer'', oa_key_id = ''op'', oa_approver_id = ''alice'',
     oa_public_key = replicate 32 (CHR ''p''), oa_revoked = False\<rparr>"

definition example_wire :: ContractWire where
  "example_wire = \<lparr>cw_issuer_id = ''issuer'', cw_key_id = ''ck'', cw_signer = replicate 32 (CHR ''s''), cw_operators = [example_operator]\<rparr>"

lemma example_wire_provisioned:
  "contract_wire example_crypto ''issuer'' ''ck'' (replicate 32 (CHR ''s'')) [example_operator] = Inr example_wire"
  by code_simp

definition example_context :: pyval where
  "example_context = VDict [(''authority_revision'', VInt 3), (''control'', VStr ''managed_online''),
     (''engagement_id'', VStr ''e1''), (''exceptions'', VList []), (''expires_at'', VStr ''2026-03-01T00:00:00Z''),
     (''job_id'', VStr ''j1''), (''max_executions'', VInt 2), (''mode'', VStr ''strict''),
     (''not_before'', VStr ''2026-02-28T00:00:00Z''), (''plan_sha256'', VStr ''p''), (''runner_id'', VStr ''r1''),
     (''testing_end'', VStr ''2026-03-02T00:00:00Z''), (''testing_start'', VStr ''2026-02-01T00:00:00Z'')]"

definition example_receipt :: pydict where
  "example_receipt = [(''approval_id'', VStr ''a1''), (''approved_at'', VStr ''2026-02-28T12:00:00Z''),
     (''approver_id'', VStr ''alice''), (''context'', example_context),
     (''issuer'', VDict [(''id'', VStr ''issuer''), (''key_id'', VStr ''op'')]), (''origin'', VStr ''map''),
     (''schema'', VStr ''vardr.execution-approval/1'')]"

definition example_envelope :: pyval where
  "example_envelope = (let data = dumps (VDict example_receipt) in
     VDict [(''format'', VStr ''vardr.authorization-envelope/1''), (''purpose'', VStr ''approval''), (''payload'', VStr (b64 data)),
       (''signature'', VStr (b64 (take 64 (oa_public_key example_operator @ message ''approval'' data))))])"

lemma example_receipt_read: "wire_parse example_crypto (dumps (VDict example_receipt)) MAX_PAYLOAD = Inr (VDict example_receipt)"
proof -
  have e: "encodable flt (VDict example_receipt)" for flt
    by (simp add: example_receipt_def example_context_def) code_simp
  have d: "depth 0 (VDict example_receipt)" by code_simp
  have c: "canonical (VDict example_receipt) = Inr (dumps (VDict example_receipt))"
    using serializable_encodable [OF e] by (simp only: canonical_def if_True)
  have l: "int (length (dumps (VDict example_receipt))) \<le> MAX_PAYLOAD" by code_simp
  have o: "in_key_order (VDict example_receipt) = VDict example_receipt" by code_simp
  show ?thesis using wire_parse_canonical [OF e d c l] by (simp only: o)
qed


lemma approvalI:
  assumes "envelope = VDict env" and "set (map fst env) = set ENVELOPE_FIELDS"
    and "dget env ''format'' = VStr ''vardr.authorization-envelope/1''" and "dget env ''purpose'' = VStr ''approval''"
    and "unb64 (dget env ''payload'') MAX_PAYLOAD = Inr data"
    and "wire_parse k data MAX_PAYLOAD = Inr (VDict receipt)" and "set (map fst receipt) = set APPROVAL_FIELDS"
    and "dget receipt ''issuer'' = VDict issuer" and "set (map fst issuer) = {''id'', ''key_id''}"
    and "find_anchor w issuer = Some a" and "\<not> oa_revoked a"
    and "dget receipt ''schema'' = VStr ''vardr.execution-approval/1''" and "dget receipt ''origin'' = VStr ''map''"
    and "dget receipt ''approver_id'' = VStr owner" and "oa_approver_id a = owner"
    and "read_identifier (dget receipt ''approval_id'') = Inr aid"
    and "unb64 (dget env ''signature'') 64 = Inr sig" and "ed_verify k (oa_public_key a) sig (message ''approval'' data)"
    and "canonical (dget receipt ''context'') = Inr bytes" and "canonical context = Inr bytes"
    and "vget context ''control'' = Inr (VStr ''managed_online'')" and "vget context ''mode'' = Inr (VStr ''strict'')"
    and "vget context ''exceptions'' = Inr (VList [])" and "stamp t = Inr s"
    and "approval_times receipt context (instant t) = Inr True"
    and "vindex context ''max_executions'' = Inr (VInt m)" and "1 \<le> m" and "m \<le> 1000"
  shows "approval k w envelope context owner t = Inr receipt"
  using assms by (simp add: approval_def read_fields_def verify_signature_def timestamp_stamp integer_def)

abbreviation example_data :: string where "example_data \<equiv> dumps (VDict example_receipt)"

lemma example_approval: "approval example_crypto example_wire example_envelope example_context ''alice'' example_clock = Inr example_receipt"
proof (rule approvalI)
  let ?sig = "take 64 (oa_public_key example_operator @ message ''approval'' example_data)"
  show "example_envelope = VDict [(''format'', VStr ''vardr.authorization-envelope/1''), (''purpose'', VStr ''approval''),
       (''payload'', VStr (b64 example_data)), (''signature'', VStr (b64 ?sig))]"
    unfolding example_envelope_def Let_def by (rule refl)
  have "int (length example_data) \<le> MAX_PAYLOAD" by code_simp
  moreover have "example_data \<noteq> []" by code_simp
  ultimately show "unb64 (dget [(''format'', VStr ''vardr.authorization-envelope/1''), (''purpose'', VStr ''approval''),
       (''payload'', VStr (b64 example_data)), (''signature'', VStr (b64 ?sig))] ''payload'') MAX_PAYLOAD = Inr example_data"
    using unb64_b64 by (simp add: dget_def del: dumps.simps)
  show "wire_parse example_crypto example_data MAX_PAYLOAD = Inr (VDict example_receipt)" by (rule example_receipt_read)
  have "?sig \<noteq> []" by (simp add: message_def)
  then show "unb64 (dget [(''format'', VStr ''vardr.authorization-envelope/1''), (''purpose'', VStr ''approval''),
       (''payload'', VStr (b64 example_data)), (''signature'', VStr (b64 ?sig))] ''signature'') 64 = Inr ?sig"
    using unb64_b64 [of ?sig 64] by (simp add: dget_def del: dumps.simps)
  show "ed_verify example_crypto (oa_public_key example_operator) ?sig (message ''approval'' example_data)"
    by (simp add: example_crypto_def del: dumps.simps)
  show "find_anchor example_wire [(''id'', VStr ''issuer''), (''key_id'', VStr ''op'')] = Some example_operator"
    by (simp add: find_anchor_def example_wire_def example_operator_def dget_def)
  show "canonical example_context = Inr (dumps example_context)" by code_simp
  then show "canonical (dget example_receipt ''context'') = Inr (dumps example_context)"
    by (simp add: example_receipt_def dget_def)
  show "approval_times example_receipt example_context (instant example_clock) = Inr True" by code_simp
  show "set (map fst example_receipt) = set APPROVAL_FIELDS" by code_simp
  show "stamp example_clock = Inr ''2026-02-28T22:59:59Z''" by (rule example_stamp)
  show "read_identifier (dget example_receipt ''approval_id'') = Inr ''a1''" by code_simp
  show "vindex example_context ''max_executions'' = Inr (VInt 2)" by (simp add: vindex_def example_context_def)
qed (simp_all add: dget_def vget_def vindex_def example_receipt_def example_context_def example_operator_def)

theorem accepted_approval_is_authentic_witness:
  "\<exists>env data sig. example_envelope = VDict env \<and> dget env ''payload'' = VStr (b64 data) \<and> dget env ''signature'' = VStr (b64 sig)
     \<and> ed_verify example_crypto (oa_public_key example_operator) sig (message ''approval'' data)"
proof -
  obtain env data sig a where "example_envelope = VDict env" "dget env ''payload'' = VStr (b64 data)"
      "dget env ''signature'' = VStr (b64 sig)" "a \<in> set (cw_operators example_wire)"
      "ed_verify example_crypto (oa_public_key a) sig (message ''approval'' data)"
    using accepted_approval_is_authentic [OF example_approval] by blast
  then show ?thesis by (auto simp: example_wire_def)
qed

definition example_contract :: pyval where
  "example_contract = VDict [(''schema'', VStr ''vardr.authorization/1''),
       (''issuer'', VDict [(''id'', VStr ''issuer''), (''key_id'', VStr ''ck'')]),
       (''origin'', VStr ''map''), (''contract_id'', VStr ''c1''), (''approval_sha256'', VStr (replicate 64 (CHR ''a''))),
       (''approval_id'', VStr ''a1''), (''execution_index'', VInt 1), (''plan_sha256'', VStr ''p''),
       (''runner_id'', VStr ''r1''), (''engagement_id'', VStr ''e1''), (''job_id'', VStr ''j1''), (''attempt_id'', VStr ''t1''),
       (''fence'', VInt 1), (''issued_at'', VStr ''2026-02-28T22:59:59Z''), (''expires_at'', VStr ''2026-03-01T00:00:00Z''),
       (''authority_revision'', VInt 3)]"

lemma example_digest: "digest example_crypto example_envelope = Inr (replicate 64 (CHR ''a''))"
proof -
  have "serializable example_envelope" by (simp add: example_envelope_def Let_def del: dumps.simps)
  then show ?thesis by (simp only: digest_def canonical_def if_True bindE_Inr) (simp add: example_crypto_def del: dumps.simps)
qed

lemma example_contract_payload:
  "contract_payload example_crypto example_wire example_envelope example_receipt example_context example_clock ''c1'' ''t1'' 1 1
     = Inr example_contract"
proof -
  have ids: "read_identifier (VStr ''c1'') = Inr ''c1''" "read_identifier (VStr ''t1'') = Inr ''t1''"
    "read_identifier (VStr ''r1'') = Inr ''r1''" "read_identifier (VStr ''e1'') = Inr ''e1''" "read_identifier (VStr ''j1'') = Inr ''j1''"
    by code_simp+
  have fields: "vindex example_context ''max_executions'' = Inr (VInt 2)" "vindex example_context ''plan_sha256'' = Inr (VStr ''p'')"
    "vindex example_context ''runner_id'' = Inr (VStr ''r1'')" "vindex example_context ''engagement_id'' = Inr (VStr ''e1'')"
    "vindex example_context ''job_id'' = Inr (VStr ''j1'')" "vindex example_context ''expires_at'' = Inr (VStr ''2026-03-01T00:00:00Z'')"
    "vindex example_context ''authority_revision'' = Inr (VInt 3)"
    by (simp_all add: vindex_def example_context_def)
  have "dget example_receipt ''approval_id'' = VStr ''a1''" by (simp add: dget_def example_receipt_def)
  then show ?thesis
    by (simp add: contract_payload_def ids fields example_digest example_stamp integer_def MAX_INTEGER_def
        example_contract_def example_wire_def)
qed

lemma example_issue:
  obtains c where "wire_issue example_crypto example_wire example_envelope example_context ''alice'' example_clock ''c1'' ''t1'' 1 1 = Inr c"
proof -
  have "canonical example_contract = Inr (dumps example_contract)" "int (length (dumps example_contract)) \<le> MAX_PAYLOAD" by code_simp+
  then have "\<exists>c. sign_contract example_crypto example_wire example_contract = Inr c" by (simp add: sign_contract_def del: dumps.simps)
  then show ?thesis using that unfolding wire_issue_def example_approval bindE_Inr example_contract_payload by blast
qed

theorem issued_contract_reads_back_witness:
  "\<exists>c env data payload. wire_issue example_crypto example_wire example_envelope example_context ''alice'' example_clock ''c1'' ''t1'' 1 1 = Inr c
     \<and> c = VDict env \<and> unb64 (dget env ''payload'') MAX_PAYLOAD = Inr data
     \<and> wire_parse example_crypto data MAX_PAYLOAD = Inr (VDict payload) \<and> dget payload ''execution_index'' = VInt 1"
proof -
  obtain c where c: "wire_issue example_crypto example_wire example_envelope example_context ''alice'' example_clock ''c1'' ''t1'' 1 1 = Inr c"
    by (rule example_issue)
  have "vindex example_context ''plan_sha256'' = Inr (VStr ''p'')" by (simp add: vindex_def example_context_def)
  from issued_contract_reads_back [OF c this] c show ?thesis by blast
qed

end
