(* ===== verification/Issuance.thy ===== *)
theory Issuance
  imports Jobs Wire
begin

text \<open>
  The transactional issuer of managed jobs (\<open>backend/managed_issuance.py\<close>) and the projection of current
  authority it rests on (\<open>backend/nm1_authorization.py\<close>): an operator's signed approval is registered for a
  pending job, an enrolled runner claims the job against it, and the contract it gets is refreshed and
  consumed while the authority it was issued under stands.
\<close>

section \<open>Current authority\<close>

definition nm_require :: "bool \<Rightarrow> string \<Rightarrow> unit res" where
  "nm_require c reason = requireE c (IssuanceRefused reason)"

definition int_field :: "pyval \<Rightarrow> string \<Rightarrow> int res" where
  "int_field v f = bindE (vindex v f) (\<lambda>x. case x of VInt n \<Rightarrow> Inr n | _ \<Rightarrow> Inl TypeError)"

definition nm_time :: "datetime option \<Rightarrow> pyval res" where
  "nm_time v = (case v of None \<Rightarrow> Inr VNone | Some d \<Rightarrow> bindE (stamp (as_utc d)) (\<lambda>t. Inr (VStr t)))"

definition nm_digest :: "env \<Rightarrow> pyval \<Rightarrow> string res" where
  "nm_digest env v = (if serializable v then Inr (sha256 env (dumps v)) else Inl ValueError)"

definition scope_rows :: "string \<Rightarrow> db \<Rightarrow> ScopeItem list" where
  "scope_rows eid s = sort_key sc_id (filter (\<lambda>i. sc_program_id i = eid) (scope_items s))"

definition row_rule :: "ScopeItem \<Rightarrow> ScopeRule" where
  "row_rule i = \<lparr>sr_value = sc_value i, sr_kind = (if sc_kind i = [] then ''domain'' else sc_kind i),
     sr_excluded = (sc_scope_type i = ''out'')\<rparr>"

definition dispatch_input :: "Engagement \<Rightarrow> ScanJob \<Rightarrow> Authorization \<Rightarrow> ScopeRule list \<Rightarrow> datetime \<Rightarrow> string \<Rightarrow> PolicyInput" where
  "dispatch_input e j a rules t url =
     \<lparr>pi_engagement_status = eng_engagement_status e, pi_engagement_type = eng_engagement_type e,
      pi_target = url, pi_capability = job_tool_type j, pi_now = t, pi_stop_work = False,
      pi_authorization = Some \<lparr>as_status = az_status a, as_window_start = map_option naive (az_window_start a),
        as_window_end = map_option naive (az_window_end a), as_permitted_capabilities = []\<rparr>,
      pi_scope_rules = rules\<rparr>"

text \<open>
  The evaluator strips \<open>target or ""\<close> once its engagement gates have passed: a falsy target is the empty
  text, anything else that is no string has no \<open>strip\<close>.
\<close>

definition decide_dispatch :: "(string \<Rightarrow> PolicyInput) \<Rightarrow> pyval \<Rightarrow> PolicyDecision res" where
  "decide_dispatch input url = (case url of
       VStr u \<Rightarrow> evaluate (input u)
     | _ \<Rightarrow> if truthy url \<and> pd_allowed (evaluate_engagement (input [])) then Inl AttributeError else evaluate (input []))"

definition text_of :: "pyval \<Rightarrow> string" where
  "text_of v = (case v of VStr u \<Rightarrow> u | _ \<Rightarrow> [])"

text \<open>One dispatch of the plan, narrowed to origin, path and method.\<close>

definition narrow_dispatch :: "(string \<Rightarrow> PolicyInput) \<Rightarrow> pyval \<Rightarrow> pyval res" where
  "narrow_dispatch input dispatch =
     bindE (vindex dispatch ''request'') (\<lambda>request.
     bindE (vindex request ''url'') (\<lambda>url.
     bindE (decide_dispatch input url) (\<lambda>decision.
     ignoreE (nm_require (pd_allowed decision) ''recorded_scope_or_window_denied'')
     (bindE (urlsplit (text_of url)) (\<lambda>parsed.
     bindE (url_port parsed) (\<lambda>p.
     let port = (case p of Some n \<Rightarrow> if n = 0 then (if us_scheme parsed = ''https'' then 443 else 80) else n
                         | None \<Rightarrow> if us_scheme parsed = ''https'' then 443 else 80)
     in bindE (someE TypeError (url_hostname parsed)) (\<lambda>h.
        let host = (if CHR '':'' \<in> set h then ''['' @ h @ '']'' else h)
        in bindE (vindex request ''method'') (\<lambda>m.
           Inr (VDict [(''origin'', VStr (us_scheme parsed @ ''://'' @ host @ '':'' @ str_of_int port)),
                       (''path'', VStr (if us_path parsed = [] then ''/'' else us_path parsed)),
                       (''method'', m), (''excluded'', VBool False), (''reason'', VStr [])])))))))))"

text \<open>\<open>plan.get("dispatches", [])\<close>, iterated.\<close>

definition plan_dispatches :: "pyval \<Rightarrow> pyval list res" where
  "plan_dispatches plan = (case plan of
       VDict d \<Rightarrow> iter_val (case map_of d ''dispatches'' of None \<Rightarrow> VList [] | Some v \<Rightarrow> v)
     | _ \<Rightarrow> Inl AttributeError)"

definition authority_row :: "string \<Rightarrow> string \<Rightarrow> db \<Rightarrow> Authorization option" where
  "authority_row aid eid s = find (\<lambda>a. az_id a = aid \<and> az_program_id a = eid) (authorizations s)"

definition nm_snapshot :: "Authorization \<Rightarrow> ScopeItem list \<Rightarrow> Engagement \<Rightarrow> pyval res" where
  "nm_snapshot a rows e =
     bindE (nm_time (map_option naive (az_window_start a))) (\<lambda>ws.
     bindE (nm_time (map_option naive (az_window_end a))) (\<lambda>we.
     Inr (VDict [
       (''authorization'', VDict [(''id'', VStr (az_id a)), (''status'', VStr (az_status a)), (''permits'', VStr (az_permits a)),
          (''authorized_by'', VStr (az_authorized_by a)), (''reference'', VStr (az_reference a)),
          (''window_start'', ws), (''window_end'', we)]),
       (''scope'', VList (map (\<lambda>r. VDict [(''value'', VStr (sc_value r)), (''kind'', VStr (sc_kind r)),
          (''scope_type'', VStr (sc_scope_type r))]) rows)),
       (''engagement_id'', VStr (eng_id e))])))"

record projection =
  pj_approver_id :: string
  pj_authority_snapshot :: pyval
  pj_case :: pyval
  pj_context :: pydict

text \<open>The allowances a permission asks for; the two limits are as the caller passes them.\<close>

record allowance =
  al_runner_id :: string
  al_revision :: int
  al_expires_at :: datetime
  al_max_executions :: pyval
  al_max_duration :: pyval
  al_max_artifact_bytes :: pyval
  al_credential_grants :: pyval
  al_now :: datetime

definition valid_allowance :: "allowance \<Rightarrow> bool" where
  "valid_allowance al = ((case al_max_executions al of VInt m \<Rightarrow> 1 \<le> m \<and> m \<le> 1000 | _ \<Rightarrow> False) \<and> 0 \<le> al_revision al)"

definition reviewed_case :: "env \<Rightarrow> pyval \<Rightarrow> AuthorizationTestCase option \<Rightarrow> pyval res" where
  "reviewed_case env plan c = (case c of
       None \<Rightarrow> Inl (IssuanceRefused ''reviewed_case_binding_required'')
     | Some c \<Rightarrow>
         bindE (vget plan ''schema'') (\<lambda>schema. bindE (vget plan ''profile'') (\<lambda>profile. bindE (vget plan ''case_hash'') (\<lambda>hash.
         ignoreE (nm_require (schema = VStr ''vardr.execution-plan/1'' \<and> profile = VStr ''gate-fixed-http/1''
             \<and> hash = VStr (case_hash env (tc_spec c))) ''reviewed_case_binding_required'')
         (Inr (tc_spec c))))))"

definition project_context :: "env \<Rightarrow> pyval \<Rightarrow> allowance \<Rightarrow> ScanJob \<Rightarrow> Engagement \<Rightarrow> pyval \<Rightarrow> pyval list \<Rightarrow> datetime \<Rightarrow> datetime \<Rightarrow> pydict res" where
  "project_context env plan al j e snapshot narrowed start end_at =
     bindE (nm_digest env snapshot) (\<lambda>authority_sha.
     bindE (nm_digest env plan) (\<lambda>plan_sha.
     bindE (nm_time (Some (al_now al))) (\<lambda>not_before.
     bindE (nm_time (Some (al_expires_at al))) (\<lambda>expires_at.
     bindE (nm_time (Some start)) (\<lambda>testing_start.
     bindE (nm_time (Some end_at)) (\<lambda>testing_end.
     bindE (vindex plan ''max_http_dispatches'') (\<lambda>dispatches.
     Inr [(''runner_id'', VStr (al_runner_id al)), (''engagement_id'', VStr (eng_id e)), (''job_id'', VStr (job_id j)),
          (''authority_revision'', VInt (al_revision al)), (''authority_sha256'', VStr authority_sha),
          (''plan_sha256'', VStr plan_sha), (''mode'', VStr ''strict''), (''scope'', VList narrowed), (''exceptions'', VList []),
          (''not_before'', not_before), (''expires_at'', expires_at), (''testing_start'', testing_start),
          (''testing_end'', testing_end), (''max_executions'', al_max_executions al),
          (''max_duration_seconds'', al_max_duration al), (''max_http_dispatches'', dispatches),
          (''max_artifact_bytes'', al_max_artifact_bytes al), (''credential_grants'', al_credential_grants al),
          (''control'', VStr ''managed_online'')])))))))"

definition project_current_authority :: "env \<Rightarrow> string \<Rightarrow> string \<Rightarrow> string \<Rightarrow> pyval \<Rightarrow> allowance \<Rightarrow> string list \<Rightarrow> db \<Rightarrow> projection res" where
  "project_current_authority env jid authorization_id actor plan al job_statuses s =
     (case get_job jid s of
        None \<Rightarrow> Inl (IssuanceRefused ''pending_gate_job_required'')
      | Some j \<Rightarrow>
     ignoreE (nm_require (job_status j \<in> set job_statuses \<and> job_tool_type j = ''vardrgate_api_test'') ''pending_gate_job_required'')
     (case get_engagement (job_program_id j) s of
        None \<Rightarrow> Inl (IssuanceRefused ''owner_approval_required'')
      | Some e \<Rightarrow>
     ignoreE (nm_require (actor = eng_owner_github_id e) ''owner_approval_required'')
     (ignoreE (nm_require (eng_stop_work_at e = None) ''stop_work_active'')
     (case authority_row authorization_id (eng_id e) s of
        None \<Rightarrow> Inl (IssuanceRefused ''explicit_active_authority_required'')
      | Some a \<Rightarrow>
     ignoreE (nm_require (az_status a = ''active'') ''explicit_active_authority_required'')
     (bindE (reviewed_case env plan (stored_case (case_ref (as_dict (job_config j))) (eng_id e) s)) (\<lambda>spec.
     ignoreE (nm_require (valid_allowance al) ''invalid_allowance'')
     (ignoreE (nm_require (dt_off (al_now al) \<noteq> None \<and> dt_off (al_expires_at al) \<noteq> None
         \<and> instant (al_now al) < instant (al_expires_at al)) ''bounded_validity_required'')
     (let rows = scope_rows (eng_id e) s
      in bindE (plan_dispatches plan) (\<lambda>ds.
     bindE (mapE (narrow_dispatch (dispatch_input e j a (map row_rule rows) (al_now al))) ds) (\<lambda>narrowed.
     ignoreE (nm_require (narrowed \<noteq> []) ''empty_plan'')
     (let start = (case az_window_start a of Some t \<Rightarrow> naive t | None \<Rightarrow> al_now al);
          end_at = as_utc (case az_window_end a of Some t \<Rightarrow> naive t | None \<Rightarrow> al_expires_at al)
      in ignoreE (nm_require (instant (al_expires_at al) \<le> instant end_at) ''approval_exceeds_authority_window'')
     (bindE (nm_snapshot a rows e) (\<lambda>snapshot.
     bindE (project_context env plan al j e snapshot narrowed start end_at) (\<lambda>ctx.
     Inr \<lparr>pj_approver_id = actor, pj_authority_snapshot = snapshot, pj_case = spec, pj_context = ctx\<rparr>))))))))))))))"

definition prepare_approval_request :: "env \<Rightarrow> string \<Rightarrow> string \<Rightarrow> current_user \<Rightarrow> pyval \<Rightarrow> allowance \<Rightarrow> string list \<Rightarrow> db \<Rightarrow> projection res" where
  "prepare_approval_request env jid authorization_id actor plan al job_statuses s =
     ignoreE (nm_require (cu_auth_method actor \<in> {''local_session'', ''github_session''} \<and> cu_scope actor = ''full'')
       ''operator_session_required'')
     (project_current_authority env jid authorization_id (cu_github_id actor) plan al job_statuses s)"

section \<open>The issuer\<close>

text \<open>
  An operation reads two clocks, several times each: the wall clock and the monotonic clock.  Reading \<open>i\<close> is
  the \<open>i\<close>-th one of the operation in the order of the code (a reading a request does not reach is not made);
  \<open>EXIT\<close> is the one made when the operation fails.  \<open>control_clock\<close> are the readings of
  \<open>execution_control.now\<close>.
\<close>

record clocks =
  wall :: "nat \<Rightarrow> datetime"
  mono :: "nat \<Rightarrow> int"
  control_clock :: "nat \<Rightarrow> int"

abbreviation EXIT :: nat where "EXIT \<equiv> 10"

record issuer =
  iss_origin :: string
  iss_wire :: ContractWire
  iss_crypto :: crypto

text \<open>The constructor applies the origin rules of a claim.\<close>

definition new_issuer :: "string \<Rightarrow> ContractWire \<Rightarrow> crypto \<Rightarrow> issuer res" where
  "new_issuer origin w k = ignoreE (requireE (length origin \<le> 500) ValueError) (ignoreE (origin_valid origin)
     (Inr \<lparr>iss_origin = origin, iss_wire = w, iss_crypto = k\<rparr>))"

definition issuer_now :: "clocks \<Rightarrow> nat \<Rightarrow> int res" where
  "issuer_now ck i =
     ignoreE (stamp (wall ck i))
     (ignoreE (wire_require (0 \<le> mono ck i - mono ck 0) ''clock_rollback'')
     (Inr (max (instant (wall ck i)) (instant (wall ck 0) + (mono ck i - mono ck 0)))))"

definition get_clock :: "db \<Rightarrow> ManagedClock option" where
  "get_clock s = by_key clk_id 1 (managed_clock s)"

definition set_clock :: "int \<Rightarrow> db \<Rightarrow> db" where
  "set_clock t s = s\<lparr>managed_clock := amend_key clk_id 1 (\<lambda>r. r\<lparr>clk_observed := t\<rparr>) (managed_clock s)\<rparr>"

text \<open>The first observation creates the row; the retry after a lost race does not arise in a sequence of operations.\<close>

definition observe :: "clocks \<Rightarrow> nat \<Rightarrow> db \<Rightarrow> db res" where
  "observe ck i s =
     bindE (issuer_now ck i) (\<lambda>t.
     case get_clock s of
       None \<Rightarrow> Inr (s\<lparr>managed_clock := managed_clock s @ [\<lparr>clk_id = 1, clk_observed = t\<rparr>]\<rparr>)
     | Some row \<Rightarrow> ignoreE (wire_require (clk_observed row \<le> t) ''clock_rollback'') (Inr (set_clock t s)))"

definition locked_time :: "clocks \<Rightarrow> nat \<Rightarrow> db \<Rightarrow> db res" where
  "locked_time ck i s =
     bindE (issuer_now ck i) (\<lambda>t.
     case get_clock s of
       None \<Rightarrow> Inl (WireRefused ''clock_rollback'')
     | Some row \<Rightarrow> ignoreE (wire_require (clk_observed row \<le> t) ''clock_rollback'') (Inr (set_clock t s)))"

text \<open>
  The frame of every operation: an observation of the clock before and, when the operation fails, after the
  roll-back.  Both are committed on their own.
\<close>

definition operation :: "clocks \<Rightarrow> (db \<Rightarrow> 'a res \<times> db) \<Rightarrow> db \<Rightarrow> 'a res \<times> db" where
  "operation ck body s =
     (case ignoreE (stamp (wall ck 0)) (observe ck 1 s) of
        Inl e \<Rightarrow> (Inl e, s)
      | Inr s1 \<Rightarrow> (case body s1 of
            (Inr a, s2) \<Rightarrow> (Inr a, s2)
          | (Inl e, s2) \<Rightarrow> (case observe ck EXIT s2 of Inl e' \<Rightarrow> (Inl e', s2) | Inr s3 \<Rightarrow> (Inl e, s3))))"

definition auth_header :: "request \<Rightarrow> string" where
  "auth_header rq = (case rq_authorization rq of None \<Rightarrow> [] | Some h \<Rightarrow> h)"

text \<open>What authentication itself writes is committed before the operation's own transaction.\<close>

definition operator :: "auth_env \<Rightarrow> env \<Rightarrow> request \<Rightarrow> db \<Rightarrow> current_user res \<times> db" where
  "operator ac env rq s =
     (if startswith (auth_header rq) ''Bearer vmap_'' then (Inl (WireRefused ''operator_session_required''), s)
      else (case get_current_user ac env rq s of
          (Inl e, s1) \<Rightarrow> (Inl e, s1)
        | (Inr user, s1) \<Rightarrow>
            (let how = (if cu_auth_method user = ''local'' then ''local_session'' else ''github_session'')
             in (ignoreE (wire_require (cu_scope user = ''full'') ''operator_session_required'')
                (ignoreE (wire_require (how = ''local_session'' \<or> startswith (auth_header rq) ''Bearer '') ''operator_session_required'')
                (Inr (user\<lparr>cu_auth_method := how\<rparr>))), s1))))"

text \<open>A body that authenticates first and then runs in one transaction.\<close>

definition authenticated :: "(db \<Rightarrow> current_user res \<times> db) \<Rightarrow> (current_user \<Rightarrow> db \<Rightarrow> exn + ('a \<times> db)) \<Rightarrow> db \<Rightarrow> 'a res \<times> db" where
  "authenticated auth body s = (case auth s of
       (Inl e, s1) \<Rightarrow> (Inl e, s1)
     | (Inr user, s1) \<Rightarrow> transact s1 (body user s1))"

definition issuer_enrollment :: "issuer \<Rightarrow> string \<Rightarrow> string \<Rightarrow> db \<Rightarrow> (ManagedEnrollment \<times> ApiKey) res" where
  "issuer_enrollment iss enrollment_id owner s =
     (case get_enrollment enrollment_id s of
        None \<Rightarrow> Inl (WireRefused ''enrollment_unavailable'')
      | Some row \<Rightarrow>
     ignoreE (wire_require (\<not> enr_revoked row \<and> enr_owner row = owner \<and> enr_origin row = iss_origin iss) ''enrollment_unavailable'')
     (case by_key key_id (enr_api_key_id row) (api_keys s) of
        None \<Rightarrow> Inl (WireRefused ''enrollment_key_unavailable'')
      | Some key \<Rightarrow>
     ignoreE (wire_require (key_github_id key = owner \<and> key_scope key \<in> {''runner'', ''full''}) ''enrollment_key_unavailable'')
     (ignoreE (integer (VInt (enr_revision row)) 1 MAX_INTEGER) (Inr (row, key)))))"

definition opt_int :: "int option \<Rightarrow> pyval" where
  "opt_int v = (case v of None \<Rightarrow> VNone | Some n \<Rightarrow> VInt n)"

definition managed_snapshot :: "issuer \<Rightarrow> Engagement \<Rightarrow> ManagedEnrollment \<Rightarrow> pyval \<Rightarrow> pyval" where
  "managed_snapshot iss e enr authority = VDict [
     (''schema'', VStr ''vardr.map-managed-authority/1''),
     (''origin'', VStr (iss_origin iss)),
     (''authority_revision'', VInt (eng_managed_authority_revision e)),
     (''authority'', authority),
     (''owner'', VStr (eng_owner_github_id e)),
     (''engagement_type'', VStr (eng_engagement_type e)),
     (''engagement_status'', VStr (eng_engagement_status e)),
     (''limits'', VDict [(''concurrency'', opt_int (eng_concurrency_limit e)), (''targets'', opt_int (eng_target_limit e)),
        (''duration'', opt_int (eng_duration_limit e))]),
     (''enrollment'', VDict [(''id'', VStr (enr_id enr)), (''revision'', VInt (enr_revision enr)),
        (''api_key_id'', VStr (enr_api_key_id enr)), (''principal_sha256'', VStr (enr_principal_hash enr)),
        (''runner_id'', VStr (enr_runner_id enr))])]"

text \<open>The bounded amounts of a permission, in the order they are checked.\<close>

definition PERMISSION_BOUNDS :: "(string \<times> int) list" where
  "PERMISSION_BOUNDS = [(''max_executions'', 1000), (''max_duration_seconds'', 86400), (''max_artifact_bytes'', 1024 ^ 3)]"

definition check_permission :: "pyval \<Rightarrow> unit res" where
  "check_permission permission =
     bindE (mapE (\<lambda>(name, maximum). bindE (vindex permission name) (\<lambda>v. integer v 1 maximum)) PERMISSION_BOUNDS) (\<lambda>_. Inr ())"

definition permission_allowance :: "string \<Rightarrow> int \<Rightarrow> pyval \<Rightarrow> allowance res" where
  "permission_allowance runner revision permission =
     bindE (vindex permission ''expires_at'') (\<lambda>v. bindE (timestamp v) (\<lambda>expires.
     bindE (vindex permission ''max_executions'') (\<lambda>executions.
     bindE (vindex permission ''max_duration_seconds'') (\<lambda>duration.
     bindE (vindex permission ''max_artifact_bytes'') (\<lambda>artifact.
     bindE (vindex permission ''credential_grants'') (\<lambda>grants.
     bindE (vindex permission ''not_before'') (\<lambda>v. bindE (timestamp v) (\<lambda>not_before.
     Inr \<lparr>al_runner_id = runner, al_revision = revision, al_expires_at = utc expires, al_max_executions = executions,
          al_max_duration = duration, al_max_artifact_bytes = artifact, al_credential_grants = grants, al_now = utc not_before\<rparr>))))))))"

text \<open>\<open>_projection\<close>\<close>

definition reproject :: "issuer \<Rightarrow> env \<Rightarrow> ScanJob \<Rightarrow> string \<Rightarrow> ManagedEnrollment \<Rightarrow> string \<Rightarrow> pyval \<Rightarrow> pyval \<Rightarrow> int \<Rightarrow> string list \<Rightarrow> db \<Rightarrow> projection res" where
  "reproject iss env j actor enr authorization_id plan permission revision job_statuses s =
     bindE (someE AttributeError (get_engagement (job_program_id j) s)) (\<lambda>e.
     ignoreE (wire_require (revision = eng_managed_authority_revision e) ''authority_revision_changed'')
     (ignoreE (check_permission permission)
     (bindE (permission_allowance (enr_runner_id enr) revision permission) (\<lambda>al.
     bindE (project_current_authority env (job_id j) authorization_id actor plan al job_statuses s) (\<lambda>p.
     let snapshot = managed_snapshot iss e enr (pj_authority_snapshot p)
     in bindE (digest (iss_crypto iss) snapshot) (\<lambda>sha.
        Inr (p\<lparr>pj_authority_snapshot := snapshot, pj_context := dset (pj_context p) ''authority_sha256'' (VStr sha)\<rparr>)))))))"

definition review_locked :: "issuer \<Rightarrow> env \<Rightarrow> ScanJob \<Rightarrow> string \<Rightarrow> string \<Rightarrow> string \<Rightarrow> pyval \<Rightarrow> pyval \<Rightarrow> db \<Rightarrow> projection res" where
  "review_locked iss env j actor enrollment_id authorization_id plan permission s =
     ignoreE (wire_require (job_status j = ''pending'') ''pending_job_required'')
     (bindE (issuer_enrollment iss enrollment_id actor s) (\<lambda>(enr, _).
     bindE (someE AttributeError (get_engagement (job_program_id j) s)) (\<lambda>e.
     reproject iss env j actor enr authorization_id plan permission (eng_managed_authority_revision e) [''pending''] s)))"

section \<open>Operator operations\<close>

record review_request =
  rv_job_id :: string
  rv_enrollment_id :: string
  rv_authorization_id :: string
  rv_plan :: pyval
  rv_expires_at :: pyval
  rv_max_executions :: pyval
  rv_max_duration_seconds :: pyval
  rv_max_artifact_bytes :: pyval
  rv_credential_grants :: pyval

text \<open>A review rolls its transaction back: it returns the request and keeps nothing.\<close>

definition review :: "auth_env \<Rightarrow> issuer \<Rightarrow> env \<Rightarrow> clocks \<Rightarrow> request \<Rightarrow> review_request \<Rightarrow> db \<Rightarrow> projection res \<times> db" where
  "review ac iss env ck rq rv = operation ck (authenticated (operator ac env rq) (\<lambda>actor s.
     bindE (lock_job (rv_job_id rv) actor s) (\<lambda>j.
     bindE (issuer_now ck 2) (\<lambda>t. bindE (stamp (utc t)) (\<lambda>not_before.
     let permission = VDict [(''not_before'', VStr not_before), (''expires_at'', rv_expires_at rv),
           (''max_executions'', rv_max_executions rv), (''max_duration_seconds'', rv_max_duration_seconds rv),
           (''max_artifact_bytes'', rv_max_artifact_bytes rv), (''credential_grants'', rv_credential_grants rv)]
     in bindE (review_locked iss env j (cu_github_id actor) (rv_enrollment_id rv) (rv_authorization_id rv) (rv_plan rv) permission s) (\<lambda>p.
        Inr (p, s)))))))"

definition new_approval :: "issuer \<Rightarrow> ScanJob \<Rightarrow> string \<Rightarrow> string \<Rightarrow> string \<Rightarrow> pyval \<Rightarrow> pyval \<Rightarrow> pydict \<Rightarrow> projection \<Rightarrow> int \<Rightarrow> ManagedApproval" where
  "new_approval iss j owner enrollment_id authorization_id plan envelope receipt p revision =
     \<lparr>apv_id = cw_issuer_id (iss_wire iss) @ '':'' @ text_of (dget receipt ''approval_id''), apv_issuer = cw_issuer_id (iss_wire iss),
      apv_approval_id = text_of (dget receipt ''approval_id''), apv_job_id = job_id j, apv_engagement_id = job_program_id j,
      apv_enrollment_id = enrollment_id, apv_authorization_id = authorization_id, apv_revision = revision, apv_owner = owner,
      apv_envelope = envelope, apv_plan = plan, apv_context = VDict (pj_context p),
      apv_authority_snapshot = pj_authority_snapshot p, apv_issued = 0, apv_revoked = False\<rparr>"

definition mark_managed :: "string \<Rightarrow> ScanJob \<Rightarrow> ScanJob" where
  "mark_managed record_id j = j\<lparr>job_managed_approval_id := Some record_id, job_authorization_contract_required := True\<rparr>"

text \<open>A receipt registered before is returned again, when it is this very receipt for this very job.\<close>

definition register_again :: "issuer \<Rightarrow> clocks \<Rightarrow> string \<Rightarrow> pyval \<Rightarrow> ScanJob \<Rightarrow> ManagedApproval \<Rightarrow> db \<Rightarrow> exn + (ManagedApproval \<times> db)" where
  "register_again iss ck jid envelope j existing s =
     ignoreE (wire_require (apv_job_id existing = jid \<and> job_managed_approval_id j = Some (apv_id existing)) ''approval_id_reused'')
     (bindE (digest (iss_crypto iss) (apv_envelope existing)) (\<lambda>stored. bindE (digest (iss_crypto iss) envelope) (\<lambda>given.
     ignoreE (wire_require (stored = given) ''approval_id_reused'')
     (ignoreE (wire_require (\<not> apv_revoked existing) ''approval_unavailable'')
     (bindE (locked_time ck 3 s) (\<lambda>s1. Inr (existing, s1)))))))"

definition register_new :: "issuer \<Rightarrow> env \<Rightarrow> clocks \<Rightarrow> current_user \<Rightarrow> string \<Rightarrow> string \<Rightarrow> pyval \<Rightarrow> pyval \<Rightarrow> ScanJob \<Rightarrow> pydict \<Rightarrow> db \<Rightarrow> exn + (ManagedApproval \<times> db)" where
  "register_new iss env ck actor enrollment_id authorization_id plan envelope j receipt s =
     bindE (review_locked iss env j (cu_github_id actor) enrollment_id authorization_id plan (dget receipt ''context'') s) (\<lambda>p.
     bindE (issuer_now ck 3) (\<lambda>t.
     ignoreE (approval (iss_crypto iss) (iss_wire iss) envelope (VDict (pj_context p)) (cu_github_id actor) (utc t))
     (bindE (int_field (VDict (pj_context p)) ''authority_revision'') (\<lambda>revision.
     let row = new_approval iss j (cu_github_id actor) enrollment_id authorization_id plan envelope receipt p revision;
         s1 = set_job (job_id j) (mark_managed (apv_id row)) (add_approval row s)
     in bindE (locked_time ck 4 s1) (\<lambda>s2. bindE (issuer_now ck 5) (\<lambda>t'.
        ignoreE (approval (iss_crypto iss) (iss_wire iss) envelope (VDict (pj_context p)) (cu_github_id actor) (utc t'))
        (Inr (row, s2))))))))"

text \<open>The transaction of a registration, once the operator is known.\<close>

definition registered :: "issuer \<Rightarrow> env \<Rightarrow> clocks \<Rightarrow> string \<Rightarrow> string \<Rightarrow> string \<Rightarrow> pyval \<Rightarrow> pyval \<Rightarrow> current_user \<Rightarrow> db \<Rightarrow> exn + (ManagedApproval \<times> db)" where
  "registered iss env ck jid enrollment_id authorization_id plan envelope actor s =
     bindE (lock_job jid actor s) (\<lambda>j.
     bindE (vindex envelope ''payload'') (\<lambda>text. bindE (unb64 text MAX_PAYLOAD) (\<lambda>data.
     bindE (wire_parse (iss_crypto iss) data MAX_PAYLOAD) (\<lambda>payload. bindE (vindex payload ''context'') (\<lambda>ctx.
     bindE (issuer_now ck 2) (\<lambda>t.
     bindE (approval (iss_crypto iss) (iss_wire iss) envelope ctx (cu_github_id actor) (utc t)) (\<lambda>receipt.
     case get_approval (cw_issuer_id (iss_wire iss) @ '':'' @ text_of (dget receipt ''approval_id'')) s of
       Some existing \<Rightarrow> register_again iss ck jid envelope j existing s
     | None \<Rightarrow> register_new iss env ck actor enrollment_id authorization_id plan envelope j receipt s)))))))"

definition register :: "auth_env \<Rightarrow> issuer \<Rightarrow> env \<Rightarrow> clocks \<Rightarrow> request \<Rightarrow> string \<Rightarrow> string \<Rightarrow> string \<Rightarrow> pyval \<Rightarrow> pyval \<Rightarrow> db \<Rightarrow> ManagedApproval res \<times> db" where
  "register ac iss env ck rq jid enrollment_id authorization_id plan envelope =
     operation ck (authenticated (operator ac env rq) (registered iss env ck jid enrollment_id authorization_id plan envelope))"

definition job_approval :: "ScanJob \<Rightarrow> db \<Rightarrow> ManagedApproval option" where
  "job_approval j s = (case job_managed_approval_id j of None \<Rightarrow> None | Some i \<Rightarrow> get_approval i s)"

definition revoked :: "clocks \<Rightarrow> string \<Rightarrow> current_user \<Rightarrow> db \<Rightarrow> exn + (unit \<times> db)" where
  "revoked ck jid actor s =
     bindE (lock_job jid actor s) (\<lambda>j.
     case job_approval j s of
       None \<Rightarrow> Inl (WireRefused ''owner_approval_required'')
     | Some row \<Rightarrow>
         ignoreE (wire_require (apv_owner row = cu_github_id actor) ''owner_approval_required'')
         (bindE (locked_time ck 2 s) (\<lambda>s1.
          Inr ((), set_approval (apv_id row) (\<lambda>r. r\<lparr>apv_revoked := True\<rparr>) s1))))"

definition revoke :: "auth_env \<Rightarrow> env \<Rightarrow> clocks \<Rightarrow> request \<Rightarrow> string \<Rightarrow> db \<Rightarrow> unit res \<times> db" where
  "revoke ac env ck rq jid = operation ck (authenticated (operator ac env rq) (revoked ck jid))"

section \<open>Runner operations\<close>

definition enrolled_principal :: "issuer \<Rightarrow> env \<Rightarrow> request \<Rightarrow> ('a) ClaimControl_scheme \<Rightarrow> ManagedEnrollment \<Rightarrow> ApiKey \<Rightarrow> bool" where
  "enrolled_principal iss env rq body enr key =
     (startswith (auth_header rq) ''Bearer vmap_'' \<and> sha256 env (drop 7 (auth_header rq)) = key_key_hash key
      \<and> principal env rq = Inr (enr_principal_hash enr) \<and> cc_origin body = iss_origin iss \<and> cc_runner_id body = enr_runner_id enr)"

text \<open>\<open>_claim_permission\<close>: the stored approval still stands for this job, runner and authority at reading \<open>i\<close>.\<close>

definition claim_permission :: "issuer \<Rightarrow> env \<Rightarrow> clocks \<Rightarrow> nat \<Rightarrow> request \<Rightarrow> ScanJob \<Rightarrow> ('a) ClaimControl_scheme \<Rightarrow> string list \<Rightarrow> db
    \<Rightarrow> (ManagedApproval \<times> projection) res" where
  "claim_permission iss env ck i rq j body job_statuses s =
     (case job_approval j s of
        None \<Rightarrow> Inl (WireRefused ''approval_unavailable'')
      | Some a \<Rightarrow>
     ignoreE (wire_require (\<not> apv_revoked a \<and> apv_job_id a = job_id j \<and> apv_engagement_id a = job_program_id j) ''approval_unavailable'')
     (bindE (issuer_enrollment iss (apv_enrollment_id a) (apv_owner a) s) (\<lambda>(enr, key).
     ignoreE (wire_require (enrolled_principal iss env rq body enr key) ''enrolled_principal_runner_required'')
     (bindE (reproject iss env j (apv_owner a) enr (apv_authorization_id a) (apv_plan a) (apv_context a) (apv_revision a) job_statuses s) (\<lambda>p.
     bindE (issuer_now ck i) (\<lambda>t.
     ignoreE (approval (iss_crypto iss) (iss_wire iss) (apv_envelope a) (VDict (pj_context p)) (apv_owner a) (utc t))
     (Inr (a, p))))))))"

definition managed_budgets :: "ClaimControl \<Rightarrow> ManagedApproval \<Rightarrow> unit res" where
  "managed_budgets body a =
     (case cc_duration_seconds body of
        None \<Rightarrow> Inl (WireRefused ''managed_budget_controls_required'')
      | Some d \<Rightarrow>
          ignoreE (wire_require (cc_concurrency_budget body \<and> cc_target_binding body \<noteq> None) ''managed_budget_controls_required'')
          (bindE (int_field (apv_context a) ''max_duration_seconds'') (\<lambda>m.
           wire_require (d \<le> m) ''managed_budget_controls_required'')))"

record managed_claim =
  mc_execution :: JobExecution
  mc_approval :: pyval
  mc_contract :: pyval
  mc_plan :: pyval
  mc_authority_snapshot :: pyval

text \<open>Issuing the contract on top of the taken job, in state \<open>s\<close>: the ordinal, the envelope and the row.\<close>

definition issue_contract :: "issuer \<Rightarrow> env \<Rightarrow> clocks \<Rightarrow> string \<Rightarrow> ManagedApproval \<Rightarrow> projection \<Rightarrow> db \<Rightarrow> (pyval \<times> db) res" where
  "issue_contract iss env ck jid a p s =
     (let ordinal = apv_issued a + 1 in
      bindE (int_field (apv_context a) ''max_executions'') (\<lambda>m.
      ignoreE (wire_require (ordinal \<le> m) ''approval_exhausted'')
      (ignoreE (wire_require (\<not> list_ex (\<lambda>c. con_job_id c = jid) (managed_contracts s)) ''attempt_already_issued'')
      (let contract_id = new_uuid env s; s1 = drew s; attempt_id = new_uuid env s1; s2 = drew s1
       in bindE (issuer_now ck 5) (\<lambda>t.
          bindE (wire_issue (iss_crypto iss) (iss_wire iss) (apv_envelope a) (VDict (pj_context p)) (apv_owner a) (utc t)
                  contract_id attempt_id 1 ordinal) (\<lambda>envelope.
          Inr (envelope, add_contract \<lparr>con_id = contract_id, con_job_id = jid, con_approval_record_id = apv_id a, con_ordinal = ordinal,
                 con_attempt_id = attempt_id, con_fence = 1, con_envelope = envelope, con_consumed = False\<rparr>
               (set_approval (apv_id a) (\<lambda>r. r\<lparr>apv_issued := ordinal\<rparr>) s2))))))))"

text \<open>The job starts, the engagement is charged, and the attempt is issued.\<close>

definition take_managed :: "env \<Rightarrow> clocks \<Rightarrow> string \<Rightarrow> request \<Rightarrow> current_user \<Rightarrow> ScanJob \<Rightarrow> ManagedApproval \<Rightarrow> pyval \<Rightarrow> ClaimControl \<Rightarrow> db
    \<Rightarrow> (JobExecution \<times> db) res" where
  "take_managed env ck token rq user j a spec body s =
     bindE (someE AttributeError (get_engagement (job_program_id j) s)) (\<lambda>e.
     ignoreE (before_claim s e (Some body))
     (bindE (charge env e j spec (Some body)) (\<lambda>(tr, e1).
     bindE (allocate e1 (Some body)) (\<lambda>(dr, e2).
     bindE (issuer_now ck 4) (\<lambda>t.
     ignoreE (wire_require (job_status j = ''pending'' \<and> job_managed_approval_id j = Some (apv_id a)) ''claim_conflict'')
     (let s1 = set_job (job_id j) (claimed_job t spec) s;
          s2 = set_engagement (eng_id e) (\<lambda>r. r\<lparr>eng_targets_spent := eng_targets_spent e2,
                 eng_duration_allocated := eng_duration_allocated e2\<rparr>) s1
      in issue (env\<lparr>now := control_clock ck 0\<rparr>) rq token (job_id j) user body tr dr s2))))))"

text \<open>The transaction of a claim, once its caller is known.\<close>

definition claimed :: "issuer \<Rightarrow> env \<Rightarrow> clocks \<Rightarrow> string \<Rightarrow> request \<Rightarrow> string \<Rightarrow> ClaimControl \<Rightarrow> current_user \<Rightarrow> db \<Rightarrow> exn + (managed_claim \<times> db)" where
  "claimed iss env ck token rq jid body user s =
     bindE (lock_job jid user s) (\<lambda>j.
     ignoreE (wire_require (job_status j = ''pending'') ''pending_job_required'')
     (bindE (claim_permission iss env ck 2 rq j body [''pending''] s) (\<lambda>(a, p).
     ignoreE (managed_budgets body a)
     (bindE (locked_time ck 3 s) (\<lambda>s1.
     bindE (take_managed env ck token rq user j a (pj_case p) body s1) (\<lambda>(row, s2).
     bindE (issue_contract iss env ck jid a p s2) (\<lambda>(envelope, s3).
     bindE (locked_time ck 6 s3) (\<lambda>s4. bindE (issuer_now ck 7) (\<lambda>t.
     ignoreE (approval (iss_crypto iss) (iss_wire iss) (apv_envelope a) (VDict (pj_context p)) (apv_owner a) (utc t))
     (Inr (\<lparr>mc_execution = row, mc_approval = apv_envelope a, mc_contract = envelope, mc_plan = apv_plan a,
            mc_authority_snapshot = pj_authority_snapshot p\<rparr>, s4)))))))))))"

definition claim :: "auth_env \<Rightarrow> issuer \<Rightarrow> env \<Rightarrow> clocks \<Rightarrow> string \<Rightarrow> request \<Rightarrow> string \<Rightarrow> ClaimControl \<Rightarrow> db \<Rightarrow> managed_claim res \<times> db" where
  "claim ac iss env ck token rq jid body =
     operation ck (authenticated (get_current_user ac env rq) (claimed iss env ck token rq jid body))"

subsection \<open>Live control\<close>

record control_answer =
  ca_contract_id :: string
  ca_attempt_id :: string
  ca_fence :: int
  ca_revision :: int
  ca_authority_sha256 :: pyval
  ca_lease :: "(int \<times> string) option"
  ca_consumed :: "string option"

text \<open>\<open>int(delta.total_seconds())\<close> truncates towards zero.\<close>

definition whole_seconds :: "int \<Rightarrow> int" where
  "whole_seconds us = (if us < 0 then - ((- us) div 1000000) else us div 1000000)"

definition wire_time :: "pyval \<Rightarrow> string \<Rightarrow> int res" where
  "wire_time v f = bindE (vindex v f) timestamp"

text \<open>Everything a lease must not outlive.\<close>

definition ceilings :: "pyval \<Rightarrow> int \<Rightarrow> int \<Rightarrow> int list res" where
  "ceilings permission started duration =
     bindE (wire_time permission ''expires_at'') (\<lambda>c1. bindE (wire_time permission ''testing_end'') (\<lambda>c2.
     bindE (vindex permission ''credential_grants'') (\<lambda>grants. bindE (iter_val grants) (\<lambda>gs.
     bindE (mapE (\<lambda>g. wire_time g ''expires_at'') gs) (\<lambda>cs.
     bindE (int_field permission ''max_duration_seconds'') (\<lambda>m.
     Inr ([c1, c2] @ cs @ [started + seconds (min duration m)])))))))"

definition renew_lease :: "clocks \<Rightarrow> ScanJob \<Rightarrow> JobExecution \<Rightarrow> pyval \<Rightarrow> db \<Rightarrow> ((int \<times> string) \<times> db) res" where
  "renew_lease ck j x permission s =
     bindE (issuer_now ck 5) (\<lambda>t.
     let inst = max t (control_clock ck 1) in
     case job_started_at j of
       None \<Rightarrow> Inl (WireRefused ''finite_allocation_required'')
     | Some started \<Rightarrow>
     ignoreE (wire_require (0 < exe_duration_seconds x) ''finite_allocation_required'')
     (bindE (ceilings permission started (exe_duration_seconds x)) (\<lambda>cs.
     let lease = min LEASE_SECONDS (whole_seconds (Min (set cs) - inst))
     in ignoreE (wire_require (0 < lease \<and> inst < exe_expires_at x) ''live_control_expired_or_stopped'')
        (let expires = inst + seconds lease;
             s1 = set_execution (exe_job_id x) (\<lambda>r. r\<lparr>exe_expires_at := expires\<rparr>) s
         in bindE (locked_time ck 6 s1) (\<lambda>s2. bindE (issuer_now ck 7) (\<lambda>t'.
            ignoreE (wire_require (max t' (control_clock ck 2) < expires) ''live_control_expired_or_stopped'')
            (bindE (stamp (utc expires)) (\<lambda>shown. Inr ((lease, shown), s2)))))))))"

definition consume_contract :: "issuer \<Rightarrow> clocks \<Rightarrow> ManagedApproval \<Rightarrow> projection \<Rightarrow> ManagedContract \<Rightarrow> JobExecution \<Rightarrow> string \<Rightarrow> db \<Rightarrow> db res" where
  "consume_contract iss ck a p c x sha s =
     bindE (digest (iss_crypto iss) (con_envelope c)) (\<lambda>stored.
     ignoreE (wire_require (sha = stored) ''consumption_contract_binding'')
     (ignoreE (wire_require (\<not> con_consumed c) ''contract_already_consumed'')
     (let s1 = set_contract (con_id c) (\<lambda>r. r\<lparr>con_consumed := True\<rparr>) s
      in bindE (locked_time ck 5 s1) (\<lambda>s2. bindE (issuer_now ck 6) (\<lambda>t.
         ignoreE (approval (iss_crypto iss) (iss_wire iss) (apv_envelope a) (VDict (pj_context p)) (apv_owner a) (utc t))
         (bindE (issuer_now ck 7) (\<lambda>t'.
          ignoreE (wire_require (max t' (control_clock ck 2) < exe_expires_at x) ''live_control_expired_or_stopped'')
          (Inr s2))))))))"

text \<open>The contract of a job.\<close>

definition job_contract :: "string \<Rightarrow> db \<Rightarrow> ManagedContract option" where
  "job_contract k s = find (\<lambda>c. con_job_id c = k) (managed_contracts s)"

text \<open>\<open>_current\<close>: the attempt is the caller's, the contract is its contract, and the authority stands; then renew or consume.\<close>

definition live_control :: "issuer \<Rightarrow> env \<Rightarrow> clocks \<Rightarrow> request \<Rightarrow> string \<Rightarrow> ControlRequest \<Rightarrow> string \<Rightarrow> string \<Rightarrow> int \<Rightarrow> bool \<Rightarrow> string option
    \<Rightarrow> current_user \<Rightarrow> db \<Rightarrow> exn + (control_answer \<times> db)" where
  "live_control iss env ck rq jid body contract_id attempt_id fence renew consume_sha user s =
     bindE (owned env rq jid user body s) (\<lambda>x.
     bindE (someE AttributeError (get_job jid s)) (\<lambda>j.
     case find (\<lambda>c. con_job_id c = jid) (managed_contracts s) of
       None \<Rightarrow> Inl (WireRefused ''owned_contract_fence_required'')
     | Some c \<Rightarrow>
     ignoreE (wire_require (con_id c = contract_id \<and> con_attempt_id c = attempt_id \<and> con_fence c = fence) ''owned_contract_fence_required'')
     (bindE (claim_permission iss env ck 2 rq j body [''running''] s) (\<lambda>(a, p).
     bindE (locked_time ck 3 s) (\<lambda>s1.
     ignoreE (wire_require (exe_state x = ''active'' \<and> control_clock ck 0 < exe_expires_at x) ''live_control_expired_or_stopped'')
     (bindE (issuer_now ck 4) (\<lambda>t.
     ignoreE (approval (iss_crypto iss) (iss_wire iss) (apv_envelope a) (VDict (pj_context p)) (apv_owner a) (utc t))
     (bindE (if renew then bindE (renew_lease ck j x (VDict (pj_context p)) s1) (\<lambda>(l, s2). Inr (Some l, s2)) else Inr (None, s1)) (\<lambda>(lease, s2).
     bindE (case consume_sha of None \<Rightarrow> Inr s2 | Some sha \<Rightarrow> consume_contract iss ck a p c x sha s2) (\<lambda>s3.
     Inr (\<lparr>ca_contract_id = con_id c, ca_attempt_id = con_attempt_id c, ca_fence = con_fence c, ca_revision = apv_revision a,
           ca_authority_sha256 = dget (pj_context p) ''authority_sha256'', ca_lease = lease, ca_consumed = consume_sha\<rparr>, s3)))))))))))"

definition current :: "auth_env \<Rightarrow> issuer \<Rightarrow> env \<Rightarrow> clocks \<Rightarrow> request \<Rightarrow> string \<Rightarrow> ControlRequest \<Rightarrow> string \<Rightarrow> string \<Rightarrow> int \<Rightarrow> db \<Rightarrow> control_answer res \<times> db" where
  "current ac iss env ck rq jid body contract_id attempt_id fence = operation ck (authenticated (get_current_user ac env rq)
     (live_control iss env ck rq jid body contract_id attempt_id fence False None))"

definition refresh :: "auth_env \<Rightarrow> issuer \<Rightarrow> env \<Rightarrow> clocks \<Rightarrow> request \<Rightarrow> string \<Rightarrow> ControlRequest \<Rightarrow> string \<Rightarrow> string \<Rightarrow> int \<Rightarrow> db \<Rightarrow> control_answer res \<times> db" where
  "refresh ac iss env ck rq jid body contract_id attempt_id fence = operation ck (authenticated (get_current_user ac env rq)
     (live_control iss env ck rq jid body contract_id attempt_id fence True None))"

definition lower_hex_digest :: "string \<Rightarrow> bool" where
  "lower_hex_digest sha = (length sha = 64 \<and> list_all (\<lambda>c. c \<in> set ''0123456789abcdef'') sha)"

text \<open>A malformed fence or digest is refused before the clock is observed.\<close>

definition consume :: "auth_env \<Rightarrow> issuer \<Rightarrow> env \<Rightarrow> clocks \<Rightarrow> request \<Rightarrow> string \<Rightarrow> ControlRequest \<Rightarrow> string \<Rightarrow> string \<Rightarrow> int \<Rightarrow> string \<Rightarrow> db
    \<Rightarrow> control_answer res \<times> db" where
  "consume ac iss env ck rq jid body contract_id attempt_id fence sha s =
     (case ignoreE (integer (VInt fence) 1 MAX_INTEGER) (wire_require (lower_hex_digest sha) ''consumption_contract_binding'') of
        Inl e \<Rightarrow> (Inl e, s)
      | Inr _ \<Rightarrow> operation ck (authenticated (get_current_user ac env rq)
          (live_control iss env ck rq jid body contract_id attempt_id fence False (Some sha))) s)"

end
