(* ===== verification/Engagements.thy ===== *)
theory Engagements
  imports Jobs
begin

text \<open>
  The engagement endpoints that govern execution (\<open>backend/routers/engagements.py\<close>): the three budget
  policies, the stop-work brake, deletion and the account sync.  \<open>managed_authority_revision\<close> counts the
  changes that invalidate managed contracts.
\<close>

definition bump :: "bool \<Rightarrow> Engagement \<Rightarrow> Engagement" where
  "bump changed e = (if changed then e\<lparr>eng_managed_authority_revision := eng_managed_authority_revision e + 1\<rparr> else e)"

text \<open>An engagement the caller may write to, and its authority revision advanced.\<close>

definition writable :: "string \<Rightarrow> current_user \<Rightarrow> db \<Rightarrow> Engagement res" where
  "writable program_id user s =
     bindE (get_engagement_or_404 program_id user s) (\<lambda>e. ignoreE (require_member_write e user s) (Inr e))"

definition advance :: "bool \<Rightarrow> string \<Rightarrow> db \<Rightarrow> db" where
  "advance changed program_id s = set_engagement program_id (bump changed) s"

text \<open>The common prologue: a full-access caller that owns the engagement, which must be idle.\<close>

definition policy_engagement :: "current_user \<Rightarrow> string \<Rightarrow> db \<Rightarrow> Engagement res" where
  "policy_engagement user program_id s =
     ignoreE (require_full_scope user)
    (bindE (get_engagement_or_404 program_id user s) (\<lambda>e.
     ignoreE (require_engagement_owner e user)
    (ignoreE (require_idle program_id s) (Inr e))))"

text \<open>The field constraint of the policy bodies, checked before the handler runs.\<close>

definition limit_in :: "int \<Rightarrow> int option \<Rightarrow> bool" where
  "limit_in most l = (case l of None \<Rightarrow> True | Some n \<Rightarrow> 1 \<le> n \<and> n \<le> most)"

definition configure_duration :: "env \<Rightarrow> current_user \<Rightarrow> string \<Rightarrow> int option \<Rightarrow> db \<Rightarrow> (int option \<times> int) res \<times> db" where
  "configure_duration env user program_id limit s = transact s (
     ignoreE (requireE (limit_in 1000000000 limit) (HTTPException 422 ''limit_seconds''))
    (bindE (policy_engagement user program_id s) (\<lambda>e.
     let allocated = eng_duration_allocated e in
     ignoreE (requireE (case limit of None \<Rightarrow> allocated = 0 | Some n \<Rightarrow> allocated \<le> n)
       (conflict ''allocated duration cannot be reset or disabled''))
     (Inr ((limit, allocated), log_action env (cu_github_id user) ''duration_config'' ''engagement'' program_id (Some program_id)
        (set_engagement program_id (\<lambda>r. bump (eng_duration_limit r \<noteq> limit) r\<lparr>eng_duration_limit := limit\<rparr>) s))))))"

definition configure_targets :: "env \<Rightarrow> current_user \<Rightarrow> string \<Rightarrow> int option \<Rightarrow> db \<Rightarrow> (int option \<times> int) res \<times> db" where
  "configure_targets env user program_id limit s = transact s (
     ignoreE (requireE (limit_in 1000000 limit) (HTTPException 422 ''limit''))
    (bindE (policy_engagement user program_id s) (\<lambda>e.
     let spent = eng_targets_spent e in
     ignoreE (requireE (case limit of None \<Rightarrow> spent = 0 | Some n \<Rightarrow> spent \<le> n)
       (conflict ''spent target allowance cannot be reset or disabled''))
     (Inr ((limit, spent), log_action env (cu_github_id user) ''target_config'' ''engagement'' program_id (Some program_id)
        (set_engagement program_id (\<lambda>r. bump (eng_target_limit r \<noteq> limit) r\<lparr>eng_target_limit := limit\<rparr>) s))))))"

definition configure_concurrency :: "env \<Rightarrow> current_user \<Rightarrow> string \<Rightarrow> int option \<Rightarrow> db \<Rightarrow> int option res \<times> db" where
  "configure_concurrency env user program_id limit s = transact s (
     ignoreE (requireE (limit_in 1000 limit) (HTTPException 422 ''limit''))
    (bindE (policy_engagement user program_id s) (\<lambda>e.
     Inr (limit, log_action env (cu_github_id user) ''budget_config'' ''engagement'' program_id (Some program_id)
        (set_engagement program_id (\<lambda>r. bump (eng_concurrency_limit r \<noteq> limit) r\<lparr>eng_concurrency_limit := limit\<rparr>) s)))))"

definition auth_sync :: "env \<Rightarrow> current_user \<Rightarrow> db \<Rightarrow> db" where
  "auth_sync env user s =
     (if list_ex (\<lambda>u. usr_github_id u = cu_github_id user) (users s)
      then s\<lparr>users := amend_key usr_github_id (cu_github_id user)
             (\<lambda>u. u\<lparr>usr_username := cu_username user, usr_email := cu_email user\<rparr>) (users s)\<rparr>
      else s\<lparr>users := users s @ [\<lparr>usr_github_id = cu_github_id user, usr_username = cu_username user,
             usr_email = cu_email user, usr_webhook_url = [], usr_notify_min_severity = ''high'',
             usr_created_at = now env\<rparr>]\<rparr>)"

text \<open>
  Deleting an engagement takes every row that hangs off it; the managed records, which hold no foreign
  key, stay.
\<close>

definition cascade_engagement :: "string \<Rightarrow> db \<Rightarrow> db" where
  "cascade_engagement eid s =
     (let jids = map job_id (filter (\<lambda>j. job_program_id j = eid) (scan_jobs s))
      in (del_engagement eid s)\<lparr>
           authorizations := filter (\<lambda>r. az_program_id r \<noteq> eid) (authorizations s),
           scope_items := filter (\<lambda>r. sc_program_id r \<noteq> eid) (scope_items s),
           assets := filter (\<lambda>r. ast_program_id r \<noteq> eid) (assets s),
           asset_relationships := filter (\<lambda>r. ar_program_id r \<noteq> eid) (asset_relationships s),
           recon_items := filter (\<lambda>r. ri_program_id r \<noteq> eid) (recon_items s),
           scan_items := filter (\<lambda>r. si_program_id r \<noteq> eid) (scan_items s),
           evidence := filter (\<lambda>r. ev_program_id r \<noteq> eid) (evidence s),
           scan_jobs := filter (\<lambda>r. job_program_id r \<noteq> eid) (scan_jobs s),
           job_events := filter (\<lambda>r. je_job_id r \<notin> set jids) (job_events s),
           job_result_links := filter (\<lambda>r. jl_job_id r \<notin> set jids) (job_result_links s),
           job_result_receipts := filter (\<lambda>r. rcp_job_id r \<notin> set jids) (job_result_receipts s),
           job_executions := filter (\<lambda>r. exe_job_id r \<notin> set jids) (job_executions s),
           program_members := filter (\<lambda>r. mem_program_id r \<noteq> eid) (program_members s),
           authorization_test_cases := filter (\<lambda>r. tc_program_id r \<noteq> eid) (authorization_test_cases s),
           agent_proposals := filter (\<lambda>r. ap_program_id r \<noteq> eid) (agent_proposals s)\<rparr>)"

definition delete_engagement :: "env \<Rightarrow> current_user \<Rightarrow> string \<Rightarrow> db \<Rightarrow> unit res \<times> db" where
  "delete_engagement env user program_id s = transact s (
     bindE (get_engagement_or_404 program_id user s) (\<lambda>e.
     ignoreE (require_engagement_owner e user)
    (ignoreE (if eng_concurrency_limit e \<noteq> None \<or> reserved program_id s \<noteq> 0 then require_idle program_id s else Inr ())
    (ignoreE (requireE (eng_targets_spent e = 0) (conflict ''spent target accounting cannot be deleted''))
    (ignoreE (requireE (eng_duration_allocated e = 0) (conflict ''allocated duration accounting cannot be deleted''))
     (Inr ((), cascade_engagement program_id
        (log_action env (cu_github_id user) ''delete'' ''engagement'' program_id None s))))))))"

definition engage_stop_work :: "env \<Rightarrow> current_user \<Rightarrow> string \<Rightarrow> string \<Rightarrow> db \<Rightarrow> unit res \<times> db" where
  "engage_stop_work env user program_id reason s = transact s (
     bindE (get_engagement_or_404 program_id user s) (\<lambda>e.
     ignoreE (require_member_write e user s)
     (let s1 = set_engagement program_id (\<lambda>r. (bump (eng_stop_work_at r = None) r)
                 \<lparr>eng_stop_work_at := (if eng_stop_work_at r = None then Some (now env) else eng_stop_work_at r),
                  eng_stop_work_reason := reason\<rparr>) s;
          s2 = s1\<lparr>job_executions := amend (\<lambda>x. exe_state x = ''active''
                 \<and> list_ex (\<lambda>j. job_id j = exe_job_id x \<and> job_program_id j = program_id) (scan_jobs s1))
                 (\<lambda>x. x\<lparr>exe_state := ''cancel_requested''\<rparr>) (job_executions s1)\<rparr>
      in Inr ((), log_action env (cu_github_id user) ''stop_work'' ''engagement'' program_id (Some program_id) s2))))"

definition release_stop_work :: "env \<Rightarrow> current_user \<Rightarrow> string \<Rightarrow> db \<Rightarrow> unit res \<times> db" where
  "release_stop_work env user program_id s = transact s (
     bindE (get_engagement_or_404 program_id user s) (\<lambda>e.
     ignoreE (require_engagement_owner e user)
     (Inr ((), log_action env (cu_github_id user) ''resume_work'' ''engagement'' program_id (Some program_id)
        (set_engagement program_id (\<lambda>r. (bump (eng_stop_work_at r \<noteq> None) r)
           \<lparr>eng_stop_work_at := None, eng_stop_work_reason := []\<rparr>) s)))))"

end
