(* ===== verification/Lifecycle.thy ===== *)
theory Lifecycle
  imports Engagements
begin

text \<open>
  The execution protocol behind the job and engagement endpoints.  \<open>micro\<close> is the abstract protocol:
  the changes the job, attempt and engagement tables may undergo, one table at a time.  Every endpoint is
  shown to be a sequence of such changes, so what the protocol keeps, every history of requests keeps.
\<close>

section \<open>The abstract protocol\<close>

definition legal :: "string \<Rightarrow> string \<Rightarrow> bool" where
  "legal a b = (a = b \<or> (a = ''pending'' \<and> b \<in> {''running'', ''done'', ''failed''})
     \<or> (a = ''running'' \<and> b \<in> {''pending'', ''done'', ''failed''}))"

text \<open>
  What may become of a job row: its identity stays, its status is not changed under an open attempt, only
  unstopped jobs start, and a job is put under managed authorization while it is pending and for good.
\<close>

definition job_move :: "db \<Rightarrow> ScanJob \<Rightarrow> ScanJob \<Rightarrow> bool" where
  "job_move s j j' = (job_id j' = job_id j \<and> job_program_id j' = job_program_id j
     \<and> job_owner_github_id j' = job_owner_github_id j \<and> job_tool_type j' = job_tool_type j
     \<and> job_config j' = job_config j \<and> job_depends_on j' = job_depends_on j
     \<and> (managed j \<longrightarrow> managed j')
     \<and> (job_status j \<noteq> ''pending'' \<longrightarrow> job_authorization_contract_required j' = job_authorization_contract_required j
          \<and> job_managed_approval_id j' = job_managed_approval_id j)
     \<and> legal (job_status j) (job_status j')
     \<and> (job_status j' \<noteq> job_status j \<longrightarrow>
          (\<forall>x. get_execution (job_id j) s = Some x \<longrightarrow> exe_state x \<in> set FINAL_STATES))
     \<and> (job_status j' = ''running'' \<longrightarrow> job_status j = ''running'' \<or> \<not> job_stopped j s))"

text \<open>What may become of an attempt: bound to its owner, never reactivated, final states frozen, and
  capacity given back only by a final state.\<close>

definition EXECUTION_STATES :: "string list" where
  "EXECUTION_STATES = [''active'', ''cancel_requested'', ''uncertain''] @ FINAL_STATES"

definition exec_move :: "JobExecution \<Rightarrow> JobExecution \<Rightarrow> bool" where
  "exec_move x y = (exe_job_id y = exe_job_id x \<and> exe_owner y = exe_owner x \<and> exe_runner_id y = exe_runner_id x
     \<and> exe_origin y = exe_origin x \<and> exe_principal_hash y = exe_principal_hash x \<and> exe_token_hash y = exe_token_hash x
     \<and> exe_target_charge y = exe_target_charge x \<and> exe_duration_seconds y = exe_duration_seconds x
     \<and> (exe_state x \<in> set EXECUTION_STATES \<longrightarrow> exe_state y \<in> set EXECUTION_STATES)
     \<and> (exe_state y = ''active'' \<longrightarrow> exe_state x = ''active'')
     \<and> (exe_state x \<in> set FINAL_STATES \<longrightarrow> exe_state y = exe_state x)
     \<and> (exe_capacity_reserved y \<longrightarrow> exe_capacity_reserved x)
     \<and> (exe_capacity_reserved x \<and> \<not> exe_capacity_reserved y \<longrightarrow> exe_state y \<in> set FINAL_STATES))"

definition within :: "int option \<Rightarrow> int \<Rightarrow> bool" where
  "within limit used = (0 \<le> used \<and> (case limit of None \<Rightarrow> used = 0 | Some l \<Rightarrow> used \<le> l))"

definition budget_ok :: "Engagement \<Rightarrow> bool" where
  "budget_ok e = (within (eng_target_limit e) (eng_targets_spent e)
     \<and> within (eng_duration_limit e) (eng_duration_allocated e))"

text \<open>What may become of an engagement: its authority revision and its spending only grow, the latter
  within budget, and the concurrency limit changes only while nothing is reserved.\<close>

text \<open>
  What an engagement itself allows: its kind, status, dates, rate and limits, and whether work is stopped.  It
  changes only together with the authority revision, which never goes back.
\<close>

definition eng_authority :: "Engagement \<Rightarrow> (string \<times> string) \<times> (int option \<times> int option) \<times> (int option \<times> int option \<times> int option \<times> int option) \<times> bool" where
  "eng_authority e = ((eng_engagement_type e, eng_engagement_status e), (eng_starts_at e, eng_ends_at e),
     (eng_max_request_rate e, eng_duration_limit e, eng_target_limit e, eng_concurrency_limit e), eng_stop_work_at e = None)"

definition authority_move :: "Engagement \<Rightarrow> Engagement \<Rightarrow> bool" where
  "authority_move e e' = (eng_managed_authority_revision e \<le> eng_managed_authority_revision e'
     \<and> (eng_managed_authority_revision e' = eng_managed_authority_revision e \<longrightarrow> eng_authority e' = eng_authority e))"

definition ledger_move :: "db \<Rightarrow> Engagement \<Rightarrow> Engagement \<Rightarrow> bool" where
  "ledger_move s e e' = (eng_id e' = eng_id e \<and> eng_owner_github_id e' = eng_owner_github_id e
     \<and> eng_org_id e' = eng_org_id e
     \<and> authority_move e e'
     \<and> eng_targets_spent e \<le> eng_targets_spent e' \<and> eng_duration_allocated e \<le> eng_duration_allocated e'
     \<and> (budget_ok e \<longrightarrow> budget_ok e')
     \<and> (eng_concurrency_limit e' \<noteq> eng_concurrency_limit e \<longrightarrow>
          reserved (eng_id e) s = 0 \<and> (\<forall>l. eng_concurrency_limit e' = Some l \<longrightarrow> 1 \<le> l)))"

inductive micro :: "(nat \<Rightarrow> string) \<Rightarrow> db \<Rightarrow> db \<Rightarrow> bool" for U where
  frame: "scan_jobs s' = scan_jobs s \<Longrightarrow> job_executions s' = job_executions s \<Longrightarrow> programs s' = programs s \<Longrightarrow>
    uuids_drawn s \<le> uuids_drawn s' \<Longrightarrow> micro U s s'"
| queue: "job_status j = ''pending'' \<Longrightarrow> job_id j = U (uuids_drawn s) \<Longrightarrow> micro U s (drew (add_job j s))"
| moves: "(\<And>j. j \<in> set (scan_jobs s) \<Longrightarrow> job_move s j (g j)) \<Longrightarrow> micro U s (s\<lparr>scan_jobs := map g (scan_jobs s)\<rparr>)"
| attempt: "get_execution (exe_job_id x) s = None \<Longrightarrow> exe_state x = ''active'' \<Longrightarrow>
    get_job (exe_job_id x) s = Some j \<Longrightarrow> job_status j = ''running'' \<Longrightarrow> get_engagement (job_program_id j) s = Some e \<Longrightarrow>
    (exe_capacity_reserved x \<Longrightarrow> \<exists>l. eng_concurrency_limit e = Some l \<and> int (reserved (eng_id e) s) < l) \<Longrightarrow>
    micro U s (add_execution x s)"
| controls: "(\<And>x. x \<in> set (job_executions s) \<Longrightarrow> exec_move x (g x)) \<Longrightarrow>
    micro U s (s\<lparr>job_executions := map g (job_executions s)\<rparr>)"
| ledgers: "(\<And>e. e \<in> set (programs s) \<Longrightarrow> ledger_move s e (g e)) \<Longrightarrow>
    micro U s (s\<lparr>programs := map g (programs s)\<rparr>)"
| drop_job: "(\<And>x. get_execution jid s = Some x \<Longrightarrow> \<not> exe_capacity_reserved x) \<Longrightarrow> micro U s (cascade_job jid s)"
| drop_engagement: "reserved eid s = 0 \<Longrightarrow> micro U s (cascade_engagement eid s)"

inductive_cases micro_cases: "micro U s s'"

abbreviation history :: "(nat \<Rightarrow> string) \<Rightarrow> db \<Rightarrow> db \<Rightarrow> bool" where
  "history U \<equiv> (micro U)\<^sup>*\<^sup>*"

section \<open>Well-formed tables\<close>

text \<open>
  The primary keys of the three tables, the foreign key from attempts to jobs, and that every job id was
  drawn from the generator; and that a job with an open attempt is running.
\<close>

definition attempts_open :: "db \<Rightarrow> bool" where
  "attempts_open s = (\<forall>x \<in> set (job_executions s). exe_state x \<notin> set FINAL_STATES \<longrightarrow>
     (\<forall>j \<in> set (scan_jobs s). job_id j = exe_job_id x \<longrightarrow> job_status j = ''running''))"

definition tables_ok :: "(nat \<Rightarrow> string) \<Rightarrow> db \<Rightarrow> bool" where
  "tables_ok U s = (distinct (map job_id (scan_jobs s)) \<and> distinct (map exe_job_id (job_executions s))
     \<and> distinct (map eng_id (programs s))
     \<and> exe_job_id ` set (job_executions s) \<subseteq> job_id ` set (scan_jobs s) \<and> attempts_open s
     \<and> (\<forall>j \<in> set (scan_jobs s). \<exists>n < uuids_drawn s. job_id j = U n))"

definition in_budget :: "db \<Rightarrow> bool" where
  "in_budget s = (\<forall>e \<in> set (programs s). budget_ok e \<and> within (eng_concurrency_limit e) (int (reserved (eng_id e) s)))"

lemma job_move_refl [simp]: "job_move s j j"
  by (simp add: job_move_def legal_def)

lemma exec_move_refl [simp]: "exec_move x x"
  by (simp add: exec_move_def)

lemma authority_move_refl [simp]: "authority_move e e"
  by (simp add: authority_move_def)

lemma authority_move_trans: "authority_move e f \<Longrightarrow> authority_move f g \<Longrightarrow> authority_move e g"
  by (auto simp: authority_move_def)

lemma ledger_move_refl [simp]: "ledger_move s e e"
  by (simp add: ledger_move_def)

lemma set_job_map: "set_job k f s = s\<lparr>scan_jobs := map (\<lambda>j. if job_id j = k then f j else j) (scan_jobs s)\<rparr>"
  by (simp add: set_job_def amend_key_def amend_def)

lemma set_execution_map:
  "set_execution k f s = s\<lparr>job_executions := map (\<lambda>x. if exe_job_id x = k then f x else x) (job_executions s)\<rparr>"
  by (simp add: set_execution_def amend_key_def amend_def)

lemma set_engagement_map:
  "set_engagement k f s = s\<lparr>programs := map (\<lambda>e. if eng_id e = k then f e else e) (programs s)\<rparr>"
  by (simp add: set_engagement_def amend_key_def amend_def)

text \<open>Changing the rows with one key is one move of the protocol when the addressed row moves.\<close>

lemma move_one:
  assumes "tables_ok U s" and "\<And>j. get_job k s = Some j \<Longrightarrow> job_move s j (f j)"
  shows "micro U s (set_job k f s)"
  unfolding set_job_map
proof (rule moves)
  fix j assume "j \<in> set (scan_jobs s)"
  then have "get_job (job_id j) s = Some j"
    using assms(1) by (simp add: get_job_def tables_ok_def by_key_unique)
  with assms(2) show "job_move s j (if job_id j = k then f j else j)" by auto
qed

lemma control_one:
  assumes "tables_ok U s" and "\<And>x. get_execution k s = Some x \<Longrightarrow> exec_move x (f x)"
  shows "micro U s (set_execution k f s)"
  unfolding set_execution_map
proof (rule controls)
  fix x assume "x \<in> set (job_executions s)"
  then have "get_execution (exe_job_id x) s = Some x"
    using assms(1) by (simp add: get_execution_def tables_ok_def by_key_unique)
  with assms(2) show "exec_move x (if exe_job_id x = k then f x else x)" by auto
qed

lemma ledger_one:
  assumes "tables_ok U s" and "\<And>e. get_engagement k s = Some e \<Longrightarrow> ledger_move s e (f e)"
  shows "micro U s (set_engagement k f s)"
  unfolding set_engagement_map
proof (rule ledgers)
  fix e assume "e \<in> set (programs s)"
  then have "get_engagement (eng_id e) s = Some e"
    using assms(1) by (simp add: get_engagement_def tables_ok_def by_key_unique)
  with assms(2) show "ledger_move s e (if eng_id e = k then f e else e)" by auto
qed

section \<open>What one change keeps\<close>

lemma map_key_moves:
  "(\<And>x. x \<in> set xs \<Longrightarrow> key (g x) = key x) \<Longrightarrow> map key (map g xs) = map key xs"
  by (induction xs) auto

lemma image_key_moves:
  "(\<And>x. x \<in> set xs \<Longrightarrow> key (g x) = key x) \<Longrightarrow> key ` set (map g xs) = key ` set xs"
  by (force simp: image_iff)

lemma fresh_job_id:
  assumes "inj U" and "tables_ok U s"
  shows "U (uuids_drawn s) \<notin> job_id ` set (scan_jobs s)"
proof
  assume "U (uuids_drawn s) \<in> job_id ` set (scan_jobs s)"
  then obtain n where "n < uuids_drawn s" "U (uuids_drawn s) = U n"
    using assms(2) unfolding tables_ok_def by force
  with assms(1) show False by (auto dest: injD)
qed

lemma tables_ok_queue:
  assumes "inj U" and "tables_ok U s" and "job_id j = U (uuids_drawn s)"
  shows "tables_ok U (drew (add_job j s))"
proof -
  have "\<exists>n < Suc (uuids_drawn s). job_id i = U n" if "i \<in> set (scan_jobs s)" for i
    using assms(2) that unfolding tables_ok_def by (meson less_SucI)
  moreover have "attempts_open (drew (add_job j s))"
    using assms fresh_job_id [OF assms(1,2)]
    by (auto simp: tables_ok_def attempts_open_def drew_def add_job_def)
  ultimately show ?thesis
    using assms fresh_job_id [OF assms(1,2)] by (auto simp: tables_ok_def drew_def add_job_def)
qed

lemma get_execution_mem:
  "tables_ok U s \<Longrightarrow> x \<in> set (job_executions s) \<Longrightarrow> get_execution (exe_job_id x) s = Some x"
  by (simp add: tables_ok_def get_execution_def by_key_unique)

lemma get_job_mem: "tables_ok U s \<Longrightarrow> j \<in> set (scan_jobs s) \<Longrightarrow> get_job (job_id j) s = Some j"
  by (simp add: tables_ok_def get_job_def by_key_unique)

lemma tables_ok_moves:
  assumes ok: "tables_ok U s" and mv: "\<And>j. j \<in> set (scan_jobs s) \<Longrightarrow> job_move s j (g j)"
  shows "tables_ok U (s\<lparr>scan_jobs := map g (scan_jobs s)\<rparr>)"
proof -
  have id: "job_id (g j) = job_id j" if "j \<in> set (scan_jobs s)" for j
    using mv [OF that] by (simp add: job_move_def)
  have "job_status (g j) = ''running''"
    if "x \<in> set (job_executions s)" "exe_state x \<notin> set FINAL_STATES" "j \<in> set (scan_jobs s)" "job_id j = exe_job_id x" for x j
  proof -
    have "job_status j = ''running''" using ok that by (simp add: tables_ok_def attempts_open_def)
    moreover have "job_status (g j) = job_status j"
      using mv [OF that(3)] get_execution_mem [OF ok that(1)] that(2,4) by (auto simp: job_move_def)
    ultimately show ?thesis by simp
  qed
  then have "attempts_open (s\<lparr>scan_jobs := map g (scan_jobs s)\<rparr>)" using id by (auto simp: attempts_open_def)
  then show ?thesis
    using ok id map_key_moves [of "scan_jobs s" job_id g] image_key_moves [of "scan_jobs s" job_id g]
    by (auto simp: tables_ok_def simp del: map_map)
qed

lemma tables_ok_drop_job: "tables_ok U s \<Longrightarrow> tables_ok U (cascade_job jid s)"
  by (auto simp: tables_ok_def attempts_open_def cascade_job_def del_job_def del_execution_def drop_key_def distinct_map_filter)

lemma tables_ok_drop_engagement:
  assumes "tables_ok U s"
  shows "tables_ok U (cascade_engagement eid s)"
proof -
  have "exe_job_id x \<in> job_id ` {j \<in> set (scan_jobs s). job_program_id j \<noteq> eid}"
    if "x \<in> set (job_executions s)" "exe_job_id x \<notin> job_id ` {j \<in> set (scan_jobs s). job_program_id j = eid}" for x
    using assms that unfolding tables_ok_def by force
  then show ?thesis
    using assms
    by (auto simp: tables_ok_def attempts_open_def cascade_engagement_def Let_def del_engagement_def drop_key_def
        distinct_map_filter)
qed

lemma attempts_open_attempt:
  assumes "tables_ok U s" and "get_job (exe_job_id x) s = Some j" and "job_status j = ''running''"
  shows "attempts_open (add_execution x s)"
proof -
  have "job_status i = ''running''" if "i \<in> set (scan_jobs s)" "job_id i = exe_job_id x" for i
    using get_job_mem [OF assms(1) that(1)] that(2) assms(2,3) by simp
  with assms(1) show ?thesis by (auto simp: tables_ok_def attempts_open_def add_execution_def)
qed

lemma attempts_open_controls:
  assumes "attempts_open s" and "\<And>x. x \<in> set (job_executions s) \<Longrightarrow> exec_move x (g x)"
  shows "attempts_open (s\<lparr>job_executions := map g (job_executions s)\<rparr>)"
  unfolding attempts_open_def
proof (intro ballI impI)
  fix y j assume "y \<in> set (job_executions (s\<lparr>job_executions := map g (job_executions s)\<rparr>))"
    and y: "exe_state y \<notin> set FINAL_STATES"
    and j: "j \<in> set (scan_jobs (s\<lparr>job_executions := map g (job_executions s)\<rparr>))" "job_id j = exe_job_id y"
  then obtain x where x: "x \<in> set (job_executions s)" "y = g x" by auto
  with assms(2) y have "exe_state x \<notin> set FINAL_STATES" "exe_job_id y = exe_job_id x"
    unfolding exec_move_def by metis+
  with assms(1) x(1) j show "job_status j = ''running''" by (simp add: attempts_open_def)
qed

lemma tables_ok_micro:
  assumes "micro U s s'" and "inj U" and "tables_ok U s"
  shows "tables_ok U s'"
  using assms(1)
proof cases
  case frame
  moreover have "attempts_open s'" using frame assms(3) by (simp add: tables_ok_def attempts_open_def)
  ultimately show ?thesis using assms(3) unfolding tables_ok_def by (metis order_less_le_trans)
next
  case (queue j)
  with assms show ?thesis by (simp add: tables_ok_queue)
next
  case (moves g)
  with tables_ok_moves [OF assms(3)] show ?thesis by blast
next
  case (attempt x j e)
  then have "exe_job_id x \<notin> exe_job_id ` set (job_executions s)" by (simp add: get_execution_def by_key_None)
  moreover have "exe_job_id x \<in> job_id ` set (scan_jobs s)"
    using by_key_Some [of job_id "exe_job_id x" "scan_jobs s" j] attempt(4) by (force simp: get_job_def)
  moreover have "attempts_open s'"
    unfolding attempt(1) by (rule attempts_open_attempt [OF assms(3) attempt(4,5)])
  ultimately show ?thesis using assms(3) attempt(1) by (auto simp: tables_ok_def add_execution_def)
next
  case (controls g)
  have "exe_job_id (g x) = exe_job_id x" if "x \<in> set (job_executions s)" for x
    using controls(2) [OF that] by (simp add: exec_move_def)
  moreover have "attempts_open s'"
    using assms(3) attempts_open_controls [OF _ controls(2)] by (simp add: controls(1) tables_ok_def)
  ultimately show ?thesis using assms(3) unfolding controls(1)
    using map_key_moves [of "job_executions s" exe_job_id g] image_key_moves [of "job_executions s" exe_job_id g]
    by (simp add: tables_ok_def del: map_map set_map)
next
  case (ledgers g)
  have "eng_id (g e) = eng_id e" if "e \<in> set (programs s)" for e
    using ledgers(2) [OF that] by (simp add: ledger_move_def)
  with assms(3) show ?thesis unfolding ledgers(1)
    using map_key_moves [of "programs s" eng_id g] by (simp add: tables_ok_def attempts_open_def del: map_map)
qed (use assms(3) in \<open>simp_all add: tables_ok_drop_job tables_ok_drop_engagement\<close>)

lemma tables_ok_history: "history U s s' \<Longrightarrow> inj U \<Longrightarrow> tables_ok U s \<Longrightarrow> tables_ok U s'"
  by (induction rule: rtranclp_induct) (auto intro: tables_ok_micro)

text \<open>A later request continues the history of the earlier ones.\<close>

lemma history_step: "micro U s s' \<Longrightarrow> history U s' s'' \<Longrightarrow> history U s s''"
  by (rule converse_rtranclp_into_rtranclp)

lemma history_one: "micro U s s' \<Longrightarrow> history U s s'"
  by (rule r_into_rtranclp)

subsection \<open>Reserved capacity\<close>

lemma length_filter_le_filter:
  "(\<And>x. x \<in> set xs \<Longrightarrow> p x \<Longrightarrow> q x) \<Longrightarrow> length (filter p xs) \<le> length (filter q xs)"
  by (induction xs) (auto simp: le_Suc_eq)

definition holds_capacity :: "string \<Rightarrow> ScanJob list \<Rightarrow> JobExecution \<Rightarrow> bool" where
  "holds_capacity eid jobs x = (exe_capacity_reserved x
     \<and> (\<exists>j \<in> set jobs. job_id j = exe_job_id x \<and> job_program_id j = eid))"

lemma reserved_alt: "reserved eid s = length (filter (holds_capacity eid (scan_jobs s)) (job_executions s))"
  by (simp add: reserved_def reserved_rows_def holds_capacity_def [abs_def])

lemma reserved_cong:
  "scan_jobs s' = scan_jobs s \<Longrightarrow> job_executions s' = job_executions s \<Longrightarrow> reserved eid s' = reserved eid s"
  by (simp add: reserved_alt)

lemma reserved_moves:
  assumes "\<And>j. j \<in> set (scan_jobs s) \<Longrightarrow> job_id (g j) = job_id j \<and> job_program_id (g j) = job_program_id j"
  shows "reserved eid (s\<lparr>scan_jobs := map g (scan_jobs s)\<rparr>) = reserved eid s"
proof -
  have "holds_capacity eid (map g (scan_jobs s)) = holds_capacity eid (scan_jobs s)"
    using assms by (auto simp: holds_capacity_def fun_eq_iff)
  then show ?thesis by (simp add: reserved_alt)
qed

lemma reserved_queue:
  assumes "inj U" and "tables_ok U s" and "job_id j = U (uuids_drawn s)"
  shows "reserved eid (drew (add_job j s)) = reserved eid s"
proof -
  have "job_id j \<noteq> exe_job_id x" if "x \<in> set (job_executions s)" for x
    using that assms fresh_job_id [OF assms(1,2)] unfolding tables_ok_def by force
  then have "filter (holds_capacity eid (scan_jobs s @ [j])) (job_executions s)
    = filter (holds_capacity eid (scan_jobs s)) (job_executions s)"
    by (intro filter_cong refl) (simp add: holds_capacity_def)
  then show ?thesis by (simp add: reserved_alt drew_def add_job_def)
qed

lemma reserved_controls:
  assumes "\<And>x. x \<in> set (job_executions s) \<Longrightarrow> exec_move x (g x)"
  shows "reserved eid (s\<lparr>job_executions := map g (job_executions s)\<rparr>) \<le> reserved eid s"
proof -
  have "length (filter (holds_capacity eid (scan_jobs s) \<circ> g) (job_executions s))
      \<le> length (filter (holds_capacity eid (scan_jobs s)) (job_executions s))"
    using assms by (intro length_filter_le_filter) (auto simp: holds_capacity_def exec_move_def)
  then show ?thesis by (simp add: reserved_alt filter_map comp_def)
qed

lemma reserved_drop:
  assumes "set (scan_jobs s') \<subseteq> set (scan_jobs s)" and "job_executions s' = filter p (job_executions s)"
  shows "reserved eid s' \<le> reserved eid s"
proof -
  have "length (filter (\<lambda>x. p x \<and> holds_capacity eid (scan_jobs s') x) (job_executions s))
      \<le> length (filter (holds_capacity eid (scan_jobs s)) (job_executions s))"
    using assms(1) by (intro length_filter_le_filter) (auto simp: holds_capacity_def)
  then show ?thesis using assms(2) by (simp add: reserved_alt)
qed

lemma reserved_attempt:
  assumes "tables_ok U s" and "get_job (exe_job_id x) s = Some j"
  shows "reserved eid (add_execution x s)
    = reserved eid s + (if exe_capacity_reserved x \<and> job_program_id j = eid then 1 else 0)"
proof -
  have "i = j" if "i \<in> set (scan_jobs s)" "job_id i = exe_job_id x" for i
    using that assms by_key_unique [of job_id "scan_jobs s" i] by (simp add: tables_ok_def get_job_def)
  moreover have "j \<in> set (scan_jobs s)" "job_id j = exe_job_id x"
    using assms(2) by (auto simp: get_job_def dest: by_key_Some)
  ultimately have "holds_capacity eid (scan_jobs s) x \<longleftrightarrow> exe_capacity_reserved x \<and> job_program_id j = eid"
    unfolding holds_capacity_def by metis
  then show ?thesis by (simp add: reserved_alt add_execution_def)
qed

lemma within_le: "within l (int n) \<Longrightarrow> m \<le> n \<Longrightarrow> within l (int m)"
  by (auto simp: within_def split: option.splits)

lemma in_budget_shrink:
  assumes "in_budget s" and "set (programs s') \<subseteq> set (programs s)" and "\<And>eid. reserved eid s' \<le> reserved eid s"
  shows "in_budget s'"
  using assms within_le unfolding in_budget_def by blast

lemma in_budget_attempt:
  assumes "in_budget s" and "tables_ok U s" and "get_job (exe_job_id x) s = Some j"
    and "get_engagement (job_program_id j) s = Some e"
    and "exe_capacity_reserved x \<Longrightarrow> \<exists>l. eng_concurrency_limit e = Some l \<and> int (reserved (eng_id e) s) < l"
  shows "in_budget (add_execution x s)"
  unfolding in_budget_def
proof
  fix e' assume "e' \<in> set (programs (add_execution x s))"
  then have e': "e' \<in> set (programs s)" by (simp add: add_execution_def)
  then have ok: "budget_ok e'" "within (eng_concurrency_limit e') (int (reserved (eng_id e') s))"
    using assms(1) by (auto simp: in_budget_def)
  have "e' = e" if "eng_id e' = job_program_id j"
    using that assms(2,4) by_key_unique [OF _ e', of eng_id] by (simp add: tables_ok_def get_engagement_def)
  with ok assms(5) show "budget_ok e' \<and> within (eng_concurrency_limit e') (int (reserved (eng_id e') (add_execution x s)))"
    unfolding reserved_attempt [OF assms(2,3)] by (fastforce simp: within_def split: option.splits)
qed

lemma in_budget_ledgers:
  assumes "in_budget s" and "\<And>e. e \<in> set (programs s) \<Longrightarrow> ledger_move s e (g e)"
  shows "in_budget (s\<lparr>programs := map g (programs s)\<rparr>)"
  unfolding in_budget_def
proof
  fix e' assume "e' \<in> set (programs (s\<lparr>programs := map g (programs s)\<rparr>))"
  then obtain e where e: "e \<in> set (programs s)" "e' = g e" by auto
  have ok: "budget_ok e" "within (eng_concurrency_limit e) (int (reserved (eng_id e) s))"
    using assms(1) e(1) by (auto simp: in_budget_def)
  have "reserved (eng_id e') (s\<lparr>programs := map g (programs s)\<rparr>) = reserved (eng_id e) s"
    using assms(2) [OF e(1)] e(2) by (simp add: ledger_move_def reserved_alt)
  with ok assms(2) [OF e(1)] e(2)
  show "budget_ok e' \<and> within (eng_concurrency_limit e') (int (reserved (eng_id e') (s\<lparr>programs := map g (programs s)\<rparr>)))"
    by (cases "eng_concurrency_limit (g e) = eng_concurrency_limit e")
      (auto simp: ledger_move_def within_def split: option.splits)
qed

lemma in_budget_micro:
  assumes "micro U s s'" and "inj U" and "tables_ok U s" and "in_budget s"
  shows "in_budget s'"
  using assms(1)
proof cases
  case frame
  then show ?thesis using assms(4) by (simp add: in_budget_def reserved_alt)
next
  case (queue j)
  with assms show ?thesis by (simp add: in_budget_def reserved_queue) (simp add: drew_def add_job_def)
next
  case (moves g)
  have "reserved eid s' = reserved eid s" for eid
    unfolding moves(1) using moves(2) by (intro reserved_moves) (simp add: job_move_def)
  then show ?thesis using assms(4) moves(1) by (simp add: in_budget_def)
next
  case (attempt x j e)
  then show ?thesis using in_budget_attempt [OF assms(4,3)] by blast
next
  case (controls g)
  show ?thesis unfolding controls(1)
    by (rule in_budget_shrink [OF assms(4)]) (auto intro: reserved_controls controls(2))
next
  case (ledgers g)
  then show ?thesis using in_budget_ledgers [OF assms(4)] by blast
next
  case (drop_job jid)
  show ?thesis unfolding drop_job(1)
    by (rule in_budget_shrink [OF assms(4)])
      (auto simp: cascade_job_def del_job_def del_execution_def drop_key_def intro!: reserved_drop)
next
  case (drop_engagement eid)
  show ?thesis unfolding drop_engagement(1)
    by (rule in_budget_shrink [OF assms(4)])
      (auto simp: cascade_engagement_def Let_def del_engagement_def drop_key_def intro!: reserved_drop)
qed

lemma in_budget_history:
  "history U s s' \<Longrightarrow> inj U \<Longrightarrow> tables_ok U s \<Longrightarrow> in_budget s \<Longrightarrow> in_budget s'"
  by (induction rule: rtranclp_induct) (auto intro: in_budget_micro dest: tables_ok_history)

subsection \<open>One row through a history\<close>

definition evolves :: "ScanJob \<Rightarrow> ScanJob \<Rightarrow> bool" where
  "evolves j j' = (job_id j' = job_id j \<and> job_program_id j' = job_program_id j
     \<and> job_tool_type j' = job_tool_type j \<and> job_config j' = job_config j
     \<and> (managed j \<longrightarrow> managed j')
     \<and> (job_status j \<in> {''done'', ''failed''} \<longrightarrow> job_status j' = job_status j))"

lemma evolves_refl [simp]: "evolves j j"
  by (simp add: evolves_def)

lemma evolves_move:
  assumes "evolves j j'" and "job_move s j' j''"
  shows "evolves j j''"
  unfolding evolves_def
proof (intro conjI impI)
  show "job_status j'' = job_status j" if "job_status j \<in> {''done'', ''failed''}"
  proof -
    have "job_status j' = job_status j" using assms(1) that unfolding evolves_def by blast
    moreover have "legal (job_status j') (job_status j'')" using assms(2) unfolding job_move_def by blast
    ultimately show ?thesis using that by (auto simp: legal_def)
  qed
qed (use assms in \<open>simp_all only: evolves_def job_move_def\<close>)

lemma exec_move_trans:
  assumes a: "exec_move x y" and b: "exec_move y z"
  shows "exec_move x z"
  unfolding exec_move_def
proof (intro conjI impI)
  show "exe_state x = ''active''" if "exe_state z = ''active''"
    using a b that unfolding exec_move_def by blast
  show "exe_state z = exe_state x" if "exe_state x \<in> set FINAL_STATES"
    using a b that unfolding exec_move_def by metis
  show "exe_state z \<in> set EXECUTION_STATES" if "exe_state x \<in> set EXECUTION_STATES"
    using a b that unfolding exec_move_def by blast
  show "exe_capacity_reserved x" if "exe_capacity_reserved z"
    using a b that unfolding exec_move_def by blast
  show "exe_state z \<in> set FINAL_STATES" if "exe_capacity_reserved x \<and> \<not> exe_capacity_reserved z"
    using a b that unfolding exec_move_def by metis
qed (use a b in \<open>simp_all only: exec_move_def\<close>)

text \<open>
  Where a job row and its attempt have got to: the job is gone for good (its id was drawn and is never
  drawn again) or is the same job, and likewise its attempt.
\<close>

definition tracked :: "(nat \<Rightarrow> string) \<Rightarrow> string \<Rightarrow> ScanJob \<Rightarrow> JobExecution option \<Rightarrow> db \<Rightarrow> bool" where
  "tracked U k j x s = ((\<exists>n < uuids_drawn s. k = U n)
     \<and> (case get_job k s of None \<Rightarrow> True
        | Some j' \<Rightarrow> evolves j j' \<and> (case x of None \<Rightarrow> True | Some x' \<Rightarrow> (\<exists>y. get_execution k s = Some y \<and> exec_move x' y))))"

lemma get_job_cong: "scan_jobs s' = scan_jobs s \<Longrightarrow> get_job k s' = get_job k s"
  by (simp add: get_job_def)

lemma get_execution_cong: "job_executions s' = job_executions s \<Longrightarrow> get_execution k s' = get_execution k s"
  by (simp add: get_execution_def)

lemma by_key_map:
  "(\<And>x. x \<in> set xs \<Longrightarrow> key (g x) = key x) \<Longrightarrow> by_key key k (map g xs) = map_option g (by_key key k xs)"
  by (induction xs) (auto simp: by_key_def)

lemma tracked_start:
  "tables_ok U s \<Longrightarrow> get_job k s = Some j \<Longrightarrow> get_execution k s = x \<Longrightarrow> tracked U k j x s"
  unfolding tracked_def tables_ok_def
  by (auto simp: get_job_def dest!: by_key_Some split: option.splits)

lemma tracked_cong:
  assumes "tracked U k j x s" and "get_job k s' = get_job k s"
    and "get_execution k s' = get_execution k s" and "uuids_drawn s \<le> uuids_drawn s'"
  shows "tracked U k j x s'"
proof -
  obtain n where "n < uuids_drawn s" "k = U n" using assms(1) by (auto simp: tracked_def)
  with assms(4) have "\<exists>n < uuids_drawn s'. k = U n" by (intro exI [of _ n]) simp
  then show ?thesis using assms(1) unfolding tracked_def assms(2,3) by (rule conjI [OF _ conjunct2])
qed

lemma tracked_gone: "tracked U k j x s \<Longrightarrow> get_job k s' = None \<Longrightarrow> uuids_drawn s' = uuids_drawn s \<Longrightarrow> tracked U k j x s'"
  by (simp add: tracked_def)

lemma tracked_moves:
  assumes "tracked U k j x s" and "\<And>i. i \<in> set (scan_jobs s) \<Longrightarrow> job_move s i (g i)"
  shows "tracked U k j x (s\<lparr>scan_jobs := map g (scan_jobs s)\<rparr>)"
proof -
  have g: "get_job k (s\<lparr>scan_jobs := map g (scan_jobs s)\<rparr>) = map_option g (get_job k s)"
    unfolding get_job_def using assms(2) by (simp add: by_key_map job_move_def)
  show ?thesis
  proof (cases "get_job k s")
    case (Some i)
    then have "job_move s i (g i)" using assms(2) by (auto simp: get_job_def dest: by_key_Some)
    with Some assms(1) g evolves_move show ?thesis
      by (fastforce simp: tracked_def get_execution_def split: option.splits)
  qed (use assms(1) g in \<open>simp add: tracked_def\<close>)
qed

lemma tracked_controls:
  assumes "tracked U k j x s" and "\<And>i. i \<in> set (job_executions s) \<Longrightarrow> exec_move i (g i)"
  shows "tracked U k j x (s\<lparr>job_executions := map g (job_executions s)\<rparr>)"
proof -
  have g: "get_execution k (s\<lparr>job_executions := map g (job_executions s)\<rparr>) = map_option g (get_execution k s)"
    unfolding get_execution_def using assms(2) by (simp add: by_key_map exec_move_def)
  have "exec_move i (g i)" if "get_execution k s = Some i" for i
    using that assms(2) by (auto simp: get_execution_def dest: by_key_Some)
  with g assms(1) show ?thesis
    by (fastforce simp: tracked_def get_job_def intro: exec_move_trans split: option.splits)
qed

lemma tracked_micro:
  assumes "micro U s s'" and "inj U" and "tables_ok U s" and "tracked U k j x s"
  shows "tracked U k j x s'"
  using assms(1)
proof cases
  case frame
  then show ?thesis by (intro tracked_cong [OF assms(4)] get_job_cong get_execution_cong)
next
  case (queue i)
  obtain n where n: "n < uuids_drawn s" "k = U n" using assms(4) by (auto simp: tracked_def)
  then have "k \<noteq> job_id i" using queue assms(2) by (auto dest: injD)
  then have "get_job k s' = get_job k s" "get_execution k s' = get_execution k s"
    unfolding queue(1)
    by (auto simp: get_job_def get_execution_def drew_def add_job_def by_key_append by_key_def [of _ _ "[_]"] split: option.splits)
  then show ?thesis by (intro tracked_cong [OF assms(4)]) (simp_all add: queue(1) drew_def add_job_def)
next
  case (moves g)
  with tracked_moves [OF assms(4)] show ?thesis by blast
next
  case (attempt y i e)
  have "get_execution k s' = get_execution k s" if "get_execution k s \<noteq> None"
    using that attempt(1,2) executions.get_add [of y s k] by auto
  moreover have "get_job k s' = get_job k s" "uuids_drawn s' = uuids_drawn s"
    unfolding attempt(1) by (simp_all add: get_job_def add_execution_def)
  ultimately show ?thesis using assms(4) by (fastforce simp: tracked_def split: option.splits)
next
  case (controls g)
  with tracked_controls [OF assms(4)] show ?thesis by blast
next
  case (ledgers g)
  then show ?thesis by (intro tracked_cong [OF assms(4)]) (simp_all add: get_job_def get_execution_def)
next
  case (drop_job jid)
  have "get_job k s' = (if k = jid then None else get_job k s)"
    "get_execution k s' = (if k = jid then None else get_execution k s)" "uuids_drawn s' = uuids_drawn s"
    unfolding drop_job(1)
    by (simp_all add: cascade_job_def get_job_def del_job_def get_execution_def del_execution_def by_key_drop_key)
  then show ?thesis
    using tracked_gone [OF assms(4)] tracked_cong [OF assms(4)] by (cases "k = jid") simp_all
next
  case (drop_engagement eid)
  show ?thesis
  proof (cases "get_job k s'")
    case (Some j')
    then have "j' \<in> set (scan_jobs s')" "job_id j' = k" by (auto simp: get_job_def dest: by_key_Some)
    then have j': "j' \<in> set (scan_jobs s)" "job_program_id j' \<noteq> eid" "job_id j' = k"
      by (auto simp: drop_engagement(1) cascade_engagement_def Let_def)
    then have same: "get_job k s = Some j'"
      using assms(3) by_key_unique [of job_id "scan_jobs s" j'] by (simp add: tables_ok_def get_job_def)
    have "k \<notin> job_id ` {i \<in> set (scan_jobs s). job_program_id i = eid}"
      using j' assms(3) by (auto simp: tables_ok_def distinct_map inj_on_def)
    then have "get_execution k s' = get_execution k s"
      unfolding drop_engagement(1) get_execution_def by_key_def
      by (simp add: cascade_engagement_def Let_def) (rule find_filter_other, simp)
    moreover have "uuids_drawn s' = uuids_drawn s"
      by (simp add: drop_engagement(1) cascade_engagement_def Let_def del_engagement_def)
    ultimately show ?thesis using Some same by (intro tracked_cong [OF assms(4)]) simp_all
  next
    case None
    moreover have "uuids_drawn s' = uuids_drawn s"
      by (simp add: drop_engagement(1) cascade_engagement_def Let_def del_engagement_def)
    ultimately show ?thesis by (rule tracked_gone [OF assms(4)])
  qed
qed

text \<open>The words a status column may hold.\<close>

definition statuses_ok :: "db \<Rightarrow> bool" where
  "statuses_ok s = ((\<forall>j \<in> set (scan_jobs s). job_status j \<in> set VALID_STATUSES)
     \<and> (\<forall>x \<in> set (job_executions s). exe_state x \<in> set EXECUTION_STATES))"

lemma legal_status: "legal a b \<Longrightarrow> a \<in> set VALID_STATUSES \<Longrightarrow> b \<in> set VALID_STATUSES"
  by (auto simp: legal_def VALID_STATUSES_def)

lemma statuses_ok_micro: "micro U s s' \<Longrightarrow> statuses_ok s \<Longrightarrow> statuses_ok s'"
proof (induction rule: micro.induct)
  case (moves s g)
  then show ?case using legal_status by (fastforce simp: statuses_ok_def job_move_def)
next
  case (controls s g)
  then show ?case by (fastforce simp: statuses_ok_def exec_move_def)
next
  case (queue j s)
  then show ?case by (auto simp: statuses_ok_def drew_def add_job_def VALID_STATUSES_def)
next
  case (attempt x s j e)
  then show ?case by (auto simp: statuses_ok_def add_execution_def EXECUTION_STATES_def)
qed (auto simp: statuses_ok_def cascade_job_def del_job_def del_execution_def drop_key_def cascade_engagement_def Let_def del_engagement_def)

lemma statuses_ok_history: "history U s s' \<Longrightarrow> statuses_ok s \<Longrightarrow> statuses_ok s'"
  by (induction rule: rtranclp_induct) (auto intro: statuses_ok_micro)

text \<open>An authority revision never goes back, and an engagement that is gone does not return.\<close>

lemma engagement_micro:
  assumes "micro U s s'" and "get_engagement k s' = Some e'"
  shows "\<exists>e. get_engagement k s = Some e \<and> authority_move e e'"
  using assms(1)
proof cases
  case frame then show ?thesis using assms(2) by (simp add: get_engagement_def)
next
  case (ledgers g)
  then have "get_engagement k s' = map_option g (get_engagement k s)"
    unfolding get_engagement_def by (simp add: by_key_map ledger_move_def)
  moreover have "ledger_move s e (g e)" if "get_engagement k s = Some e" for e
    using ledgers(2) that by (auto simp: get_engagement_def dest: by_key_Some)
  ultimately show ?thesis using assms(2) by (cases "get_engagement k s") (auto simp: ledger_move_def)
next
  case (drop_engagement eid)
  then have "get_engagement k s' = (if k = eid then None else get_engagement k s)"
    by (simp add: get_engagement_def cascade_engagement_def del_engagement_def Let_def by_key_drop_key)
  then have "k \<noteq> eid" "get_engagement k s = Some e'" using assms(2) by (simp_all split: if_splits)
  then show ?thesis by simp
qed (use assms(2) in \<open>simp_all add: get_engagement_def drew_def add_job_def add_execution_def cascade_job_def
    del_job_def del_execution_def\<close>)

lemma engagement_history:
  "history U s s' \<Longrightarrow> get_engagement k s' = Some e' \<Longrightarrow> \<exists>e. get_engagement k s = Some e \<and> authority_move e e'"
proof (induction arbitrary: e' rule: rtranclp_induct)
  case (step t u) then show ?case using engagement_micro authority_move_trans by meson
qed simp

lemma tracked_history:
  "history U s s' \<Longrightarrow> inj U \<Longrightarrow> tables_ok U s \<Longrightarrow> tracked U k j x s \<Longrightarrow> tracked U k j x s'"
  by (induction rule: rtranclp_induct) (auto intro: tracked_micro dest: tables_ok_history)

end
