(* ===== verification/Protocol.thy ===== *)
theory Protocol
  imports Lifecycle
begin

text \<open>
  The endpoints refine the execution protocol: \<open>serve\<close> is one request handled to its end by any of the
  modelled endpoints, for any caller, body and clock reading, and every such step is a sequence of changes
  the protocol allows.  What the protocol keeps therefore holds after every sequence of requests.
\<close>

inductive serve :: "(nat \<Rightarrow> string) \<Rightarrow> db \<Rightarrow> db \<Rightarrow> bool" for U where
  s_create: "uuid env = U \<Longrightarrow> create_job env user program_id jc s = (r, s') \<Longrightarrow> serve U s s'"
| s_pipeline: "uuid env = U \<Longrightarrow> create_pipeline env user program_id pc s = (r', s') \<Longrightarrow> serve U s s'"
| s_pending: "uuid env = U \<Longrightarrow> get_pending_jobs env user s = (js, s') \<Longrightarrow> serve U s s'"
| s_update: "uuid env = U \<Longrightarrow> update_job env user jid su s = (u, s') \<Longrightarrow> serve U s s'"
| s_claim: "uuid env = U \<Longrightarrow> (\<And>b. body = Some b \<Longrightarrow> claim_control_ok b) \<Longrightarrow>
    claim_job env token rq user jid body s = (c, s') \<Longrightarrow> serve U s s'"
| s_refresh: "uuid env = U \<Longrightarrow> refresh_execution env rq user jid cb s = (a, s') \<Longrightarrow> serve U s s'"
| s_finish: "uuid env = U \<Longrightarrow> cc_outcome fb \<in> {''completed'', ''failed'', ''cancelled'', ''uncertain''} \<Longrightarrow>
    finish_execution env rq user jid fb s = (a, s') \<Longrightarrow> serve U s s'"
| s_event: "uuid env = U \<Longrightarrow> create_job_event env user jid kind txt s = (v, s') \<Longrightarrow> serve U s s'"
| s_delete: "uuid env = U \<Longrightarrow> delete_job env user jid s = (d, s') \<Longrightarrow> serve U s s'"
| s_duration: "uuid env = U \<Longrightarrow> configure_duration env user program_id limit s = (p, s') \<Longrightarrow> serve U s s'"
| s_targets: "uuid env = U \<Longrightarrow> configure_targets env user program_id limit s = (p, s') \<Longrightarrow> serve U s s'"
| s_concurrency: "uuid env = U \<Longrightarrow> configure_concurrency env user program_id limit s = (q, s') \<Longrightarrow> serve U s s'"
| s_sync: "uuid env = U \<Longrightarrow> auth_sync env user s = s' \<Longrightarrow> serve U s s'"
| s_delete_engagement: "uuid env = U \<Longrightarrow> delete_engagement env user program_id s = (d, s') \<Longrightarrow> serve U s s'"
| s_stop: "uuid env = U \<Longrightarrow> engage_stop_work env user program_id reason s = (d, s') \<Longrightarrow> serve U s s'"
| s_release: "uuid env = U \<Longrightarrow> release_stop_work env user program_id s = (d, s') \<Longrightarrow> serve U s s'"

section \<open>Shared steps\<close>

lemma transact_history:
  assumes "transact s m = (r, s')" and "\<And>a s''. m = Inr (a, s'') \<Longrightarrow> history U s s''"
  shows "history U s s'"
  using assms by (cases m) (auto simp: transact_def split: prod.splits)

lemma settle_history:
  assumes "settle s m = (r, s')" and "\<And>a s''. m = Inr (a, s'') \<Longrightarrow> history U s s''"
  shows "history U s s'"
  using assms by (cases m) (auto simp: settle_def split: prod.splits)

lemma log_frame:
  "scan_jobs (log_action env g a t i p s) = scan_jobs s" "job_executions (log_action env g a t i p s) = job_executions s"
  "programs (log_action env g a t i p s) = programs s" "uuids_drawn (log_action env g a t i p s) = Suc (uuids_drawn s)"
  by (simp_all add: log_action_def drew_def)

lemma micro_log: "micro U s (log_action env g a t i p s)"
  by (rule frame) (simp_all add: log_frame)

lemma history_log: "history U s s' \<Longrightarrow> history U s (log_action env g a t i p s')"
  by (erule rtranclp.rtrancl_into_rtrancl) (rule micro_log)

lemma insert_job_history:
  assumes "uuid env = U" and "j = new_job env program_id user tool src config dep contract s"
  shows "history U s (insert_job env user j s)"
  unfolding insert_job_def
proof (rule history_log, rule history_one, rule queue)
  show "job_status j = ''pending''" and "job_id j = U (uuids_drawn s)"
    using assms by (simp_all add: new_job_def new_uuid_def)
qed

lemma insert_stages_history:
  "uuid env = U \<Longrightarrow> insert_stages env user program_id prev sts s = (js, s') \<Longrightarrow> history U s s'"
proof (induction env user program_id prev sts s arbitrary: js s' rule: insert_stages.induct)
  case (2 env user program_id prev st config rest s)
  show ?case
    using 2(2,3) insert_job_history [OF 2(2) refl] 2(1) [OF refl]
    by (fastforce simp: Let_def split: prod.splits intro: rtranclp_trans)
qed simp

lemma accessible_job_get: "tables_ok U s \<Longrightarrow> accessible_job k user s = Some j \<Longrightarrow> get_job k s = Some j"
  using by_key_unique [of job_id "scan_jobs s" j]
  by (auto simp: accessible_job_def tables_ok_def get_job_def dest!: find_SomeD)

lemma accessible_job_id: "accessible_job k user s = Some j \<Longrightarrow> job_id j = k"
  by (auto simp: accessible_job_def dest: find_SomeD)

section \<open>Hand-off\<close>

definition open_or_failed :: "ScanJob list \<Rightarrow> db \<Rightarrow> bool" where
  "open_or_failed jobs s = (\<forall>r \<in> set (scan_jobs s). job_id r \<in> job_id ` set jobs \<longrightarrow> job_status r \<in> {''pending'', ''failed''})"

lemma open_or_failed_set:
  "open_or_failed jobs s \<Longrightarrow> open_or_failed jobs (set_job k (fail_job t msg) s)"
  by (auto simp: open_or_failed_def set_job_map fail_job_def)

lemma not_running_settled:
  assumes "tables_ok U s" and "get_job k s = Some j" and "job_status j \<noteq> ''running''" and "get_execution k s = Some x"
  shows "exe_state x \<in> set FINAL_STATES"
proof (rule ccontr)
  have "j \<in> set (scan_jobs s)" "job_id j = k" "x \<in> set (job_executions s)" "exe_job_id x = k"
    using assms(2,4) by (auto simp: get_job_def get_execution_def dest: by_key_Some)
  moreover assume "exe_state x \<notin> set FINAL_STATES"
  ultimately show False using assms(1,3) by (auto simp: tables_ok_def attempts_open_def)
qed

lemma fail_move:
  assumes "tables_ok U s" and "get_job (job_id j) s = Some j" and "job_status j \<in> {''pending'', ''failed''}"
  shows "job_move s j (fail_job t msg j)"
  using assms(3) not_running_settled [OF assms(1,2)] by (auto simp: job_move_def fail_job_def legal_def managed_def)

lemma triage_fold_history:
  assumes "inj U"
  shows "tables_ok U s \<Longrightarrow> open_or_failed all s \<Longrightarrow> job_id ` set jobs \<subseteq> job_id ` set all \<Longrightarrow>
     s' = fold (\<lambda>j s. case v j of Refused msg \<Rightarrow> set_job (job_id j) (fail_job t msg) s | _ \<Rightarrow> s) jobs s \<Longrightarrow>
     history U s s' \<and> open_or_failed all s'"
proof (induction jobs arbitrary: s)
  case (Cons j jobs)
  define s1 where "s1 = (case v j of Refused msg \<Rightarrow> set_job (job_id j) (fail_job t msg) s | _ \<Rightarrow> s)"
  have h1: "history U s s1" and o1: "open_or_failed all s1"
  proof -
    have "micro U s (set_job (job_id j) (fail_job t msg) s)" for msg
    proof (rule move_one [OF Cons.prems(1)], rule fail_move [OF Cons.prems(1)])
      fix i assume i: "get_job (job_id j) s = Some i"
      then have "i \<in> set (scan_jobs s)" "job_id i \<in> job_id ` set all"
        using Cons.prems(3) by (auto simp: get_job_def dest: by_key_Some)
      with Cons.prems(2) show "job_status i \<in> {''pending'', ''failed''}" by (auto simp: open_or_failed_def)
      show "get_job (job_id i) s = Some i" using i jobs.get_key [OF i] by simp
    qed
    then show "history U s s1" by (auto simp: s1_def split: verdict.splits)
    show "open_or_failed all s1" using Cons.prems(2) open_or_failed_set by (auto simp: s1_def split: verdict.splits)
  qed
  have "history U s1 s' \<and> open_or_failed all s'"
    using Cons.IH [OF tables_ok_history [OF h1 assms Cons.prems(1)] o1] Cons.prems(3,4) by (simp add: s1_def)
  with h1 show ?case by (auto intro: rtranclp_trans)
qed simp

lemma triage_history:
  assumes "inj U" and "tables_ok U s" and "open_or_failed all s" and "set jobs \<subseteq> set all"
    and "triage t v jobs s = (js, s')"
  shows "history U s s' \<and> open_or_failed all s' \<and> set js \<subseteq> set all"
  using assms triage_fold_history [OF assms(1-3), of jobs s' t v] by (auto simp: triage_def)

lemma pending_jobs_open: "tables_ok U s \<Longrightarrow> open_or_failed (pending_jobs user s) s"
  by (auto simp: open_or_failed_def pending_jobs_def tables_ok_def distinct_map inj_on_def)

lemma get_pending_jobs_history:
  assumes "inj U" and "tables_ok U s" and "get_pending_jobs env user s = (js, s')"
  shows "history U s s'"
proof -
  obtain el s1 where f: "triage (now env) (dependency_verdict s) (pending_jobs user s) s = (el, s1)"
    by (cases "triage (now env) (dependency_verdict s) (pending_jobs user s) s")
  note h1 = triage_history [OF assms(1,2) pending_jobs_open [OF assms(2)] order_refl f]
  then have ok1: "tables_ok U s1" using tables_ok_history assms(1,2) by blast
  obtain el' where "triage (now env) (case_verdict s1) el s1 = (el', s')"
    using assms(3) f
    by (auto simp: get_pending_jobs_def filter_by_dependencies_def resolve_test_cases_def Let_def split: prod.splits)
  from triage_history [OF assms(1) ok1 _ _ this, of "pending_jobs user s"] h1 show ?thesis
    by (auto intro: rtranclp_trans)
qed

section \<open>Single-table endpoints\<close>

lemma create_job_history:
  "uuid env = U \<Longrightarrow> create_job env user program_id jc s = (r, s') \<Longrightarrow> history U s s'"
  unfolding create_job_def
  by (erule transact_history) (auto simp: exn_simps Let_def intro: insert_job_history)

lemma create_pipeline_history:
  "uuid env = U \<Longrightarrow> create_pipeline env user program_id pc s = (r, s') \<Longrightarrow> history U s s'"
  unfolding create_pipeline_def
  by (erule transact_history) (auto simp: exn_simps Let_def intro: insert_stages_history)

lemma patch_move:
  assumes "map_of PATCH_TRANSITIONS (job_status j) = Some allowed" and "su_status su \<in> set allowed"
    and "get_execution (job_id j) s = None"
  shows "job_move s j (patched_job t su j)"
  using assms by (auto simp: PATCH_TRANSITIONS_def job_move_def patched_job_def legal_def managed_def split: if_splits)

lemma cancel_move: "exe_state x = ''active'' \<Longrightarrow> exec_move x (x\<lparr>exe_state := ''cancel_requested''\<rparr>)"
  by (simp add: exec_move_def FINAL_STATES_def EXECUTION_STATES_def)

lemma cancel_controlled_history:
  assumes "tables_ok U s" and "get_execution jid s = Some x" and "cancel_controlled user jid su job x s = Inr (a, s')"
  shows "history U s s'"
proof -
  have "micro U s (set_execution jid (\<lambda>r. r\<lparr>exe_state := ''cancel_requested''\<rparr>) s)" if "exe_state x = ''active''"
    using assms(2) cancel_move that by (intro control_one [OF assms(1)]) auto
  with assms(3) show ?thesis by (auto simp: cancel_controlled_def exn_simps split: if_splits)
qed

lemma patch_status_history:
  assumes "tables_ok U s" and "get_execution jid s = None" and "get_job jid s = Some job"
    and "patch_status t jid su job s = Inr (a, s')"
  shows "history U s s'"
proof -
  have "micro U s (set_job jid (patched_job t su) s)"
    if "map_of PATCH_TRANSITIONS (job_status job) = Some allowed" "su_status su \<in> set allowed" for allowed
    using assms(2,3) patch_move [OF that] jobs.get_key [OF assms(3)] by (intro move_one [OF assms(1)]) auto
  with assms(4) show ?thesis by (auto simp: patch_status_def exn_simps split: if_splits)
qed

lemma update_job_history:
  assumes "tables_ok U s" and "update_job env user jid su s = (u, s')"
  shows "history U s s'"
  using assms(2) unfolding update_job_def
proof (rule transact_history, cases "get_execution jid s")
  case None
  then show "history U s s''" if "ignoreE (lock_job jid user s)
    (bindE (someE not_found (accessible_job jid user s)) (\<lambda>job.
     ignoreE (requireE (su_status su \<in> set VALID_STATUSES) status_error)
    (ignoreE (writable_engagement job user s)
     (case get_execution jid s of
        Some x \<Rightarrow> cancel_controlled user jid su job x s
      | None \<Rightarrow> patch_status (now env) jid su job s)))) = Inr (a, s'')" for a s''
    using that
    by (auto simp: exn_simps dest: accessible_job_get [OF assms(1)] intro: patch_status_history [OF assms(1)])
qed (auto simp: exn_simps intro: cancel_controlled_history [OF assms(1)])

lemma refresh_move: "exec_move x (refresh_row t stopped running x)"
  by (auto simp: exec_move_def refresh_row_def refreshed_def Let_def FINAL_STATES_def EXECUTION_STATES_def)

lemma refresh_execution_history:
  assumes "tables_ok U s" and "refresh_execution env rq user jid cb s = (a, s')"
  shows "history U s s'"
  using assms(2) unfolding refresh_execution_def
  by (rule transact_history) (auto simp: exn_simps Let_def intro!: history_one control_one [OF assms(1)] refresh_move)

lemma create_job_event_history: "create_job_event env user jid kind txt s = (v, s') \<Longrightarrow> history U s s'"
  unfolding create_job_event_def
  by (erule transact_history) (auto simp: exn_simps Let_def drew_def intro!: history_one frame)

lemma delete_job_history:
  assumes "delete_job env user jid s = (d, s')"
  shows "history U s s'"
  using assms unfolding delete_job_def
proof (rule transact_history)
  fix a s''
  let ?l = "\<lambda>j :: ScanJob. log_action env (cu_github_id user) ''delete'' ''scan_job'' jid (Some (job_program_id j)) s"
  assume "ignoreE (require_full_scope user)
    (ignoreE (someE not_found (accessible_job jid user s))
    (bindE (lock_job jid user s) (\<lambda>j.
     ignoreE (requireE (case get_execution jid s of None \<Rightarrow> True | Some x \<Rightarrow> \<not> exe_capacity_reserved x)
       (conflict ''unresolved execution capacity cannot be deleted''))
    (ignoreE (writable_engagement j user s) (Inr ((), cascade_job jid (?l j))))))) = Inr (a, s'')"
  then have *: "(\<exists>j. s'' = cascade_job jid (?l j))
      \<and> (case get_execution jid s of None \<Rightarrow> True | Some x \<Rightarrow> \<not> exe_capacity_reserved x)"
    by (simp add: exn_simps) blast
  then obtain j where s'': "s'' = cascade_job jid (?l j)" by blast
  from * have free: "case get_execution jid s of None \<Rightarrow> True | Some x \<Rightarrow> \<not> exe_capacity_reserved x" by blast
  have "micro U (?l j) s''"
    unfolding s'' using free
    by (intro drop_job) (auto simp: get_execution_cong [OF log_frame(2)])
  then show "history U s s''" using micro_log by (meson converse_rtranclp_into_rtranclp history_one)
qed

section \<open>Engagement endpoints\<close>

lemma policy_engagement_idle:
  "policy_engagement user program_id s = Inr e \<Longrightarrow> get_engagement program_id s = Some e \<and> reserved program_id s = 0"
  by (auto simp: policy_engagement_def require_idle_def get_engagement_or_404_def exn_simps split: option.splits)

lemma get_404_D: "get_engagement_or_404 program_id user s = Inr e \<Longrightarrow> get_engagement program_id s = Some e"
  by (auto simp: get_engagement_or_404_def split: option.splits)

lemma ledger_log_history:
  assumes "tables_ok U s" and "get_engagement k s = Some e" and "ledger_move s e (f e)"
  shows "history U s (log_action env g a t i p (set_engagement k f s))"
  using assms by (intro history_log history_one ledger_one [OF assms(1)]) auto

lemma configure_duration_history:
  assumes "tables_ok U s" and "configure_duration env user program_id limit s = (p, s')"
  shows "history U s s'"
  using assms(2) unfolding configure_duration_def
  by (rule transact_history)
    (auto simp: exn_simps Let_def limit_in_def split: option.splits dest!: policy_engagement_idle
      intro!: ledger_log_history [OF assms(1)] simp: ledger_move_def authority_move_def eng_authority_def bump_def budget_ok_def within_def)

lemma configure_targets_history:
  assumes "tables_ok U s" and "configure_targets env user program_id limit s = (p, s')"
  shows "history U s s'"
  using assms(2) unfolding configure_targets_def
  by (rule transact_history)
    (auto simp: exn_simps Let_def limit_in_def split: option.splits dest!: policy_engagement_idle
      intro!: ledger_log_history [OF assms(1)] simp: ledger_move_def authority_move_def eng_authority_def bump_def budget_ok_def within_def)

lemma get_engagement_id: "get_engagement k s = Some e \<Longrightarrow> eng_id e = k"
  by (auto simp: get_engagement_def dest: by_key_Some)

lemma configure_concurrency_history:
  assumes "tables_ok U s" and "configure_concurrency env user program_id limit s = (q, s')"
  shows "history U s s'"
  using assms(2) unfolding configure_concurrency_def
  by (rule transact_history)
    (auto simp: exn_simps Let_def limit_in_def split: option.splits dest!: policy_engagement_idle
      intro!: ledger_log_history [OF assms(1)] simp: ledger_move_def authority_move_def eng_authority_def bump_def budget_ok_def get_engagement_id)

lemma auth_sync_history: "history U s (auth_sync env user s)"
  by (rule history_one, rule frame) (simp_all add: auth_sync_def)

lemma delete_engagement_history:
  assumes "delete_engagement env user program_id s = (d, s')"
  shows "history U s s'"
  using assms unfolding delete_engagement_def
proof (rule transact_history)
  fix a s''
  let ?l = "log_action env (cu_github_id user) ''delete'' ''engagement'' program_id None s"
  assume "bindE (get_engagement_or_404 program_id user s) (\<lambda>e.
     ignoreE (require_engagement_owner e user)
    (ignoreE (if eng_concurrency_limit e \<noteq> None \<or> reserved program_id s \<noteq> 0 then require_idle program_id s else Inr ())
    (ignoreE (requireE (eng_targets_spent e = 0) (conflict ''spent target accounting cannot be deleted''))
    (ignoreE (requireE (eng_duration_allocated e = 0) (conflict ''allocated duration accounting cannot be deleted''))
     (Inr ((), cascade_engagement program_id ?l)))))) = Inr (a, s'')"
  then have s'': "s'' = cascade_engagement program_id ?l" and "reserved program_id s = 0"
    by (auto simp: exn_simps require_idle_def split: if_splits)
  then have "reserved program_id ?l = 0" using reserved_cong [OF log_frame(1,2)] by metis
  then have "micro U ?l s''" unfolding s'' by (rule drop_engagement)
  then show "history U s s''" using micro_log by (meson converse_rtranclp_into_rtranclp history_one)
qed

lemma amend_controls:
  "(\<And>x. p x \<Longrightarrow> exec_move x (f x)) \<Longrightarrow> micro U s (s\<lparr>job_executions := amend p f (job_executions s)\<rparr>)"
  unfolding amend_def by (rule controls) auto

lemma engage_stop_work_history:
  assumes "tables_ok U s" and "engage_stop_work env user program_id reason s = (d, s')"
  shows "history U s s'"
  using assms(2) unfolding engage_stop_work_def
proof (rule transact_history)
  fix a s''
  define s1 where "s1 = set_engagement program_id (\<lambda>r. (bump (eng_stop_work_at r = None) r)
      \<lparr>eng_stop_work_at := (if eng_stop_work_at r = None then Some (now env) else eng_stop_work_at r),
       eng_stop_work_reason := reason\<rparr>) s"
  define s2 where "s2 = s1\<lparr>job_executions := amend (\<lambda>x. exe_state x = ''active''
      \<and> list_ex (\<lambda>j. job_id j = exe_job_id x \<and> job_program_id j = program_id) (scan_jobs s1))
      (\<lambda>x. x\<lparr>exe_state := ''cancel_requested''\<rparr>) (job_executions s1)\<rparr>"
  have "micro U s s1" unfolding s1_def
    by (rule ledger_one [OF assms(1)]) (simp add: ledger_move_def authority_move_def eng_authority_def bump_def budget_ok_def)
  moreover have "micro U s1 s2" unfolding s2_def by (rule amend_controls) (simp add: cancel_move)
  ultimately have h: "history U s s2" by (meson converse_rtranclp_into_rtranclp history_one)
  assume "bindE (get_engagement_or_404 program_id user s) (\<lambda>e. ignoreE (require_member_write e user s)
     (let s1 = set_engagement program_id (\<lambda>r. (bump (eng_stop_work_at r = None) r)
                 \<lparr>eng_stop_work_at := (if eng_stop_work_at r = None then Some (now env) else eng_stop_work_at r),
                  eng_stop_work_reason := reason\<rparr>) s;
          s2 = s1\<lparr>job_executions := amend (\<lambda>x. exe_state x = ''active''
                 \<and> list_ex (\<lambda>j. job_id j = exe_job_id x \<and> job_program_id j = program_id) (scan_jobs s1))
                 (\<lambda>x. x\<lparr>exe_state := ''cancel_requested''\<rparr>) (job_executions s1)\<rparr>
      in Inr ((), log_action env (cu_github_id user) ''stop_work'' ''engagement'' program_id (Some program_id) s2)))
    = Inr (a, s'')"
  then have "s'' = log_action env (cu_github_id user) ''stop_work'' ''engagement'' program_id (Some program_id) s2"
    by (auto simp: exn_simps Let_def s1_def [symmetric] s2_def [symmetric])
  with h show "history U s s''" by (simp add: history_log)
qed

lemma release_stop_work_history:
  assumes "tables_ok U s" and "release_stop_work env user program_id s = (d, s')"
  shows "history U s s'"
  using assms(2) unfolding release_stop_work_def
  by (rule transact_history)
    (auto simp: exn_simps ledger_move_def authority_move_def eng_authority_def bump_def budget_ok_def dest!: get_404_D intro!: ledger_log_history [OF assms(1)])

section \<open>Finishing an attempt\<close>

lemma finish_exec_move:
  assumes "exe_state x \<notin> set FINAL_STATES" and "outcome \<in> set FINAL_STATES"
  shows "exec_move x (x\<lparr>exe_state := outcome, exe_capacity_reserved := False\<rparr>)"
  using assms by (auto simp: exec_move_def FINAL_STATES_def EXECUTION_STATES_def)

lemma interrupt_move:
  assumes "exe_state x \<notin> set FINAL_STATES" and "st \<in> {''cancel_requested'', ''uncertain''}"
  shows "exec_move x (x\<lparr>exe_state := st\<rparr>)"
  using assms by (auto simp: exec_move_def FINAL_STATES_def EXECUTION_STATES_def)

text \<open>An update that closes a job: a final status, the time and the message, and nothing else.\<close>

definition closes :: "(ScanJob \<Rightarrow> ScanJob) \<Rightarrow> bool" where
  "closes g = (\<forall>j. \<exists>st t m. st \<in> {''done'', ''failed''} \<and> g j = j\<lparr>job_status := st, job_completed_at := t, job_error_message := m\<rparr>)"

lemma closes_finished [intro]: "closes (finished_job t outcome)"
  unfolding closes_def finished_job_def by fastforce

lemma closes_move:
  assumes "closes g" and "job_status j = ''running''"
    and "\<And>x. get_execution (job_id j) s = Some x \<Longrightarrow> exe_state x \<in> set FINAL_STATES"
  shows "job_move s j (g j)"
proof -
  obtain st t m where "st \<in> {''done'', ''failed''}" "g j = j\<lparr>job_status := st, job_completed_at := t, job_error_message := m\<rparr>"
    using assms(1) unfolding closes_def by blast
  then show ?thesis using assms(2,3) by (auto simp: job_move_def legal_def managed_def)
qed

lemma owned_get: "owned env rq jid user cb s = Inr x \<Longrightarrow> get_execution jid s = Some x"
  by (auto simp: owned_def exn_simps split: option.splits if_splits)

lemma open_attempt_running:
  assumes "tables_ok U s" and "get_job k s = Some j" and "get_execution k s = Some x" and "exe_state x \<notin> set FINAL_STATES"
  shows "job_status j = ''running''"
  using not_running_settled [OF assms(1,2) _ assms(3)] assms(4) by blast

lemma finish_final_history:
  assumes "inj U" and "tables_ok U s" and "get_execution jid s = Some x" and "get_job jid s = Some j"
    and "exe_state x \<notin> set FINAL_STATES" and "outcome \<in> set FINAL_STATES" and "closes g"
  shows "history U s (set_job jid g
    (set_execution jid (\<lambda>r. r\<lparr>exe_state := outcome, exe_capacity_reserved := False\<rparr>) s))"
proof -
  define fin where "fin = set_execution jid (\<lambda>r. r\<lparr>exe_state := outcome, exe_capacity_reserved := False\<rparr>) s"
  have m1: "micro U s fin" unfolding fin_def
    using assms finish_exec_move by (auto intro!: control_one [OF assms(2)])
  have j: "get_job jid fin = Some j" "job_id j = jid"
    using assms(4) by (auto simp: fin_def get_job_def set_execution_def dest: by_key_Some)
  have "exe_state y \<in> set FINAL_STATES" if "get_execution jid fin = Some y" for y
    using that assms(3,6) executions.get_upd [of "\<lambda>r. r\<lparr>exe_state := outcome, exe_capacity_reserved := False\<rparr>" jid jid s]
    by (auto simp: fin_def)
  with j open_attempt_running [OF assms(2,4,3,5)] have "micro U fin (set_job jid g fin)"
    by (intro move_one [OF tables_ok_micro [OF m1 assms(1,2)]]) (auto intro: closes_move [OF assms(7)])
  with m1 show ?thesis unfolding fin_def [symmetric] by (meson converse_rtranclp_into_rtranclp history_one)
qed

lemma settle_attempt_history:
  assumes "inj U" and "tables_ok U s" and outcome: "outcome \<in> {''completed'', ''failed'', ''cancelled'', ''uncertain''}"
    and x: "get_execution jid s = Some x" and j: "get_job jid s = Some j"
    and "settle_attempt t outcome jid x j s = Inr (b, s')"
  shows "history U s s'"
proof (cases "exe_state x \<in> set FINAL_STATES")
  case True
  with assms(6) show ?thesis by (simp add: settle_attempt_def split: if_splits)
next
  case False
  have interrupt: "history U s (set_execution jid (\<lambda>r. r\<lparr>exe_state := st\<rparr>) s)"
    if "st \<in> {''cancel_requested'', ''uncertain''}" for st
    using that False x interrupt_move by (auto intro!: history_one control_one [OF assms(2)])
  consider "s' = set_execution jid (\<lambda>r. r\<lparr>exe_state := ''cancel_requested''\<rparr>) s"
    | "s' = set_execution jid (\<lambda>r. r\<lparr>exe_state := ''uncertain''\<rparr>) s"
    | "outcome \<noteq> ''uncertain''" "s' = set_job jid (finished_job t outcome)
         (set_execution jid (\<lambda>r. r\<lparr>exe_state := outcome, exe_capacity_reserved := False\<rparr>) s)"
    using assms(6) False by (auto simp: settle_attempt_def split: if_splits)
  then show ?thesis
  proof cases
    case 3
    with outcome have "outcome \<in> set FINAL_STATES" by (auto simp: FINAL_STATES_def)
    with 3 finish_final_history [OF assms(1,2) x j False _ closes_finished] show ?thesis by simp
  qed (simp_all add: interrupt)
qed

lemma finish_execution_history:
  assumes "inj U" and "tables_ok U s" and "cc_outcome fb \<in> {''completed'', ''failed'', ''cancelled'', ''uncertain''}"
    and "finish_execution env rq user jid fb s = (a, s')"
  shows "history U s s'"
  using assms(4) unfolding finish_execution_def
  by (rule settle_history) (auto simp: exn_simps dest!: owned_get intro: settle_attempt_history [OF assms(1-3)])

section \<open>Claims\<close>

lemma charge_ledger:
  assumes "charge env e j c body = Inr (tr, e1)"
  shows "\<exists>n. 0 \<le> n \<and> e1 = e\<lparr>eng_targets_spent := eng_targets_spent e + n\<rparr>
    \<and> (case eng_target_limit e of None \<Rightarrow> n = 0 | Some l \<Rightarrow> eng_targets_spent e + n \<le> l)"
proof (cases "eng_target_limit e")
  case None
  with assms have "e1 = e" by (auto simp: charge_def exn_simps)
  with None show ?thesis by (intro exI [of _ 0]) simp
next
  case (Some l)
  with assms obtain b :: TargetBinding where "e1 = e\<lparr>eng_targets_spent := eng_targets_spent e + int (length (tb_origins b))\<rparr>"
    "eng_targets_spent e + int (length (tb_origins b)) \<le> l"
    by (auto simp: charge_def exn_simps Let_def split: if_splits option.splits)
  with Some show ?thesis by (intro exI [of _ "int (length (tb_origins b))"]) simp
qed

lemma allocate_ledger:
  assumes "allocate e body = Inr (dr, e1)" and "\<And>b. body = Some b \<Longrightarrow> claim_control_ok b"
  shows "\<exists>n. 0 \<le> n \<and> e1 = e\<lparr>eng_duration_allocated := eng_duration_allocated e + n\<rparr>
    \<and> (case eng_duration_limit e of None \<Rightarrow> n = 0 | Some l \<Rightarrow> eng_duration_allocated e + n \<le> l)"
proof (cases "eng_duration_limit e")
  case None
  with assms(1) have "e1 = e" by (auto simp: allocate_def exn_simps)
  with None show ?thesis by (intro exI [of _ 0]) simp
next
  case (Some l)
  with assms(1) obtain b d where d: "body = Some b" "cc_duration_seconds b = Some d"
    "e1 = e\<lparr>eng_duration_allocated := eng_duration_allocated e + d\<rparr>" "eng_duration_allocated e + d \<le> l"
    by (auto simp: allocate_def exn_simps Let_def split: option.splits)
  with assms(2) have "1 \<le> d" by (fastforce simp: claim_control_ok_def)
  with d Some show ?thesis by (intro exI [of _ d]) simp
qed

lemma charges_ledger_move:
  assumes "charge env e j c body = Inr (tr, e1)" and "allocate e1 body = Inr (dr, e2)"
    and "\<And>b. body = Some b \<Longrightarrow> claim_control_ok b"
  shows "ledger_move s e (e\<lparr>eng_targets_spent := eng_targets_spent e2, eng_duration_allocated := eng_duration_allocated e2\<rparr>)"
proof -
  obtain n where n: "0 \<le> n" "e1 = e\<lparr>eng_targets_spent := eng_targets_spent e + n\<rparr>"
    "case eng_target_limit e of None \<Rightarrow> n = 0 | Some l \<Rightarrow> eng_targets_spent e + n \<le> l"
    using charge_ledger [OF assms(1)] by blast
  obtain m where m: "0 \<le> m" "e2 = e1\<lparr>eng_duration_allocated := eng_duration_allocated e1 + m\<rparr>"
    "case eng_duration_limit e1 of None \<Rightarrow> m = 0 | Some l \<Rightarrow> eng_duration_allocated e1 + m \<le> l"
    using allocate_ledger [OF assms(2,3)] by blast
  with n show ?thesis
    by (auto simp: ledger_move_def authority_move_def eng_authority_def budget_ok_def within_def split: option.splits)
qed

lemma claim_move:
  assumes "job_status j = ''pending''" and "\<not> job_stopped j s" and "tables_ok U s" and "get_job (job_id j) s = Some j"
  shows "job_move s j (claimed_job t snapshot j)"
  using assms(1,2) not_running_settled [OF assms(3,4)]
  by (auto simp: job_move_def claimed_job_def legal_def managed_def)

lemma before_claim_capacity:
  "before_claim s e (Some b) = Inr () \<Longrightarrow> cc_concurrency_budget b \<Longrightarrow>
     \<exists>l. eng_concurrency_limit e = Some l \<and> int (reserved (eng_id e) s) < l"
  by (auto simp: before_claim_def exn_simps split: option.splits)

lemma issue_row:
  "issue env rq token jid user b tr dr s = Inr (row, s') \<Longrightarrow>
     s' = add_execution row s \<and> exe_job_id row = jid \<and> exe_state row = ''active''
     \<and> get_execution jid s = None \<and> exe_capacity_reserved row = cc_concurrency_budget b"
  by (auto simp: issue_def exn_simps Let_def)

text \<open>
  The common shape of a claim: the job starts, the engagement is charged, and an attempt is issued.  The
  job may start at another reading of the clock than the attempt is issued at.
\<close>

definition started :: "int \<Rightarrow> ScanJob \<Rightarrow> pyval \<Rightarrow> Engagement \<Rightarrow> Engagement \<Rightarrow> db \<Rightarrow> db" where
  "started t j snapshot e e2 s = set_engagement (eng_id e) (\<lambda>r. r\<lparr>eng_targets_spent := eng_targets_spent e2,
     eng_duration_allocated := eng_duration_allocated e2\<rparr>) (set_job (job_id j) (claimed_job t snapshot) s)"

lemma started_history:
  assumes U: "inj U" and ok: "tables_ok U s" and j: "get_job (job_id j) s = Some j"
    and e: "get_engagement (job_program_id j) s = Some e"
    and pend: "job_status j = ''pending''" "\<not> job_stopped j s"
    and c: "charge env e j snapshot body = Inr (tr, e1)" "allocate e1 body = Inr (dr, e2)"
    and valid: "\<And>b. body = Some b \<Longrightarrow> claim_control_ok b"
  shows "history U s (started t j snapshot e e2 s)"
proof -
  let ?s1 = "set_job (job_id j) (claimed_job t snapshot) s"
  have m1: "micro U s ?s1"
    by (rule move_one [OF ok]) (use j claim_move [OF pend ok j] in auto)
  note ok1 = tables_ok_micro [OF m1 U ok]
  have e1: "get_engagement (eng_id e) ?s1 = Some e"
    using e engagements.get_key [OF e] by (simp add: set_job_def get_engagement_def)
  have m2: "micro U ?s1 (started t j snapshot e e2 s)"
    unfolding started_def by (rule ledger_one [OF ok1]) (use e1 charges_ledger_move [OF c valid] in auto)
  show ?thesis using m1 m2 by (meson converse_rtranclp_into_rtranclp history_one)
qed

lemma started_rows:
  assumes j: "get_job (job_id j) s = Some j" and e: "get_engagement (job_program_id j) s = Some e"
  shows "get_job (job_id j) (started t j snapshot e e2 s) = Some (claimed_job t snapshot j)"
    and "get_engagement (job_program_id j) (started t j snapshot e e2 s)
      = Some (e\<lparr>eng_targets_spent := eng_targets_spent e2, eng_duration_allocated := eng_duration_allocated e2\<rparr>)"
    and "reserved (eng_id e) (started t j snapshot e e2 s) = reserved (eng_id e) s"
proof -
  let ?s1 = "set_job (job_id j) (claimed_job t snapshot) s"
  have e1: "get_engagement (eng_id e) ?s1 = Some e"
    using e engagements.get_key [OF e] by (simp add: set_job_def get_engagement_def)
  show "get_job (job_id j) (started t j snapshot e e2 s) = Some (claimed_job t snapshot j)"
    using j jobs.get_upd [of "claimed_job t snapshot" "job_id j" "job_id j" s]
    by (simp add: started_def set_engagement_def get_job_def claimed_job_def)
  show "get_engagement (job_program_id j) (started t j snapshot e e2 s)
      = Some (e\<lparr>eng_targets_spent := eng_targets_spent e2, eng_duration_allocated := eng_duration_allocated e2\<rparr>)"
    using e1 engagements.get_key [OF e] engagements.get_upd [of "\<lambda>r. r\<lparr>eng_targets_spent := eng_targets_spent e2,
      eng_duration_allocated := eng_duration_allocated e2\<rparr>" "eng_id e" "eng_id e" ?s1] by (simp add: started_def)
  show "reserved (eng_id e) (started t j snapshot e e2 s) = reserved (eng_id e) s"
    using reserved_moves [of s "\<lambda>i. if job_id i = job_id j then claimed_job t snapshot i else i" "eng_id e"]
    by (simp add: started_def set_job_map set_engagement_def reserved_alt claimed_job_def)
qed

lemma issued_history:
  assumes "inj U" and "tables_ok U s" and "get_job (job_id j) s = Some j" and "get_engagement (job_program_id j) s = Some e"
    and "job_status j = ''pending''" "\<not> job_stopped j s" and "before_claim s e (Some b) = Inr ()" and "claim_control_ok b"
    and "charge env e j snapshot (Some b) = Inr (tr, e1)" "allocate e1 (Some b) = Inr (dr, e2)"
    and "issue env' rq token (job_id j) user b tr dr (started t j snapshot e e2 s) = Inr (row, s')"
  shows "history U s s'"
proof -
  note row = issue_row [OF assms(11)]
  have "micro U (started t j snapshot e e2 s) s'"
    using row before_claim_capacity [OF assms(7)] started_rows [OF assms(3,4)] unfolding conjunct1 [OF row]
    by (intro attempt [where j = "claimed_job t snapshot j" and e = "e\<lparr>eng_targets_spent := eng_targets_spent e2,
        eng_duration_allocated := eng_duration_allocated e2\<rparr>"]) (simp_all add: claimed_job_def)
  moreover have "history U s (started t j snapshot e e2 s)"
    by (rule started_history [OF assms(1-6,9,10)]) (use assms(8) in simp)
  ultimately show ?thesis by (simp add: rtranclp.rtrancl_into_rtrancl)
qed

lemma take_claim_history:
  assumes "inj U" and "tables_ok U s" and "get_job (job_id j) s = Some j" and "get_engagement (job_program_id j) s = Some e"
    and "job_status j = ''pending''" "\<not> job_stopped j s"
    and "before_claim s e body = Inr ()" and valid: "\<And>b. body = Some b \<Longrightarrow> claim_control_ok b"
    and tc: "take_claim env token rq user j e snapshot body s = Inr (x, s')"
  shows "history U s s'"
proof -
  obtain tr e1 dr e2 where c: "charge env e j snapshot body = Inr (tr, e1)" "allocate e1 body = Inr (dr, e2)"
    using tc by (auto simp: take_claim_def exn_simps Let_def)
  show ?thesis
  proof (cases body)
    case None
    then have "s' = started (now env) j snapshot e e2 s" using tc c by (auto simp: take_claim_def Let_def started_def)
    with started_history [OF assms(1-6) c valid] show ?thesis by simp
  next
    case (Some b)
    then obtain row where "issue env rq token (job_id j) user b tr dr (started (now env) j snapshot e e2 s) = Inr (row, s')"
      using tc c by (auto simp: take_claim_def Let_def exn_simps started_def)
    then show ?thesis by (rule issued_history [OF assms(1-6) assms(7) [unfolded Some] valid [OF Some] c [unfolded Some]])
  qed
qed

lemma claim_job_history:
  assumes "inj U" and "tables_ok U s" and "\<And>b. body = Some b \<Longrightarrow> claim_control_ok b"
    and "claim_job env token rq user jid body s = (c, s')"
  shows "history U s s'"
  using assms(4) unfolding claim_job_def
proof (rule transact_history)
  fix a s''
  assume "bindE (someE not_found (accessible_job jid user s)) (\<lambda>j.
     ignoreE (writable_engagement j user s)
    (ignoreE (requireE (\<not> managed j) (conflict ''managed authorization required; legacy claim refused''))
    (ignoreE (requireE (job_status j = ''pending'') (conflict (''job is already '' @ job_status j)))
    (bindE (someE (RuntimeError ''NoResultFound'') (get_engagement (job_program_id j) s)) (\<lambda>e.
     ignoreE (before_claim s e body)
    (bindE (resolve_targets (job_program_id j) (job_target_source j) (as_dict (job_config j)) s) (\<lambda>targets.
     bindE (check s e (job_tool_type j) targets (now env)) (\<lambda>decision.
     bindE (claim_snapshot j s) (\<lambda>snapshot.
     ignoreE (requireE (claimable user s j) (conflict (''job is already '' @ job_status j)))
    (bindE (take_claim env token rq user j e snapshot body s) (\<lambda>(x, s3).
     Inr (\<lparr>cr_job = claimed_job (now env) snapshot j, cr_warnings = as_warnings decision,
           cr_execution = x\<rparr>, s3)))))))))))) = Inr (a, s'')"
  then obtain j e ts d snap x where j: "accessible_job jid user s = Some j" and "\<not> managed j" "job_status j = ''pending''"
    and e: "get_engagement (job_program_id j) s = Some e" and "before_claim s e body = Inr ()"
    and ck: "check s e (job_tool_type j) ts (now env) = Inr d"
    and "take_claim env token rq user j e snap body s = Inr (x, s'')"
    by (auto simp: exn_simps)
  moreover have "get_job (job_id j) s = Some j"
    using accessible_job_get [OF assms(2) j] accessible_job_id [OF j] by simp
  moreover have "\<not> job_stopped j s" using e check_ok_not_stopped [OF ck] by (simp add: job_stopped_def)
  ultimately show "history U s s''" using take_claim_history [OF assms(1,2)] assms(3) by blast
qed

section \<open>Refinement\<close>

lemma serve_history:
  assumes "inj U" and "tables_ok U s" and "serve U s s'"
  shows "history U s s'"
  using assms(3)
proof cases
  case s_create then show ?thesis by (rule create_job_history)
next
  case s_pipeline then show ?thesis by (rule create_pipeline_history)
next
  case s_pending then show ?thesis using get_pending_jobs_history [OF assms(1,2)] by blast
next
  case s_update then show ?thesis using update_job_history [OF assms(2)] by blast
next
  case s_claim then show ?thesis using claim_job_history [OF assms(1,2)] by blast
next
  case s_refresh then show ?thesis using refresh_execution_history [OF assms(2)] by blast
next
  case s_finish then show ?thesis using finish_execution_history [OF assms(1,2)] by blast
next
  case s_event then show ?thesis using create_job_event_history by blast
next
  case s_delete then show ?thesis using delete_job_history by blast
next
  case s_duration then show ?thesis using configure_duration_history [OF assms(2)] by blast
next
  case s_targets then show ?thesis using configure_targets_history [OF assms(2)] by blast
next
  case s_concurrency then show ?thesis using configure_concurrency_history [OF assms(2)] by blast
next
  case s_sync then show ?thesis using auth_sync_history by blast
next
  case s_delete_engagement then show ?thesis using delete_engagement_history by blast
next
  case s_stop then show ?thesis using engage_stop_work_history [OF assms(2)] by blast
next
  case s_release then show ?thesis using release_stop_work_history [OF assms(2)] by blast
qed

lemma serves_history: "(serve U)\<^sup>*\<^sup>* s s' \<Longrightarrow> inj U \<Longrightarrow> tables_ok U s \<Longrightarrow> history U s s'"
proof (induction rule: rtranclp_induct)
  case (step s' s'')
  then have "history U s s'" by blast
  moreover have "tables_ok U s'" using tables_ok_history step.prems calculation by blast
  ultimately show ?case using serve_history [OF step.prems(1) _ step.hyps(2)] by (meson rtranclp_trans)
qed simp

lemma execution_has_job:
  assumes "tables_ok U s" and "get_execution k s = Some x"
  shows "\<exists>j. get_job k s = Some j"
proof -
  have "x \<in> set (job_executions s)" "exe_job_id x = k"
    using by_key_Some [OF assms(2) [unfolded get_execution_def]] by auto
  then have "k \<in> job_id ` set (scan_jobs s)" using assms(1) unfolding tables_ok_def by blast
  then obtain j where "j \<in> set (scan_jobs s)" "k = job_id j" by (rule imageE)
  with get_job_mem [OF assms(1)] show ?thesis by blast
qed

lemma reserved_released:
  assumes "tables_ok U s" and "get_execution k s = Some x" and "get_job k s = Some j" and "\<And>r. exe_job_id (f r) = exe_job_id r"
    and "\<And>r. \<not> exe_capacity_reserved (f r)"
  shows "reserved (job_program_id j) (set_execution k f s) = reserved (job_program_id j) s - (if exe_capacity_reserved x then 1 else 0)"
proof -
  let ?h = "holds_capacity (job_program_id j) (scan_jobs s)"
  have x: "x \<in> set (job_executions s)" "exe_job_id x = k" using assms(2) by (auto simp: get_execution_def dest: by_key_Some)
  then obtain as bs where xs: "job_executions s = as @ x # bs" by (meson split_list)
  moreover have "distinct (map exe_job_id (job_executions s))" using assms(1) by (simp add: tables_ok_def)
  ultimately have other: "exe_job_id y \<noteq> k" if "y \<in> set as \<union> set bs" for y
    using x(2) that by (auto simp: image_iff)
  have "map (\<lambda>y. if exe_job_id y = k then f y else y) as = as" "map (\<lambda>y. if exe_job_id y = k then f y else y) bs = bs"
    using other by (auto intro: map_idI)
  then have "job_executions (set_execution k f s) = as @ f x # bs" using xs x(2) by (simp add: set_execution_map)
  moreover have "\<not> ?h (f x)" using assms(5) by (simp add: holds_capacity_def)
  moreover have "j \<in> set (scan_jobs s)" "job_id j = k" using assms(3) by (auto simp: get_job_def dest: by_key_Some)
  then have "?h x \<longleftrightarrow> exe_capacity_reserved x" using x(2) by (auto simp: holds_capacity_def)
  ultimately show ?thesis using xs by (simp add: reserved_alt set_execution_def)
qed

section \<open>An example board\<close>

definition example_job :: "string \<Rightarrow> ScanJob" where
  "example_job st = \<lparr>job_id = ''u'', job_program_id = ''e1'', job_owner_github_id = ''alice'',
     job_tool_type = ''httpx'', job_target_source = ''scope'', job_config = VDict [], job_case_snapshot = VNone,
     job_managed_approval_id = None, job_authorization_contract_required = False, job_assessment = VNone,
     job_status = st, job_depends_on = None, job_created_at = 0, job_started_at = None,
     job_completed_at = None, job_error_message = []\<rparr>"

definition example_board :: "string \<Rightarrow> db" where
  "example_board st = example_tenancy\<lparr>scan_jobs := [example_job st], uuids_drawn := 2\<rparr>"

definition example_claim :: ClaimControl where
  "example_claim = \<lparr>cc_runner_id = ''r1'', cc_origin = ''https://map.example'', cc_concurrency_budget = False,
     cc_target_binding = None, cc_duration_seconds = None\<rparr>"

definition example_key_request :: request where
  "example_key_request = example_request\<lparr>rq_authorization := Some ''Bearer vmap_k''\<rparr>"

lemma inj_example: "inj (uuid example_env)"
  by (auto simp: inj_def example_env_def replicate_eq_replicate)

lemma example_board_ok: "tables_ok (uuid example_env) (example_board st)"
  by (auto simp: tables_ok_def attempts_open_def example_board_def example_tenancy_def empty_db_def example_job_def
      example_env_def intro!: exI [of _ "1 :: nat"])

lemma example_claim_ok: "claim_control_ok example_claim"
  by code_simp

section \<open>Claims are exclusive\<close>

lemma claim_job_Inr:
  assumes "claim_job env token rq user jid body s = (Inr cr, s')"
  shows "\<exists>j e d snap x. accessible_job jid user s = Some j \<and> \<not> managed j \<and> job_status j = ''pending''
    \<and> get_engagement (job_program_id j) s = Some e \<and> eng_stop_work_at e = None
    \<and> writable_engagement j user s = Inr e \<and> claim_snapshot j s = Inr snap
    \<and> cr = \<lparr>cr_job = claimed_job (now env) snap j, cr_warnings = as_warnings d, cr_execution = x\<rparr>
    \<and> take_claim env token rq user j e snap body s = Inr (x, s')"
proof -
  have "writable_engagement j user s = Inr e'" "get_engagement (job_program_id j) s = Some e \<Longrightarrow> e' = e"
    if "writable_engagement j user s = Inr e'" for j e e'
    using that by (auto simp: writable_engagement_def exn_simps dest: get_404_D)
  with assms show ?thesis unfolding claim_job_def transact_ok
    by (fastforce simp: exn_simps dest: check_ok_not_stopped)
qed

lemma take_claim_job:
  assumes "take_claim env token rq user j e snap body s = Inr (x, s')"
  shows "scan_jobs s' = scan_jobs (set_job (job_id j) (claimed_job (now env) snap) s)
    \<and> organization_members s' = organization_members s \<and> program_members s' = program_members s
    \<and> map eng_id (programs s') = map eng_id (programs s)"
  using assms
  by (auto simp: take_claim_def Let_def exn_simps issue_def set_engagement_def add_execution_def set_job_def map_amend_key
      split: option.splits)

lemma claim_not_stopped:
  assumes "tables_ok U s" and "claim_job env token rq user jid body s = (Inr cr, s')"
  shows "\<exists>j. get_job jid s = Some j \<and> \<not> job_stopped j s"
proof -
  obtain j e where "accessible_job jid user s = Some j" "get_engagement (job_program_id j) s = Some e" "eng_stop_work_at e = None"
    using claim_job_Inr [OF assms(2)] by blast
  with accessible_job_get [OF assms(1)] show ?thesis by (auto simp: job_stopped_def)
qed

lemma claim_refused:
  assumes "\<And>j. j \<in> set (scan_jobs s) \<Longrightarrow> job_id j = jid \<Longrightarrow> job_status j \<noteq> ''pending''"
  shows "\<exists>e. claim_job env token rq user jid body s = (Inl e, s)"
proof (cases "claim_job env token rq user jid body s")
  case (Pair r s')
  show ?thesis
  proof (cases r)
    case (Inl e)
    with Pair have "s' = s" unfolding claim_job_def by (blast dest: transact_error)
    with Pair Inl show ?thesis by simp
  next
    case (Inr cr)
    then obtain j where "accessible_job jid user s = Some j" "job_status j = ''pending''"
      using claim_job_Inr Pair by blast
    then show ?thesis using assms [of j] by (auto simp: accessible_job_def dest: find_SomeD)
  qed
qed


lemma example_claim_won:
  "map_sum id cr_job (fst (claim_job example_env ''tok'' example_key_request (example_user ''alice'') ''u''
     (Some example_claim) (example_board ''pending''))) = Inr (claimed_job 1000 VNone (example_job ''pending''))"
  by code_simp


section \<open>Managed jobs\<close>

lemma claim_managed_refused:
  assumes "\<And>j. j \<in> set (scan_jobs s) \<Longrightarrow> job_id j = jid \<Longrightarrow> managed j"
  shows "\<exists>e. claim_job env token rq user jid body s = (Inl e, s)"
proof (cases "claim_job env token rq user jid body s")
  case (Pair r s')
  show ?thesis
  proof (cases r)
    case (Inl e)
    with Pair have "s' = s" unfolding claim_job_def by (blast dest: transact_error)
    with Pair Inl show ?thesis by simp
  next
    case (Inr cr)
    then obtain j where "accessible_job jid user s = Some j" "\<not> managed j"
      using claim_job_Inr Pair by blast
    then show ?thesis using assms [of j] by (auto simp: accessible_job_def dest: find_SomeD)
  qed
qed

lemma refresh_managed_refused:
  assumes "get_job jid s = Some j" and "managed j"
  shows "\<exists>e. refresh_execution env rq user jid cb s = (Inl e, s)"
  using assms unfolding refresh_execution_def transact_def by (auto simp: exn_simps split: sum.splits)

lemma finish_managed_refused:
  assumes "get_job jid s = Some j" and "managed j"
  shows "\<exists>e. finish_execution env rq user jid fb s = (Inl e, s)"
  using assms unfolding finish_execution_def settle_def by (auto simp: exn_simps split: sum.splits)



section \<open>Stop-work\<close>

lemma refresh_stopped:
  assumes "get_job jid s = Some j" and "job_stopped j s"
    and "refresh_execution env rq user jid cb s = (Inr a, s')"
  shows "a = ''cancel''"
  using assms unfolding refresh_execution_def transact_ok
  by (auto simp: exn_simps Let_def refresh_row_def refreshed_def split: if_splits)

lemma settle_ok: "settle s m = (Inr a, s') \<longleftrightarrow> m = Inr (Inr a, s')"
  by (auto simp: settle_def split: sum.splits prod.splits)

lemma settle_attempt_stopped:
  "settle_attempt t outcome jid x j s = Inr (Inr ''completed'', s') \<Longrightarrow> job_stopped j s \<Longrightarrow> exe_state x = ''completed''"
  by (auto simp: settle_attempt_def split: if_splits)

lemma finish_stopped:
  assumes "get_job jid s = Some j" and "job_stopped j s" and "get_execution jid s = Some x"
    and "exe_state x \<noteq> ''completed''"
  shows "fst (finish_execution env rq user jid fb s) \<noteq> Inr ''completed''"
proof
  assume "fst (finish_execution env rq user jid fb s) = Inr ''completed''"
  then have "finish_execution env rq user jid fb s = (Inr ''completed'', snd (finish_execution env rq user jid fb s))"
    by (metis prod.collapse)
  then obtain x' s' where "owned env rq jid user fb s = Inr x'"
    "settle_attempt (now env) (cc_outcome fb) jid x' j s = Inr (Inr ''completed'', s')"
    unfolding finish_execution_def settle_ok using assms(1) by (auto simp: exn_simps)
  with settle_attempt_stopped [OF _ assms(2)] owned_get assms(3,4) show False by fastforce
qed

lemma create_job_stopped:
  assumes "get_engagement program_id s = Some e" and "eng_stop_work_at e \<noteq> None"
  shows "\<exists>er. create_job env user program_id jc s = (Inl er, s)"
proof -
  have no: "create_job env user program_id jc s \<noteq> (Inr a, s')" for a s'
  proof
    assume "create_job env user program_id jc s = (Inr a, s')"
    then obtain e' t ts d where "get_engagement_or_404 program_id user s = Inr e'" "check s e' t ts (now env) = Inr d"
      unfolding create_job_def transact_ok by (auto simp: exn_simps)
    with get_404_D [of program_id user s e'] assms check_ok_not_stopped show False by fastforce
  qed
  show ?thesis
  proof (cases "create_job env user program_id jc s")
    case (Pair r s')
    then obtain er where "r = Inl er" using no by (cases r) auto
    moreover from this Pair have "s' = s" unfolding create_job_def by (blast dest: transact_error)
    ultimately show ?thesis using Pair by simp
  qed
qed


definition stopped_engagement :: Engagement where
  "stopped_engagement = example_engagement\<lparr>eng_stop_work_at := Some 500\<rparr>"

definition stopped_board :: db where
  "stopped_board = (example_board ''pending'')\<lparr>programs := [stopped_engagement]\<rparr>"

lemma stopped_board_ok: "tables_ok (uuid example_env) stopped_board"
  by (auto simp: tables_ok_def attempts_open_def stopped_board_def example_board_def example_tenancy_def empty_db_def
      example_job_def example_env_def intro!: exI [of _ "1 :: nat"])


text \<open>
  Queueing a pipeline does not consult the brake: with stop-work engaged, a single job is refused with
  a 403 while the same work sent as a one-stage pipeline is accepted and stored as a pending job.
\<close>

theorem pipeline_ignores_stop_work:
  "fst (create_job example_env (example_user ''alice'') ''e1''
     \<lparr>jc_tool_type = ''httpx'', jc_target_source = ''scope'', jc_config = None, jc_depends_on = None,
      jc_authorization_contract_required = False\<rparr> stopped_board)
   = Inl (HTTPExceptionObject 403 [(''error'', ''stop_work_active''), (''reason'', ''stop_work_active''),
       (''message'', ''Stop-work is engaged for this engagement.'')])
   \<and> map_sum (\<lambda>_. ()) (map job_status) (fst (create_pipeline example_env (example_user ''alice'') ''e1''
     \<lparr>pc_stages = [\<lparr>ps_tool_type = ''httpx'', ps_target_source = ''scope'', ps_config = None,
        ps_authorization_contract_required = False\<rparr>], pc_authorization_contract_required = False\<rparr> stopped_board))
     = Inr [''pending'']"
  by code_simp

definition example_case :: AuthorizationTestCase where
  "example_case = \<lparr>tc_id = ''c1'', tc_program_id = ''e1'', tc_owner_github_id = ''alice'', tc_name = ''case'',
     tc_test_case_id = ''t'', tc_description = [], tc_spec = VDict [(''id'', VStr ''t'')], tc_created_at = 0,
     tc_updated_at = None\<rparr>"

definition padded_job :: JobCreate where
  "padded_job = \<lparr>jc_tool_type = VARDRGATE, jc_target_source = ''scope'',
     jc_config = Some [(''test_case_id'', VStr '' c1'')], jc_depends_on = None, jc_authorization_contract_required = False\<rparr>"

text \<open>
  A Gate job whose case reference carries a space is accepted, because the reference is checked after
  stripping, and then fails the first time a runner polls, because the hand-off looks the stored reference
  up as it was sent.
\<close>

theorem padded_case_reference_fails_at_handoff:
  "(let (r, s) = create_job example_env (example_user ''alice'') ''e1'' padded_job
        (example_tenancy\<lparr>authorization_test_cases := [example_case], uuids_drawn := 1\<rparr>);
        (jobs, s') = get_pending_jobs example_env (example_user ''alice'') s
    in (\<not> isl r, map job_status (scan_jobs s), jobs, map (\<lambda>j. (job_status j, job_error_message j)) (scan_jobs s')))
   = (True, [''pending''], [], [(''failed'', ''authorization test case  c1 no longer exists'')])"
  by code_simp

end
