(* ===== verification/Issuer_Protocol.thy ===== *)
theory Issuer_Protocol
  imports Issuance Protocol
begin

text \<open>
  The issuer beside the legacy endpoints.  \<open>issuer_micro\<close> is the abstract protocol of approvals, contracts
  and the trusted clock: an approval is entered, revoked for good and counted up; a contract is entered once
  per job with the next ordinal and consumed once; the clock only moves forward.  Every issuer operation and
  every legacy endpoint is a sequence of such changes, and at the same time a history of the execution
  protocol, so both sets of invariants hold over every sequence of requests of either kind.
\<close>

section \<open>The abstract protocol\<close>

definition allowance_of :: "ManagedApproval \<Rightarrow> int" where
  "allowance_of a = (case int_field (apv_context a) ''max_executions'' of Inr m \<Rightarrow> m | Inl _ \<Rightarrow> 0)"

inductive issuer_micro :: "(nat \<Rightarrow> string) \<Rightarrow> db \<Rightarrow> db \<Rightarrow> bool" for U where
  other: "managed_approvals s' = managed_approvals s \<Longrightarrow> managed_contracts s' = managed_contracts s \<Longrightarrow>
    managed_clock s' = managed_clock s \<Longrightarrow> uuids_drawn s \<le> uuids_drawn s' \<Longrightarrow> issuer_micro U s s'"
| start_clock: "get_clock s = None \<Longrightarrow> issuer_micro U s (s\<lparr>managed_clock := managed_clock s @ [\<lparr>clk_id = 1, clk_observed = t\<rparr>]\<rparr>)"
| tick: "get_clock s = Some row \<Longrightarrow> clk_observed row \<le> t \<Longrightarrow> issuer_micro U s (set_clock t s)"
| enter_approval: "get_approval (apv_id a) s = None \<Longrightarrow> apv_issued a = 0 \<Longrightarrow> \<not> apv_revoked a \<Longrightarrow>
    1 \<le> allowance_of a \<Longrightarrow> allowance_of a \<le> 1000 \<Longrightarrow> issuer_micro U s (add_approval a s)"
| revoke_approval: "issuer_micro U s (set_approval k (\<lambda>r. r\<lparr>apv_revoked := True\<rparr>) s)"
| enter_contract: "get_approval (apv_id a) s = Some a \<Longrightarrow> \<not> apv_revoked a \<Longrightarrow> apv_issued a + 1 \<le> allowance_of a \<Longrightarrow>
    con_job_id c \<notin> con_job_id ` set (managed_contracts s) \<Longrightarrow> con_approval_record_id c = apv_id a \<Longrightarrow>
    con_ordinal c = apv_issued a + 1 \<Longrightarrow> \<not> con_consumed c \<Longrightarrow> uuids_drawn s \<le> n \<Longrightarrow> con_id c = U n \<Longrightarrow> n < m \<Longrightarrow>
    issuer_micro U s (add_contract c (set_approval (apv_id a) (\<lambda>r. r\<lparr>apv_issued := apv_issued a + 1\<rparr>) (s\<lparr>uuids_drawn := m\<rparr>)))"
| consume_contract: "issuer_micro U s (set_contract k (\<lambda>r. r\<lparr>con_consumed := True\<rparr>) s)"

abbreviation issuer_history :: "(nat \<Rightarrow> string) \<Rightarrow> db \<Rightarrow> db \<Rightarrow> bool" where
  "issuer_history U \<equiv> (issuer_micro U)\<^sup>*\<^sup>*"

section \<open>What the protocol keeps\<close>

text \<open>
  The contracts of an approval carry the ordinals 1, 2, \<dots> up to its counter, in the order they were issued;
  the counter is within the signed allowance; no job has two contracts.
\<close>

definition ordinals :: "string \<Rightarrow> db \<Rightarrow> int list" where
  "ordinals k s = map con_ordinal (filter (\<lambda>c. con_approval_record_id c = k) (managed_contracts s))"

definition approval_ok :: "db \<Rightarrow> ManagedApproval \<Rightarrow> bool" where
  "approval_ok s a = (ordinals (apv_id a) s = [1..apv_issued a] \<and> 0 \<le> apv_issued a
     \<and> apv_issued a \<le> allowance_of a \<and> allowance_of a \<le> 1000)"

definition contracts_ok :: "(nat \<Rightarrow> string) \<Rightarrow> db \<Rightarrow> bool" where
  "contracts_ok U s = (distinct (map con_job_id (managed_contracts s)) \<and> distinct (map con_id (managed_contracts s))
     \<and> (\<forall>k \<in> set (map con_id (managed_contracts s)). \<exists>n < uuids_drawn s. k = U n))"

definition issuer_ok :: "(nat \<Rightarrow> string) \<Rightarrow> db \<Rightarrow> bool" where
  "issuer_ok U s = (contracts_ok U s \<and> distinct (map apv_id (managed_approvals s))
     \<and> set (map con_approval_record_id (managed_contracts s)) \<subseteq> set (map apv_id (managed_approvals s))
     \<and> (\<forall>a \<in> set (managed_approvals s). approval_ok s a))"

lemma allowance_of_cong [simp]:
  "allowance_of (a\<lparr>apv_revoked := b\<rparr>) = allowance_of a" "allowance_of (a\<lparr>apv_issued := i\<rparr>) = allowance_of a"
  by (simp_all add: allowance_of_def)

lemma issuer_ok_cong:
  assumes "managed_approvals s' = managed_approvals s" and "managed_contracts s' = managed_contracts s" and "uuids_drawn s \<le> uuids_drawn s'"
  shows "issuer_ok U s \<Longrightarrow> issuer_ok U s'"
  unfolding issuer_ok_def contracts_ok_def approval_ok_def ordinals_def assms(1,2)
  using assms(3) by (meson order.strict_trans2)

lemma issuer_ok_enter_approval:
  assumes "issuer_ok U s" and "get_approval (apv_id a) s = None" and "apv_issued a = 0" and "0 \<le> allowance_of a" and "allowance_of a \<le> 1000"
  shows "issuer_ok U (add_approval a s)"
proof -
  have new: "apv_id a \<notin> set (map apv_id (managed_approvals s))" using assms(2) by (simp add: get_approval_def by_key_None)
  then have "apv_id a \<notin> set (map con_approval_record_id (managed_contracts s))" using assms(1) unfolding issuer_ok_def by blast
  then have "\<forall>c \<in> set (managed_contracts s). con_approval_record_id c \<noteq> apv_id a" by (metis imageI set_map)
  then have "ordinals (apv_id a) s = []" by (simp add: ordinals_def filter_empty_conv)
  moreover have "ordinals k (add_approval a s) = ordinals k s" for k by (simp add: ordinals_def add_approval_def)
  ultimately show ?thesis using assms new
    by (auto simp: issuer_ok_def contracts_ok_def approval_ok_def add_approval_def [of a s])
qed

lemma issuer_ok_amend:
  assumes "issuer_ok U s" and "\<And>r. apv_id (f r) = apv_id r \<and> apv_issued (f r) = apv_issued r \<and> allowance_of (f r) = allowance_of r"
  shows "issuer_ok U (set_approval k f s)"
proof -
  have ids: "map apv_id (managed_approvals (set_approval k f s)) = map apv_id (managed_approvals s)"
    unfolding set_approval_def by (simp add: assms(2) map_amend_key)
  have cs: "managed_contracts (set_approval k f s) = managed_contracts s" "uuids_drawn (set_approval k f s) = uuids_drawn s"
    by (simp_all add: set_approval_def)
  have "approval_ok (set_approval k f s) b" if "b \<in> set (managed_approvals (set_approval k f s))" for b
    using that assms by (auto simp: set_approval_def set_amend_key issuer_ok_def approval_ok_def ordinals_def split: if_splits)
  then show ?thesis using assms(1) unfolding issuer_ok_def contracts_ok_def ids cs by blast
qed

lemma issuer_ok_consume:
  assumes "issuer_ok U s"
  shows "issuer_ok U (set_contract k (\<lambda>r. r\<lparr>con_consumed := True\<rparr>) s)"
proof -
  let ?f = "\<lambda>r :: ManagedContract. r\<lparr>con_consumed := True\<rparr>"
  let ?s = "set_contract k ?f s"
  have m: "map con_job_id (managed_contracts ?s) = map con_job_id (managed_contracts s)"
    "map con_id (managed_contracts ?s) = map con_id (managed_contracts s)"
    "map con_approval_record_id (managed_contracts ?s) = map con_approval_record_id (managed_contracts s)"
    unfolding set_contract_def by (simp_all add: map_amend_key)
  have "map con_ordinal (filter (\<lambda>c. con_approval_record_id c = i) (amend_key con_id k ?f cs))
      = map con_ordinal (filter (\<lambda>c. con_approval_record_id c = i) cs)" for i cs
    by (induction cs) (auto simp: amend_key_def amend_def)
  then have o: "ordinals i ?s = ordinals i s" for i by (simp add: ordinals_def set_contract_def)
  have "managed_approvals ?s = managed_approvals s" "uuids_drawn ?s = uuids_drawn s" by (simp_all add: set_contract_def)
  then show ?thesis using assms unfolding issuer_ok_def contracts_ok_def approval_ok_def m o by simp
qed

lemma upto_snoc: "0 \<le> i \<Longrightarrow> [1..i] @ [i + 1] = [1..i + 1 :: int]"
  using upto_rec2 [of 1 "i + 1"] by simp

lemma issuer_ok_enter_contract:
  assumes ok: "issuer_ok U s" and "inj U" and a: "get_approval (apv_id a) s = Some a" and "apv_issued a + 1 \<le> allowance_of a"
    and c: "con_job_id c \<notin> con_job_id ` set (managed_contracts s)" "con_approval_record_id c = apv_id a" "con_ordinal c = apv_issued a + 1"
    and n: "uuids_drawn s \<le> n" "con_id c = U n" "n < m"
  shows "issuer_ok U (add_contract c (set_approval (apv_id a) (\<lambda>r. r\<lparr>apv_issued := apv_issued a + 1\<rparr>) (s\<lparr>uuids_drawn := m\<rparr>)))"
    (is "issuer_ok U ?s")
proof -
  let ?f = "\<lambda>r :: ManagedApproval. r\<lparr>apv_issued := apv_issued a + 1\<rparr>"
  have mem: "a \<in> set (managed_approvals s)" using a by (auto simp: get_approval_def dest: by_key_Some)
  have ids: "map apv_id (managed_approvals ?s) = map apv_id (managed_approvals s)"
    by (simp add: add_contract_def set_approval_def map_amend_key)
  have cs: "managed_contracts ?s = managed_contracts s @ [c]" "uuids_drawn ?s = m"
    by (simp_all add: add_contract_def set_approval_def)
  have one: "r = a" if "r \<in> set (managed_approvals s)" "apv_id r = apv_id a" for r
    using that mem ok by (auto simp: issuer_ok_def distinct_map dest: inj_onD)
  have fresh: "con_id c \<notin> set (map con_id (managed_contracts s))"
  proof
    assume "con_id c \<in> set (map con_id (managed_contracts s))"
    then obtain i where "i < uuids_drawn s" "U n = U i" using ok n(2) unfolding issuer_ok_def contracts_ok_def by metis
    with n(1) assms(2) show False by (auto dest: injD)
  qed
  have "\<exists>i < m. k = U i" if "k \<in> set (map con_id (managed_contracts ?s))" for k
  proof (cases "k = con_id c")
    case True then show ?thesis using n by blast
  next
    case False
    with that cs have "k \<in> set (map con_id (managed_contracts s))" by auto
    then obtain i where "i < uuids_drawn s" "k = U i" using ok unfolding issuer_ok_def contracts_ok_def by blast
    with n show ?thesis by (intro exI [of _ i]) simp
  qed
  then have "contracts_ok U ?s"
    using ok c(1) fresh unfolding issuer_ok_def contracts_ok_def cs by simp
  moreover have "approval_ok ?s b" if b: "b \<in> set (managed_approvals ?s)" for b
  proof -
    obtain r where r: "r \<in> set (managed_approvals s)" "b = (if apv_id r = apv_id a then ?f r else r)"
      using b by (auto simp: add_contract_def set_approval_def set_amend_key)
    have "ordinals k ?s = ordinals k s @ (if k = apv_id a then [apv_issued a + 1] else [])" for k
      using c by (simp add: ordinals_def cs)
    then show ?thesis
      using r ok one [OF r(1)] upto_snoc [of "apv_issued a"] assms(4) by (auto simp: issuer_ok_def approval_ok_def)
  qed
  ultimately show ?thesis using ok c(2) mem unfolding issuer_ok_def ids cs by auto
qed

lemma issuer_ok_micro:
  assumes "issuer_micro U s s'" and "inj U" and "issuer_ok U s"
  shows "issuer_ok U s'"
  using assms(1)
proof cases
  case other then show ?thesis using issuer_ok_cong assms(3) by blast
next
  case (start_clock t) then show ?thesis by (auto intro: issuer_ok_cong [OF _ _ _ assms(3)])
next
  case (tick row t) then show ?thesis by (auto simp: set_clock_def intro: issuer_ok_cong [OF _ _ _ assms(3)])
next
  case (enter_approval a) then show ?thesis using issuer_ok_enter_approval [OF assms(3)] by auto
next
  case (revoke_approval k) then show ?thesis using issuer_ok_amend [OF assms(3)] by simp
next
  case (enter_contract a c n m) then show ?thesis using issuer_ok_enter_contract [OF assms(3,2)] by blast
next
  case (consume_contract k) then show ?thesis using issuer_ok_consume [OF assms(3)] by blast
qed

lemma issuer_ok_history: "issuer_history U s s' \<Longrightarrow> inj U \<Longrightarrow> issuer_ok U s \<Longrightarrow> issuer_ok U s'"
  by (induction rule: rtranclp_induct) (auto intro: issuer_ok_micro)

text \<open>The trusted clock never goes back.\<close>

definition clock_at_least :: "int \<Rightarrow> db \<Rightarrow> bool" where
  "clock_at_least t s = (case get_clock s of None \<Rightarrow> False | Some r \<Rightarrow> t \<le> clk_observed r)"

lemma get_clock_set: "get_clock (set_clock t s) = map_option (\<lambda>r. r\<lparr>clk_observed := t\<rparr>) (get_clock s)"
  by (simp add: get_clock_def set_clock_def by_key_amend_key)

lemma get_clock_cong: "managed_clock s' = managed_clock s \<Longrightarrow> get_clock s' = get_clock s"
  by (simp add: get_clock_def)

lemma clock_micro:
  assumes "issuer_micro U s s'" and "clock_at_least t s"
  shows "clock_at_least t s'"
  using assms(1)
proof cases
  case other then show ?thesis using assms(2) by (simp add: clock_at_least_def get_clock_def)
next
  case start_clock then show ?thesis using assms(2) by (simp add: clock_at_least_def)
next
  case tick then show ?thesis using assms(2) by (simp add: clock_at_least_def get_clock_set)
qed (use assms(2) in \<open>simp_all add: clock_at_least_def get_clock_def add_approval_def set_approval_def add_contract_def set_contract_def\<close>)

lemma clock_history: "issuer_history U s s' \<Longrightarrow> clock_at_least t s \<Longrightarrow> clock_at_least t s'"
  by (induction rule: rtranclp_induct) (auto intro: clock_micro)

text \<open>What an approval and a contract may become.\<close>

definition approval_move :: "ManagedApproval \<Rightarrow> ManagedApproval \<Rightarrow> bool" where
  "approval_move a b = (apv_id b = apv_id a \<and> apv_job_id b = apv_job_id a \<and> apv_owner b = apv_owner a \<and> apv_envelope b = apv_envelope a
     \<and> apv_context b = apv_context a \<and> apv_plan b = apv_plan a \<and> apv_revision b = apv_revision a
     \<and> apv_enrollment_id b = apv_enrollment_id a \<and> apv_engagement_id b = apv_engagement_id a
     \<and> (apv_revoked a \<longrightarrow> apv_revoked b) \<and> apv_issued a \<le> apv_issued b)"

definition contract_move :: "ManagedContract \<Rightarrow> ManagedContract \<Rightarrow> bool" where
  "contract_move c d = (d = c \<or> d = c\<lparr>con_consumed := True\<rparr>)"

lemma approval_move_trans: "approval_move a b \<Longrightarrow> approval_move b c \<Longrightarrow> approval_move a c"
  by (auto simp: approval_move_def)

lemma contract_move_trans: "contract_move c d \<Longrightarrow> contract_move d e \<Longrightarrow> contract_move c e"
  by (auto simp: contract_move_def)

lemma approval_micro:
  assumes "issuer_micro U s s'" and "get_approval k s = Some a"
  shows "\<exists>b. get_approval k s' = Some b \<and> approval_move a b"
  using assms(1)
proof cases
  case (revoke_approval i)
  then show ?thesis using assms(2) by (auto simp: approvals.get_upd approval_move_def)
next
  case (enter_contract b c n m)
  have g: "get_approval k s' = get_approval k (set_approval (apv_id b) (\<lambda>r. r\<lparr>apv_issued := apv_issued b + 1\<rparr>) s)"
    using enter_contract(1) by (simp add: get_approval_def add_contract_def set_approval_def)
  show ?thesis
  proof (cases "k = apv_id b")
    case True
    with assms(2) enter_contract(2) have "b = a" by simp
    with True g assms(2) show ?thesis by (auto simp: approvals.get_upd approval_move_def)
  next
    case False
    with g assms(2) show ?thesis by (auto simp: approvals.get_upd approval_move_def)
  qed
qed (use assms(2) in \<open>auto simp: get_approval_def set_clock_def set_contract_def add_approval_def by_key_append approval_move_def\<close>)

lemma approval_history:
  "issuer_history U s s' \<Longrightarrow> get_approval k s = Some a \<Longrightarrow> \<exists>b. get_approval k s' = Some b \<and> approval_move a b"
proof (induction rule: rtranclp_induct)
  case base then show ?case by (auto simp: approval_move_def)
next
  case (step y z) then show ?case using approval_micro approval_move_trans by blast
qed

lemma job_contract_set:
  "job_contract k (set_contract i (\<lambda>r. r\<lparr>con_consumed := True\<rparr>) s)
     = map_option (\<lambda>c. if con_id c = i then c\<lparr>con_consumed := True\<rparr> else c) (job_contract k s)"
  unfolding job_contract_def set_contract_def amend_key_def amend_def by (simp add: find_map_keep)

lemma contract_micro:
  assumes "issuer_micro U s s'" and "job_contract k s = Some c"
  shows "\<exists>d. job_contract k s' = Some d \<and> contract_move c d"
  using assms(1)
proof cases
  case (consume_contract i)
  then show ?thesis using assms(2) by (auto simp: job_contract_set contract_move_def)
next
  case (enter_contract a d n m)
  have "find p (xs @ ys) = (case find p xs of None \<Rightarrow> find p ys | Some x \<Rightarrow> Some x)" for p and xs ys :: "ManagedContract list"
    by (induction xs) auto
  then show ?thesis using assms(2) enter_contract(1) by (simp add: job_contract_def add_contract_def set_approval_def contract_move_def)
qed (use assms(2) in \<open>auto simp: job_contract_def set_clock_def set_approval_def add_approval_def contract_move_def\<close>)

lemma contract_history:
  "issuer_history U s s' \<Longrightarrow> job_contract k s = Some c \<Longrightarrow> \<exists>d. job_contract k s' = Some d \<and> contract_move c d"
proof (induction rule: rtranclp_induct)
  case base then show ?case by (auto simp: contract_move_def)
next
  case (step y z) then show ?case using contract_micro contract_move_trans by blast
qed

section \<open>The operations\<close>

text \<open>
  A change of the database that both protocols allow and that leaves the written authority alone: the scope,
  the authorizations and the test cases.
\<close>

definition authority_tables :: "db \<Rightarrow> ScopeItem list \<times> Authorization list \<times> AuthorizationTestCase list" where
  "authority_tables s = (scope_items s, authorizations s, authorization_test_cases s)"

definition evolution :: "(nat \<Rightarrow> string) \<Rightarrow> db \<Rightarrow> db \<Rightarrow> bool" where
  "evolution U s s' = (history U s s' \<and> issuer_history U s s' \<and> authority_tables s' = authority_tables s)"

lemma authority_tables_rows [simp]:
  "authority_tables (set_job k f s) = authority_tables s" "authority_tables (set_execution k g s) = authority_tables s"
  "authority_tables (add_approval a s) = authority_tables s" "authority_tables (set_approval k h s) = authority_tables s"
  "authority_tables (add_contract c s) = authority_tables s" "authority_tables (set_contract k i s) = authority_tables s"
  "authority_tables (set_clock t s) = authority_tables s" "authority_tables (s\<lparr>managed_clock := cs\<rparr>) = authority_tables s"
  "authority_tables (s\<lparr>uuids_drawn := n\<rparr>) = authority_tables s" "authority_tables (s\<lparr>job_executions := xs\<rparr>) = authority_tables s"
  "authority_tables (s\<lparr>scan_jobs := js\<rparr>) = authority_tables s" "authority_tables (set_engagement k ff s) = authority_tables s"
  "authority_tables (add_execution x s) = authority_tables s" "authority_tables (drew s) = authority_tables s"
  "authority_tables (log_action env gid act typ key p s) = authority_tables s"
  by (simp_all add: authority_tables_def set_job_def set_execution_def add_approval_def set_approval_def add_contract_def set_contract_def
      set_clock_def set_engagement_def add_execution_def drew_def log_action_def)

lemma evolution_refl [simp]: "evolution U s s"
  by (simp add: evolution_def)

lemma evolution_trans: "evolution U s t \<Longrightarrow> evolution U t u \<Longrightarrow> evolution U s u"
  unfolding evolution_def by (auto intro: rtranclp_trans)

lemma evolution_ok: "evolution U s s' \<Longrightarrow> inj U \<Longrightarrow> tables_ok U s \<Longrightarrow> tables_ok U s'"
  unfolding evolution_def by (blast intro: tables_ok_history)

text \<open>Changes outside the tables of both protocols.\<close>

definition untouched :: "db \<Rightarrow> db \<Rightarrow> bool" where
  "untouched s s' = (scan_jobs s' = scan_jobs s \<and> job_executions s' = job_executions s \<and> programs s' = programs s
     \<and> managed_approvals s' = managed_approvals s \<and> managed_contracts s' = managed_contracts s
     \<and> managed_enrollments s' = managed_enrollments s \<and> authorization_test_cases s' = authorization_test_cases s
     \<and> scope_items s' = scope_items s \<and> authorizations s' = authorizations s
     \<and> managed_results s' = managed_results s \<and> managed_stops s' = managed_stops s
     \<and> managed_clock s' = managed_clock s \<and> uuids_drawn s \<le> uuids_drawn s')"

lemma untouched_refl [simp]: "untouched s s"
  by (simp add: untouched_def)

lemma untouched_evolution: "untouched s s' \<Longrightarrow> evolution U s s'"
  unfolding untouched_def evolution_def by (auto intro: history_one frame other simp: authority_tables_def)

lemma untouched_transact:
  assumes "transact s m = (r, s')" and "\<And>a s''. m = Inr (a, s'') \<Longrightarrow> untouched s s''"
  shows "untouched s s'"
  using assms by (cases m) (auto simp: transact_def split: prod.splits)

lemma resolve_session_untouched: "resolve_session ac env rq s = (r, s') \<Longrightarrow> untouched s s'"
  unfolding resolve_session_def
  by (erule untouched_transact) (auto simp: untouched_def exn_simps Let_def split: option.splits if_splits)

lemma current_user_untouched: "get_current_user ac env rq s = (r, s') \<Longrightarrow> untouched s s'"
  using resolve_session_untouched
  by (auto simp: get_current_user_def resolve_api_key_def untouched_def Let_def split: if_splits option.splits list.splits)

lemma operator_untouched: "operator ac env rq s = (r, s') \<Longrightarrow> untouched s s'"
  using current_user_untouched
  by (auto simp: operator_def Let_def split: if_splits prod.splits sum.splits)

lemma clock_frame: "history U s (s\<lparr>managed_clock := c\<rparr>)"
  by (rule history_one, rule frame) simp_all

lemma observe_evolution:
  assumes "observe ck i s = Inr s'"
  shows "evolution U s s'"
proof (cases "get_clock s")
  case None
  then obtain t where "s' = s\<lparr>managed_clock := managed_clock s @ [\<lparr>clk_id = 1, clk_observed = t\<rparr>]\<rparr>"
    using assms by (auto simp: observe_def exn_simps)
  with start_clock [OF None] clock_frame show ?thesis by (auto simp: evolution_def)
next
  case (Some row)
  then obtain t where "s' = set_clock t s" "clk_observed row \<le> t" using assms by (auto simp: observe_def exn_simps)
  with tick [OF Some] clock_frame show ?thesis by (auto simp: evolution_def set_clock_def)
qed

lemma locked_time_evolution: "locked_time ck i s = Inr s' \<Longrightarrow> evolution U s s'"
  using observe_evolution [of ck i s s' U] by (auto simp: locked_time_def observe_def exn_simps split: option.splits)

lemma locked_time_frame:
  "locked_time ck i s = Inr s' \<Longrightarrow> scan_jobs s' = scan_jobs s \<and> job_executions s' = job_executions s \<and> programs s' = programs s
     \<and> managed_approvals s' = managed_approvals s \<and> managed_contracts s' = managed_contracts s \<and> uuids_drawn s' = uuids_drawn s"
  by (auto simp: locked_time_def set_clock_def exn_simps split: option.splits)

text \<open>The frame of an operation keeps whatever its transaction keeps.\<close>

lemma operation_evolution:
  assumes "operation ck body s = (r, s')" and "inj U" and "tables_ok U s"
    and "\<And>r s1 s2. tables_ok U s1 \<Longrightarrow> body s1 = (r, s2) \<Longrightarrow> evolution U s1 s2"
  shows "evolution U s s'"
proof (cases "ignoreE (stamp (wall ck 0)) (observe ck 1 s)")
  case Inl then show ?thesis using assms(1) by (simp add: operation_def)
next
  case (Inr s1)
  then have e1: "evolution U s s1" by (auto simp: exn_simps intro: observe_evolution)
  obtain r2 s2 where b: "body s1 = (r2, s2)" by (cases "body s1")
  then have e2: "evolution U s1 s2" using assms(4) evolution_ok [OF e1 assms(2,3)] by blast
  have "s' = s2 \<or> (\<exists>s3. observe ck EXIT s2 = Inr s3 \<and> s' = s3)"
    using assms(1) Inr b by (auto simp: operation_def split: sum.splits)
  then have "evolution U s2 s'" using observe_evolution by auto
  with e1 e2 show ?thesis by (blast intro: evolution_trans)
qed

lemma authenticated_evolution:
  assumes "authenticated auth body s = (r, s')" and "inj U" and "tables_ok U s"
    and "\<And>r s1. auth s = (r, s1) \<Longrightarrow> untouched s s1"
    and "\<And>user s1 a s2. tables_ok U s1 \<Longrightarrow> body user s1 = Inr (a, s2) \<Longrightarrow> evolution U s1 s2"
  shows "evolution U s s'"
proof -
  obtain ra s1 where a: "auth s = (ra, s1)" by (cases "auth s")
  then have e1: "evolution U s s1" using assms(4) untouched_evolution by blast
  note ok1 = evolution_ok [OF e1 assms(2,3)]
  show ?thesis
  proof (cases ra)
    case Inl then show ?thesis using assms(1) a e1 by (auto simp: authenticated_def)
  next
    case (Inr user)
    then have "transact s1 (body user s1) = (r, s')" using assms(1) a by (simp add: authenticated_def)
    then have "evolution U s1 s'"
      using assms(5) [OF ok1] by (auto simp: transact_def split: sum.splits prod.splits)
    with e1 show ?thesis by (rule evolution_trans)
  qed
qed

text \<open>An authenticated operation is an evolution when its transaction is one.\<close>

lemma operation_authenticated_evolution:
  assumes o: "operation ck (authenticated auth body) s = (r, s')" and U: "inj U" and ok: "tables_ok U s"
    and a: "\<And>r s1 s2. auth s1 = (r, s2) \<Longrightarrow> untouched s1 s2"
    and b: "\<And>user s1 x s2. tables_ok U s1 \<Longrightarrow> body user s1 = Inr (x, s2) \<Longrightarrow> evolution U s1 s2"
  shows "evolution U s s'"
  using o
proof (rule operation_evolution [OF _ U ok])
  fix r s1 s2 assume "tables_ok U s1" "authenticated auth body s1 = (r, s2)"
  then show "evolution U s1 s2" by (blast intro: authenticated_evolution U a b)
qed

lemma lock_job_get: "lock_job jid user s = Inr j \<Longrightarrow> get_job jid s = Some j"
  by (auto simp: lock_job_def exn_simps)

subsection \<open>Registration and revocation\<close>

lemma permission_bounds:
  assumes "check_permission p = Inr ()"
  shows "\<exists>m. vindex p ''max_executions'' = Inr (VInt m) \<and> 1 \<le> m \<and> m \<le> 1000"
  using assms by (auto simp: check_permission_def PERMISSION_BOUNDS_def exn_simps wire_simps)

lemma project_context_executions:
  assumes "project_context env plan al j e snapshot narrowed st en = Inr ctx"
  shows "map_of ctx ''max_executions'' = Some (al_max_executions al)"
  using assms by (auto simp: project_context_def exn_simps)

lemma reproject_executions:
  assumes "reproject iss env j actor enr aid plan permission revision sts s = Inr p"
  shows "\<exists>m. vindex permission ''max_executions'' = Inr (VInt m) \<and> int_field (VDict (pj_context p)) ''max_executions'' = Inr m
    \<and> 1 \<le> m \<and> m \<le> 1000"
proof -
  obtain al q sha where c: "check_permission permission = Inr ()"
      "permission_allowance (enr_runner_id enr) revision permission = Inr al"
      "project_current_authority env (job_id j) aid actor plan al sts s = Inr q"
      "pj_context p = dset (pj_context q) ''authority_sha256'' (VStr sha)"
    using assms by (auto simp: reproject_def exn_simps Let_def)
  obtain m where m: "vindex permission ''max_executions'' = Inr (VInt m)" "1 \<le> m" "m \<le> 1000"
    using permission_bounds [OF c(1)] by blast
  have "al_max_executions al = VInt m" using c(2) m(1) by (auto simp: permission_allowance_def exn_simps)
  moreover have "map_of (pj_context q) ''max_executions'' = Some (al_max_executions al)"
    using c(3) by (auto simp: project_current_authority_def exn_simps Let_def split: option.splits
        dest!: project_context_executions)
  ultimately show ?thesis using m c(4) by (simp add: int_field_def vindex_def map_of_dset)
qed

lemma mark_move:
  assumes "job_status j = ''pending''" and "k \<noteq> []"
  shows "job_move s j (mark_managed k j)"
  using assms by (auto simp: job_move_def mark_managed_def legal_def managed_def)

lemma register_new_evolution:
  assumes ok: "tables_ok U s" and j: "get_job jid s = Some j"
    and g: "get_approval (cw_issuer_id (iss_wire iss) @ '':'' @ text_of (dget receipt ''approval_id'')) s = None"
    and r: "register_new iss env ck actor enrollment_id authorization_id plan envelope j receipt s = Inr (row, s')"
  shows "evolution U s s'"
proof -
  obtain p revision s2 where p: "review_locked iss env j (cu_github_id actor) enrollment_id authorization_id plan (dget receipt ''context'') s = Inr p"
    and row: "row = new_approval iss j (cu_github_id actor) enrollment_id authorization_id plan envelope receipt p revision"
    and s': "locked_time ck 4 (set_job (job_id j) (mark_managed (apv_id row)) (add_approval row s)) = Inr s'"
    using r by (auto simp: register_new_def exn_simps Let_def)
  have pend: "job_status j = ''pending''" using p by (auto simp: review_locked_def exn_simps)
  have "\<exists>m. int_field (VDict (pj_context p)) ''max_executions'' = Inr m \<and> 1 \<le> m \<and> m \<le> 1000"
    using p reproject_executions by (fastforce simp: review_locked_def exn_simps)
  then have a: "1 \<le> allowance_of row" "allowance_of row \<le> 1000" by (auto simp: allowance_of_def row new_approval_def)
  have id: "apv_id row = cw_issuer_id (iss_wire iss) @ '':'' @ text_of (dget receipt ''approval_id'')" "apv_issued row = 0" "\<not> apv_revoked row"
    by (simp_all add: row new_approval_def)
  have i1: "issuer_micro U s (add_approval row s)"
    using g id a by (intro enter_approval) simp_all
  have h1: "micro U s (add_approval row s)" by (rule frame) (simp_all add: add_approval_def)
  have e1: "evolution U s (add_approval row s)" using i1 h1 by (simp add: evolution_def history_one r_into_rtranclp)
  have ok1: "tables_ok U (add_approval row s)" using ok by (simp add: tables_ok_def attempts_open_def add_approval_def)
  have j1: "get_job (job_id j) (add_approval row s) = Some j"
    using j jobs.get_key [OF j] by (simp add: get_job_def add_approval_def)
  have h2: "micro U (add_approval row s) (set_job (job_id j) (mark_managed (apv_id row)) (add_approval row s))"
    using j1 pend id(1) by (intro move_one [OF ok1]) (auto intro!: mark_move)
  have i2: "issuer_micro U (add_approval row s) (set_job (job_id j) (mark_managed (apv_id row)) (add_approval row s))"
    by (rule other) (simp_all add: set_job_def)
  have "evolution U (add_approval row s) (set_job (job_id j) (mark_managed (apv_id row)) (add_approval row s))"
    using i2 h2 by (simp add: evolution_def history_one r_into_rtranclp)
  with e1 locked_time_evolution [OF s'] show ?thesis by (blast intro: evolution_trans)
qed

lemma registered_evolution:
  assumes "tables_ok U s" and r: "registered iss env ck jid enrollment_id authorization_id plan envelope actor s = Inr (row, s')"
  shows "evolution U s s'"
proof -
  obtain j receipt where j: "get_job jid s = Some j" and c: "(case get_approval (cw_issuer_id (iss_wire iss) @ '':'' @ text_of (dget receipt ''approval_id'')) s of
       Some existing \<Rightarrow> register_again iss ck jid envelope j existing s
     | None \<Rightarrow> register_new iss env ck actor enrollment_id authorization_id plan envelope j receipt s) = Inr (row, s')"
    using r by (auto simp: registered_def exn_simps dest!: lock_job_get)
  show ?thesis
  proof (cases "get_approval (cw_issuer_id (iss_wire iss) @ '':'' @ text_of (dget receipt ''approval_id'')) s")
    case None
    with c register_new_evolution [OF assms(1) j] show ?thesis by auto
  next
    case (Some existing)
    with c show ?thesis by (auto simp: register_again_def exn_simps intro: locked_time_evolution)
  qed
qed

lemma register_evolution:
  assumes "inj U" and "tables_ok U s" and "register ac iss env ck rq jid enrollment_id authorization_id plan envelope s = (r, s')"
  shows "evolution U s s'"
  using assms(3) unfolding register_def
  by (rule operation_authenticated_evolution [OF _ assms(1,2)]) (auto intro: operator_untouched registered_evolution)

lemma revoked_evolution: "revoked ck jid actor s = Inr (u, s') \<Longrightarrow> evolution U s s'"
proof -
  have step: "evolution U s1 (set_approval k (\<lambda>r. r\<lparr>apv_revoked := True\<rparr>) s1)" for s1 k
    unfolding evolution_def by (auto simp: set_approval_def authority_tables_def intro!: history_one frame r_into_rtranclp revoke_approval [unfolded set_approval_def])
  show "revoked ck jid actor s = Inr (u, s') \<Longrightarrow> evolution U s s'"
    by (auto simp: revoked_def exn_simps split: option.splits intro: evolution_trans [OF locked_time_evolution step])
qed

lemma revoke_evolution:
  assumes "inj U" and "tables_ok U s" and "revoke ac env ck rq jid s = (r, s')"
  shows "evolution U s s'"
  using assms(3) unfolding revoke_def
  by (rule operation_authenticated_evolution [OF _ assms(1,2)]) (auto intro: operator_untouched revoked_evolution)

lemma review_evolution:
  assumes "inj U" and "tables_ok U s" and "review ac iss env ck rq rv s = (r, s')"
  shows "evolution U s s'"
  using assms(3) unfolding review_def
  by (rule operation_authenticated_evolution [OF _ assms(1,2)]) (auto simp: exn_simps Let_def intro: operator_untouched)

subsection \<open>Claims\<close>

lemma project_not_stopped:
  assumes "project_current_authority env jid aid actor plan al sts s = Inr p" and "get_job jid s = Some j"
  shows "\<not> job_stopped j s"
  using assms by (auto simp: project_current_authority_def nm_require_def job_stopped_def exn_simps Let_def split: option.splits)

lemma claim_permission_standing:
  assumes "claim_permission iss env ck i rq j body sts s = Inr (a, p)" and "get_job (job_id j) s = Some j"
  shows "get_approval (apv_id a) s = Some a" and "\<not> apv_revoked a" and "\<not> job_stopped j s"
    and "job_managed_approval_id j = Some (apv_id a)"
proof -
  obtain k where k: "job_managed_approval_id j = Some k" "get_approval k s = Some a"
    using assms(1) by (auto simp: claim_permission_def job_approval_def exn_simps split: option.splits)
  then show "get_approval (apv_id a) s = Some a" "job_managed_approval_id j = Some (apv_id a)"
    using approvals.get_key [OF k(2)] by simp_all
  show "\<not> apv_revoked a" using assms(1) by (auto simp: claim_permission_def exn_simps split: option.splits)
  obtain enr where "reproject iss env j (apv_owner a) enr (apv_authorization_id a) (apv_plan a) (apv_context a) (apv_revision a) sts s = Inr p"
    using assms(1) by (auto simp: claim_permission_def exn_simps split: option.splits)
  then obtain al q where "project_current_authority env (job_id j) (apv_authorization_id a) (apv_owner a) (apv_plan a) al sts s = Inr q"
    by (auto simp: reproject_def exn_simps Let_def)
  with project_not_stopped assms(2) show "\<not> job_stopped j s" by blast
qed

lemma take_managed_issued:
  assumes "take_managed env ck token rq user j a spec body s = Inr (row, s')"
  shows "\<exists>e tr e1 dr e2 t. get_engagement (job_program_id j) s = Some e \<and> before_claim s e (Some body) = Inr ()
    \<and> charge env e j spec (Some body) = Inr (tr, e1) \<and> allocate e1 (Some body) = Inr (dr, e2) \<and> job_status j = ''pending''
    \<and> issue (env\<lparr>now := control_clock ck 0\<rparr>) rq token (job_id j) user body tr dr (started t j spec e e2 s) = Inr (row, s')"
  using assms by (auto simp: take_managed_def exn_simps Let_def started_def)

lemma take_managed_evolution:
  assumes "inj U" and "tables_ok U s" and "get_job (job_id j) s = Some j" and "\<not> job_stopped j s" and "claim_control_ok body"
    and t: "take_managed env ck token rq user j a spec body s = Inr (row, s')"
  shows "evolution U s s'" and "managed_approvals s' = managed_approvals s" and "managed_contracts s' = managed_contracts s"
    and "uuids_drawn s' = uuids_drawn s"
proof -
  obtain e tr e1 dr e2 u where i: "get_engagement (job_program_id j) s = Some e" "job_status j = ''pending''" "before_claim s e (Some body) = Inr ()"
    "charge env e j spec (Some body) = Inr (tr, e1)" "allocate e1 (Some body) = Inr (dr, e2)"
    "issue (env\<lparr>now := control_clock ck 0\<rparr>) rq token (job_id j) user body tr dr (started u j spec e e2 s) = Inr (row, s')"
    using take_managed_issued [OF t] by blast
  have h: "history U s s'" by (rule issued_history [OF assms(1-3) i(1,2) assms(4) i(3) assms(5) i(4-6)])
  have f: "managed_approvals s' = managed_approvals s" "managed_contracts s' = managed_contracts s" "managed_clock s' = managed_clock s"
      "uuids_drawn s' = uuids_drawn s" "authority_tables s' = authority_tables s"
    using conjunct1 [OF issue_row [OF i(6)]] by (simp_all add: started_def authority_tables_def add_execution_def set_engagement_def set_job_def)
  show "managed_approvals s' = managed_approvals s" "managed_contracts s' = managed_contracts s" "uuids_drawn s' = uuids_drawn s"
    by (fact f)+
  have "issuer_micro U s s'" using f by (intro other) simp_all
  with h f(5) show "evolution U s s'" by (simp add: evolution_def r_into_rtranclp)
qed

lemma drew_twice: "drew (drew s) = s\<lparr>uuids_drawn := uuids_drawn s + 2\<rparr>"
  by (simp add: drew_def)

lemma issue_contract_row:
  assumes "issue_contract iss env ck jid a p s = Inr (envelope, s')"
  shows "\<exists>c. s' = add_contract c (set_approval (apv_id a) (\<lambda>r. r\<lparr>apv_issued := apv_issued a + 1\<rparr>) (s\<lparr>uuids_drawn := uuids_drawn s + 2\<rparr>))
    \<and> con_job_id c = jid \<and> con_approval_record_id c = apv_id a \<and> con_ordinal c = apv_issued a + 1 \<and> \<not> con_consumed c
    \<and> con_id c = uuid env (uuids_drawn s) \<and> con_attempt_id c = uuid env (uuids_drawn s + 1) \<and> con_fence c = 1 \<and> con_envelope c = envelope
    \<and> apv_issued a + 1 \<le> allowance_of a \<and> jid \<notin> con_job_id ` set (managed_contracts s)"
  using assms by (auto simp: issue_contract_def exn_simps Let_def drew_twice new_uuid_def drew_def allowance_of_def list_ex_iff)

lemma issue_contract_evolution:
  assumes U: "uuid env = U" and a: "get_approval (apv_id a) s = Some a" "\<not> apv_revoked a"
    and i: "issue_contract iss env ck jid a p s = Inr (envelope, s')"
  shows "evolution U s s'"
proof -
  obtain c where c: "s' = add_contract c (set_approval (apv_id a) (\<lambda>r. r\<lparr>apv_issued := apv_issued a + 1\<rparr>) (s\<lparr>uuids_drawn := uuids_drawn s + 2\<rparr>))"
    "con_job_id c = jid" "con_approval_record_id c = apv_id a" "con_ordinal c = apv_issued a + 1" "\<not> con_consumed c"
    "con_id c = U (uuids_drawn s)" "apv_issued a + 1 \<le> allowance_of a" "jid \<notin> con_job_id ` set (managed_contracts s)"
    using issue_contract_row [OF i] U by auto
  have "issuer_micro U s s'" unfolding c(1)
    by (rule enter_contract [OF a]) (use c in auto)
  moreover have "micro U s s'" unfolding c(1) by (rule frame) (simp_all add: add_contract_def set_approval_def)
  ultimately show ?thesis by (simp add: evolution_def r_into_rtranclp c(1))
qed

lemma claimed_parts:
  assumes "claimed iss env ck token rq jid body user s = Inr (mc, s')"
  obtains j a p s1 row s2 envelope s3 where "lock_job jid user s = Inr j" "job_status j = ''pending''"
    "claim_permission iss env ck 2 rq j body [''pending''] s = Inr (a, p)" "managed_budgets body a = Inr ()"
    "locked_time ck 3 s = Inr s1" "take_managed env ck token rq user j a (pj_case p) body s1 = Inr (row, s2)"
    "issue_contract iss env ck jid a p s2 = Inr (envelope, s3)" "locked_time ck 6 s3 = Inr s'"
    "mc_execution mc = row" "mc_contract mc = envelope" "mc_approval mc = apv_envelope a"
  using assms by (auto simp: claimed_def exn_simps wire_require_def)

lemma claimed_evolution:
  assumes U: "inj U" "uuid env = U" and ok: "tables_ok U s" and body: "claim_control_ok body"
    and c: "claimed iss env ck token rq jid body user s = Inr (mc, s')"
  shows "evolution U s s'"
  using c
proof (rule claimed_parts)
  fix j a p s1 row s2 envelope s3
  assume j: "lock_job jid user s = Inr j" and perm: "claim_permission iss env ck 2 rq j body [''pending''] s = Inr (a, p)"
    and t1: "locked_time ck 3 s = Inr s1" and tk: "take_managed env ck token rq user j a (pj_case p) body s1 = Inr (row, s2)"
    and i: "issue_contract iss env ck jid a p s2 = Inr (envelope, s3)" and t2: "locked_time ck 6 s3 = Inr s'"
  have gj: "get_job (job_id j) s = Some j" using lock_job_get [OF j] jobs.get_key by auto
  note stand = claim_permission_standing [OF perm gj]
  note fr = locked_time_frame [OF t1]
  have e1: "evolution U s s1" by (rule locked_time_evolution [OF t1])
  have ok1: "tables_ok U s1" by (rule evolution_ok [OF e1 U(1) ok])
  have gj1: "get_job (job_id j) s1 = Some j" "\<not> job_stopped j s1"
    using gj stand(3) fr by (simp_all add: get_job_def job_stopped_def get_engagement_def)
  note e2 = take_managed_evolution [OF U(1) ok1 gj1 body tk]
  have "get_approval (apv_id a) s2 = Some a" using stand(1) fr e2(2) by (simp add: get_approval_def)
  then have "evolution U s2 s3" by (rule issue_contract_evolution [OF U(2) _ stand(2) i])
  with e1 e2(1) locked_time_evolution [OF t2] show ?thesis by (blast intro: evolution_trans)
qed

lemma claim_evolution:
  assumes "inj U" and "uuid env = U" and "tables_ok U s" and "claim_control_ok body"
    and "claim ac iss env ck token rq jid body s = (r, s')"
  shows "evolution U s s'"
  using assms(5) unfolding claim_def
  by (rule operation_authenticated_evolution [OF _ assms(1,3)])
    (auto intro: current_user_untouched claimed_evolution [OF assms(1,2) _ assms(4)])

subsection \<open>Live control\<close>

lemma lease_move: "exec_move x (x\<lparr>exe_expires_at := t\<rparr>)"
  by (simp add: exec_move_def)

lemma renew_lease_evolution:
  assumes U: "inj U" and ok: "tables_ok U s" and r: "renew_lease ck j x permission s = Inr (l, s')"
  shows "evolution U s s'"
proof -
  obtain t where t: "locked_time ck 6 (set_execution (exe_job_id x) (\<lambda>r. r\<lparr>exe_expires_at := t\<rparr>) s) = Inr s'"
    using r by (auto simp: renew_lease_def exn_simps Let_def split: option.splits)
  have "micro U s (set_execution (exe_job_id x) (\<lambda>r. r\<lparr>exe_expires_at := t\<rparr>) s)"
    by (rule control_one [OF ok]) (rule lease_move)
  moreover have "issuer_micro U s (set_execution (exe_job_id x) (\<lambda>r. r\<lparr>exe_expires_at := t\<rparr>) s)"
    by (rule other) (simp_all add: set_execution_def)
  ultimately have "evolution U s (set_execution (exe_job_id x) (\<lambda>r. r\<lparr>exe_expires_at := t\<rparr>) s)"
    by (simp add: evolution_def r_into_rtranclp)
  then show ?thesis using locked_time_evolution [OF t] by (rule evolution_trans)
qed

lemma consume_contract_evolution:
  assumes "Issuance.consume_contract iss ck a p c x sha s = Inr s'"
  shows "evolution U s s'"
proof -
  have t: "locked_time ck 5 (set_contract (con_id c) (\<lambda>r. r\<lparr>con_consumed := True\<rparr>) s) = Inr s'"
    using assms by (auto simp: Issuance.consume_contract_def exn_simps Let_def)
  have "micro U s (set_contract (con_id c) (\<lambda>r. r\<lparr>con_consumed := True\<rparr>) s)"
    by (rule frame) (simp_all add: set_contract_def)
  then have "evolution U s (set_contract (con_id c) (\<lambda>r. r\<lparr>con_consumed := True\<rparr>) s)"
    by (simp add: evolution_def r_into_rtranclp issuer_micro.consume_contract)
  then show ?thesis using locked_time_evolution [OF t] by (rule evolution_trans)
qed

lemma live_control_parts:
  assumes "live_control iss env ck rq jid body contract_id attempt_id fence renew consume_sha user s = Inr (ans, s')"
  obtains x j c a p s1 lease s2 where "owned env rq jid user body s = Inr x" "get_job jid s = Some j"
    "job_contract jid s = Some c" "con_id c = contract_id" "con_attempt_id c = attempt_id" "con_fence c = fence"
    "claim_permission iss env ck 2 rq j body [''running''] s = Inr (a, p)" "locked_time ck 3 s = Inr s1"
    "exe_state x = ''active''" "control_clock ck 0 < exe_expires_at x"
    "if renew then \<exists>l. lease = Some l \<and> renew_lease ck j x (VDict (pj_context p)) s1 = Inr (l, s2) else lease = None \<and> s2 = s1"
    "case consume_sha of None \<Rightarrow> s' = s2 | Some sha \<Rightarrow> Issuance.consume_contract iss ck a p c x sha s2 = Inr s'"
    "ca_lease ans = lease"
proof -
  obtain x j c a p s1 t lease s2 where *: "owned env rq jid user body s = Inr x" "get_job jid s = Some j"
    "find (\<lambda>c. con_job_id c = jid) (managed_contracts s) = Some c" "con_id c = contract_id" "con_attempt_id c = attempt_id" "con_fence c = fence"
    "claim_permission iss env ck 2 rq j body [''running''] s = Inr (a, p)" "locked_time ck 3 s = Inr s1"
    "exe_state x = ''active''" "control_clock ck 0 < exe_expires_at x"
    "(if renew then bindE (renew_lease ck j x (VDict (pj_context p)) s1) (\<lambda>(l, s2). Inr (Some l, s2)) else Inr (None, s1)) = Inr (lease, s2)"
    "(case consume_sha of None \<Rightarrow> Inr s2 | Some sha \<Rightarrow> Issuance.consume_contract iss ck a p c x sha s2) = Inr s'"
    "ca_lease ans = lease"
    using assms by (auto simp: live_control_def exn_simps split: option.splits)
  show thesis
    by (rule that [OF *(1,2) _ *(4-10) _ _ *(13)])
      (use *(3,11,12) in \<open>auto simp: job_contract_def exn_simps split: if_splits option.splits\<close>)
qed

lemma live_control_evolution:
  assumes U: "inj U" and ok: "tables_ok U s"
    and l: "live_control iss env ck rq jid body contract_id attempt_id fence renew consume_sha user s = Inr (ans, s')"
  shows "evolution U s s'"
  using l
proof (rule live_control_parts)
  fix x j c a p s1 lease s2
  assume t: "locked_time ck 3 s = Inr s1"
    and r: "if renew then \<exists>l. lease = Some l \<and> renew_lease ck j x (VDict (pj_context p)) s1 = Inr (l, s2) else lease = None \<and> s2 = s1"
    and c: "case consume_sha of None \<Rightarrow> s' = s2 | Some sha \<Rightarrow> Issuance.consume_contract iss ck a p c x sha s2 = Inr s'"
  have e1: "evolution U s s1" by (rule locked_time_evolution [OF t])
  have "evolution U s1 s2"
    using r renew_lease_evolution [OF U evolution_ok [OF e1 U ok]] by (auto split: if_splits)
  moreover have "evolution U s2 s'" using c consume_contract_evolution by (auto split: option.splits)
  ultimately show ?thesis using e1 by (blast intro: evolution_trans)
qed

lemma control_evolution:
  assumes "inj U" and "tables_ok U s"
    and "operation ck (authenticated (get_current_user ac env rq)
      (live_control iss env ck rq jid body contract_id attempt_id fence renew consume_sha)) s = (r, s')"
  shows "evolution U s s'"
  using assms(3)
  by (rule operation_authenticated_evolution [OF _ assms(1,2)])
    (auto intro: current_user_untouched live_control_evolution [OF assms(1)])

lemma consume_evolution:
  assumes "inj U" and "tables_ok U s" and "consume ac iss env ck rq jid body contract_id attempt_id fence sha s = (r, s')"
  shows "evolution U s s'"
  using assms(3) control_evolution [OF assms(1,2)] unfolding consume_def by (auto split: sum.splits)

end
