(* ===== verification/Managed_Results.thy ===== *)
theory Managed_Results
  imports Issuance
begin

text \<open>
  The end of a managed attempt: known completion against a retained result receipt
  (\<open>backend/managed_results.py\<close>), known stops (\<open>managed_stops.py\<close>), and the observation of a claim by its
  enrolled runner (\<open>managed_observations.py\<close>).  Replies are the dictionaries the code returns.
\<close>

section \<open>The owned, consumed contract\<close>

definition exe_binding :: "JobExecution \<Rightarrow> pydict" where
  "exe_binding x = [(''job_id'', VStr (exe_job_id x)), (''runner_id'', VStr (exe_runner_id x)), (''origin'', VStr (exe_origin x))]"

definition result_binding :: "JobExecution \<Rightarrow> ManagedContract \<Rightarrow> string \<Rightarrow> pydict" where
  "result_binding x c sha = exe_binding x @ [(''contract_id'', VStr (con_id c)), (''attempt_id'', VStr (con_attempt_id c)),
     (''fence'', VInt (con_fence c)), (''contract_sha256'', VStr sha)]"

text \<open>A conjunction that stops at the first conjunct that is false.\<close>

definition andE :: "bool res \<Rightarrow> bool res \<Rightarrow> bool res" where
  "andE a b = bindE a (\<lambda>x. if x then b else Inr False)"

definition get_result :: "string \<Rightarrow> db \<Rightarrow> ManagedResult option" where
  "get_result k s = by_key mr_contract_id k (managed_results s)"

definition get_stop :: "string \<Rightarrow> db \<Rightarrow> ManagedStop option" where
  "get_stop k s = by_key mst_contract_id k (managed_stops s)"

text \<open>The consumed contract of a managed Gate job, as the caller names it, and the job's approval.\<close>

definition consumed_contract :: "issuer \<Rightarrow> string \<Rightarrow> string \<Rightarrow> int \<Rightarrow> string \<Rightarrow> ScanJob \<Rightarrow> db \<Rightarrow> ManagedContract res" where
  "consumed_contract iss contract_id attempt_id fence sha j s =
     (case job_contract (job_id j) s of
        None \<Rightarrow> Inl (WireRefused ''owned_consumed_contract_required'')
      | Some c \<Rightarrow>
     ignoreE (wire_require (job_tool_type j = ''vardrgate_api_test'' \<and> job_authorization_contract_required j
         \<and> (case job_managed_approval_id j of None \<Rightarrow> False | Some k \<Rightarrow> k \<noteq> []) \<and> con_consumed c
         \<and> con_id c = contract_id \<and> con_attempt_id c = attempt_id \<and> con_fence c = fence) ''owned_consumed_contract_required'')
     (bindE (digest (iss_crypto iss) (con_envelope c)) (\<lambda>stored.
     ignoreE (wire_require (stored = sha) ''owned_consumed_contract_required'') (Inr c))))"

definition result_owned :: "issuer \<Rightarrow> env \<Rightarrow> request \<Rightarrow> string \<Rightarrow> ControlRequest \<Rightarrow> string \<Rightarrow> string \<Rightarrow> int \<Rightarrow> string
    \<Rightarrow> current_user \<Rightarrow> db \<Rightarrow> (ScanJob \<times> JobExecution \<times> ManagedApproval \<times> ManagedContract) res" where
  "result_owned iss env rq jid body contract_id attempt_id fence sha user s =
     bindE (owned env rq jid user body s) (\<lambda>x.
     bindE (someE AttributeError (get_job jid s)) (\<lambda>j.
     ignoreE (writable_engagement j user s)
     (bindE (consumed_contract iss contract_id attempt_id fence sha j s) (\<lambda>c.
     bindE (someE (RuntimeError ''NoResultFound'') (get_approval (con_approval_record_id c) s)) (\<lambda>a.
     ignoreE (wire_require (job_managed_approval_id j = Some (apv_id a) \<and> apv_job_id a = job_id j) ''result_approval_binding'')
     (Inr (j, x, a, c)))))))"

text \<open>The frame of the operations of this file: the fence is checked before anybody is authenticated.\<close>

definition fenced :: "auth_env \<Rightarrow> env \<Rightarrow> clocks \<Rightarrow> request \<Rightarrow> int \<Rightarrow> (current_user \<Rightarrow> db \<Rightarrow> exn + ('a \<times> db)) \<Rightarrow> db \<Rightarrow> 'a res \<times> db" where
  "fenced ac env ck rq fence body = operation ck (\<lambda>s. case integer (VInt fence) 1 MAX_INTEGER of
       Inl e \<Rightarrow> (Inl e, s)
     | Inr _ \<Rightarrow> authenticated (get_current_user ac env rq) body s)"

section \<open>Results\<close>

definition receipt_sha :: "crypto \<Rightarrow> pydict \<Rightarrow> string \<Rightarrow> string \<Rightarrow> string res" where
  "receipt_sha k b artifact cs = digest k (VDict ((''schema'', VStr ''vardr.managed-result/1'') # b @
     [(''artifact_sha256'', VStr artifact), (''case_sha256'', VStr cs)]))"

definition stored_result :: "crypto \<Rightarrow> JobExecution \<Rightarrow> ManagedContract \<Rightarrow> string \<Rightarrow> db \<Rightarrow> ManagedResult option res" where
  "stored_result k x c sha s = (case get_result (con_id c) s of
       None \<Rightarrow> Inr None
     | Some r \<Rightarrow>
         ignoreE (wire_require (mr_job_id r = exe_job_id x \<and> mr_attempt_id r = con_attempt_id c \<and> mr_fence r = con_fence c
           \<and> mr_contract_sha256 r = sha) ''retained_result_binding'')
         (bindE (receipt_sha k (result_binding x c sha) (mr_artifact_sha256 r) (mr_case_sha256 r)) (\<lambda>h.
         ignoreE (wire_require (mr_receipt_sha256 r = h) ''retained_result_binding'') (Inr (Some r)))))"

definition result_ack :: "pydict \<Rightarrow> ManagedResult \<Rightarrow> pyval" where
  "result_ack b r = VDict ((''schema'', VStr ''vardr.managed-result-receipt/1'') # b @
     [(''artifact_sha256'', VStr (mr_artifact_sha256 r)), (''case_sha256'', VStr (mr_case_sha256 r)),
      (''receipt_sha256'', VStr (mr_receipt_sha256 r)), (''evidence_created'', VInt (mr_evidence_created r)),
      (''scan_items_created'', VInt (mr_scan_items_created r))])"

definition opt_str :: "string option \<Rightarrow> pyval" where
  "opt_str v = (case v of None \<Rightarrow> VNone | Some t \<Rightarrow> VStr t)"

definition completion_reply :: "pydict \<Rightarrow> ManagedResult \<Rightarrow> JobExecution \<Rightarrow> pyval res" where
  "completion_reply b r x =
     ignoreE (wire_require (Some (exe_state x) = mr_outcome r \<and> \<not> exe_capacity_reserved x) ''retained_completion_inconsistent'')
     (Inr (VDict ((''schema'', VStr ''vardr.managed-completion/1'') # b @
        [(''receipt_sha256'', VStr (mr_receipt_sha256 r)), (''outcome'', opt_str (mr_outcome r)), (''capacity_reserved'', VBool False)])))"

text \<open>
  \<open>live\<close>: the permission a successful completion needs, with reading \<open>i\<close> of the issuer's clock and reading
  \<open>k\<close> of the execution clock.
\<close>

definition completion_live :: "issuer \<Rightarrow> clocks \<Rightarrow> nat \<Rightarrow> nat \<Rightarrow> bool \<Rightarrow> ScanJob \<Rightarrow> JobExecution \<Rightarrow> ManagedApproval \<Rightarrow> pydict \<Rightarrow> unit res" where
  "completion_live iss ck i k check_state j x a permission =
     bindE (issuer_now ck i) (\<lambda>t.
     let inst = max t (control_clock ck k); p = VDict permission in
     bindE (wire_time p ''expires_at'') (\<lambda>c1. bindE (wire_time p ''testing_end'') (\<lambda>c2.
     bindE (vindex p ''credential_grants'') (\<lambda>grants. bindE (iter_val grants) (\<lambda>gs.
     bindE (mapE (\<lambda>g. wire_time g ''expires_at'') gs) (\<lambda>cs.
     case job_started_at j of
       None \<Rightarrow> Inl (WireRefused ''finite_allocation_required'')
     | Some begun \<Rightarrow>
     ignoreE (wire_require (0 < exe_duration_seconds x) ''finite_allocation_required'')
     (bindE (int_field p ''max_duration_seconds'') (\<lambda>m.
     let ends = [c1, c2] @ cs @ [begun + seconds (min (exe_duration_seconds x) m)] in
     ignoreE (wire_require ((\<not> check_state \<or> exe_state x = ''active'') \<and> inst < exe_expires_at x \<and> inst < Min (set ends))
       ''completion_permission_not_live'')
     (bindE (issuer_now ck (i + 1)) (\<lambda>t'.
     ignoreE (approval (iss_crypto iss) (iss_wire iss) (apv_envelope a) p (apv_owner a) (utc t')) (Inr ())))))))))))"

definition set_result :: "string \<Rightarrow> (ManagedResult \<Rightarrow> ManagedResult) \<Rightarrow> db \<Rightarrow> db" where
  "set_result k f s = s\<lparr>managed_results := amend_key mr_contract_id k f (managed_results s)\<rparr>"

text \<open>The end of an attempt: its final state, its capacity and its job.\<close>

definition end_attempt :: "string \<Rightarrow> string \<Rightarrow> (ScanJob \<Rightarrow> ScanJob) \<Rightarrow> db \<Rightarrow> db" where
  "end_attempt jid outcome g s =
     set_job jid g (set_execution jid (\<lambda>r. r\<lparr>exe_state := outcome, exe_capacity_reserved := False\<rparr>) s)"

text \<open>A first completion: permission for success, the rows, and the permission again.\<close>

definition complete_result :: "issuer \<Rightarrow> env \<Rightarrow> clocks \<Rightarrow> request \<Rightarrow> ControlRequest \<Rightarrow> string \<Rightarrow> string \<Rightarrow> ScanJob \<Rightarrow> JobExecution
    \<Rightarrow> ManagedContract \<Rightarrow> ManagedResult \<Rightarrow> db \<Rightarrow> (pyval \<times> db) res" where
  "complete_result iss env ck rq body sha outcome j x c r s =
     ignoreE (wire_require (exe_state x \<notin> {''completed'', ''failed'', ''cancelled''}) ''foreign_completion'')
     (ignoreE (wire_require (exe_capacity_reserved x) ''owned_reservation_required'')
     (bindE (if outcome = ''completed'' then
               ignoreE (wire_require (\<not> mr_preflight_failed r) ''preflight_failure_not_success'')
               (bindE (claim_permission iss env ck 2 rq j body [''running''] s) (\<lambda>(a, p).
                ignoreE (completion_live iss ck 3 0 True j x a (pj_context p)) (Inr (Some (a, pj_context p)))))
             else Inr None) (\<lambda>live.
      bindE (issuer_now ck 5) (\<lambda>t.
      let s1 = end_attempt (job_id j) outcome (finished_job t outcome)
            (set_result (con_id c) (\<lambda>q. q\<lparr>mr_outcome := Some outcome, mr_finished_at := Some t\<rparr>) s)
      in bindE (locked_time ck 6 s1) (\<lambda>s2.
         ignoreE (case live of None \<Rightarrow> Inr () | Some (a, permission) \<Rightarrow> completion_live iss ck 7 1 False j x a permission)
         (bindE (completion_reply (result_binding x c sha) (r\<lparr>mr_outcome := Some outcome\<rparr>)
            (x\<lparr>exe_state := outcome, exe_capacity_reserved := False\<rparr>)) (\<lambda>reply. Inr (reply, s2))))))))"

definition finish_result :: "issuer \<Rightarrow> env \<Rightarrow> clocks \<Rightarrow> request \<Rightarrow> string \<Rightarrow> ControlRequest \<Rightarrow> string \<Rightarrow> string \<Rightarrow> int \<Rightarrow> string
    \<Rightarrow> string \<Rightarrow> string \<Rightarrow> current_user \<Rightarrow> db \<Rightarrow> exn + (pyval \<times> db)" where
  "finish_result iss env ck rq jid body contract_id attempt_id fence sha receipt outcome user s =
     bindE (result_owned iss env rq jid body contract_id attempt_id fence sha user s) (\<lambda>(j, x, a, c).
     bindE (stored_result (iss_crypto iss) x c sha s) (\<lambda>row.
     case row of
       None \<Rightarrow> Inl (WireRefused ''owned_result_receipt_required'')
     | Some r \<Rightarrow>
     ignoreE (wire_require (mr_receipt_sha256 r = receipt) ''owned_result_receipt_required'')
     (case mr_outcome r of
        Some o1 \<Rightarrow> ignoreE (wire_require (o1 = outcome) ''different_completion'')
          (bindE (completion_reply (result_binding x c sha) r x) (\<lambda>reply. Inr (reply, s)))
      | None \<Rightarrow> complete_result iss env ck rq body sha outcome j x c r s)))"

definition finish_managed :: "auth_env \<Rightarrow> issuer \<Rightarrow> env \<Rightarrow> clocks \<Rightarrow> request \<Rightarrow> string \<Rightarrow> ControlRequest \<Rightarrow> string \<Rightarrow> string \<Rightarrow> int \<Rightarrow> string
    \<Rightarrow> string \<Rightarrow> string \<Rightarrow> bool \<Rightarrow> db \<Rightarrow> pyval res \<times> db" where
  "finish_managed ac iss env ck rq jid body contract_id attempt_id fence sha receipt outcome confirmed s =
     (if outcome \<in> {''completed'', ''failed'', ''cancelled''} \<and> confirmed
      then fenced ac env ck rq fence (finish_result iss env ck rq jid body contract_id attempt_id fence sha receipt outcome) s
      else (Inl (WireRefused ''known_termination_required''), s))"

text \<open>\<open>Results.inspect\<close>: the transaction is rolled back.\<close>

definition inspect_result :: "auth_env \<Rightarrow> issuer \<Rightarrow> env \<Rightarrow> clocks \<Rightarrow> request \<Rightarrow> string \<Rightarrow> ControlRequest \<Rightarrow> string \<Rightarrow> string \<Rightarrow> int \<Rightarrow> string
    \<Rightarrow> db \<Rightarrow> pyval res \<times> db" where
  "inspect_result ac iss env ck rq jid body contract_id attempt_id fence sha = fenced ac env ck rq fence (\<lambda>user s.
     bindE (result_owned iss env rq jid body contract_id attempt_id fence sha user s) (\<lambda>(j, x, a, c).
     bindE (stored_result (iss_crypto iss) x c sha s) (\<lambda>row.
     let b = result_binding x c sha in
     bindE (case row of None \<Rightarrow> Inr VNone
       | Some r \<Rightarrow> (case mr_outcome r of None \<Rightarrow> Inr VNone | Some t \<Rightarrow> if t = [] then Inr VNone else completion_reply b r x)) (\<lambda>completion.
     Inr (VDict ((''schema'', VStr ''vardr.managed-reconciliation/1'') # b @ [(''consumed'', VBool True),
       (''capacity_reserved'', VBool (exe_capacity_reserved x)), (''execution_state'', VStr (exe_state x)),
       (''result'', case row of None \<Rightarrow> VNone | Some r \<Rightarrow> result_ack b r), (''completion'', completion)]), s)))))"

section \<open>Stops\<close>

definition CANCEL_CAUSES :: "string list" where
  "CANCEL_CAUSES = [''local_emergency_stop'', ''remote_stop_requested'']"

definition FAIL_CAUSES :: "string list" where
  "FAIL_CAUSES = [''control_cap_unavailable'', ''control_lease_expired'', ''authorization_deadline'', ''tool_timeout'',
     ''descendants_after_tool_exit'']"

definition CAUSES :: "string list" where
  "CAUSES = CANCEL_CAUSES @ FAIL_CAUSES"

definition cause_outcome :: "string \<Rightarrow> string" where
  "cause_outcome cause = (if cause \<in> set CANCEL_CAUSES then ''cancelled'' else ''failed'')"

definition stop_hash :: "crypto \<Rightarrow> pydict \<Rightarrow> string \<Rightarrow> string \<Rightarrow> string res" where
  "stop_hash k b outcome cause = digest k (VDict ((''schema'', VStr ''vardr.managed-stop/1'') # b @
     [(''outcome'', VStr outcome), (''cause'', VStr cause), (''termination_confirmed'', VBool True)]))"

definition stored_stop :: "crypto \<Rightarrow> JobExecution \<Rightarrow> ManagedContract \<Rightarrow> string \<Rightarrow> db \<Rightarrow> ManagedStop option res" where
  "stored_stop k x c sha s = (case get_stop (con_id c) s of
       None \<Rightarrow> Inr None
     | Some r \<Rightarrow>
         ignoreE (wire_require (mst_job_id r = exe_job_id x \<and> mst_attempt_id r = con_attempt_id c \<and> mst_fence r = con_fence c
           \<and> mst_contract_sha256 r = sha \<and> mst_cause r \<in> set CAUSES \<and> mst_outcome r = cause_outcome (mst_cause r)) ''retained_stop_binding'')
         (bindE (stop_hash k (result_binding x c sha) (mst_outcome r) (mst_cause r)) (\<lambda>h.
         ignoreE (wire_require (mst_receipt_sha256 r = h) ''retained_stop_binding'') (Inr (Some r)))))"

definition stop_ack :: "pydict \<Rightarrow> ManagedStop \<Rightarrow> JobExecution \<Rightarrow> pyval res" where
  "stop_ack b r x =
     ignoreE (wire_require (exe_state x = mst_outcome r \<and> \<not> exe_capacity_reserved x) ''retained_stop_inconsistent'')
     (Inr (VDict ((''schema'', VStr ''vardr.managed-stop-receipt/1'') # b @
        [(''outcome'', VStr (mst_outcome r)), (''cause'', VStr (mst_cause r)), (''receipt_sha256'', VStr (mst_receipt_sha256 r)),
         (''capacity_reserved'', VBool False)])))"

definition stopped_job :: "int \<Rightarrow> string \<Rightarrow> ScanJob \<Rightarrow> ScanJob" where
  "stopped_job t cause j = j\<lparr>job_status := ''failed'', job_completed_at := Some t, job_error_message := cause\<rparr>"

text \<open>A first report of a stop.\<close>

definition record_stop :: "issuer \<Rightarrow> clocks \<Rightarrow> string \<Rightarrow> string \<Rightarrow> string \<Rightarrow> JobExecution \<Rightarrow> ManagedContract \<Rightarrow> db \<Rightarrow> (pyval \<times> db) res" where
  "record_stop iss ck sha outcome cause x c s =
     bindE (stored_result (iss_crypto iss) x c sha s) (\<lambda>result.
     ignoreE (wire_require (result = None) ''result_protocol_already_started'')
     (ignoreE (wire_require (exe_state x \<notin> {''completed'', ''failed'', ''cancelled''} \<and> exe_capacity_reserved x) ''owned_reservation_required'')
     (bindE (stop_hash (iss_crypto iss) (result_binding x c sha) outcome cause) (\<lambda>h.
      bindE (issuer_now ck 2) (\<lambda>t.
      let row = \<lparr>mst_contract_id = con_id c, mst_job_id = exe_job_id x, mst_attempt_id = con_attempt_id c, mst_fence = con_fence c,
            mst_contract_sha256 = sha, mst_outcome = outcome, mst_cause = cause, mst_receipt_sha256 = h, mst_finished_at = t\<rparr>;
          s1 = end_attempt (exe_job_id x) outcome (stopped_job t cause) (s\<lparr>managed_stops := managed_stops s @ [row]\<rparr>)
      in bindE (locked_time ck 3 s1) (\<lambda>s2.
         bindE (stop_ack (result_binding x c sha) row (x\<lparr>exe_state := outcome, exe_capacity_reserved := False\<rparr>)) (\<lambda>ack. Inr (ack, s2))))))))"

definition report_body :: "issuer \<Rightarrow> env \<Rightarrow> clocks \<Rightarrow> request \<Rightarrow> string \<Rightarrow> ControlRequest \<Rightarrow> string \<Rightarrow> string \<Rightarrow> int \<Rightarrow> string
    \<Rightarrow> string \<Rightarrow> string \<Rightarrow> current_user \<Rightarrow> db \<Rightarrow> exn + (pyval \<times> db)" where
  "report_body iss env ck rq jid body contract_id attempt_id fence sha outcome cause user s =
     bindE (result_owned iss env rq jid body contract_id attempt_id fence sha user s) (\<lambda>(j, x, a, c).
     bindE (stored_stop (iss_crypto iss) x c sha s) (\<lambda>row.
     case row of
       Some r \<Rightarrow> ignoreE (wire_require (mst_outcome r = outcome \<and> mst_cause r = cause) ''different_stop_receipt'')
         (bindE (stop_ack (result_binding x c sha) r x) (\<lambda>ack. Inr (ack, s)))
     | None \<Rightarrow> record_stop iss ck sha outcome cause x c s))"

definition report_stop :: "auth_env \<Rightarrow> issuer \<Rightarrow> env \<Rightarrow> clocks \<Rightarrow> request \<Rightarrow> string \<Rightarrow> ControlRequest \<Rightarrow> string \<Rightarrow> string \<Rightarrow> int \<Rightarrow> string
    \<Rightarrow> string \<Rightarrow> string \<Rightarrow> bool \<Rightarrow> db \<Rightarrow> pyval res \<times> db" where
  "report_stop ac iss env ck rq jid body contract_id attempt_id fence sha outcome cause confirmed s =
     (if cause \<in> set CAUSES \<and> confirmed \<and> outcome = cause_outcome cause
      then fenced ac env ck rq fence (report_body iss env ck rq jid body contract_id attempt_id fence sha outcome cause) s
      else (Inl (WireRefused ''known_stop_report_required''), s))"

text \<open>\<open>Stops.inspect\<close>\<close>

definition inspect_stop :: "auth_env \<Rightarrow> issuer \<Rightarrow> env \<Rightarrow> clocks \<Rightarrow> request \<Rightarrow> string \<Rightarrow> ControlRequest \<Rightarrow> string \<Rightarrow> string \<Rightarrow> int \<Rightarrow> string
    \<Rightarrow> db \<Rightarrow> pyval res \<times> db" where
  "inspect_stop ac iss env ck rq jid body contract_id attempt_id fence sha = fenced ac env ck rq fence (\<lambda>user s.
     bindE (result_owned iss env rq jid body contract_id attempt_id fence sha user s) (\<lambda>(j, x, a, c).
     bindE (stored_stop (iss_crypto iss) x c sha s) (\<lambda>row.
     let b = result_binding x c sha in
     bindE (case row of None \<Rightarrow> Inr VNone | Some r \<Rightarrow> stop_ack b r x) (\<lambda>stop.
     Inr (VDict ((''schema'', VStr ''vardr.managed-stop-observation/1'') # b @ [(''consumed'', VBool True),
       (''capacity_reserved'', VBool (exe_capacity_reserved x)), (''execution_state'', VStr (exe_state x)), (''stop'', stop)]), s)))))"

section \<open>Observations\<close>

definition root_binding :: "issuer \<Rightarrow> string \<Rightarrow> ManagedEnrollment \<Rightarrow> string \<Rightarrow> string \<Rightarrow> string \<Rightarrow> pydict" where
  "root_binding iss jid enr plan_sha case_sha association_sha =
     [(''origin'', VStr (iss_origin iss)), (''job_id'', VStr jid), (''runner_id'', VStr (enr_runner_id enr)),
      (''plan_sha256'', VStr plan_sha), (''case_sha256'', VStr case_sha), (''association_sha256'', VStr association_sha)]"

text \<open>The three fingerprints the observer names are those of the approval and of the enrolled principal.\<close>

definition fingerprints :: "issuer \<Rightarrow> ManagedApproval \<Rightarrow> ManagedEnrollment \<Rightarrow> string \<Rightarrow> string \<Rightarrow> string \<Rightarrow> string \<Rightarrow> bool res" where
  "fingerprints iss a enr p plan_sha case_sha association_sha =
     andE (bindE (digest (iss_crypto iss) (apv_plan a)) (\<lambda>h. Inr (h = plan_sha)))
    (andE (bindE (vindex (apv_plan a) ''case_hash'') (\<lambda>v. Inr (v = VStr case_sha)))
          (bindE (digest (iss_crypto iss) (VDict [(''origin'', VStr (iss_origin iss)), (''runner_id'', VStr (enr_runner_id enr)),
              (''principal_sha256'', VStr p)])) (\<lambda>h. Inr (h = association_sha))))"

text \<open>No contract and no attempt: then nothing may have been issued for the job.\<close>

definition unclaimed :: "ManagedApproval \<Rightarrow> ScanJob \<Rightarrow> db \<Rightarrow> bool" where
  "unclaimed a j s = (job_contract (job_id j) s = None \<and> get_execution (job_id j) s = None \<and> apv_issued a = 0 \<and> job_status j = ''pending''
     \<and> \<not> list_ex (\<lambda>r. mr_job_id r = job_id j) (managed_results s) \<and> \<not> list_ex (\<lambda>r. mst_job_id r = job_id j) (managed_stops s))"

text \<open>The rows of a claim fit the approval, and the signed payload fits the rows.\<close>

definition claim_rows_fit :: "issuer \<Rightarrow> env \<Rightarrow> ScanJob \<Rightarrow> ManagedApproval \<Rightarrow> ManagedEnrollment \<Rightarrow> string \<Rightarrow> string \<Rightarrow> JobExecution
    \<Rightarrow> ManagedContract \<Rightarrow> bool" where
  "claim_rows_fit iss env j a enr p case_sha x c =
     (con_approval_record_id c = apv_id a \<and> exe_owner x = apv_owner a \<and> exe_origin x = iss_origin iss
      \<and> exe_runner_id x = enr_runner_id enr \<and> exe_principal_hash x = p \<and> job_case_snapshot j \<noteq> VNone
      \<and> case_hash env (job_case_snapshot j) = case_sha)"

definition payload_fits :: "pyval \<Rightarrow> string \<Rightarrow> ManagedEnrollment \<Rightarrow> string \<Rightarrow> ManagedApproval \<Rightarrow> ManagedContract \<Rightarrow> bool res" where
  "payload_fits payload jid enr plan_sha a c =
     andE (bindE (vindex payload ''job_id'') (\<lambda>v. Inr (v = VStr jid)))
    (andE (bindE (vindex payload ''runner_id'') (\<lambda>v. Inr (v = VStr (enr_runner_id enr))))
    (andE (bindE (vindex payload ''plan_sha256'') (\<lambda>v. Inr (v = VStr plan_sha)))
    (andE (bindE (vindex payload ''authority_revision'') (\<lambda>v. Inr (py_eq v (VInt (apv_revision a)))))
          (bindE (vindex payload ''contract_id'') (\<lambda>u. bindE (vindex payload ''attempt_id'') (\<lambda>v. bindE (vindex payload ''fence'') (\<lambda>w.
           Inr (u = VStr (con_id c) \<and> v = VStr (con_attempt_id c) \<and> py_eq w (VInt (con_fence c))))))))))"

text \<open>What is reported of a claim: the contract, the attempt, and how it was settled.\<close>

definition observed_claim :: "issuer \<Rightarrow> env \<Rightarrow> pydict \<Rightarrow> string \<Rightarrow> string \<Rightarrow> string \<Rightarrow> ScanJob \<Rightarrow> ManagedApproval \<Rightarrow> ManagedEnrollment
    \<Rightarrow> JobExecution \<Rightarrow> ManagedContract \<Rightarrow> db \<Rightarrow> pyval res" where
  "observed_claim iss env root p plan_sha case_sha j a enr x c s =
     ignoreE (wire_require (claim_rows_fit iss env j a enr p case_sha x c) ''inconsistent_observed_claim'')
     (bindE (vindex (con_envelope c) ''payload'') (\<lambda>text. bindE (unb64 text MAX_PAYLOAD) (\<lambda>data.
      bindE (wire_parse (iss_crypto iss) data MAX_PAYLOAD) (\<lambda>payload.
      ignoreE (integer (VInt (con_fence c)) 1 MAX_INTEGER)
      (bindE (payload_fits payload (job_id j) enr plan_sha a c) (\<lambda>fits.
      ignoreE (wire_require fits ''inconsistent_observed_claim'')
      (bindE (digest (iss_crypto iss) (con_envelope c)) (\<lambda>sha.
      bindE (stored_result (iss_crypto iss) x c sha s) (\<lambda>result.
      bindE (stored_stop (iss_crypto iss) x c sha s) (\<lambda>stop.
      ignoreE (wire_require (con_consumed c \<or> (result = None \<and> stop = None)) ''inconsistent_observed_consumption'')
      (let b = result_binding x c sha
       in bindE (case result of None \<Rightarrow> Inr VNone
            | Some r \<Rightarrow> (case mr_outcome r of None \<Rightarrow> Inr VNone | Some t \<Rightarrow> if t = [] then Inr VNone else completion_reply b r x)) (\<lambda>completion.
          bindE (case stop of None \<Rightarrow> Inr VNone | Some r \<Rightarrow> stop_ack b r x) (\<lambda>stopped.
          bindE (vindex (apv_context a) ''authority_sha256'') (\<lambda>authority.
          Inr (VDict ((''schema'', VStr ''vardr.managed-claim-observation/1'') # root @
            [(''claim'', VDict [(''contract_id'', VStr (con_id c)), (''attempt_id'', VStr (con_attempt_id c)), (''fence'', VInt (con_fence c)),
                (''contract_sha256'', VStr sha), (''consumed'', VBool (con_consumed c)), (''authority_revision'', VInt (apv_revision a)),
                (''authority_sha256'', authority)]),
             (''execution_state'', VStr (exe_state x)), (''capacity_reserved'', VBool (exe_capacity_reserved x)),
             (''result'', case result of None \<Rightarrow> VNone | Some r \<Rightarrow> result_ack b r), (''completion'', completion), (''stop'', stopped)]))))))))))))))))"

definition unclaimed_reply :: "pydict \<Rightarrow> pyval" where
  "unclaimed_reply root = VDict ((''schema'', VStr ''vardr.managed-claim-observation/1'') # root @
     [(''claim'', VNone), (''execution_state'', VNone), (''capacity_reserved'', VBool False), (''result'', VNone),
      (''completion'', VNone), (''stop'', VNone)])"

definition observed :: "issuer \<Rightarrow> env \<Rightarrow> request \<Rightarrow> string \<Rightarrow> ClaimControl \<Rightarrow> string \<Rightarrow> string \<Rightarrow> string \<Rightarrow> current_user \<Rightarrow> db \<Rightarrow> exn + (pyval \<times> db)" where
  "observed iss env rq jid body plan_sha case_sha association_sha user s =
     bindE (lock_job jid user s) (\<lambda>j.
     ignoreE (writable_engagement j user s)
     (case job_approval j s of
        None \<Rightarrow> Inl (WireRefused ''owned_approval_required'')
      | Some a \<Rightarrow>
     ignoreE (wire_require (job_authorization_contract_required j \<and> apv_owner a = cu_github_id user \<and> apv_job_id a = job_id j
         \<and> apv_engagement_id a = job_program_id j) ''owned_approval_required'')
     (bindE (issuer_enrollment iss (apv_enrollment_id a) (apv_owner a) s) (\<lambda>(enr, key).
     bindE (principal env rq) (\<lambda>p.
     ignoreE (wire_require (cc_origin body = iss_origin iss \<and> enr_origin enr = iss_origin iss \<and> enrolled_principal iss env rq body enr key)
       ''enrolled_observer_required'')
     (bindE (fingerprints iss a enr p plan_sha case_sha association_sha) (\<lambda>same.
     ignoreE (wire_require same ''observation_fingerprint_binding'')
     (let root = root_binding iss jid enr plan_sha case_sha association_sha
      in case (job_contract jid s, get_execution jid s) of
           (Some c, Some x) \<Rightarrow> bindE (observed_claim iss env root p plan_sha case_sha j a enr x c s) (\<lambda>reply. Inr (reply, s))
         | _ \<Rightarrow> ignoreE (wire_require (unclaimed a j s) ''inconsistent_observed_claim'') (Inr (unclaimed_reply root, s))))))))))"

definition observe_claim :: "auth_env \<Rightarrow> issuer \<Rightarrow> env \<Rightarrow> clocks \<Rightarrow> request \<Rightarrow> string \<Rightarrow> ClaimControl \<Rightarrow> string \<Rightarrow> string \<Rightarrow> string \<Rightarrow> db
    \<Rightarrow> pyval res \<times> db" where
  "observe_claim ac iss env ck rq jid body plan_sha case_sha association_sha s =
     (if list_all lower_hex_digest [plan_sha, case_sha, association_sha]
      then operation ck (authenticated (get_current_user ac env rq) (observed iss env rq jid body plan_sha case_sha association_sha)) s
      else (Inl (WireRefused ''invalid_observation_hash''), s))"

end
