(* ===== verification/Settlements.thy ===== *)
theory Settlements
  imports Issuer_Protocol Managed_Results
begin

text \<open>
  Completions and stops of managed attempts as changes of the two protocols: each settles an unsettled attempt
  once, or answers again for the settlement it finds, and an observation keeps every row.
\<close>

lemma closes_stopped [intro]: "closes (stopped_job t cause)"
  unfolding closes_def stopped_job_def by fastforce

lemma records_evolution:
  assumes "scan_jobs s' = scan_jobs s" "job_executions s' = job_executions s" "programs s' = programs s"
    "managed_approvals s' = managed_approvals s" "managed_contracts s' = managed_contracts s" "managed_clock s' = managed_clock s"
    "uuids_drawn s' = uuids_drawn s" "authority_tables s' = authority_tables s"
  shows "evolution U s s'"
proof -
  have "micro U s s'" by (rule frame) (simp_all add: assms)
  moreover have "issuer_micro U s s'" by (rule other) (simp_all add: assms)
  ultimately show ?thesis by (simp add: evolution_def r_into_rtranclp assms)
qed

lemma end_attempt_evolution:
  assumes U: "inj U" and ok: "tables_ok U s" and x: "get_execution jid s = Some x" "exe_state x \<notin> set FINAL_STATES"
    and outcome: "outcome \<in> set FINAL_STATES" and g: "closes g"
  shows "evolution U s (end_attempt jid outcome g s)"
proof -
  obtain j where "get_job jid s = Some j" using execution_has_job [OF ok x(1)] by blast
  then have "history U s (end_attempt jid outcome g s)"
    unfolding end_attempt_def using finish_final_history [OF U ok x(1) _ x(2) outcome g] by blast
  moreover have "issuer_micro U s (end_attempt jid outcome g s)"
    by (rule other) (simp_all add: end_attempt_def set_job_def set_execution_def)
  ultimately show ?thesis by (simp add: evolution_def r_into_rtranclp end_attempt_def)
qed

lemma end_attempt_execution:
  assumes "get_execution jid s = Some x"
  shows "get_execution jid (end_attempt jid outcome g s) = Some (x\<lparr>exe_state := outcome, exe_capacity_reserved := False\<rparr>)"
  using assms executions.get_upd [of "\<lambda>r. r\<lparr>exe_state := outcome, exe_capacity_reserved := False\<rparr>" jid jid s]
  by (simp add: end_attempt_def get_execution_def set_job_def)

lemma end_attempt_job:
  assumes "get_job jid s = Some j" and "closes g"
  shows "get_job jid (end_attempt jid outcome g s) = Some (g j)"
proof -
  have "job_id (g i) = job_id i" for i using assms(2) unfolding closes_def by (metis ScanJob.select_convs(1) ScanJob.surjective ScanJob.update_convs)
  then show ?thesis
    using assms jobs.get_upd [of g jid jid "set_execution jid (\<lambda>r. r\<lparr>exe_state := outcome, exe_capacity_reserved := False\<rparr>) s"]
    by (simp add: end_attempt_def get_job_def set_execution_def)
qed

section \<open>The owned contract\<close>

lemma consumed_contract_Inr:
  "consumed_contract iss k t f sha j s = Inr c \<Longrightarrow> job_contract (job_id j) s = Some c \<and> con_consumed c \<and> con_id c = k
     \<and> con_attempt_id c = t \<and> con_fence c = f \<and> digest (iss_crypto iss) (con_envelope c) = Inr sha"
  by (auto simp: consumed_contract_def exn_simps split: option.splits)

lemma result_owned_parts:
  assumes "result_owned iss env rq jid body k t f sha user s = Inr (j, x, a, c)"
  shows "owned env rq jid user body s = Inr x" "get_execution jid s = Some x" "exe_job_id x = jid" "get_job jid s = Some j" "job_id j = jid"
    "job_contract jid s = Some c" "con_consumed c" "con_id c = k" "digest (iss_crypto iss) (con_envelope c) = Inr sha"
proof -
  have o: "owned env rq jid user body s = Inr x" "get_job jid s = Some j" "consumed_contract iss k t f sha j s = Inr c"
    using assms by (auto simp: result_owned_def exn_simps)
  then show "owned env rq jid user body s = Inr x" "get_job jid s = Some j" by blast+
  show "get_execution jid s = Some x" by (rule owned_get [OF o(1)])
  then show "exe_job_id x = jid" by (rule executions.get_key)
  show i: "job_id j = jid" by (rule jobs.get_key [OF o(2)])
  show "job_contract jid s = Some c" "con_consumed c" "con_id c = k" "digest (iss_crypto iss) (con_envelope c) = Inr sha"
    using consumed_contract_Inr [OF o(3)] i by auto
qed

section \<open>Completion\<close>

lemma outcomes_final: "outcome \<in> {''completed'', ''failed'', ''cancelled''} \<longleftrightarrow> outcome \<in> set FINAL_STATES"
  by (auto simp: FINAL_STATES_def)

lemma complete_result_parts:
  assumes "complete_result iss env ck rq body sha outcome j x c r s = Inr (v, s')"
  obtains t live s1 where "exe_state x \<notin> set FINAL_STATES" "exe_capacity_reserved x"
    "if outcome = ''completed'' then \<not> mr_preflight_failed r \<and> (\<exists>a p. live = Some (a, pj_context p)
        \<and> claim_permission iss env ck 2 rq j body [''running''] s = Inr (a, p) \<and> completion_live iss ck 3 0 True j x a (pj_context p) = Inr ())
     else live = None"
    "s1 = end_attempt (job_id j) outcome (finished_job t outcome)
       (set_result (con_id c) (\<lambda>q. q\<lparr>mr_outcome := Some outcome, mr_finished_at := Some t\<rparr>) s)"
    "locked_time ck 6 s1 = Inr s'"
    "case live of None \<Rightarrow> True | Some (a, permission) \<Rightarrow> completion_live iss ck 7 1 False j x a permission = Inr ()"
proof -
  obtain live t s2 where *: "exe_state x \<notin> {''completed'', ''failed'', ''cancelled''}" "exe_capacity_reserved x"
    "(if outcome = ''completed'' then
               ignoreE (wire_require (\<not> mr_preflight_failed r) ''preflight_failure_not_success'')
               (bindE (claim_permission iss env ck 2 rq j body [''running''] s) (\<lambda>(a, p).
                ignoreE (completion_live iss ck 3 0 True j x a (pj_context p)) (Inr (Some (a, pj_context p)))))
             else Inr None) = Inr live"
    "locked_time ck 6 (end_attempt (job_id j) outcome (finished_job t outcome)
       (set_result (con_id c) (\<lambda>q. q\<lparr>mr_outcome := Some outcome, mr_finished_at := Some t\<rparr>) s)) = Inr s2"
    "ignoreE (case live of None \<Rightarrow> Inr () | Some (a, permission) \<Rightarrow> completion_live iss ck 7 1 False j x a permission)
         (bindE (completion_reply (result_binding x c sha) (r\<lparr>mr_outcome := Some outcome\<rparr>)
            (x\<lparr>exe_state := outcome, exe_capacity_reserved := False\<rparr>)) (\<lambda>reply. Inr (reply, s2))) = Inr (v, s')"
    using assms unfolding complete_result_def by (auto simp: exn_simps Let_def)
  show thesis
    by (rule that [OF _ *(2) _ refl, of live t])
      (use * in \<open>auto simp: FINAL_STATES_def exn_simps split: if_splits option.splits\<close>)
qed

lemma completion_reply_Inr: "completion_reply b r x = Inr v \<Longrightarrow> Some (exe_state x) = mr_outcome r \<and> \<not> exe_capacity_reserved x"
  by (auto simp: completion_reply_def exn_simps)

text \<open>Either the completion was recorded before with this very outcome, or it is recorded now.\<close>

lemma finish_result_cases:
  assumes "finish_result iss env ck rq jid body k t f sha receipt outcome user s = Inr (v, s')"
  obtains (again) j x a c where "result_owned iss env rq jid body k t f sha user s = Inr (j, x, a, c)"
      "exe_state x = outcome" "\<not> exe_capacity_reserved x" "s' = s"
  | (first) j x a c r where "result_owned iss env rq jid body k t f sha user s = Inr (j, x, a, c)"
      "stored_result (iss_crypto iss) x c sha s = Inr (Some r)" "mr_receipt_sha256 r = receipt" "mr_outcome r = None"
      "complete_result iss env ck rq body sha outcome j x c r s = Inr (v, s')"
proof -
  obtain j x a c r where *: "result_owned iss env rq jid body k t f sha user s = Inr (j, x, a, c)"
    "stored_result (iss_crypto iss) x c sha s = Inr (Some r)" "mr_receipt_sha256 r = receipt"
    "(case mr_outcome r of
        Some o1 \<Rightarrow> ignoreE (wire_require (o1 = outcome) ''different_completion'')
          (bindE (completion_reply (result_binding x c sha) r x) (\<lambda>reply. Inr (reply, s)))
      | None \<Rightarrow> complete_result iss env ck rq body sha outcome j x c r s) = Inr (v, s')"
  proof -
    obtain j x a c row where o: "result_owned iss env rq jid body k t f sha user s = Inr (j, x, a, c)"
        "stored_result (iss_crypto iss) x c sha s = Inr row"
        "(case row of None \<Rightarrow> Inl (WireRefused ''owned_result_receipt_required'') | Some r \<Rightarrow>
          ignoreE (wire_require (mr_receipt_sha256 r = receipt) ''owned_result_receipt_required'')
          (case mr_outcome r of
            Some o1 \<Rightarrow> ignoreE (wire_require (o1 = outcome) ''different_completion'')
              (bindE (completion_reply (result_binding x c sha) r x) (\<lambda>reply. Inr (reply, s)))
          | None \<Rightarrow> complete_result iss env ck rq body sha outcome j x c r s)) = Inr (v, s')"
      using assms by (auto simp: finish_result_def exn_simps)
    then show thesis using that by (cases row) (auto simp: exn_simps)
  qed
  show thesis
  proof (cases "mr_outcome r")
    case None with * first show thesis by simp
  next
    case (Some o1)
    with *(4) have "o1 = outcome" "s' = s" "\<exists>w. completion_reply (result_binding x c sha) r x = Inr w" by (auto simp: exn_simps)
    with Some * again show thesis by (auto dest: completion_reply_Inr)
  qed
qed

lemma finish_result_evolution:
  assumes U: "inj U" and ok: "tables_ok U s" and outcome: "outcome \<in> set FINAL_STATES"
    and f: "finish_result iss env ck rq jid body k t f sha receipt outcome user s = Inr (v, s')"
  shows "evolution U s s'"
  using f
proof (cases rule: finish_result_cases)
  case again then show ?thesis by simp
next
  case (first j x a c r)
  note own = result_owned_parts [OF first(1)]
  from first(5) show ?thesis
  proof (rule complete_result_parts)
    fix u live s1
    let ?r = "set_result (con_id c) (\<lambda>q. q\<lparr>mr_outcome := Some outcome, mr_finished_at := Some u\<rparr>) s"
    assume x: "exe_state x \<notin> set FINAL_STATES" and s1: "s1 = end_attempt (job_id j) outcome (finished_job u outcome) ?r"
      and s': "locked_time ck 6 s1 = Inr s'"
    have e1: "evolution U s ?r" by (rule records_evolution) (simp_all add: set_result_def authority_tables_def)
    have "get_execution jid ?r = Some x" using own(2) by (simp add: get_execution_def set_result_def)
    then have "evolution U ?r s1"
      unfolding s1 own(5) by (intro end_attempt_evolution [OF U evolution_ok [OF e1 U ok] _ x outcome]) auto
    with e1 locked_time_evolution [OF s'] show ?thesis by (blast intro: evolution_trans)
  qed
qed

text \<open>An operation of this kind, whose body keeps the protocols.\<close>

lemma fenced_operation:
  assumes "fenced ac env ck rq fence body s = (r, s')"
  shows "(\<exists>e. integer (VInt fence) 1 MAX_INTEGER = Inl e) \<or> operation ck (authenticated (get_current_user ac env rq) body) s = (r, s')"
  using assms by (cases "integer (VInt fence) 1 MAX_INTEGER") (auto simp: fenced_def)

lemma fenced_evolution:
  assumes f: "fenced ac env ck rq fence body s = (r, s')" and U: "inj U" and ok: "tables_ok U s"
    and b: "\<And>user s1 v s2. tables_ok U s1 \<Longrightarrow> body user s1 = Inr (v, s2) \<Longrightarrow> evolution U s1 s2"
  shows "evolution U s s'"
proof -
  have "operation ck (\<lambda>s. case integer (VInt fence) 1 MAX_INTEGER of
       Inl e \<Rightarrow> (Inl e, s) | Inr _ \<Rightarrow> authenticated (get_current_user ac env rq) body s) s = (r, s')"
    using f by (simp add: fenced_def)
  then show ?thesis
  proof (rule operation_evolution [OF _ U ok])
    fix r s1 s2
    assume "tables_ok U s1" "(case integer (VInt fence) 1 MAX_INTEGER of
       Inl e \<Rightarrow> (Inl e, s1) | Inr _ \<Rightarrow> authenticated (get_current_user ac env rq) body s1) = (r, s2)"
    then show "evolution U s1 s2"
      by (auto split: sum.splits intro: authenticated_evolution [OF _ U _ _ b] current_user_untouched)
  qed
qed

lemma finish_managed_evolution:
  assumes "inj U" and "tables_ok U s" and "finish_managed ac iss env ck rq jid body k t f sha receipt outcome confirmed s = (r, s')"
  shows "evolution U s s'"
proof (cases "outcome \<in> {''completed'', ''failed'', ''cancelled''} \<and> confirmed")
  case False then show ?thesis using assms(3) by (auto simp: finish_managed_def)
next
  case True
  then have o: "outcome \<in> set FINAL_STATES" using outcomes_final by blast
  have "fenced ac env ck rq f (finish_result iss env ck rq jid body k t f sha receipt outcome) s = (r, s')"
    using assms(3) True by (simp add: finish_managed_def)
  then show ?thesis by (rule fenced_evolution [OF _ assms(1,2)]) (rule finish_result_evolution [OF assms(1) _ o])
qed

section \<open>Stops\<close>

lemma cause_outcome_final: "cause_outcome cause \<in> set FINAL_STATES"
  by (simp add: cause_outcome_def FINAL_STATES_def)

lemma stop_ack_Inr: "stop_ack b r x = Inr v \<Longrightarrow> exe_state x = mst_outcome r \<and> \<not> exe_capacity_reserved x"
  by (auto simp: stop_ack_def exn_simps)

lemma record_stop_parts:
  assumes "record_stop iss ck sha outcome cause x c s = Inr (v, s')"
  obtains t row s1 where "stored_result (iss_crypto iss) x c sha s = Inr None" "exe_state x \<notin> set FINAL_STATES" "exe_capacity_reserved x"
    "s1 = end_attempt (exe_job_id x) outcome (stopped_job t cause) (s\<lparr>managed_stops := managed_stops s @ [row]\<rparr>)"
    "locked_time ck 3 s1 = Inr s'"
proof -
  obtain t row where *: "stored_result (iss_crypto iss) x c sha s = Inr None" "exe_state x \<notin> {''completed'', ''failed'', ''cancelled''}"
    "exe_capacity_reserved x" "locked_time ck 3 (end_attempt (exe_job_id x) outcome (stopped_job t cause) (s\<lparr>managed_stops := managed_stops s @ [row]\<rparr>)) = Inr s'"
    using assms by (auto simp: record_stop_def exn_simps Let_def)
  show thesis by (rule that [OF *(1) _ *(3) refl *(4)]) (use *(2) outcomes_final in blast)
qed

lemma report_body_cases:
  assumes "report_body iss env ck rq jid body k t f sha outcome cause user s = Inr (v, s')"
  obtains (again) j x a c where "result_owned iss env rq jid body k t f sha user s = Inr (j, x, a, c)"
      "exe_state x = outcome" "\<not> exe_capacity_reserved x" "s' = s"
  | (first) j x a c where "result_owned iss env rq jid body k t f sha user s = Inr (j, x, a, c)"
      "stored_stop (iss_crypto iss) x c sha s = Inr None" "record_stop iss ck sha outcome cause x c s = Inr (v, s')"
proof -
  obtain j x a c row where *: "result_owned iss env rq jid body k t f sha user s = Inr (j, x, a, c)"
    "stored_stop (iss_crypto iss) x c sha s = Inr row"
    "(case row of
       Some r \<Rightarrow> ignoreE (wire_require (mst_outcome r = outcome \<and> mst_cause r = cause) ''different_stop_receipt'')
         (bindE (stop_ack (result_binding x c sha) r x) (\<lambda>ack. Inr (ack, s)))
     | None \<Rightarrow> record_stop iss ck sha outcome cause x c s) = Inr (v, s')"
    using assms by (auto simp: report_body_def exn_simps)
  show thesis
  proof (cases row)
    case None with * first show thesis by simp
  next
    case (Some r)
    with *(3) have "mst_outcome r = outcome" "s' = s" "\<exists>w. stop_ack (result_binding x c sha) r x = Inr w" by (auto simp: exn_simps)
    with * again show thesis by (auto dest: stop_ack_Inr)
  qed
qed

lemma report_body_evolution:
  assumes U: "inj U" and ok: "tables_ok U s" and outcome: "outcome \<in> set FINAL_STATES"
    and f: "report_body iss env ck rq jid body k t f sha outcome cause user s = Inr (v, s')"
  shows "evolution U s s'"
  using f
proof (cases rule: report_body_cases)
  case again then show ?thesis by simp
next
  case (first j x a c)
  note own = result_owned_parts [OF first(1)]
  from first(3) show ?thesis
  proof (rule record_stop_parts)
    fix u row s1
    let ?r = "s\<lparr>managed_stops := managed_stops s @ [row]\<rparr>"
    assume x: "exe_state x \<notin> set FINAL_STATES" and s1: "s1 = end_attempt (exe_job_id x) outcome (stopped_job u cause) ?r"
      and s': "locked_time ck 3 s1 = Inr s'"
    have e1: "evolution U s ?r" by (rule records_evolution) (simp_all add: authority_tables_def)
    have "get_execution jid ?r = Some x" using own(2) by (simp add: get_execution_def)
    then have "evolution U ?r s1"
      unfolding s1 own(3) by (intro end_attempt_evolution [OF U evolution_ok [OF e1 U ok] _ x outcome]) auto
    with e1 locked_time_evolution [OF s'] show ?thesis by (blast intro: evolution_trans)
  qed
qed

lemma report_stop_evolution:
  assumes "inj U" and "tables_ok U s" and "report_stop ac iss env ck rq jid body k t f sha outcome cause confirmed s = (r, s')"
  shows "evolution U s s'"
proof (cases "cause \<in> set CAUSES \<and> confirmed \<and> outcome = cause_outcome cause")
  case False then show ?thesis using assms(3) by (auto simp: report_stop_def)
next
  case True
  then have o: "outcome \<in> set FINAL_STATES" by (simp add: cause_outcome_final)
  have "fenced ac env ck rq f (report_body iss env ck rq jid body k t f sha outcome cause) s = (r, s')"
    using assms(3) True by (simp add: report_stop_def)
  then show ?thesis by (rule fenced_evolution [OF _ assms(1,2)]) (rule report_body_evolution [OF assms(1) _ o])
qed

section \<open>Observations\<close>

lemma inspect_evolution:
  assumes "inj U" and "tables_ok U s"
  shows "inspect_result ac iss env ck rq jid body k t f sha s = (r, s') \<Longrightarrow> evolution U s s'"
    and "inspect_stop ac iss env ck rq jid body k t f sha s = (r, s') \<Longrightarrow> evolution U s s'"
  unfolding inspect_result_def inspect_stop_def
  by (erule fenced_evolution [OF _ assms], auto simp: exn_simps Let_def)+

lemma observed_keeps: "observed iss env rq jid body p q h user s = Inr (v, s') \<Longrightarrow> s' = s"
  by (auto simp: observed_def exn_simps Let_def split: option.splits)

lemma observe_claim_evolution:
  assumes "inj U" and "tables_ok U s" and "observe_claim ac iss env ck rq jid body p q h s = (r, s')"
  shows "evolution U s s'"
proof (cases "list_all lower_hex_digest [p, q, h]")
  case False then show ?thesis using assms(3) by (auto simp: observe_claim_def)
next
  case True
  then have "operation ck (authenticated (get_current_user ac env rq) (observed iss env rq jid body p q h)) s = (r, s')"
    using assms(3) by (simp add: observe_claim_def)
  then show ?thesis
    by (rule operation_authenticated_evolution [OF _ assms(1,2)]) (auto intro: current_user_untouched dest: observed_keeps)
qed

end
