(* ===== verification/Sanitize.thy ===== *)
theory Sanitize
  imports Urls
begin

text \<open>
  Sanitizing of request fields (\<open>backend/security.py\<close>): stripping of HTML, the strict check of short
  identifiers, and the links that may be rendered.  The HTML cleaner of the package \<open>nh3\<close> and
  \<open>html.unescape\<close> are functions of the caller.
\<close>

record sanitizer =
  nh3_clean :: "string \<Rightarrow> string"
  html_unescape :: "string \<Rightarrow> string"

definition remove_null_bytes :: "string \<Rightarrow> string" where
  "remove_null_bytes v = filter (\<lambda>c. c \<noteq> CHR 0x00) v"

text \<open>The entity syntax of the user is literal text: its ampersands are escaped before and unescaped after.\<close>

definition scrub :: "sanitizer \<Rightarrow> string \<Rightarrow> string" where
  "scrub z v = strip (html_unescape z (nh3_clean z (concat (map (\<lambda>c. if c = CHR ''&'' then ''&amp;'' else [c]) v))))"

definition strip_html :: "sanitizer \<Rightarrow> string \<Rightarrow> string" where
  "strip_html z v = (if v = [] then v else scrub z (remove_null_bytes v))"

section \<open>Identifiers\<close>

text \<open>
  \<open>\<backslash>w\<close> on U+0000 to U+00FF: letters, digits and the other numeric characters, and the underscore; \<open>\<backslash>s\<close> is
  what \<open>is_ws\<close> describes.
\<close>

definition is_word :: "char \<Rightarrow> bool" where
  "is_word c = (let n = code c in (48 \<le> n \<and> n \<le> 57) \<or> (65 \<le> n \<and> n \<le> 90) \<or> n = 95 \<or> (97 \<le> n \<and> n \<le> 122)
     \<or> n \<in> {170, 178, 179, 181, 185, 186, 188, 189, 190} \<or> (192 \<le> n \<and> n \<noteq> 215 \<and> n \<noteq> 247))"

definition INJECTIONS :: "string list" where
  "INJECTIONS = [''<script'', ''<iframe'', ''<object'', ''<embed'', ''<svg'', ''<img'']"

text \<open>A match of \<open>javascript\<backslash>s*:\<close> and of \<open>data\<backslash>s*:.*text/html\<close>, and one of \<open>on\<backslash>w+\<backslash>s*=\<close>, at the head of a lower-case text.\<close>

definition colon_after :: "string \<Rightarrow> string \<Rightarrow> bool" where
  "colon_after p s = (startswith s p \<and> startswith (dropWhile is_ws (drop (length p) s)) '':'')"

definition data_html :: "string \<Rightarrow> bool" where
  "data_html s = (colon_after ''data'' s
     \<and> contains (takeWhile (\<lambda>c. code c \<noteq> 10) (tl (dropWhile is_ws (drop 4 s)))) ''text/html'')"

definition event_handler :: "string \<Rightarrow> bool" where
  "event_handler s = (startswith s ''on'' \<and> (let r = drop 2 s in takeWhile is_word r \<noteq> []
     \<and> startswith (dropWhile is_ws (dropWhile is_word r)) ''=''))"

fun somewhere :: "(string \<Rightarrow> bool) \<Rightarrow> string \<Rightarrow> bool" where
  "somewhere p [] = p []"
| "somewhere p (c # s) = (p (c # s) \<or> somewhere p s)"

definition injects :: "string \<Rightarrow> bool" where
  "injects raw = (let s = lower raw
     in list_ex (contains s) INJECTIONS \<or> somewhere (colon_after ''javascript'') s \<or> somewhere data_html s \<or> somewhere event_handler s)"

definition sanitize_identifier :: "sanitizer \<Rightarrow> string \<Rightarrow> string res" where
  "sanitize_identifier z v =
     (if v = [] then Inr v
      else if injects (remove_null_bytes v) then Inl ValueError
      else Inr (scrub z (remove_null_bytes v)))"

section \<open>Links\<close>

definition url_bad_char :: "char \<Rightarrow> bool" where
  "url_bad_char c = (code c \<le> 32 \<or> (127 \<le> code c \<and> code c \<le> 159))"

definition validate_safe_url :: "string \<Rightarrow> string res" where
  "validate_safe_url v =
     (let cleaned = strip (remove_null_bytes v)
      in if cleaned = [] then Inr []
         else ignoreE (requireE (\<not> list_ex url_bad_char cleaned) ValueError)
           (bindE (urlsplit cleaned) (\<lambda>p.
            ignoreE (requireE (lower (us_scheme p) \<in> {''http'', ''https''}) ValueError)
            (ignoreE (requireE (us_netloc p \<noteq> []) ValueError) (Inr cleaned)))))"

lemma clean_url_id:
  assumes "\<not> list_ex url_bad_char u"
  shows "clean_url u = u"
proof -
  have a: "\<not> code c \<le> 32" if "c \<in> set u" for c using assms that by (simp add: list_ex_iff url_bad_char_def)
  have "u = [] \<or> \<not> code (hd u) \<le> 32" using a hd_in_set by blast
  then have "dropWhile (\<lambda>c. code c \<le> 32) u = u" by (simp only: dropWhile_eq_self_iff)
  moreover have "filter (\<lambda>c. code c \<notin> {9, 10, 13}) u = u" by (rule filter_True) (use a in force)
  ultimately show ?thesis by (simp add: clean_url_def)
qed

lemma urlsplit_authority:
  assumes "urlsplit u = Inr p" and "us_netloc p \<noteq> []"
  shows "\<exists>rest. cut_scheme (clean_url u) = (us_scheme p, ''//'' @ rest)"
proof -
  obtain sch rest where c: "cut_scheme (clean_url u) = (sch, rest)" by (cases "cut_scheme (clean_url u)")
  with assms have "us_scheme p = sch" "startswith rest ''//''"
    by (auto simp: urlsplit_def Let_def split: if_splits)
  with c show ?thesis by (auto simp: startswith_iff)
qed

lemma cut_scheme_lower: "lower (fst (cut_scheme u)) = fst (cut_scheme u)"
  by (simp add: cut_scheme_def split: option.split)

lemma cut_scheme_web:
  assumes "cut_scheme u = (sch, rest)" and "sch \<noteq> []"
  shows "lower u = sch @ '':'' @ lower rest"
proof -
  obtain a where a: "split_once '':'' u = Some (a, rest)" "sch = lower a"
    using assms by (auto simp: cut_scheme_def split: option.splits if_splits)
  have "lower '':'' = '':''" by code_simp
  then have "lower ('':'' @ rest) = '':'' @ lower rest" by (simp only: lower_append)
  with split_once_Some [OF a(1)] a(2) show ?thesis by (simp del: append_Cons)
qed



text \<open>The dash of some fixed texts, U+2014, outside the characters of the model: its place in Windows-1252.\<close>

definition em_dash :: string where
  "em_dash = [CHR 0x97]"

text \<open>A cleaner that has nothing to do, for examples.\<close>

definition plain_sanitizer :: sanitizer where
  "plain_sanitizer = \<lparr>nh3_clean = id, html_unescape = id\<rparr>"

end
