(* ===== verification/Scope_Import.thy ===== *)
theory Scope_Import
  imports Engagements Sanitize
begin

text \<open>
  The import of a programme's scope export (\<open>backend/routers/scope.py\<close>): the CSV reader of the standard
  library on its default dialect, the mapping of HackerOne rows to scope items, and the endpoint that
  previews the rows or adds the new ones.
\<close>

section \<open>The CSV reader\<close>

text \<open>
  \<open>csv.reader\<close> reads line by line (\<open>StringIO\<close> ends a line after each line feed) and sees an end-of-line mark,
  here \<open>None\<close>, after each line.  A carriage return outside quotes may only stand before it.
\<close>

fun csv_symbols :: "string \<Rightarrow> char option list" where
  "csv_symbols [] = []"
| "csv_symbols [c] = [Some c, None]"
| "csv_symbols (c # s) = (if code c = 10 then Some c # None # csv_symbols s else Some c # csv_symbols s)"

datatype csv_state = Start_Record | Start_Field | In_Field | In_Quoted | Quote_In_Quoted | Eat_Line_End

record csv_reader =
  cr_state :: csv_state
  cr_field :: string
  cr_row :: "string list"
  cr_rows :: "string list list"

definition csv_save :: "csv_state \<Rightarrow> csv_reader \<Rightarrow> csv_reader" where
  "csv_save st r = r\<lparr>cr_state := st, cr_field := [], cr_row := cr_row r @ [cr_field r]\<rparr>"

definition csv_add :: "csv_state \<Rightarrow> char \<Rightarrow> csv_reader \<Rightarrow> csv_reader" where
  "csv_add st c r = r\<lparr>cr_state := st, cr_field := cr_field r @ [c]\<rparr>"

text \<open>The record is complete at an end of line outside quotes.\<close>

definition csv_emit :: "csv_reader \<Rightarrow> csv_reader" where
  "csv_emit r = r\<lparr>cr_state := Start_Record, cr_field := [], cr_row := [], cr_rows := cr_rows r @ [cr_row r]\<rparr>"

definition csv_char :: "char \<Rightarrow> csv_reader \<Rightarrow> csv_reader res" where
  "csv_char c r = (let line_end = code c = 10 \<or> code c = 13 in case cr_state r of
       Start_Record \<Rightarrow> Inr (if line_end then r\<lparr>cr_state := Eat_Line_End\<rparr> else if c = CHR 0x22 then r\<lparr>cr_state := In_Quoted\<rparr>
         else if c = CHR '','' then csv_save Start_Field r else csv_add In_Field c r)
     | Start_Field \<Rightarrow> Inr (if line_end then csv_save Eat_Line_End r else if c = CHR 0x22 then r\<lparr>cr_state := In_Quoted\<rparr>
         else if c = CHR '','' then csv_save Start_Field r else csv_add In_Field c r)
     | In_Field \<Rightarrow> Inr (if line_end then csv_save Eat_Line_End r else if c = CHR '','' then csv_save Start_Field r
         else csv_add In_Field c r)
     | In_Quoted \<Rightarrow> Inr (if c = CHR 0x22 then r\<lparr>cr_state := Quote_In_Quoted\<rparr> else csv_add In_Quoted c r)
     | Quote_In_Quoted \<Rightarrow> Inr (if c = CHR 0x22 then csv_add In_Quoted c r else if c = CHR '','' then csv_save Start_Field r
         else if line_end then csv_save Eat_Line_End r else csv_add In_Field c r)
     | Eat_Line_End \<Rightarrow> if line_end then Inr r else Inl (RuntimeError ''csv.Error''))"

definition csv_end_line :: "csv_reader \<Rightarrow> csv_reader" where
  "csv_end_line r = (case cr_state r of
       Start_Record \<Rightarrow> csv_emit r
     | In_Quoted \<Rightarrow> r
     | Eat_Line_End \<Rightarrow> csv_emit r
     | _ \<Rightarrow> csv_emit (csv_save Start_Record r))"

definition FIELD_LIMIT :: int where "FIELD_LIMIT = 131072"

fun csv_run :: "char option list \<Rightarrow> csv_reader \<Rightarrow> csv_reader res" where
  "csv_run [] r = Inr r"
| "csv_run (None # ss) r = csv_run ss (csv_end_line r)"
| "csv_run (Some c # ss) r = bindE (csv_char c r) (\<lambda>r'.
     if FIELD_LIMIT < int (length (cr_field r')) then Inl (RuntimeError ''csv.Error'') else csv_run ss r')"

text \<open>An open quote at the end of the text closes its field.\<close>

definition csv_rows :: "string \<Rightarrow> string list list res" where
  "csv_rows t = bindE (csv_run (csv_symbols t) \<lparr>cr_state = Start_Record, cr_field = [], cr_row = [], cr_rows = []\<rparr>) (\<lambda>r.
     Inr (cr_rows (if cr_state r = In_Quoted then csv_emit (csv_save Start_Record r) else r)))"

text \<open>\<open>DictReader\<close>: the first row names the fields, empty rows are skipped, a short row lacks the last fields.\<close>

definition dict_row :: "string list \<Rightarrow> string list \<Rightarrow> (string \<times> string option) list" where
  "dict_row names row = rev (zip names (map Some row @ replicate (length names - length row) None))"

text \<open>\<open>(row.get(k) or "").strip()\<close>\<close>

definition cell :: "(string \<times> string option) list \<Rightarrow> string \<Rightarrow> string" where
  "cell row k = strip (case map_of row k of Some (Some t) \<Rightarrow> t | _ \<Rightarrow> [])"

section \<open>HackerOne rows\<close>

definition H1_KIND :: "(string \<times> string) list" where
  "H1_KIND = [(''WILDCARD'', ''domain''), (''API'', ''api''), (''CIDR'', ''cidr''), (''IP_ADDRESS'', ''cidr''),
     (''GOOGLE_PLAY_APP_ID'', ''mobile''), (''APPLE_STORE_APP_ID'', ''mobile''), (''WINDOWS_APP_STORE_APP_ID'', ''mobile''),
     (''TESTFLIGHT'', ''mobile''), (''OTHER_APK'', ''mobile''), (''OTHER_IPA'', ''mobile'')]"

definition SEVERITIES :: "string list" where
  "SEVERITIES = [''info'', ''low'', ''medium'', ''high'', ''critical'']"

definition MAX_IMPORT_ROWS :: nat where "MAX_IMPORT_ROWS = 5000"

text \<open>\<open>upper\<close>: the sharp s becomes two letters, and two letters have their capital outside the model.\<close>

definition upper :: "string \<Rightarrow> string res" where
  "upper s = bindE (mapE (\<lambda>c. let n = code c in
       if n = 181 \<or> n = 255 then Inl OutsideModel
       else if n = 223 then Inr ''SS''
       else if (97 \<le> n \<and> n \<le> 122) \<or> (224 \<le> n \<and> n \<noteq> 247) then Inr [char_of (n - 32)] else Inr [c]) s) (\<lambda>ps. Inr (concat ps))"

definition kind_for :: "string \<Rightarrow> string \<Rightarrow> string" where
  "kind_for asset_type v = (case map_of H1_KIND asset_type of
       Some k \<Rightarrow> k
     | None \<Rightarrow> (let w = lower (strip v)
         in if startswith w ''http://'' \<or> startswith w ''https://'' \<or> contains w ''/'' then ''url'' else ''domain''))"

record import_item =
  ii_value :: string
  ii_kind :: string
  ii_scope_type :: string
  ii_max_severity :: string
  ii_notes :: string

record skipped_row =
  sk_line :: nat
  sk_identifier :: string
  sk_reason :: string

text \<open>One row: nothing for a blank identifier, otherwise a skipped row or an item.\<close>

definition import_row :: "sanitizer \<Rightarrow> nat \<Rightarrow> (string \<times> string option) list \<Rightarrow> (skipped_row + import_item) option res" where
  "import_row z line row =
     (let ident = cell row ''identifier''; skip = (\<lambda>reason. \<lparr>sk_line = line, sk_identifier = take 120 ident, sk_reason = reason\<rparr>)
      in if ident = [] then Inr None
         else if length ident > 500 then Inr (Some (Inl (skip ''identifier too long'')))
         else case sanitize_identifier z ident of
             Inl e \<Rightarrow> if e = ValueError then Inr (Some (Inl (skip ''invalid characters''))) else Inl e
           | Inr v \<Rightarrow>
               if v = [] then Inr (Some (Inl (skip ''empty after sanitizing'')))
               else bindE (upper (cell row ''asset_type'')) (\<lambda>asset_type.
                 let eligible = lower (strip (case map_of row ''eligible_for_submission'' of Some (Some t) \<Rightarrow> (if t = [] then ''true'' else t) | _ \<Rightarrow> ''true''));
                     severity = lower (cell row ''max_severity''); instruction = cell row ''instruction'';
                     note = ''HackerOne '' @ (if asset_type = [] then ''asset'' else asset_type) @ (if instruction = [] then [] else '' '' @ em_dash @ '' '' @ instruction)
                 in Inr (Some (Inr \<lparr>ii_value = v, ii_kind = kind_for asset_type v, ii_scope_type = (if eligible = ''false'' then ''out'' else ''in''),
                      ii_max_severity = (if severity \<in> set SEVERITIES then severity else []), ii_notes = take 2000 note\<rparr>))))"

fun import_rows :: "sanitizer \<Rightarrow> nat \<Rightarrow> (string \<times> string option) list list \<Rightarrow> import_item list \<Rightarrow> skipped_row list
    \<Rightarrow> (import_item list \<times> skipped_row list) res" where
  "import_rows z line [] items skipped = Inr (items, skipped)"
| "import_rows z line (row # rows) items skipped =
     (if MAX_IMPORT_ROWS \<le> length items + length skipped then Inl (HTTPException 400 ''too many rows; the limit is 5000'')
      else bindE (import_row z line row) (\<lambda>r. case r of
          None \<Rightarrow> import_rows z (Suc line) rows items skipped
        | Some (Inl k) \<Rightarrow> import_rows z (Suc line) rows items (skipped @ [k])
        | Some (Inr i) \<Rightarrow> import_rows z (Suc line) rows (items @ [i]) skipped))"

definition parse_hackerone_scope :: "sanitizer \<Rightarrow> string \<Rightarrow> (import_item list \<times> skipped_row list) res" where
  "parse_hackerone_scope z t =
     bindE (csv_rows t) (\<lambda>rows. case rows of
       names # rest \<Rightarrow>
         ignoreE (requireE (''identifier'' \<in> set names) (HTTPException 400 (''CSV must have a header row with an '' @ quoted ''identifier''
            @ '' column (HackerOne scope export).'')))
         (import_rows z 2 (map (dict_row names) (filter (\<lambda>r. r \<noteq> []) rest)) [] [])
     | [] \<Rightarrow> Inl (HTTPException 400 (''CSV must have a header row with an '' @ quoted ''identifier'' @ '' column (HackerOne scope export).'')))"

section \<open>The endpoint\<close>

text \<open>The items not in scope yet, each once, and the duplicates.\<close>

fun sift :: "(string \<times> string) list \<Rightarrow> import_item list \<Rightarrow> import_item list \<times> import_item list" where
  "sift seen [] = ([], [])"
| "sift seen (i # is) = (let k = (ii_scope_type i, ii_value i)
     in if k \<in> set seen then (let (new, dups) = sift seen is in (new, i # dups))
        else (let (new, dups) = sift (k # seen) is in (i # new, dups)))"

definition scope_keys :: "string \<Rightarrow> db \<Rightarrow> (string \<times> string) list" where
  "scope_keys program_id s = map (\<lambda>r. (sc_scope_type r, sc_value r)) (filter (\<lambda>r. sc_program_id r = program_id) (scope_items s))"

definition add_scope_row :: "env \<Rightarrow> string \<Rightarrow> string \<Rightarrow> string \<Rightarrow> string \<Rightarrow> string \<Rightarrow> string \<Rightarrow> db \<Rightarrow> db" where
  "add_scope_row env program_id scope_type v kind notes severity s =
     drew (s\<lparr>scope_items := scope_items s @ [\<lparr>sc_id = new_uuid env s, sc_program_id = program_id, sc_scope_type = scope_type,
       sc_value = v, sc_kind = kind, sc_notes = notes, sc_max_severity = severity, sc_created_at = Some (now env)\<rparr>]\<rparr>)"

definition add_import_item :: "env \<Rightarrow> string \<Rightarrow> import_item \<Rightarrow> db \<Rightarrow> db" where
  "add_import_item env program_id i =
     add_scope_row env program_id (ii_scope_type i) (ii_value i) (ii_kind i) (ii_notes i) (ii_max_severity i)"

record import_report =
  ir_created :: nat
  ir_total_rows :: nat
  ir_new_items :: "import_item list"
  ir_duplicates :: "import_item list"
  ir_skipped :: "skipped_row list"

definition import_scope :: "sanitizer \<Rightarrow> env \<Rightarrow> current_user \<Rightarrow> string \<Rightarrow> string \<Rightarrow> bool \<Rightarrow> db \<Rightarrow> import_report res \<times> db" where
  "import_scope z env user program_id csv commit s = transact s (
     ignoreE (requireE (1 \<le> length csv \<and> length csv \<le> 400000) (HTTPException 422 ''csv''))
     (bindE (writable program_id user s) (\<lambda>e.
      bindE (parse_hackerone_scope z csv) (\<lambda>(parsed, skipped).
      let (new, dups) = sift (scope_keys program_id s) parsed;
          report = (\<lambda>n. \<lparr>ir_created = n, ir_total_rows = length parsed + length skipped, ir_new_items = new, ir_duplicates = dups,
             ir_skipped = skipped\<rparr>)
      in if commit \<and> new \<noteq> [] then
           Inr (report (length new), log_action env (cu_github_id user) ''import'' ''scope_item'' program_id (Some program_id)
             (fold (add_import_item env program_id) new (advance True program_id s)))
         else Inr (report 0, s)))))"

text \<open>What a successful import did.\<close>

lemma import_scope_result:
  assumes "import_scope z env user program_id csv commit s = (Inr r, s')"
  obtains parsed skipped new dups where "parse_hackerone_scope z csv = Inr (parsed, skipped)" "sift (scope_keys program_id s) parsed = (new, dups)"
    "\<exists>e. writable program_id user s = Inr e" "1 \<le> length csv" "length csv \<le> 400000"
    "r = \<lparr>ir_created = (if commit \<and> new \<noteq> [] then length new else 0), ir_total_rows = length parsed + length skipped, ir_new_items = new,
       ir_duplicates = dups, ir_skipped = skipped\<rparr>"
    "s' = (if commit \<and> new \<noteq> [] then log_action env (cu_github_id user) ''import'' ''scope_item'' program_id (Some program_id)
             (fold (add_import_item env program_id) new (advance True program_id s)) else s)"
proof -
  obtain e parsed skipped where p: "writable program_id user s = Inr e" "1 \<le> length csv" "length csv \<le> 400000" "parse_hackerone_scope z csv = Inr (parsed, skipped)"
    using assms by (auto simp: import_scope_def transact_ok exn_simps)
  obtain new dups where n: "sift (scope_keys program_id s) parsed = (new, dups)" by fastforce
  show thesis
    by (rule that [OF p(4) n]) (use assms p n in \<open>auto simp: import_scope_def transact_ok exn_simps Let_def split: if_splits\<close>)
qed

section \<open>Importing again\<close>

abbreviation item_key :: "import_item \<Rightarrow> string \<times> string" where
  "item_key i \<equiv> (ii_scope_type i, ii_value i)"

lemma sift_covers: "sift seen is = (new, dups) \<Longrightarrow> i \<in> set is \<Longrightarrow> item_key i \<in> set seen \<union> item_key ` set new"
proof (induction seen "is" arbitrary: new dups rule: sift.induct)
  case (2 seen j js)
  show ?case
  proof (cases "item_key j \<in> set seen")
    case True
    then obtain n d where n: "sift seen js = (n, d)" "new = n" using 2(3) by (auto simp: Let_def split: prod.splits)
    show ?thesis
    proof (cases "i \<in> set js")
      case True with 2(1) [OF refl \<open>item_key j \<in> set seen\<close> n(1)] n(2) show ?thesis by blast
    next
      case False with 2(4) True show ?thesis by simp
    qed
  next
    case False
    then obtain n d where n: "sift (item_key j # seen) js = (n, d)" "new = j # n" using 2(3) by (auto simp: Let_def split: prod.splits)
    show ?thesis
    proof (cases "i \<in> set js")
      case True with 2(2) [OF refl False n(1)] n(2) show ?thesis by auto
    next
      case False with 2(4) n(2) show ?thesis by simp
    qed
  qed
qed simp

lemma sift_known: "(\<And>i. i \<in> set is \<Longrightarrow> item_key i \<in> set seen) \<Longrightarrow> sift seen is = ([], is)"
  by (induction "is") (auto simp: Let_def)

lemma imported_keys: "scope_keys p (fold (add_import_item env p) new s) = scope_keys p s @ map item_key new"
  by (induction new arbitrary: s) (simp_all add: add_import_item_def add_scope_row_def scope_keys_def drew_def)

text \<open>
  C36: Importing the same scope file again changes nothing.  After a committed import, whoever uploads the same
  text for that engagement next, committing or not, has every row reported as a duplicate and creates none; the
  database stays as it is, the authority revision included.
\<close>

theorem scope_import_idempotent:
  assumes "import_scope z env user p csv True s = (Inr r, s1)" and "import_scope z env' user' p csv commit s1 = (Inr r', s2)"
  shows "s2 = s1 \<and> ir_created r' = 0 \<and> ir_new_items r' = [] \<and> ir_total_rows r' = length (ir_duplicates r') + length (ir_skipped r')"
  using assms(1)
proof (rule import_scope_result)
  fix parsed skipped new dups
  assume p: "parse_hackerone_scope z csv = Inr (parsed, skipped)" and n: "sift (scope_keys p s) parsed = (new, dups)"
    and s1: "s1 = (if True \<and> new \<noteq> [] then log_action env (cu_github_id user) ''import'' ''scope_item'' p (Some p)
             (fold (add_import_item env p) new (advance True p s)) else s)"
  have "scope_keys p s1 = scope_keys p s @ map item_key new"
    unfolding s1 using imported_keys [of p env new "advance True p s"]
    by (auto simp: log_action_def drew_def scope_keys_def advance_def set_engagement_def)
  then have k: "sift (scope_keys p s1) parsed = ([], parsed)"
    using sift_covers [OF n] by (intro sift_known) auto
  from assms(2) show ?thesis by (rule import_scope_result) (use p k in auto)
qed

definition two_rows :: string where
  "two_rows = ''identifier,asset_type'' @ [CHR 0x0A] @ ''acme.example,URL'' @ [CHR 0x0A] @ ''acme.example,URL'' @ [CHR 0x0A]"

lemma import_scope_run:
  assumes "writable p user s = Inr e" "1 \<le> length csv" "length csv \<le> 400000" "parse_hackerone_scope z csv = Inr (parsed, skipped)"
    "sift (scope_keys p s) parsed = (new, dups)"
  shows "import_scope z env user p csv commit s =
    (Inr \<lparr>ir_created = (if commit \<and> new \<noteq> [] then length new else 0), ir_total_rows = length parsed + length skipped, ir_new_items = new,
       ir_duplicates = dups, ir_skipped = skipped\<rparr>,
     if commit \<and> new \<noteq> [] then log_action env (cu_github_id user) ''import'' ''scope_item'' p (Some p)
             (fold (add_import_item env p) new (advance True p s)) else s)"
  using assms by (simp add: import_scope_def Let_def)

theorem scope_import_idempotent_witness:
  "\<exists>r s1 r' s2. import_scope plain_sanitizer example_env (example_user ''alice'') ''e1'' two_rows True example_tenancy = (Inr r, s1) \<and> ir_created r = 1
     \<and> import_scope plain_sanitizer example_env (example_user ''alice'') ''e1'' two_rows True s1 = (Inr r', s2) \<and> s2 = s1 \<and> ir_created r' = 0"
proof -
  let ?i = "\<lparr>ii_value = ''acme.example'', ii_kind = ''domain'', ii_scope_type = ''in'', ii_max_severity = [], ii_notes = ''HackerOne URL''\<rparr>"
  let ?s1 = "log_action example_env (cu_github_id (example_user ''alice'')) ''import'' ''scope_item'' ''e1'' (Some ''e1'')
             (fold (add_import_item example_env ''e1'') [?i] (advance True ''e1'' example_tenancy))"
  have rows: "csv_rows two_rows = Inr [[''identifier'', ''asset_type''], [''acme.example'', ''URL''], [''acme.example'', ''URL'']]" by code_simp
  let ?row = "dict_row [''identifier'', ''asset_type''] [''acme.example'', ''URL'']"
  have c: "cell ?row ''identifier'' = ''acme.example''" "cell ?row ''asset_type'' = ''URL''" "cell ?row ''max_severity'' = []" "cell ?row ''instruction'' = []"
    "map_of ?row ''eligible_for_submission'' = None" "sanitize_identifier plain_sanitizer ''acme.example'' = Inr ''acme.example''"
    "upper ''URL'' = Inr ''URL''" "kind_for ''URL'' ''acme.example'' = ''domain''" "lower [] = []" "[] \<notin> set SEVERITIES"
    "lower (strip ''true'') = ''true''" by code_simp+
  have "import_row plain_sanitizer n ?row = Inr (Some (Inr ?i))" for n
    by (simp add: import_row_def c Let_def)
  then have p: "parse_hackerone_scope plain_sanitizer two_rows = Inr ([?i, ?i], [])"
    by (simp add: parse_hackerone_scope_def rows MAX_IMPORT_ROWS_def)
  have "length two_rows = 56" by code_simp
  then have l: "1 \<le> length two_rows" "length two_rows \<le> 400000" by simp_all
  have w: "writable ''e1'' (example_user ''alice'') example_tenancy = Inr example_engagement"
    "writable ''e1'' (example_user ''alice'') ?s1 = Inr (bump True example_engagement)" by code_simp+
  have k: "sift (scope_keys ''e1'' example_tenancy) [?i, ?i] = ([?i], [?i])" "sift (scope_keys ''e1'' ?s1) [?i, ?i] = ([], [?i, ?i])" by code_simp+
  note one = import_scope_run [OF w(1) l p k(1), where commit = True and env = example_env]
  note two = import_scope_run [OF w(2) l p k(2), where commit = True and env = example_env]
  obtain r s1 where o: "import_scope plain_sanitizer example_env (example_user ''alice'') ''e1'' two_rows True example_tenancy = (Inr r, s1)"
      "ir_created r = 1" "s1 = ?s1" using one by simp
  obtain r' s2 where t: "import_scope plain_sanitizer example_env (example_user ''alice'') ''e1'' two_rows True s1 = (Inr r', s2)"
    using two unfolding o(3) by blast
  from scope_import_idempotent [OF o(1) t] o t show ?thesis by blast
qed

end
