(* ===== verification/Authority_Records.thy ===== *)
theory Authority_Records
  imports Scope_Import
begin

text \<open>
  The records an engagement's authority rests on: its scope items (\<open>backend/routers/scope.py\<close>), its written
  authorizations (\<open>routers/authorizations.py\<close>), and the members who may edit them (\<open>routers/members.py\<close>).
  A change of scope or authorization advances the engagement's authority revision.
\<close>

section \<open>Scope\<close>

definition SCOPE_KINDS :: "string list" where
  "SCOPE_KINDS = [''domain'', ''subdomain'', ''url'', ''cidr'', ''api'', ''mobile'']"

text \<open>The body of a new scope item, as the request model leaves it.\<close>

definition scope_body :: "sanitizer \<Rightarrow> string \<Rightarrow> string \<Rightarrow> string \<Rightarrow> (string \<times> string) res" where
  "scope_body z v kind notes =
     (case sanitize_identifier z v of
        Inl e \<Rightarrow> Inl (HTTPException 422 ''value'')
      | Inr w \<Rightarrow> (let n = strip_html z notes in
          ignoreE (requireE (1 \<le> length w \<and> length w \<le> 500) (HTTPException 422 ''value''))
          (ignoreE (requireE (kind \<in> set SCOPE_KINDS) (HTTPException 422 ''kind''))
          (ignoreE (requireE (length n \<le> 2000) (HTTPException 422 ''notes'')) (Inr (w, n))))))"

text \<open>The two endpoints \<open>scope/in\<close> and \<open>scope/out\<close> differ in the type they write.\<close>

definition add_scope_item :: "sanitizer \<Rightarrow> env \<Rightarrow> current_user \<Rightarrow> string \<Rightarrow> string \<Rightarrow> string \<Rightarrow> string \<Rightarrow> string \<Rightarrow> db \<Rightarrow> string res \<times> db" where
  "add_scope_item z env user program_id scope_type v kind notes s = transact s (
     bindE (scope_body z v kind notes) (\<lambda>(w, n).
     bindE (writable program_id user s) (\<lambda>e.
     let s1 = advance True program_id s
     in Inr (new_uuid env s1, log_action env (cu_github_id user) ''create'' ''scope_item'' (new_uuid env s1) (Some program_id)
          (add_scope_row env program_id scope_type w kind n [] s1)))))"

abbreviation add_in_scope_item :: "sanitizer \<Rightarrow> env \<Rightarrow> current_user \<Rightarrow> string \<Rightarrow> string \<Rightarrow> string \<Rightarrow> string \<Rightarrow> db \<Rightarrow> string res \<times> db" where
  "add_in_scope_item z env user program_id \<equiv> add_scope_item z env user program_id ''in''"

abbreviation add_out_scope_item :: "sanitizer \<Rightarrow> env \<Rightarrow> current_user \<Rightarrow> string \<Rightarrow> string \<Rightarrow> string \<Rightarrow> string \<Rightarrow> db \<Rightarrow> string res \<times> db" where
  "add_out_scope_item z env user program_id \<equiv> add_scope_item z env user program_id ''out''"

definition delete_scope_item :: "env \<Rightarrow> current_user \<Rightarrow> string \<Rightarrow> string \<Rightarrow> string \<Rightarrow> db \<Rightarrow> unit res \<times> db" where
  "delete_scope_item env user program_id scope_type item_id s = transact s (
     ignoreE (requireE (scope_type \<in> {''in'', ''out''}) (HTTPException 400 ''Invalid scope type''))
     (bindE (writable program_id user s) (\<lambda>e.
      let s1 = advance True program_id s
      in bindE (someE (HTTPException 404 ''Scope item not found'')
           (find (\<lambda>r. sc_id r = item_id \<and> sc_program_id r = program_id \<and> sc_scope_type r = scope_type) (scope_items s1))) (\<lambda>item.
         let s2 = log_action env (cu_github_id user) ''delete'' ''scope_item'' item_id (Some program_id) s1
         in Inr ((), s2\<lparr>scope_items := drop_key sc_id item_id (scope_items s2)\<rparr>)))))"

section \<open>Authorizations\<close>

text \<open>
  \<open>datetime.fromisoformat\<close> and the value a column without time zone stores for a date that has one are functions
  of the caller; a date without time zone is stored as it is.  A stored date equals a parsed one only when the
  latter has no time zone either.
\<close>

record date_codec =
  from_iso :: "string \<Rightarrow> datetime option"
  aware_column :: "datetime \<Rightarrow> int"

definition parse_iso_datetime :: "date_codec \<Rightarrow> string option \<Rightarrow> string \<Rightarrow> datetime option res" where
  "parse_iso_datetime dc v field = (case v of
       None \<Rightarrow> Inr None
     | Some t \<Rightarrow>
         if t = [] then Inr None
         else (case from_iso dc (concat (map (\<lambda>c. if c = CHR ''Z'' then ''+00:00'' else [c]) t)) of
             None \<Rightarrow> Inl (HTTPException 422 (field @ '' must be an ISO-8601 datetime, e.g. 2026-08-04T09:00:00Z''))
           | Some d \<Rightarrow> Inr (Some d)))"

definition same_date :: "int option \<Rightarrow> datetime option \<Rightarrow> bool" where
  "same_date old d = (case (old, d) of
       (None, None) \<Rightarrow> True
     | (Some t, Some x) \<Rightarrow> dt_off x = None \<and> dt_us x = t
     | _ \<Rightarrow> False)"

definition column :: "date_codec \<Rightarrow> datetime option \<Rightarrow> int option" where
  "column dc d = map_option (\<lambda>x. if dt_off x = None then dt_us x else aware_column dc x) d"

record authorization_create =
  ac_permits :: string
  ac_authorized_by :: string
  ac_authorized_at :: "string option"
  ac_reference :: string
  ac_window_start :: "string option"
  ac_window_end :: "string option"
  ac_notes :: string

text \<open>The short fields are refused when they look like an injection, and every field has its longest length.\<close>

definition short_field :: "sanitizer \<Rightarrow> string \<Rightarrow> nat \<Rightarrow> string \<Rightarrow> string res" where
  "short_field z name most v = (case sanitize_identifier z v of
       Inl e \<Rightarrow> Inl (HTTPException 422 name)
     | Inr w \<Rightarrow> ignoreE (requireE (length w \<le> most) (HTTPException 422 name)) (Inr w))"

definition long_field :: "sanitizer \<Rightarrow> string \<Rightarrow> nat \<Rightarrow> string \<Rightarrow> string res" where
  "long_field z name most v = (let w = strip_html z v in ignoreE (requireE (length w \<le> most) (HTTPException 422 name)) (Inr w))"

definition date_field :: "string \<Rightarrow> string option \<Rightarrow> unit res" where
  "date_field name v = requireE (case v of None \<Rightarrow> True | Some t \<Rightarrow> length t \<le> 40) (HTTPException 422 name)"

definition create_authorization :: "sanitizer \<Rightarrow> date_codec \<Rightarrow> env \<Rightarrow> current_user \<Rightarrow> string \<Rightarrow> authorization_create \<Rightarrow> db \<Rightarrow> string res \<times> db" where
  "create_authorization z dc env user program_id b s = transact s (
     bindE (long_field z ''permits'' 10000 (ac_permits b)) (\<lambda>permits.
     bindE (short_field z ''authorized_by'' 200 (ac_authorized_by b)) (\<lambda>by.
     ignoreE (date_field ''authorized_at'' (ac_authorized_at b))
     (bindE (short_field z ''reference'' 500 (ac_reference b)) (\<lambda>ref.
     ignoreE (date_field ''window_start'' (ac_window_start b))
     (ignoreE (date_field ''window_end'' (ac_window_end b))
     (bindE (long_field z ''notes'' 5000 (ac_notes b)) (\<lambda>notes.
     bindE (writable program_id user s) (\<lambda>e.
     bindE (parse_iso_datetime dc (ac_authorized_at b) ''authorized_at'') (\<lambda>at.
     bindE (parse_iso_datetime dc (ac_window_start b) ''window_start'') (\<lambda>start.
     bindE (parse_iso_datetime dc (ac_window_end b) ''window_end'') (\<lambda>end_at.
     let s1 = advance True program_id s;
         row = \<lparr>az_id = new_uuid env s1, az_program_id = program_id, az_owner_github_id = eng_owner_github_id e, az_permits = permits,
           az_authorized_by = by, az_authorized_at = column dc at, az_reference = ref, az_window_start = column dc start,
           az_window_end = column dc end_at, az_status = ''active'', az_notes = notes, az_created_at = now env\<rparr>
     in Inr (az_id row, log_action env (cu_github_id user) ''create'' ''authorization'' (az_id row) (Some program_id)
          (drew (s1\<lparr>authorizations := authorizations s1 @ [row]\<rparr>)))))))))))))))"

text \<open>
  An update names some fields; a null counts as the empty text in a text field, clears a date and leaves the
  status alone.  Every field but the notes changes the authority when its new value differs.
\<close>

record authorization_update =
  au_permits :: "string option"
  au_authorized_by :: "string option"
  au_authorized_at :: "string option option"
  au_reference :: "string option"
  au_window_start :: "string option option"
  au_window_end :: "string option option"
  au_status :: "string option"
  au_notes :: "string option"

definition optE :: "('a \<Rightarrow> 'b res) \<Rightarrow> 'a option \<Rightarrow> 'b option res" where
  "optE f v = (case v of None \<Rightarrow> Inr None | Some x \<Rightarrow> bindE (f x) (\<lambda>y. Inr (Some y)))"

record authorization_fields =
  af_permits :: "string option"
  af_authorized_by :: "string option"
  af_authorized_at :: "datetime option option"
  af_reference :: "string option"
  af_window_start :: "datetime option option"
  af_window_end :: "datetime option option"
  af_status :: "string option"
  af_notes :: "string option"

definition AUTHORIZATION_STATUSES :: "string list" where
  "AUTHORIZATION_STATUSES = [''active'', ''expired'', ''revoked'']"

text \<open>What the request model checks, and then the dates, which the handler parses.\<close>

definition checked_update :: "sanitizer \<Rightarrow> authorization_update \<Rightarrow> authorization_update res" where
  "checked_update z u =
     bindE (optE (long_field z ''permits'' 10000) (au_permits u)) (\<lambda>permits.
     bindE (optE (short_field z ''authorized_by'' 200) (au_authorized_by u)) (\<lambda>by.
     ignoreE (optE (date_field ''authorized_at'') (au_authorized_at u))
     (bindE (optE (short_field z ''reference'' 500) (au_reference u)) (\<lambda>ref.
     ignoreE (optE (date_field ''window_start'') (au_window_start u))
     (ignoreE (optE (date_field ''window_end'') (au_window_end u))
     (ignoreE (requireE (case au_status u of None \<Rightarrow> True | Some t \<Rightarrow> t \<in> set AUTHORIZATION_STATUSES) (HTTPException 422 ''status''))
     (bindE (optE (long_field z ''notes'' 5000) (au_notes u)) (\<lambda>notes.
      Inr (u\<lparr>au_permits := permits, au_authorized_by := by, au_reference := ref, au_notes := notes\<rparr>)))))))))"

definition update_fields :: "date_codec \<Rightarrow> authorization_update \<Rightarrow> authorization_fields res" where
  "update_fields dc u =
     bindE (optE (\<lambda>v. parse_iso_datetime dc v ''authorized_at'') (au_authorized_at u)) (\<lambda>at.
     bindE (optE (\<lambda>v. parse_iso_datetime dc v ''window_start'') (au_window_start u)) (\<lambda>start.
     bindE (optE (\<lambda>v. parse_iso_datetime dc v ''window_end'') (au_window_end u)) (\<lambda>end_at.
      Inr \<lparr>af_permits = au_permits u, af_authorized_by = au_authorized_by u, af_authorized_at = at, af_reference = au_reference u,
           af_window_start = start, af_window_end = end_at, af_status = au_status u, af_notes = au_notes u\<rparr>)))"

definition or_keep :: "'a option \<Rightarrow> 'a \<Rightarrow> 'a" where
  "or_keep v old = (case v of None \<Rightarrow> old | Some x \<Rightarrow> x)"

definition differs :: "'a option \<Rightarrow> 'a \<Rightarrow> bool" where
  "differs v old = (case v of None \<Rightarrow> False | Some x \<Rightarrow> x \<noteq> old)"

definition date_differs :: "datetime option option \<Rightarrow> int option \<Rightarrow> bool" where
  "date_differs v old = (case v of None \<Rightarrow> False | Some d \<Rightarrow> \<not> same_date old d)"

definition authority_changed :: "authorization_fields \<Rightarrow> Authorization \<Rightarrow> bool" where
  "authority_changed f a = (differs (af_permits f) (az_permits a) \<or> differs (af_authorized_by f) (az_authorized_by a)
     \<or> date_differs (af_authorized_at f) (az_authorized_at a) \<or> differs (af_reference f) (az_reference a)
     \<or> date_differs (af_window_start f) (az_window_start a) \<or> date_differs (af_window_end f) (az_window_end a)
     \<or> differs (af_status f) (az_status a))"

definition amended :: "date_codec \<Rightarrow> authorization_fields \<Rightarrow> Authorization \<Rightarrow> Authorization" where
  "amended dc f a = a\<lparr>az_permits := or_keep (af_permits f) (az_permits a), az_authorized_by := or_keep (af_authorized_by f) (az_authorized_by a),
     az_authorized_at := or_keep (map_option (column dc) (af_authorized_at f)) (az_authorized_at a),
     az_reference := or_keep (af_reference f) (az_reference a),
     az_window_start := or_keep (map_option (column dc) (af_window_start f)) (az_window_start a),
     az_window_end := or_keep (map_option (column dc) (af_window_end f)) (az_window_end a),
     az_status := or_keep (af_status f) (az_status a), az_notes := or_keep (af_notes f) (az_notes a)\<rparr>"

definition authorization_404 :: "string \<Rightarrow> string \<Rightarrow> db \<Rightarrow> Authorization res" where
  "authorization_404 program_id k s = someE (HTTPException 404 ''Authorization not found'')
     (find (\<lambda>a. az_id a = k \<and> az_program_id a = program_id) (authorizations s))"

definition update_authorization :: "sanitizer \<Rightarrow> date_codec \<Rightarrow> env \<Rightarrow> current_user \<Rightarrow> string \<Rightarrow> string \<Rightarrow> authorization_update \<Rightarrow> db \<Rightarrow> unit res \<times> db" where
  "update_authorization z dc env user program_id k u s = transact s (
     bindE (checked_update z u) (\<lambda>v.
     bindE (writable program_id user s) (\<lambda>e.
     bindE (authorization_404 program_id k s) (\<lambda>a.
     bindE (update_fields dc v) (\<lambda>f.
     Inr ((), log_action env (cu_github_id user) ''update'' ''authorization'' k (Some program_id)
       (advance (authority_changed f a) program_id
         (s\<lparr>authorizations := amend_key az_id k (amended dc f) (authorizations s)\<rparr>))))))))"

definition list_authorizations :: "current_user \<Rightarrow> string \<Rightarrow> db \<Rightarrow> Authorization list res" where
  "list_authorizations user program_id s =
     ignoreE (get_engagement_or_404 program_id user s)
     (Inr (sort_key (\<lambda>a. - az_created_at a) (filter (\<lambda>a. az_program_id a = program_id) (authorizations s))))"

text \<open>The newest active authorization whose window holds the present moment; stored dates count as UTC.\<close>

definition window_open :: "int \<Rightarrow> Authorization \<Rightarrow> bool" where
  "window_open t a = ((case az_window_start a of None \<Rightarrow> True | Some b \<Rightarrow> b \<le> t) \<and> (case az_window_end a of None \<Rightarrow> True | Some e \<Rightarrow> t \<le> e))"

definition get_active_authorization :: "env \<Rightarrow> current_user \<Rightarrow> string \<Rightarrow> db \<Rightarrow> Authorization option res" where
  "get_active_authorization env user program_id s =
     ignoreE (get_engagement_or_404 program_id user s)
     (Inr (find (window_open (now env)) (sort_key (\<lambda>a. - az_created_at a)
        (filter (\<lambda>a. az_program_id a = program_id \<and> az_status a = ''active'') (authorizations s)))))"

section \<open>Members\<close>

definition MAX_MEMBERS :: nat where "MAX_MEMBERS = 20"

definition list_members :: "current_user \<Rightarrow> string \<Rightarrow> db \<Rightarrow> (string \<times> EngagementMember list) res" where
  "list_members user program_id s =
     bindE (get_engagement_or_404 program_id user s) (\<lambda>e.
     Inr (eng_owner_github_id e, filter (\<lambda>m. mem_program_id m = program_id) (program_members s)))"

definition add_member :: "env \<Rightarrow> current_user \<Rightarrow> string \<Rightarrow> string \<Rightarrow> string \<Rightarrow> db \<Rightarrow> EngagementMember res \<times> db" where
  "add_member env user program_id github_id role s = transact s (
     ignoreE (requireE (1 \<le> length github_id \<and> length github_id \<le> 100) (HTTPException 422 ''github_id''))
     (ignoreE (requireE (role \<in> {''member'', ''viewer''}) (HTTPException 422 ''role''))
     (bindE (get_engagement_or_404 program_id user s) (\<lambda>e.
      ignoreE (require_engagement_owner e user)
      (ignoreE (requireE (github_id \<noteq> cu_github_id user) (HTTPException 400 ''Cannot add the engagement owner as a member''))
      (ignoreE (requireE (\<not> list_ex (\<lambda>m. mem_program_id m = program_id \<and> mem_member_github_id m = github_id) (program_members s))
         (HTTPException 409 ''User is already a member''))
      (ignoreE (requireE (length (filter (\<lambda>m. mem_program_id m = program_id) (program_members s)) < MAX_MEMBERS)
         (HTTPException 400 ''Maximum 20 members per engagement''))
      (let row = \<lparr>mem_id = new_uuid env s, mem_program_id = program_id, mem_owner_github_id = cu_github_id user,
             mem_member_github_id = github_id, mem_role = role, mem_invited_at = now env\<rparr>
       in Inr (row, log_action env (cu_github_id user) ''create'' ''program_member'' (mem_id row) (Some program_id)
            (drew (s\<lparr>program_members := program_members s @ [row]\<rparr>)))))))))))"

definition remove_member :: "env \<Rightarrow> current_user \<Rightarrow> string \<Rightarrow> string \<Rightarrow> db \<Rightarrow> unit res \<times> db" where
  "remove_member env user program_id github_id s = transact s (
     bindE (get_engagement_or_404 program_id user s) (\<lambda>e.
     ignoreE (require_engagement_owner e user)
     (bindE (someE (HTTPException 404 ''Member not found'')
        (find (\<lambda>m. mem_program_id m = program_id \<and> mem_member_github_id m = github_id) (program_members s))) (\<lambda>m.
      let s1 = log_action env (cu_github_id user) ''delete'' ''program_member'' (mem_id m) (Some program_id) s
      in Inr ((), s1\<lparr>program_members := drop_key mem_id (mem_id m) (program_members s1)\<rparr>)))))"

section \<open>The engagement itself\<close>

text \<open>
  \<open>PATCH /engagements/{id}\<close> (\<open>routers/engagements.py\<close>).  A null clears a field: a text becomes empty (the
  model holds a null text column as the empty text), while the name may not be null.
\<close>

record engagement_update =
  gu_name :: "string option option"
  gu_platform :: "string option"
  gu_program_url :: "string option"
  gu_scope_summary :: "string option"
  gu_severity_guidance :: "string option"
  gu_safe_harbor_notes :: "string option"
  gu_client_id :: "string option option"
  gu_engagement_type :: "string option"
  gu_engagement_status :: "string option"
  gu_starts_at :: "string option option"
  gu_ends_at :: "string option option"
  gu_max_request_rate :: "int option option"

definition ENGAGEMENT_TYPES :: "string list" where
  "ENGAGEMENT_TYPES = [''bug_bounty'', ''pentest'', ''red_team'', ''internal'']"

definition ENGAGEMENT_STATUSES :: "string list" where
  "ENGAGEMENT_STATUSES = [''planned'', ''active'', ''reporting'', ''closed'']"

definition link_field :: "string \<Rightarrow> nat \<Rightarrow> string \<Rightarrow> string res" where
  "link_field name most v = (case validate_safe_url v of
       Inl e \<Rightarrow> Inl (HTTPException 422 name)
     | Inr w \<Rightarrow> ignoreE (requireE (length w \<le> most) (HTTPException 422 name)) (Inr w))"

definition choice_field :: "string \<Rightarrow> string list \<Rightarrow> string \<Rightarrow> unit res" where
  "choice_field name choices v = requireE (v = [] \<or> v \<in> set choices) (HTTPException 422 name)"

definition checked_engagement :: "sanitizer \<Rightarrow> engagement_update \<Rightarrow> engagement_update res" where
  "checked_engagement z u =
     bindE (optE (optE (\<lambda>v. bindE (short_field z ''name'' 120 v) (\<lambda>w.
        ignoreE (requireE (w \<noteq> []) (HTTPException 422 ''name'')) (Inr w)))) (gu_name u)) (\<lambda>name.
     bindE (optE (short_field z ''platform'' 80) (gu_platform u)) (\<lambda>platform.
     bindE (optE (link_field ''program_url'' 500) (gu_program_url u)) (\<lambda>url.
     bindE (optE (long_field z ''scope_summary'' 5000) (gu_scope_summary u)) (\<lambda>summary.
     bindE (optE (long_field z ''severity_guidance'' 5000) (gu_severity_guidance u)) (\<lambda>guidance.
     bindE (optE (long_field z ''safe_harbor_notes'' 5000) (gu_safe_harbor_notes u)) (\<lambda>harbor.
     ignoreE (requireE (case gu_client_id u of Some (Some k) \<Rightarrow> length k \<le> 64 | _ \<Rightarrow> True) (HTTPException 422 ''client_id''))
     (ignoreE (optE (choice_field ''engagement_type'' ENGAGEMENT_TYPES) (gu_engagement_type u))
     (ignoreE (optE (choice_field ''engagement_status'' ENGAGEMENT_STATUSES) (gu_engagement_status u))
     (ignoreE (optE (date_field ''starts_at'') (gu_starts_at u))
     (ignoreE (optE (date_field ''ends_at'') (gu_ends_at u))
     (ignoreE (requireE (case gu_max_request_rate u of Some (Some n) \<Rightarrow> 1 \<le> n \<and> n \<le> 1000 | _ \<Rightarrow> True) (HTTPException 422 ''max_request_rate''))
     (Inr (u\<lparr>gu_name := name, gu_platform := platform, gu_program_url := url, gu_scope_summary := summary,
         gu_severity_guidance := guidance, gu_safe_harbor_notes := harbor\<rparr>)))))))))))))"

text \<open>What the handler resolves: the client, which must be the caller's, and the dates.\<close>

record engagement_values =
  gv_client :: "string option option"
  gv_starts :: "datetime option option"
  gv_ends :: "datetime option option"

definition resolved_engagement :: "date_codec \<Rightarrow> current_user \<Rightarrow> engagement_update \<Rightarrow> db \<Rightarrow> engagement_values res" where
  "resolved_engagement dc user u s =
     bindE (optE (\<lambda>v. resolve_owned_client_id v user s) (gu_client_id u)) (\<lambda>client.
     bindE (optE (\<lambda>v. parse_iso_datetime dc v ''starts_at'') (gu_starts_at u)) (\<lambda>start.
     bindE (optE (\<lambda>v. parse_iso_datetime dc v ''ends_at'') (gu_ends_at u)) (\<lambda>end_at.
     Inr \<lparr>gv_client = client, gv_starts = start, gv_ends = end_at\<rparr>)))"

definition engagement_authority_changed :: "engagement_update \<Rightarrow> engagement_values \<Rightarrow> Engagement \<Rightarrow> bool" where
  "engagement_authority_changed u v e = (differs (gu_engagement_type u) (eng_engagement_type e)
     \<or> differs (gu_engagement_status u) (eng_engagement_status e) \<or> date_differs (gv_starts v) (eng_starts_at e)
     \<or> date_differs (gv_ends v) (eng_ends_at e) \<or> differs (gu_max_request_rate u) (eng_max_request_rate e))"

definition patched :: "date_codec \<Rightarrow> engagement_update \<Rightarrow> engagement_values \<Rightarrow> Engagement \<Rightarrow> Engagement" where
  "patched dc u v e = e\<lparr>eng_name := (case gu_name u of Some (Some n) \<Rightarrow> n | _ \<Rightarrow> eng_name e),
     eng_platform := or_keep (gu_platform u) (eng_platform e), eng_program_url := or_keep (gu_program_url u) (eng_program_url e),
     eng_scope_summary := or_keep (gu_scope_summary u) (eng_scope_summary e),
     eng_severity_guidance := or_keep (gu_severity_guidance u) (eng_severity_guidance e),
     eng_safe_harbor_notes := or_keep (gu_safe_harbor_notes u) (eng_safe_harbor_notes e),
     eng_client_id := or_keep (gv_client v) (eng_client_id e), eng_engagement_type := or_keep (gu_engagement_type u) (eng_engagement_type e),
     eng_engagement_status := or_keep (gu_engagement_status u) (eng_engagement_status e),
     eng_starts_at := or_keep (map_option (column dc) (gv_starts v)) (eng_starts_at e),
     eng_ends_at := or_keep (map_option (column dc) (gv_ends v)) (eng_ends_at e),
     eng_max_request_rate := or_keep (gu_max_request_rate u) (eng_max_request_rate e)\<rparr>"

definition update_engagement :: "sanitizer \<Rightarrow> date_codec \<Rightarrow> env \<Rightarrow> current_user \<Rightarrow> string \<Rightarrow> engagement_update \<Rightarrow> db \<Rightarrow> unit res \<times> db" where
  "update_engagement z dc env user program_id u s = transact s (
     bindE (checked_engagement z u) (\<lambda>w.
     bindE (get_engagement_or_404 program_id user s) (\<lambda>e.
     ignoreE (require_engagement_owner e user)
     (bindE (resolved_engagement dc user w s) (\<lambda>v.
      ignoreE (requireE (gu_name w \<noteq> Some None) IntegrityError)
      (Inr ((), log_action env (cu_github_id user) ''update'' ''engagement'' program_id (Some program_id)
         (set_engagement program_id (\<lambda>r. bump (engagement_authority_changed w v e) (patched dc w v r)) s))))))))"

end
