(* ===== verification/Test_Cases.thy ===== *)
theory Test_Cases
  imports Engagements Sanitize
begin

text \<open>
  Stored authorization test cases (\<open>backend/routers/test_cases.py\<close>): the validation of a case before it is
  stored (its shape, that it carries no live secret and no reference to the environment of the machine
  that will run it, and its session preflights) and the endpoints that keep the cases of an engagement.
\<close>

section \<open>Shape\<close>

text \<open>\<open>str(v or "")\<close>\<close>

definition text_or_empty :: "pyval \<Rightarrow> string" where
  "text_or_empty v = py_str (or_val v (VStr []))"

definition blank :: "pyval \<Rightarrow> bool" where
  "blank v = (strip (text_or_empty v) = [])"

definition at_index :: "string \<Rightarrow> nat \<Rightarrow> string" where
  "at_index name i = name @ ''['' @ str_of_int (int i) @ '']''"

definition eachE :: "(nat \<Rightarrow> 'a \<Rightarrow> unit res) \<Rightarrow> 'a list \<Rightarrow> unit res" where
  "eachE f xs = ignoreE (mapE (\<lambda>(i, x). f i x) (enumerate 0 xs)) (Inr ())"

text \<open>Membership of a value in a set of strings: a list or a dictionary cannot be hashed.\<close>

definition in_names :: "pyval \<Rightarrow> string list \<Rightarrow> bool res" where
  "in_names v names = (if is_list v \<or> is_dict v then Inl TypeError else Inr (\<exists>t \<in> set names. v = VStr t))"

text \<open>
  \<open>upper\<close> as far as a comparison with the four ASCII names can tell: no other character of the model has an
  upper-case form among their letters but the sharp s, which becomes two.
\<close>

definition upper_ascii :: "string \<Rightarrow> string" where
  "upper_ascii s = map (\<lambda>c. if 97 \<le> code c \<and> code c \<le> 122 then char_of (code c - 32) else c) s"

definition MUTATING :: "string list" where
  "MUTATING = [''POST'', ''PUT'', ''PATCH'', ''DELETE'']"

definition CREDENTIAL_TYPES :: "string list" where
  "CREDENTIAL_TYPES = [''api_key_header'', ''bearer'', ''static_header'']"

definition SECRET_REFS :: "string list" where
  "SECRET_REFS = [''value_env'', ''value_keychain'']"

definition MAX_SPEC_BYTES :: nat where "MAX_SPEC_BYTES = 256000"

fun spec_identities :: "nat \<Rightarrow> string list \<Rightarrow> pyval list \<Rightarrow> string list res" where
  "spec_identities i seen [] = Inr seen"
| "spec_identities i seen (v # vs) =
     (let ident = (case v of VDict d \<Rightarrow> strip (text_or_empty (dget d ''id'')) | _ \<Rightarrow> [])
      in if ident = [] then Inl (bad_request (at_index ''identities'' i @ '' must have an id''))
         else if ident \<in> set seen then Inl (bad_request (''duplicate identity id '' @ [CHR 0x27] @ ident @ [CHR 0x27]))
         else spec_identities (Suc i) (seen @ [ident]) vs)"

definition check_request :: "pydict \<Rightarrow> unit res" where
  "check_request spec = (case dget spec ''request'' of
       VDict r \<Rightarrow>
         ignoreE (requireE (\<not> blank (dget r ''method'')) (bad_request ''spec.request.method is required''))
         (ignoreE (requireE (\<not> blank (dget r ''url'')) (bad_request ''spec.request.url is required''))
         (let m = upper_ascii (text_or_empty (dget r ''method''))
          in requireE (\<not> (m \<in> set MUTATING \<and> dget spec ''mutating'' \<noteq> VBool True))
               (bad_request (''request method '' @ m @ '' requires spec.mutating=true''))))
     | _ \<Rightarrow> Inl (bad_request ''spec.request is required''))"

definition check_expected :: "string list \<Rightarrow> nat \<Rightarrow> pyval \<Rightarrow> unit res" where
  "check_expected seen i v = (case v of
       VDict d \<Rightarrow>
         ignoreE (requireE (text_or_empty (dget d ''identity_id'') \<in> set seen)
           (bad_request (at_index ''expected_access'' i @ ''.identity_id does not match any identity'')))
         (bindE (in_names (dget d ''decision'') [''allow'', ''deny'', ''skip'']) (\<lambda>known.
          requireE known (bad_request (at_index ''expected_access'' i @ ''.decision must be allow, deny, or skip''))))
     | _ \<Rightarrow> Inl (bad_request (at_index ''expected_access'' i @ '' must be an object'')))"

definition check_deny_status :: "nat \<Rightarrow> pyval \<Rightarrow> unit res" where
  "check_deny_status i v = (case v of
       VInt n \<Rightarrow>
         ignoreE (requireE (100 \<le> n \<and> n \<le> 599) (bad_request (at_index ''deny_status'' i @ '' is not a valid HTTP status'')))
         (requireE (\<not> (200 \<le> n \<and> n < 300)) (bad_request (at_index ''deny_status'' i @ '' cannot be a success status'')))
     | _ \<Rightarrow> Inl (bad_request (at_index ''deny_status'' i @ '' is not a valid HTTP status'')))"

definition check_resource :: "pydict \<Rightarrow> string list \<Rightarrow> unit res" where
  "check_resource spec seen = (case dget spec ''resource'' of
       VNone \<Rightarrow> Inr ()
     | VDict r \<Rightarrow>
         (let owner = text_or_empty (dget r ''owner_identity''); role = text_or_empty (dget r ''required_role'')
          in ignoreE (requireE (owner = [] \<or> owner \<in> set seen) (bad_request ''resource.owner_identity does not match any identity''))
            (case or_val (dget spec ''role_hierarchy'') (VList []) of
               VList roles \<Rightarrow> requireE (role = [] \<or> VStr role \<in> set roles) (bad_request ''resource.required_role is not in role_hierarchy'')
             | _ \<Rightarrow> Inl (bad_request ''spec.role_hierarchy must be an array'')))
     | _ \<Rightarrow> Inl (bad_request ''spec.resource must be an object''))"

definition check_capture :: "nat \<Rightarrow> pydict \<Rightarrow> unit res" where
  "check_capture i d = requireE (case or_val (dget d ''capture'') (VDict []) of
       VDict c \<Rightarrow> list_all (\<lambda>(k, v). strip k \<noteq> [] \<and> (case v of VStr t \<Rightarrow> strip t \<noteq> [] | _ \<Rightarrow> False)) c
     | _ \<Rightarrow> False) (bad_request (at_index ''setup'' i @ '' capture entries require a name and path''))"

definition check_step :: "pydict \<Rightarrow> string list \<Rightarrow> string list \<Rightarrow> nat \<Rightarrow> pydict \<Rightarrow> string res" where
  "check_step spec seen names i d =
     (let here = at_index ''setup'' i; who = text_or_empty (dget d ''as''); name = text_or_empty (dget d ''name'')
      in case dget d ''request'' of
           VDict r \<Rightarrow>
             ignoreE (requireE (\<not> blank (dget r ''method'') \<and> \<not> blank (dget r ''url'')) (bad_request (here @ '' must have a request method and url'')))
             (ignoreE (requireE (who = [] \<or> who \<in> set seen) (bad_request (here @ '' runs as an unknown identity'')))
             (ignoreE (requireE (name = [] \<or> name \<notin> set names) (bad_request (here @ '' has a duplicate name'')))
             (let m = upper_ascii (text_or_empty (dget r ''method''))
              in ignoreE (requireE (\<not> (m \<in> set MUTATING \<and> dget spec ''mutating'' \<noteq> VBool True))
                   (bad_request (here @ '' uses '' @ m @ '' and requires spec.mutating=true'')))
                 (ignoreE (check_capture i d) (Inr name)))))
         | _ \<Rightarrow> Inl (bad_request (here @ '' must have a request method and url'')))"

fun check_setup :: "pydict \<Rightarrow> string list \<Rightarrow> string list \<Rightarrow> nat \<Rightarrow> pyval list \<Rightarrow> unit res" where
  "check_setup spec seen names i [] = Inr ()"
| "check_setup spec seen names i (VDict d # vs) =
     bindE (check_step spec seen names i d) (\<lambda>name. check_setup spec seen (name # names) (Suc i) vs)"
| "check_setup spec seen names i (v # vs) = Inl (bad_request (at_index ''setup'' i @ '' must be an object''))"

section \<open>Secrets\<close>

definition given_refs :: "pydict \<Rightarrow> string list" where
  "given_refs cred = filter (\<lambda>r. \<not> blank (dget cred r)) SECRET_REFS"

definition check_credential :: "nat \<Rightarrow> pyval \<Rightarrow> unit res" where
  "check_credential i v =
     (let here = at_index ''identities'' i in case v of
       VDict d \<Rightarrow> (case dget d ''credential'' of
           VDict cred \<Rightarrow>
             bindE (in_names (dget cred ''type'') CREDENTIAL_TYPES) (\<lambda>known.
             ignoreE (requireE known (bad_request (here @ ''.credential.type must be one of '' @ py_repr (VList (map VStr CREDENTIAL_TYPES)))))
             (ignoreE (requireE (blank (dget cred ''value'')) (bad_request (here @ ''.credential must not contain a literal '' @ [CHR 0x27] @ ''value''
                @ [CHR 0x27] @ '' '' @ em_dash @ '' reference the secret with '' @ [CHR 0x27] @ ''value_env'' @ [CHR 0x27] @ '' or '' @ [CHR 0x27]
                @ ''value_keychain'' @ [CHR 0x27] @ '' so it is resolved on the runner and never stored here'')))
             (ignoreE (requireE (length (given_refs cred) \<le> 1)
                (bad_request (here @ ''.credential may specify at most one of '' @ py_repr (VList (map VStr SECRET_REFS)))))
             (ignoreE (requireE (given_refs cred \<noteq> [] \<or> dget cred ''type'' = VStr ''static_header'') (bad_request (here @ ''.credential of type ''
                @ [CHR 0x27] @ py_str (dget cred ''type'') @ [CHR 0x27] @ '' needs '' @ [CHR 0x27] @ ''value_env'' @ [CHR 0x27] @ '' or ''
                @ [CHR 0x27] @ ''value_keychain'' @ [CHR 0x27])))
             (requireE (\<not> (given_refs cred \<noteq> [] \<and> dget cred ''type'' = VStr ''static_header'' \<and> blank (dget cred ''header'')))
                (bad_request (here @ ''.credential static_header needs a header name'')))))))
         | _ \<Rightarrow> Inl (bad_request (here @ '' must have a credential object'')))
     | _ \<Rightarrow> Inl (bad_request (here @ '' must be an object'')))"

definition reject_literal_credentials :: "pyval \<Rightarrow> unit res" where
  "reject_literal_credentials spec = bindE (case_identities spec) (eachE check_credential)"

definition reject_reference :: "string \<Rightarrow> string \<Rightarrow> unit res" where
  "reject_reference path t = requireE (\<not> contains t ''${'')
     (bad_request (path @ '' must not contain a ${...} environment reference; reference credentials with '' @ [CHR 0x27] @ ''value_env''
        @ [CHR 0x27] @ '' or '' @ [CHR 0x27] @ ''value_keychain'' @ [CHR 0x27]))"

lemma mapE_cong [fundef_cong]: "xs = ys \<Longrightarrow> (\<And>x. x \<in> set ys \<Longrightarrow> f x = g x) \<Longrightarrow> mapE f xs = mapE g ys"
  by (induction xs arbitrary: ys) auto

lemma enumerate_snd_size: "(i, x) \<in> set (enumerate n xs) \<Longrightarrow> size x < Suc (size_list size xs)"
  by (metis in_set_enumerate_eq nth_mem size_list_estimation' le_imp_less_Suc order_refl fst_conv snd_conv less_diff_conv2)

lemma member_size: "(k, v) \<in> set d \<Longrightarrow> size v < Suc (size_list (size_prod (\<lambda>x. 0) size) d)"
  by (induction d) auto

function reject_environment_references :: "string \<Rightarrow> pyval \<Rightarrow> unit res" where
  "reject_environment_references path (VStr t) = reject_reference path t"
| "reject_environment_references path (VDict d) =
     ignoreE (mapE (\<lambda>(k, v). ignoreE (reject_reference (path @ '' key'') k) (reject_environment_references (path @ ''.'' @ k) v)) d) (Inr ())"
| "reject_environment_references path (VList xs) =
     ignoreE (mapE (\<lambda>(i, x). reject_environment_references (at_index path i) x) (enumerate 0 xs)) (Inr ())"
| "reject_environment_references path VNone = Inr ()"
| "reject_environment_references path (VBool b) = Inr ()"
| "reject_environment_references path (VInt n) = Inr ()"
| "reject_environment_references path (VFloat f) = Inr ()"
  by pat_completeness auto
termination
  by (relation "measure (\<lambda>(p, v). size v)") (auto dest: enumerate_snd_size member_size)

section \<open>Session preflights\<close>

definition PREFLIGHT_FIELDS :: "string list" where
  "PREFLIGHT_FIELDS = [''url'', ''expected_status'', ''json_fields'']"

definition preflight_origins :: "pyval \<Rightarrow> pydict \<Rightarrow> unit res" where
  "preflight_origins spec p = (case dget p ''url'' of
       VStr u \<Rightarrow>
         ignoreE (requireE (\<not> contains u ''{{'' \<and> \<not> contains u ''${'') ValueError)
         (bindE (preflight_origin (VStr u)) (\<lambda>a.
          bindE (vindex spec ''request'') (\<lambda>r. bindE (vindex r ''url'') (\<lambda>v.
          bindE (preflight_origin v) (\<lambda>b. requireE (a = b) ValueError)))))
     | _ \<Rightarrow> Inl ValueError)"

definition json_fields_ok :: "pyval \<Rightarrow> bool" where
  "json_fields_ok v = (case v of
       VDict d \<Rightarrow> 1 \<le> length d \<and> length d \<le> 8 \<and> list_all (\<lambda>(path, x).
           utf8_length path \<le> 200 \<and> list_all (\<lambda>part. strip part \<noteq> []) (split_char (CHR ''.'') path)
           \<and> (case x of VStr t \<Rightarrow> strip t \<noteq> [] \<and> utf8_length t \<le> 200 | _ \<Rightarrow> False)) d
     | _ \<Rightarrow> False)"

definition check_preflight :: "pyval \<Rightarrow> nat \<Rightarrow> pyval \<Rightarrow> unit res" where
  "check_preflight spec i identity =
     (let label = at_index ''identities'' i @ ''.preflight''
      in bindE (vget identity ''preflight'') (\<lambda>pre. case pre of
           VNone \<Rightarrow> Inr ()
         | VDict p \<Rightarrow>
             ignoreE (requireE (set (map fst p) = set PREFLIGHT_FIELDS) (bad_request (label @ '' requires only url, expected_status and json_fields'')))
             (ignoreE (case preflight_origins spec p of
                 Inl ValueError \<Rightarrow> Inl (bad_request (label @ '' needs an absolute HTTP URL on the request'' @ [CHR 0x27]
                    @ ''s origin, without userinfo, fragment or variables''))
               | other \<Rightarrow> other)
             (ignoreE (requireE (case dget p ''expected_status'' of VInt c \<Rightarrow> 200 \<le> c \<and> c < 300 | _ \<Rightarrow> False)
                (bad_request (label @ ''.expected_status must be a 2xx integer'')))
             (ignoreE (requireE (json_fields_ok (dget p ''json_fields''))
                (bad_request (label @ ''.json_fields needs 1 to 8 nonempty scalar matches, at most 200 UTF-8 bytes per path/value'')))
             (bindE (vindex identity ''credential'') (\<lambda>cred. bindE (vindex identity ''id'') (\<lambda>name.
              ignoreE (requireE (case name of VStr t \<Rightarrow> 1 \<le> utf8_length t \<and> utf8_length t \<le> 200 | _ \<Rightarrow> False)
                (bad_request (label @ '' identity id must be a string of at most 200 UTF-8 bytes'')))
              (requireE (case cred of VDict c \<Rightarrow> given_refs c \<noteq> [] | _ \<Rightarrow> False)
                (bad_request (label @ '' requires an authenticated local credential reference'')))))))))
         | _ \<Rightarrow> Inl (bad_request (label @ '' requires only url, expected_status and json_fields''))))"

definition validate_preflight :: "pyval \<Rightarrow> unit res" where
  "validate_preflight spec = bindE (case_identities spec) (eachE (check_preflight spec))"

section \<open>\<open>_validate_spec\<close>\<close>

definition iter_or_empty :: "pydict \<Rightarrow> string \<Rightarrow> pyval list res" where
  "iter_or_empty spec k = iter_val (or_val (dget spec k) (VList []))"

definition check_shape :: "pydict \<Rightarrow> unit res" where
  "check_shape spec =
     ignoreE (requireE (\<not> blank (dget spec ''id'')) (bad_request ''spec.id is required''))
     (case dget spec ''identities'' of
       VList ids \<Rightarrow>
         ignoreE (requireE (ids \<noteq> []) (bad_request ''spec.identities must be a non-empty array''))
         (bindE (spec_identities 0 [] ids) (\<lambda>seen.
          ignoreE (check_request spec)
          (bindE (iter_or_empty spec ''expected_access'') (\<lambda>es. ignoreE (eachE (check_expected seen) es)
          (bindE (iter_or_empty spec ''deny_status'') (\<lambda>cs. ignoreE (eachE check_deny_status cs)
          (ignoreE (check_resource spec seen)
          (bindE (iter_or_empty spec ''setup'') (\<lambda>steps. check_setup spec seen [] 0 steps)))))))))
     | _ \<Rightarrow> Inl (bad_request ''spec.identities must be a non-empty array''))"

definition validate_spec :: "pyval \<Rightarrow> pyval res" where
  "validate_spec v = (case v of
       VDict spec \<Rightarrow>
         ignoreE (requireE (spec \<noteq> []) (bad_request ''spec must be a non-empty object''))
         (ignoreE (requireE (length (dumps v) \<le> MAX_SPEC_BYTES) (bad_request ''spec is too large''))
         (ignoreE (check_shape spec)
         (ignoreE (reject_literal_credentials v)
         (ignoreE (reject_environment_references ''spec'' v)
         (ignoreE (validate_preflight v) (Inr v))))))
     | _ \<Rightarrow> Inl (bad_request ''spec must be a non-empty object''))"

section \<open>What a validated case holds\<close>

text \<open>Every text of a value: its strings and its keys.\<close>

fun texts :: "pyval \<Rightarrow> string list" where
  "texts (VStr t) = [t]"
| "texts (VList xs) = concat (map texts xs)"
| "texts (VDict d) = concat (map (\<lambda>(k, v). k # texts v) d)"
| "texts _ = []"

definition credential_blank :: "pyval \<Rightarrow> bool" where
  "credential_blank v = (case v of
       VDict d \<Rightarrow> (case dget d ''credential'' of VDict cred \<Rightarrow> blank (dget cred ''value'') | _ \<Rightarrow> False)
     | _ \<Rightarrow> False)"

text \<open>No identity carries a live credential, and nothing in the case refers to an environment variable.\<close>

definition holds_no_secret :: "pyval \<Rightarrow> bool" where
  "holds_no_secret v = (list_all (\<lambda>t. \<not> contains t ''${'') (texts v)
     \<and> (case case_identities v of Inr ids \<Rightarrow> list_all credential_blank ids | Inl e \<Rightarrow> False))"

lemma reference_free:
  "reject_environment_references path v = Inr () \<Longrightarrow> t \<in> set (texts v) \<Longrightarrow> \<not> contains t ''${''"
proof (induction path v arbitrary: t rule: reject_environment_references.induct)
  case (1 path s)
  then show ?case by (simp add: reject_reference_def)
next
  case (2 path d)
  then obtain k v where kv: "(k, v) \<in> set d" "t = k \<or> t \<in> set (texts v)" by auto
  then have "reject_reference (path @ '' key'') k = Inr ()" "reject_environment_references (path @ ''.'' @ k) v = Inr ()"
    using 2(2) by (auto simp: exn_simps dest!: mapE_Inr_all [of _ d _ "(k, v)"])
  with kv 2(1) show ?case by (auto simp: reject_reference_def)
next
  case (3 path xs)
  then obtain x where "x \<in> set xs" "t \<in> set (texts x)" by auto
  then obtain i where i: "i < length xs" "t \<in> set (texts (xs ! i))" by (auto simp: in_set_conv_nth)
  then have m: "(i, xs ! i) \<in> set (enumerate 0 xs)" by (simp add: in_set_enumerate_eq)
  then have "reject_environment_references (at_index path i) (xs ! i) = Inr ()"
    using 3(2) by (auto simp: exn_simps dest!: mapE_Inr_all [of _ "enumerate 0 xs" _ "(i, xs ! i)"])
  with m i 3(1) show ?case by auto
qed simp_all

lemma eachE_Inr: "eachE f xs = Inr u \<Longrightarrow> x \<in> set xs \<Longrightarrow> \<exists>i. f i x = Inr ()"
proof -
  assume e: "eachE f xs = Inr u" and "x \<in> set xs"
  then obtain i where "i < length xs" "x = xs ! i" by (auto simp: in_set_conv_nth)
  then have "(i, x) \<in> set (enumerate 0 xs)" by (simp add: in_set_enumerate_eq)
  with e show ?thesis by (auto simp: eachE_def exn_simps dest!: mapE_Inr_all)
qed

lemma credential_checked: "check_credential i v = Inr () \<Longrightarrow> credential_blank v"
  by (auto simp: check_credential_def credential_blank_def exn_simps Let_def split: pyval.splits)

lemma validate_spec_same: "validate_spec v = Inr w \<Longrightarrow> w = v"
  by (auto simp: validate_spec_def exn_simps split: pyval.splits)

lemma validate_specI:
  assumes "v = VDict d" "d \<noteq> []" "check_shape d = Inr ()" "length (dumps v) \<le> MAX_SPEC_BYTES"
    "reject_literal_credentials v = Inr ()" "reject_environment_references ''spec'' v = Inr ()" "validate_preflight v = Inr ()"
  shows "validate_spec v = Inr v"
  using assms(2-) unfolding assms(1) by (simp add: validate_spec_def)

lemma validate_spec_clean:
  assumes "validate_spec v = Inr w"
  shows "holds_no_secret w"
proof -
  obtain d where d: "v = VDict d" "w = v" using assms by (auto simp: validate_spec_def exn_simps split: pyval.splits)
  then have r: "reject_literal_credentials v = Inr ()" "reject_environment_references ''spec'' v = Inr ()"
    using assms by (auto simp: validate_spec_def exn_simps)
  from r(1) obtain ids where ids: "case_identities v = Inr ids" "eachE check_credential ids = Inr ()"
    by (auto simp: reject_literal_credentials_def exn_simps)
  then have "list_all credential_blank ids" using eachE_Inr credential_checked by (fastforce simp: list_all_iff)
  with ids(1) reference_free [OF r(2)] d(2) show ?thesis by (simp add: holds_no_secret_def list_all_iff)
qed

section \<open>The endpoints\<close>

definition tests_404 :: "string \<Rightarrow> string \<Rightarrow> db \<Rightarrow> AuthorizationTestCase res" where
  "tests_404 program_id cid s = someE (HTTPException 404 ''Test case not found'') (stored_case cid program_id s)"

definition opt_ok :: "('a \<Rightarrow> bool) \<Rightarrow> 'a option \<Rightarrow> bool" where
  "opt_ok p v = (case v of None \<Rightarrow> True | Some x \<Rightarrow> p x)"

definition create_test_case :: "sanitizer \<Rightarrow> env \<Rightarrow> current_user \<Rightarrow> string \<Rightarrow> string \<Rightarrow> string option \<Rightarrow> pyval \<Rightarrow> db
    \<Rightarrow> AuthorizationTestCase res \<times> db" where
  "create_test_case z env user program_id name description spec s = transact s (
     let n = strip_html z name; d = strip_html z (case description of None \<Rightarrow> [] | Some t \<Rightarrow> t)
     in ignoreE (requireE (1 \<le> length n \<and> length n \<le> 200) (HTTPException 422 ''name''))
       (ignoreE (requireE (length d \<le> 5000) (HTTPException 422 ''description''))
       (bindE (writable program_id user s) (\<lambda>e.
        bindE (validate_spec spec) (\<lambda>v.
        let row = \<lparr>tc_id = new_uuid env s, tc_program_id = program_id, tc_owner_github_id = cu_github_id user, tc_name = n,
              tc_test_case_id = take 200 (text_or_empty (dget (as_dict v) ''id'')), tc_description = strip_html z d, tc_spec = v,
              tc_created_at = now env, tc_updated_at = None\<rparr>
        in Inr (row, log_action env (cu_github_id user) ''create'' ''test_case'' (tc_id row) (Some program_id)
             (drew (s\<lparr>authorization_test_cases := authorization_test_cases s @ [row]\<rparr>))))))))"

record case_update =
  tu_name :: "string option"
  tu_description :: "string option"
  tu_spec :: "pyval option"

definition set_case :: "string \<Rightarrow> (AuthorizationTestCase \<Rightarrow> AuthorizationTestCase) \<Rightarrow> db \<Rightarrow> db" where
  "set_case k f s = s\<lparr>authorization_test_cases := amend_key tc_id k f (authorization_test_cases s)\<rparr>"

definition edited_case :: "sanitizer \<Rightarrow> int \<Rightarrow> string option \<Rightarrow> string option \<Rightarrow> pyval option \<Rightarrow> AuthorizationTestCase \<Rightarrow> AuthorizationTestCase" where
  "edited_case z t n d spec r =
     (let r1 = (case spec of None \<Rightarrow> r
            | Some w \<Rightarrow> r\<lparr>tc_spec := w, tc_test_case_id := take 200 (text_or_empty (dget (as_dict w) ''id''))\<rparr>);
          r2 = (case n of None \<Rightarrow> r1 | Some x \<Rightarrow> r1\<lparr>tc_name := x\<rparr>);
          r3 = (case d of None \<Rightarrow> r2 | Some x \<Rightarrow> r2\<lparr>tc_description := strip_html z x\<rparr>)
      in r3\<lparr>tc_updated_at := Some t\<rparr>)"

definition update_test_case :: "sanitizer \<Rightarrow> env \<Rightarrow> current_user \<Rightarrow> string \<Rightarrow> string \<Rightarrow> case_update \<Rightarrow> db \<Rightarrow> unit res \<times> db" where
  "update_test_case z env user program_id cid u s = transact s (
     let n = map_option (strip_html z) (tu_name u); d = map_option (strip_html z) (tu_description u)
     in ignoreE (requireE (opt_ok (\<lambda>t. 1 \<le> length t \<and> length t \<le> 200) n) (HTTPException 422 ''name''))
       (ignoreE (requireE (opt_ok (\<lambda>t. length t \<le> 5000) d) (HTTPException 422 ''description''))
       (bindE (writable program_id user s) (\<lambda>e.
        bindE (tests_404 program_id cid s) (\<lambda>row.
        bindE (case tu_spec u of None \<Rightarrow> Inr None | Some v \<Rightarrow> bindE (validate_spec v) (\<lambda>w. Inr (Some w))) (\<lambda>spec.
        let changed = (case spec of None \<Rightarrow> False | Some w \<Rightarrow> \<not> py_eq (tc_spec row) w)
        in Inr ((), log_action env (cu_github_id user) ''update'' ''test_case'' cid (Some program_id)
             (set_case cid (edited_case z (now env) n d spec) (advance changed program_id s)))))))))"

definition delete_test_case :: "env \<Rightarrow> current_user \<Rightarrow> string \<Rightarrow> string \<Rightarrow> db \<Rightarrow> unit res \<times> db" where
  "delete_test_case env user program_id cid s = transact s (
     bindE (writable program_id user s) (\<lambda>e.
     bindE (tests_404 program_id cid s) (\<lambda>row.
     let s1 = log_action env (cu_github_id user) ''delete'' ''test_case'' cid (Some program_id) (advance True program_id s)
     in Inr ((), s1\<lparr>authorization_test_cases := drop_key tc_id cid (authorization_test_cases s1)\<rparr>))))"

definition get_test_case :: "current_user \<Rightarrow> string \<Rightarrow> string \<Rightarrow> db \<Rightarrow> AuthorizationTestCase res" where
  "get_test_case user program_id cid s =
     ignoreE (get_engagement_or_404 program_id user s) (tests_404 program_id cid s)"

text \<open>Newest first.\<close>

definition list_test_cases :: "current_user \<Rightarrow> string \<Rightarrow> db \<Rightarrow> AuthorizationTestCase list res" where
  "list_test_cases user program_id s =
     ignoreE (get_engagement_or_404 program_id user s)
     (Inr (sort_key (\<lambda>c. - tc_created_at c) (filter (\<lambda>c. tc_program_id c = program_id) (authorization_test_cases s))))"

section \<open>Stored cases\<close>

definition tests_clean :: "db \<Rightarrow> bool" where
  "tests_clean s = (\<forall>c \<in> set (authorization_test_cases s). holds_no_secret (tc_spec c))"

lemma tests_clean_mono: "set (authorization_test_cases s') \<subseteq> set (authorization_test_cases s) \<Longrightarrow> tests_clean s \<Longrightarrow> tests_clean s'"
  by (auto simp: tests_clean_def)

lemma tests_clean_cong: "authorization_test_cases s' = authorization_test_cases s \<Longrightarrow> tests_clean s' = tests_clean s"
  by (simp add: tests_clean_def)

lemma create_test_case_clean:
  assumes "create_test_case z env user program_id name description spec s = (r, s')" and "tests_clean s"
  shows "tests_clean s'"
proof (cases "r")
  case (Inl e)
  then have "s' = s" using assms(1) by (auto simp: create_test_case_def dest: transact_error)
  with assms(2) show ?thesis by simp
next
  case (Inr row)
  then have "authorization_test_cases s' = authorization_test_cases s @ [row]" "validate_spec spec = Inr (tc_spec row)"
    using assms(1) by (auto simp: create_test_case_def transact_ok exn_simps Let_def log_action_def drew_def)
  with assms(2) validate_spec_clean show ?thesis by (auto simp: tests_clean_def)
qed

lemma edited_case_clean:
  "holds_no_secret (tc_spec c) \<Longrightarrow> opt_ok holds_no_secret spec \<Longrightarrow> holds_no_secret (tc_spec (edited_case z t n d spec c))"
  by (auto simp: edited_case_def opt_ok_def Let_def split: option.splits)

lemma update_test_case_clean:
  assumes u: "update_test_case z env user program_id cid u s = (r, s')" and "tests_clean s"
  shows "tests_clean s'"
proof (cases "r")
  case (Inl e)
  then have "s' = s" using u by (auto simp: update_test_case_def dest: transact_error)
  with assms(2) show ?thesis by simp
next
  case (Inr v)
  then obtain n d spec where f: "authorization_test_cases s' = amend_key tc_id cid (edited_case z (now env) n d spec) (authorization_test_cases s)"
      "(case tu_spec u of None \<Rightarrow> Inr None | Some v \<Rightarrow> bindE (validate_spec v) (\<lambda>w. Inr (Some w))) = Inr spec"
    using u by (auto simp: update_test_case_def transact_ok exn_simps Let_def log_action_def drew_def set_case_def advance_def set_engagement_def)
  then have "opt_ok holds_no_secret spec" by (auto simp: opt_ok_def exn_simps split: option.splits dest: validate_spec_clean)
  with f(1) assms(2) edited_case_clean show ?thesis by (auto simp: tests_clean_def set_amend_key)
qed

lemma delete_test_case_clean:
  "delete_test_case env user program_id cid s = (r, s') \<Longrightarrow> tests_clean s \<Longrightarrow> tests_clean s'"
  by (auto simp: delete_test_case_def transact_def tests_clean_def exn_simps Let_def log_action_def drew_def advance_def set_engagement_def
      drop_key_def split: sum.splits prod.splits)

end
