(* ===== verification/Edits.thy ===== *)
theory Edits
  imports Issuer_Protocol Authority_Records Test_Cases
begin

text \<open>
  Edits of the written authority of an engagement as steps: its scope, authorizations, test cases and members,
  and the engagement itself.  Whatever an edit changes for an engagement it counts in the engagement's
  authority revision; so while the revision stands, so does the authority.
\<close>

section \<open>Edits\<close>

inductive edit :: "(nat \<Rightarrow> string) \<Rightarrow> db \<Rightarrow> db \<Rightarrow> bool" for U where
  e_add_scope: "uuid env = U \<Longrightarrow> add_scope_item z env user program_id scope_type v kind notes s = (i, s') \<Longrightarrow> edit U s s'"
| e_delete_scope: "uuid env = U \<Longrightarrow> delete_scope_item env user program_id scope_type item_id s = (d, s') \<Longrightarrow> edit U s s'"
| e_import: "uuid env = U \<Longrightarrow> import_scope z env user program_id csv commit s = (r, s') \<Longrightarrow> edit U s s'"
| e_authorize: "uuid env = U \<Longrightarrow> create_authorization z dc env user program_id b s = (i, s') \<Longrightarrow> edit U s s'"
| e_reauthorize: "uuid env = U \<Longrightarrow> update_authorization z dc env user program_id k au s = (d, s') \<Longrightarrow> edit U s s'"
| e_add_member: "uuid env = U \<Longrightarrow> add_member env user program_id github_id role s = (m, s') \<Longrightarrow> edit U s s'"
| e_remove_member: "uuid env = U \<Longrightarrow> remove_member env user program_id github_id s = (d, s') \<Longrightarrow> edit U s s'"
| e_engagement: "uuid env = U \<Longrightarrow> update_engagement z dc env user program_id gu s = (d, s') \<Longrightarrow> edit U s s'"
| e_create_case: "uuid env = U \<Longrightarrow> create_test_case z env user program_id name description spec s = (c, s') \<Longrightarrow> edit U s s'"
| e_update_case: "uuid env = U \<Longrightarrow> update_test_case z env user program_id cid cu s = (d, s') \<Longrightarrow> edit U s s'"
| e_delete_case: "uuid env = U \<Longrightarrow> delete_test_case env user program_id cid s = (d, s') \<Longrightarrow> edit U s s'"

section \<open>The tables of both protocols\<close>

text \<open>An edit touches them only in the programs, where it moves each ledger, and draws further identifiers.\<close>

definition edited :: "db \<Rightarrow> db \<Rightarrow> bool" where
  "edited s s' = (scan_jobs s' = scan_jobs s \<and> job_executions s' = job_executions s
     \<and> managed_approvals s' = managed_approvals s \<and> managed_contracts s' = managed_contracts s \<and> managed_clock s' = managed_clock s
     \<and> uuids_drawn s \<le> uuids_drawn s'
     \<and> (\<exists>g. programs s' = map g (programs s) \<and> (\<forall>e \<in> set (programs s). ledger_move s e (g e))))"

lemma edited_refl [simp]: "edited s s"
  by (auto simp: edited_def intro!: exI [of _ id])

lemma edited_history:
  assumes "edited s s'"
  shows "history U s s'" "issuer_history U s s'"
proof -
  obtain g where g: "programs s' = map g (programs s)" "\<And>e. e \<in> set (programs s) \<Longrightarrow> ledger_move s e (g e)"
    using assms by (auto simp: edited_def)
  let ?t = "s\<lparr>programs := map g (programs s)\<rparr>"
  have "micro U s ?t" using g(2) by (rule ledgers)
  moreover have "micro U ?t s'" using assms g(1) by (intro frame) (simp_all add: edited_def)
  ultimately show "history U s s'" by (meson converse_rtranclp_into_rtranclp history_one)
  have "issuer_micro U s s'" using assms by (intro other) (simp_all add: edited_def)
  then show "issuer_history U s s'" by (rule r_into_rtranclp)
qed

lemma bump_move [simp]: "ledger_move s e (bump c e)"
  by (simp add: ledger_move_def authority_move_def bump_def budget_ok_def)

lemma edited_advance:
  assumes "scan_jobs s' = scan_jobs s" "job_executions s' = job_executions s"
    "managed_approvals s' = managed_approvals s" "managed_contracts s' = managed_contracts s" "managed_clock s' = managed_clock s"
    "uuids_drawn s \<le> uuids_drawn s'" "programs s' = programs (advance c k s)"
  shows "edited s s'"
  unfolding edited_def
  using assms
  by (auto simp: advance_def set_engagement_map
      intro!: exI [of _ "\<lambda>e. if eng_id e = k then bump c e else e"])

lemma advance_False [simp]: "advance False k s = s"
  by (simp add: advance_def set_engagement_def bump_def amend_key_def amend_def cong: if_cong)

lemma edited_same:
  assumes "scan_jobs s' = scan_jobs s" "job_executions s' = job_executions s"
    "managed_approvals s' = managed_approvals s" "managed_contracts s' = managed_contracts s" "managed_clock s' = managed_clock s"
    "uuids_drawn s \<le> uuids_drawn s'" "programs s' = programs s"
  shows "edited s s'"
  using assms edited_advance [of s' s False] by simp

section \<open>The written authority\<close>

text \<open>
  What the revision of an engagement stands for: its scope, its authorizations up to their notes, and each of
  its test cases up to what Python holds equal.
\<close>

definition unannotated :: "Authorization \<Rightarrow> Authorization" where
  "unannotated a = a\<lparr>az_notes := []\<rparr>"

abbreviation same_spec :: "pyval \<Rightarrow> pyval \<Rightarrow> bool" where
  "same_spec \<equiv> py_eq\<^sup>*\<^sup>*"

definition cases_kept :: "string \<Rightarrow> db \<Rightarrow> db \<Rightarrow> bool" where
  "cases_kept k s s' = (\<forall>c \<in> set (authorization_test_cases s). tc_program_id c = k \<longrightarrow>
     (\<exists>c' \<in> set (authorization_test_cases s'). tc_id c' = tc_id c \<and> tc_program_id c' = k \<and> same_spec (tc_spec c) (tc_spec c')))"

definition scope_of :: "string \<Rightarrow> db \<Rightarrow> ScopeItem list" where
  "scope_of k s = filter (\<lambda>r. sc_program_id r = k) (scope_items s)"

definition authorizations_of :: "string \<Rightarrow> db \<Rightarrow> Authorization list" where
  "authorizations_of k s = map unannotated (filter (\<lambda>a. az_program_id a = k) (authorizations s))"

definition authority_kept :: "string \<Rightarrow> db \<Rightarrow> db \<Rightarrow> bool" where
  "authority_kept k s s' = (scope_of k s' = scope_of k s \<and> authorizations_of k s' = authorizations_of k s \<and> cases_kept k s s')"

lemma authority_kept_refl: "authority_tables s' = authority_tables s \<Longrightarrow> authority_kept k s s'"
  by (auto simp: authority_kept_def authority_tables_def scope_of_def authorizations_of_def cases_kept_def)

lemma authority_kept_trans: "authority_kept k s t \<Longrightarrow> authority_kept k t u \<Longrightarrow> authority_kept k s u"
  unfolding authority_kept_def cases_kept_def by simp (metis rtranclp_trans)

text \<open>The keys of the rows are distinct, and the generator will not draw one of them again.\<close>

definition drawn :: "(nat \<Rightarrow> string) \<Rightarrow> db \<Rightarrow> string list \<Rightarrow> bool" where
  "drawn U s ks = (distinct ks \<and> (\<forall>n \<ge> uuids_drawn s. U n \<notin> set ks))"

definition authority_ok :: "(nat \<Rightarrow> string) \<Rightarrow> db \<Rightarrow> bool" where
  "authority_ok U s = (drawn U s (map sc_id (scope_items s)) \<and> drawn U s (map az_id (authorizations s)) \<and> drawn U s (map tc_id (authorization_test_cases s)))"

lemma drawn_more: "drawn U s ks \<Longrightarrow> uuids_drawn s \<le> uuids_drawn s' \<Longrightarrow> drawn U s' ks"
  by (simp add: drawn_def)

lemma drawn_new: "inj U \<Longrightarrow> drawn U s ks \<Longrightarrow> k = U (uuids_drawn s) \<Longrightarrow> uuids_drawn s < uuids_drawn s' \<Longrightarrow> drawn U s' (ks @ [k])"
  by (auto simp: drawn_def dest: injD)

lemma drawn_range:
  assumes "inj U" "drawn U s ks" "uuids_drawn s + n \<le> uuids_drawn s'"
  shows "drawn U s' (ks @ map U [uuids_drawn s..<uuids_drawn s + n])"
proof -
  have "distinct (ks @ map U [uuids_drawn s..<uuids_drawn s + n])"
    using assms(1,2) by (auto simp: drawn_def distinct_map inj_on_def inj_def)
  with assms show ?thesis by (auto simp: drawn_def dest: injD)
qed

lemma drawn_filter: "drawn U s (map f xs) \<Longrightarrow> uuids_drawn s \<le> uuids_drawn s' \<Longrightarrow> drawn U s' (map f (filter p xs))"
  unfolding drawn_def by (simp add: distinct_map_filter image_iff)

text \<open>The revision of an engagement stands for its authority.\<close>

definition stands :: "db \<Rightarrow> db \<Rightarrow> bool" where
  "stands s s' = (\<forall>k e e'. get_engagement k s = Some e \<longrightarrow> get_engagement k s' = Some e' \<longrightarrow>
     eng_managed_authority_revision e' = eng_managed_authority_revision e \<longrightarrow> authority_kept k s s')"

lemma stands_same: "authority_tables s' = authority_tables s \<Longrightarrow> stands s s'"
  by (simp add: stands_def authority_kept_refl)

text \<open>Changes for one engagement, counted in its revision.\<close>

lemma stands_advanced:
  assumes "programs s' = programs (advance True p s)" and "\<And>k. k \<noteq> p \<Longrightarrow> authority_kept k s s'"
  shows "stands s s'"
  unfolding stands_def
proof (intro allI impI)
  fix k e e'
  assume e: "get_engagement k s = Some e" "get_engagement k s' = Some e'"
    "eng_managed_authority_revision e' = eng_managed_authority_revision e"
  have "get_engagement p s' = map_option (bump True) (get_engagement p s)"
    using engagements.get_upd [of "bump True" p p s] assms(1) by (simp add: get_engagement_def advance_def bump_def)
  with e have "k \<noteq> p" by (auto simp: bump_def)
  then show "authority_kept k s s'" by (rule assms(2))
qed

lemma stands_edit:
  assumes "programs s' = programs (advance c p s)" and "\<And>k. k \<noteq> p \<or> \<not> c \<Longrightarrow> authority_kept k s s'"
  shows "stands s s'"
proof (cases c)
  case True then show ?thesis using assms by (intro stands_advanced [of s' p]) auto
next
  case False then show ?thesis using assms(2) by (simp add: stands_def)
qed

text \<open>A change that keeps everything authority rests on, and that both protocols allow.\<close>

definition progress :: "(nat \<Rightarrow> string) \<Rightarrow> db \<Rightarrow> db \<Rightarrow> bool" where
  "progress U s s' = (history U s s' \<and> issuer_history U s s' \<and> (tests_clean s \<longrightarrow> tests_clean s')
     \<and> (authority_ok U s \<longrightarrow> authority_ok U s' \<and> stands s s'))"

lemma progress_refl [simp]: "progress U s s"
  by (simp add: progress_def stands_same)

lemma progress_ok: "progress U s s' \<Longrightarrow> inj U \<Longrightarrow> tables_ok U s \<Longrightarrow> tables_ok U s'"
  unfolding progress_def by (blast intro: tables_ok_history)

lemma stands_trans:
  assumes "stands s t" "stands t u" "history U s t" "history U t u"
  shows "stands s u"
  unfolding stands_def
proof (intro allI impI)
  fix k e e''
  assume e: "get_engagement k s = Some e" "get_engagement k u = Some e''"
    "eng_managed_authority_revision e'' = eng_managed_authority_revision e"
  obtain e' where e': "get_engagement k t = Some e'" "authority_move e' e''" using engagement_history [OF assms(4) e(2)] by blast
  moreover have "authority_move e e'" using engagement_history [OF assms(3) e'(1)] e(1) by auto
  ultimately have "eng_managed_authority_revision e' = eng_managed_authority_revision e"
    "eng_managed_authority_revision e'' = eng_managed_authority_revision e'" using e(3) by (auto simp: authority_move_def)
  with assms(1,2) e e'(1) have "authority_kept k s t" "authority_kept k t u" by (auto simp: stands_def)
  then show "authority_kept k s u" by (rule authority_kept_trans)
qed

lemma progress_trans: "progress U s t \<Longrightarrow> progress U t u \<Longrightarrow> progress U s u"
  unfolding progress_def by (auto intro: stands_trans rtranclp_trans)

lemma drawn_history: "history U s s' \<Longrightarrow> uuids_drawn s \<le> uuids_drawn s'"
proof (induction rule: rtranclp_induct)
  case (step t u)
  have "uuids_drawn t \<le> uuids_drawn u" using step(2)
    by cases (auto simp: drew_def add_job_def add_execution_def cascade_job_def del_job_def del_execution_def cascade_engagement_def
        del_engagement_def Let_def)
  with step(3) show ?case by simp
qed simp

lemma evolution_progress: "evolution U s s' \<Longrightarrow> progress U s s'"
  using drawn_history [of U s s']
  by (auto simp: evolution_def progress_def stands_same authority_tables_def tests_clean_def authority_ok_def intro: drawn_more)

lemma edited_progress:
  assumes "edited s s'" and "tests_clean s \<longrightarrow> tests_clean s'" and "authority_ok U s \<Longrightarrow> authority_ok U s' \<and> stands s s'"
  shows "progress U s s'"
  using assms edited_history [OF assms(1)] by (simp add: progress_def)

section \<open>Every edit is progress\<close>

text \<open>The tables no edit touches.\<close>

definition outside :: "db \<Rightarrow> db \<Rightarrow> bool" where
  "outside s s' = (scan_jobs s' = scan_jobs s \<and> job_executions s' = job_executions s
     \<and> managed_approvals s' = managed_approvals s \<and> managed_contracts s' = managed_contracts s \<and> managed_clock s' = managed_clock s
     \<and> uuids_drawn s \<le> uuids_drawn s')"

named_theorems edit_simps

lemmas [edit_simps] = transact_ok exn_simps Let_def outside_def log_action_def drew_def advance_def set_engagement_def new_uuid_def

lemma edited_outside: "outside s s' \<Longrightarrow> programs s' = programs (advance c k s) \<Longrightarrow> edited s s'"
  unfolding outside_def by (elim conjE, rule edited_advance)

lemma transact_progress:
  assumes "transact s m = (r, s')" and "\<And>a s''. m = Inr (a, s'') \<Longrightarrow> progress U s s''"
  shows "progress U s s'"
  using assms by (cases m) (auto simp: transact_def split: prod.splits)

lemma same_progress:
  assumes "outside s s'" "programs s' = programs s" "authority_tables s' = authority_tables s"
  shows "progress U s s'"
proof (rule edited_progress)
  show "edited s s'" using edited_outside [of s s' False] assms by simp
  show "tests_clean s \<longrightarrow> tests_clean s'" using assms(3) by (simp add: tests_clean_def authority_tables_def)
  assume "authority_ok U s"
  moreover have "uuids_drawn s \<le> uuids_drawn s'" using assms(1) by (simp add: outside_def)
  ultimately show "authority_ok U s' \<and> stands s s'"
    using assms(3) by (auto simp: authority_ok_def authority_tables_def stands_same intro: drawn_more)
qed

text \<open>A change of scope, of authorizations, or of test cases, counted in the revision.\<close>

lemma scope_progress:
  assumes o: "outside s s'" "programs s' = programs (advance c p s)" "authorizations s' = authorizations s"
      "authorization_test_cases s' = authorization_test_cases s"
    and d: "drawn U s (map sc_id (scope_items s)) \<Longrightarrow> drawn U s' (map sc_id (scope_items s'))"
    and k: "\<And>k. drawn U s (map sc_id (scope_items s)) \<Longrightarrow> k \<noteq> p \<or> \<not> c \<Longrightarrow> scope_of k s' = scope_of k s"
  shows "progress U s s'"
proof (rule edited_progress)
  show "edited s s'" by (rule edited_outside [OF o(1,2)])
  show "tests_clean s \<longrightarrow> tests_clean s'" using o(4) by (simp add: tests_clean_def)
  assume ok: "authority_ok U s"
  then have a: "authority_kept k s s'" if "k \<noteq> p \<or> \<not> c" for k
    using that o k by (auto simp: authority_kept_def authorizations_of_def cases_kept_def authority_ok_def)
  have "stands s s'" by (rule stands_edit [OF o(2) a])
  moreover have "uuids_drawn s \<le> uuids_drawn s'" using o(1) by (simp add: outside_def)
  ultimately show "authority_ok U s' \<and> stands s s'" using ok o d by (auto simp: authority_ok_def intro: drawn_more)
qed

lemma authorization_progress:
  assumes o: "outside s s'" "programs s' = programs (advance c p s)" "scope_items s' = scope_items s"
      "authorization_test_cases s' = authorization_test_cases s"
    and d: "drawn U s (map az_id (authorizations s)) \<Longrightarrow> drawn U s' (map az_id (authorizations s'))"
    and k: "\<And>k. drawn U s (map az_id (authorizations s)) \<Longrightarrow> k \<noteq> p \<or> \<not> c \<Longrightarrow> authorizations_of k s' = authorizations_of k s"
  shows "progress U s s'"
proof (rule edited_progress)
  show "edited s s'" by (rule edited_outside [OF o(1,2)])
  show "tests_clean s \<longrightarrow> tests_clean s'" using o(4) by (simp add: tests_clean_def)
  assume ok: "authority_ok U s"
  then have a: "authority_kept k s s'" if "k \<noteq> p \<or> \<not> c" for k
    using that o k by (auto simp: authority_kept_def scope_of_def cases_kept_def authority_ok_def)
  have "stands s s'" by (rule stands_edit [OF o(2) a])
  moreover have "uuids_drawn s \<le> uuids_drawn s'" using o(1) by (simp add: outside_def)
  ultimately show "authority_ok U s' \<and> stands s s'" using ok o d by (auto simp: authority_ok_def intro: drawn_more)
qed

lemma case_progress:
  assumes o: "outside s s'" "programs s' = programs (advance c p s)" "scope_items s' = scope_items s" "authorizations s' = authorizations s"
    and t: "tests_clean s \<longrightarrow> tests_clean s'"
    and d: "drawn U s (map tc_id (authorization_test_cases s)) \<Longrightarrow> drawn U s' (map tc_id (authorization_test_cases s'))"
    and k: "\<And>k. drawn U s (map tc_id (authorization_test_cases s)) \<Longrightarrow> k \<noteq> p \<or> \<not> c \<Longrightarrow> cases_kept k s s'"
  shows "progress U s s'"
proof (rule edited_progress)
  show "edited s s'" by (rule edited_outside [OF o(1,2)])
  show "tests_clean s \<longrightarrow> tests_clean s'" by (rule t)
  assume ok: "authority_ok U s"
  then have a: "authority_kept k s s'" if "k \<noteq> p \<or> \<not> c" for k
    using that o k by (auto simp: authority_kept_def scope_of_def authorizations_of_def authority_ok_def)
  have "stands s s'" by (rule stands_edit [OF o(2) a])
  moreover have "uuids_drawn s \<le> uuids_drawn s'" using o(1) by (simp add: outside_def)
  ultimately show "authority_ok U s' \<and> stands s s'" using ok o d by (auto simp: authority_ok_def intro: drawn_more)
qed

subsection \<open>Scope and members\<close>

lemma scope_rows_progress:
  assumes U: "inj U" and o: "outside s s'" "programs s' = programs (advance True p s)" "authorizations s' = authorizations s"
      "authorization_test_cases s' = authorization_test_cases s"
    and r: "scope_items s' = scope_items s @ rows" "map sc_id rows = map U [uuids_drawn s..<uuids_drawn s + length rows]"
      "uuids_drawn s + length rows \<le> uuids_drawn s'" "\<And>r. r \<in> set rows \<Longrightarrow> sc_program_id r = p"
  shows "progress U s s'"
proof (rule scope_progress [OF o])
  assume d: "drawn U s (map sc_id (scope_items s))"
  show "drawn U s' (map sc_id (scope_items s'))"
    unfolding r(1) map_append r(2) by (rule drawn_range [OF U d r(3)])
next
  fix k assume "k \<noteq> p \<or> \<not> True"
  then show "scope_of k s' = scope_of k s" using r(1,4) by (auto simp: scope_of_def filter_empty_conv)
qed

lemma add_scope_item_progress:
  assumes U: "inj U" "uuid env = U" and a: "add_scope_item z env user program_id scope_type v kind notes s = (i, s')"
  shows "progress U s s'"
  using a unfolding add_scope_item_def
proof (rule transact_progress, goal_cases)
  case (1 a s'')
  then obtain w n where "scope_body z v kind notes = Inr (w, n)" by (auto simp: exn_simps)
  with 1 show ?case
    by (intro scope_rows_progress [OF U(1), where p = program_id and rows = "[\<lparr>sc_id = new_uuid env s, sc_program_id = program_id, sc_scope_type = scope_type,
       sc_value = w, sc_kind = kind, sc_notes = n, sc_max_severity = [], sc_created_at = Some (now env)\<rparr>]"])
      (auto simp: edit_simps add_scope_row_def U(2))
qed

lemma delete_scope_item_progress:
  assumes "delete_scope_item env user program_id scope_type item_id s = (d, s')"
  shows "progress U s s'"
  using assms unfolding delete_scope_item_def
proof (rule transact_progress, goal_cases)
  case (1 a s'')
  then obtain item where i: "item \<in> set (scope_items s)" "sc_id item = item_id" "sc_program_id item = program_id"
    by (auto simp: edit_simps dest!: find_SomeD)
  have r: "scope_items s'' = filter (\<lambda>r. sc_id r \<noteq> item_id) (scope_items s)" "uuids_drawn s \<le> uuids_drawn s''"
    using 1 by (auto simp: edit_simps drop_key_def)
  have "sc_id r \<noteq> item_id" if "drawn U s (map sc_id (scope_items s))" "r \<in> set (scope_items s)" "sc_program_id r \<noteq> program_id" for r
    using that i by (auto simp: drawn_def distinct_map dest: inj_onD)
  then have "scope_of k s'' = scope_of k s" if "drawn U s (map sc_id (scope_items s))" "k \<noteq> program_id" for k
    using that by (auto simp: scope_of_def r(1) intro!: filter_cong)
  with r show ?case
    by (intro scope_progress [where c = True and p = program_id])
      (use 1 in \<open>auto simp: edit_simps intro: drawn_filter\<close>)
qed

lemma import_rows_added:
  "\<exists>rows. fold (add_import_item env p) is s = s\<lparr>scope_items := scope_items s @ rows, uuids_drawn := uuids_drawn s + length rows\<rparr>
     \<and> map sc_id rows = map (uuid env) [uuids_drawn s..<uuids_drawn s + length rows] \<and> (\<forall>r \<in> set rows. sc_program_id r = p)"
proof (induction "is" arbitrary: s)
  case (Cons i "is")
  let ?r = "\<lparr>sc_id = new_uuid env s, sc_program_id = p, sc_scope_type = ii_scope_type i, sc_value = ii_value i, sc_kind = ii_kind i,
    sc_notes = ii_notes i, sc_max_severity = ii_max_severity i, sc_created_at = Some (now env)\<rparr>"
  let ?t = "s\<lparr>scope_items := scope_items s @ [?r], uuids_drawn := Suc (uuids_drawn s)\<rparr>"
  have t: "fold (add_import_item env p) (i # is) s = fold (add_import_item env p) is ?t"
    by (simp add: add_import_item_def add_scope_row_def drew_def)
  obtain rows where rows: "fold (add_import_item env p) is ?t = ?t\<lparr>scope_items := scope_items ?t @ rows, uuids_drawn := uuids_drawn ?t + length rows\<rparr>"
    "map sc_id rows = map (uuid env) [uuids_drawn ?t..<uuids_drawn ?t + length rows]" "\<forall>r \<in> set rows. sc_program_id r = p"
    using Cons [of ?t] by blast
  have "map sc_id (?r # rows) = map (uuid env) [uuids_drawn s..<uuids_drawn s + length (?r # rows)]"
    using rows(2) by (simp add: new_uuid_def upt_conv_Cons del: upt_Suc)
  with rows(1,3) show ?case unfolding t by (intro exI [of _ "?r # rows"]) simp
qed (auto intro: exI [of _ "[]"])

lemma import_scope_progress:
  assumes U: "inj U" "uuid env = U" and a: "import_scope z env user program_id csv commit s = (r, s')"
  shows "progress U s s'"
proof (cases r)
  case (Inl e)
  then have "s' = s" using a by (auto simp: import_scope_def dest: transact_error)
  then show ?thesis by simp
next
  case (Inr v)
  obtain parsed skipped new dups where "s' = (if commit \<and> new \<noteq> [] then log_action env (cu_github_id user) ''import'' ''scope_item'' program_id
      (Some program_id) (fold (add_import_item env program_id) new (advance True program_id s)) else s)"
    by (rule import_scope_result [OF a [unfolded Inr]])
  then have s': "s' = s \<or> s' = log_action env (cu_github_id user) ''import'' ''scope_item'' program_id (Some program_id)
      (fold (add_import_item env program_id) new (advance True program_id s))"
    by (simp split: if_splits)
  obtain rows where "fold (add_import_item env program_id) new (advance True program_id s)
      = (advance True program_id s)\<lparr>scope_items := scope_items s @ rows, uuids_drawn := uuids_drawn s + length rows\<rparr>"
    "map sc_id rows = map U [uuids_drawn s..<uuids_drawn s + length rows]" "\<forall>r \<in> set rows. sc_program_id r = program_id"
    using import_rows_added [of env program_id new "advance True program_id s"] U(2) by (auto simp: advance_def set_engagement_def)
  with s' show ?thesis
    by (elim disjE) (simp, auto intro!: scope_rows_progress [OF U(1), where p = program_id and rows = rows] simp: edit_simps)
qed

lemma member_progress:
  "add_member env user program_id github_id role s = (m, s') \<Longrightarrow> progress U s s'"
  "remove_member env user program_id github_id s = (d, s') \<Longrightarrow> progress U s s'"
  unfolding add_member_def remove_member_def
  by (erule transact_progress, rule same_progress; auto simp: edit_simps authority_tables_def)+

subsection \<open>Authorizations and the engagement\<close>

lemma create_authorization_progress:
  assumes U: "inj U" "uuid env = U" and a: "create_authorization z dc env user program_id b s = (i, s')"
  shows "progress U s s'"
  using a unfolding create_authorization_def
proof (rule transact_progress, goal_cases)
  case (1 a s'')
  then obtain row where r: "authorizations s'' = authorizations s @ [row]" "az_id row = U (uuids_drawn s)" "az_program_id row = program_id"
      "programs s'' = programs (advance True program_id s)" "outside s s''" "scope_items s'' = scope_items s"
      "authorization_test_cases s'' = authorization_test_cases s" "uuids_drawn s < uuids_drawn s''"
    by (auto simp: edit_simps U(2))
  show ?case
    by (rule authorization_progress [where p = program_id and c = True])
      (use r U in \<open>auto simp: authorizations_of_def intro!: drawn_new\<close>)
qed

lemma column_same: "\<not> date_differs v t \<Longrightarrow> or_keep (map_option (column dc) v) t = t"
  by (auto simp: date_differs_def or_keep_def same_date_def column_def split: option.splits)

lemma or_keep_same: "\<not> differs v t \<Longrightarrow> or_keep v t = t"
  by (auto simp: differs_def or_keep_def split: option.splits)

lemma amended_same: "\<not> authority_changed f a \<Longrightarrow> unannotated (amended dc f a) = unannotated a"
  by (simp add: authority_changed_def amended_def unannotated_def column_same or_keep_same)

lemma update_authorization_progress:
  assumes "update_authorization z dc env user program_id k u s = (d, s')"
  shows "progress U s s'"
  using assms unfolding update_authorization_def
proof (rule transact_progress, goal_cases)
  case (1 v s'')
  then obtain a f where a: "authorization_404 program_id k s = Inr a"
      and r: "authorizations s'' = amend_key az_id k (amended dc f) (authorizations s)" "programs s'' = programs (advance (authority_changed f a) program_id s)"
      "outside s s''" "scope_items s'' = scope_items s" "authorization_test_cases s'' = authorization_test_cases s"
    by (auto simp: edit_simps)
  then have a: "a \<in> set (authorizations s)" "az_id a = k" "az_program_id a = program_id"
    by (auto simp: authorization_404_def dest: find_SomeD)
  have i: "az_id (amended dc f x) = az_id x" "az_program_id (amended dc f x) = az_program_id x" for x by (simp_all add: amended_def)
  have same: "authorizations_of k' s'' = authorizations_of k' s"
    if d: "drawn U s (map az_id (authorizations s))" and k': "k' \<noteq> program_id \<or> \<not> authority_changed f a" for k'
  proof -
    have one: "x = a" if "x \<in> set (authorizations s)" "az_id x = k" for x
      using that d a by (auto simp: drawn_def distinct_map dest: inj_onD)
    have "map unannotated (filter (\<lambda>x. az_program_id x = k') (map (\<lambda>x. if az_id x = k then amended dc f x else x) xs))
        = map unannotated (filter (\<lambda>x. az_program_id x = k') xs)" if "set xs \<subseteq> set (authorizations s)" for xs
      using that
    proof (induction xs)
      case (Cons x xs)
      have "az_id x = k \<Longrightarrow> x = a" using Cons.prems one by simp
      with k' a(2,3) amended_same [of f a dc] i Cons show ?case by (cases "az_id x = k") auto
    qed simp
    then show ?thesis by (simp add: authorizations_of_def r(1) amend_key_def amend_def)
  qed
  have "map az_id (authorizations s'') = map az_id (authorizations s)" by (simp add: r(1) map_amend_key i)
  with r same show ?case
    by (intro authorization_progress [where p = program_id and c = "authority_changed f a"]) (auto simp: outside_def intro: drawn_more)
qed

lemma patched_authority:
  assumes "\<not> engagement_authority_changed u v e"
  shows "eng_authority (patched dc u v e) = eng_authority e"
  using assms by (simp add: engagement_authority_changed_def patched_def eng_authority_def column_same or_keep_same)

lemma patched_move: "ledger_move s e (bump (engagement_authority_changed u v e) (patched dc u v e))"
  using patched_authority [of u v e dc]
  by (cases "engagement_authority_changed u v e")
    (simp_all add: ledger_move_def authority_move_def bump_def budget_ok_def, simp_all add: patched_def)

lemma update_engagement_progress:
  assumes ok: "tables_ok U s" and u: "update_engagement z dc env user program_id gu s = (d, s')"
  shows "progress U s s'"
  using u unfolding update_engagement_def
proof (rule transact_progress, goal_cases)
  case (1 x s'')
  then obtain w e v where e: "get_engagement program_id s = Some e"
      and r: "programs s'' = programs (set_engagement program_id (\<lambda>r. bump (engagement_authority_changed w v e) (patched dc w v r)) s)"
      "outside s s''" "authority_tables s'' = authority_tables s"
    by (auto simp: edit_simps authority_tables_def dest!: get_404_D)
  let ?g = "\<lambda>r. if eng_id r = program_id then bump (engagement_authority_changed w v e) (patched dc w v r) else r"
  have "ledger_move s r (?g r)" if "r \<in> set (programs s)" for r
  proof (cases "eng_id r = program_id")
    case True
    then have "r = e" using e ok that by (auto simp: get_engagement_def tables_ok_def by_key_unique dest: by_key_Some)
    then show ?thesis by (simp add: patched_move)
  qed simp
  then have ed: "edited s s''" using r(1,2) by (auto simp: edited_def outside_def set_engagement_map intro!: exI [of _ ?g])
  show ?case
    by (rule edited_progress [OF ed])
      (use r in \<open>auto simp: tests_clean_def authority_tables_def authority_ok_def outside_def intro: drawn_more stands_same [unfolded authority_tables_def]\<close>)
qed

subsection \<open>Test cases\<close>

lemma create_test_case_progress:
  assumes U: "inj U" "uuid env = U" and c: "create_test_case z env user program_id name description spec s = (c, s')"
  shows "progress U s s'"
proof (cases c)
  case (Inl e)
  then have "s' = s" using c by (auto simp: create_test_case_def dest: transact_error)
  then show ?thesis by simp
next
  case (Inr row)
  have r: "authorization_test_cases s' = authorization_test_cases s @ [row]" "tc_id row = U (uuids_drawn s)"
    "programs s' = programs s" "outside s s'" "scope_items s' = scope_items s"
    "authorizations s' = authorizations s" "uuids_drawn s < uuids_drawn s'"
    using c Inr U(2) by (auto simp: create_test_case_def edit_simps)
  show ?thesis
  proof (rule case_progress [OF r(4) _ r(5,6)])
    show "programs s' = programs (advance False program_id s)" using r(3) by simp
    show "tests_clean s \<longrightarrow> tests_clean s'" using create_test_case_clean [OF c] by simp
  qed (use r U in \<open>auto simp: cases_kept_def intro!: drawn_new\<close>)
qed

lemma update_test_case_progress:
  assumes c: "update_test_case z env user program_id cid u s = (d, s')"
  shows "progress U s s'"
proof (cases d)
  case (Inl e)
  then have "s' = s" using c by (auto simp: update_test_case_def dest: transact_error)
  then show ?thesis by simp
next
  case (Inr v)
  then obtain row n dn spec where row: "tests_404 program_id cid s = Inr row" and r:
    "authorization_test_cases s' = amend_key tc_id cid (edited_case z (now env) n dn spec) (authorization_test_cases s)"
    "programs s' = programs (advance (case spec of None \<Rightarrow> False | Some w \<Rightarrow> \<not> py_eq (tc_spec row) w) program_id s)"
    "outside s s'" "scope_items s' = scope_items s" "authorizations s' = authorizations s"
    using c by (auto simp: update_test_case_def edit_simps set_case_def)
  let ?f = "edited_case z (now env) n dn spec"
  have row: "row \<in> set (authorization_test_cases s)" "tc_id row = cid" "tc_program_id row = program_id"
    using row by (auto simp: tests_404_def stored_case_def dest: find_SomeD)
  have i: "tc_id (?f x) = tc_id x" "tc_program_id (?f x) = tc_program_id x" "tc_spec (?f x) = (case spec of None \<Rightarrow> tc_spec x | Some w \<Rightarrow> w)" for x
    by (simp_all add: edited_case_def Let_def split: option.splits)
  have kept: "cases_kept k s s'" if d: "drawn U s (map tc_id (authorization_test_cases s))"
      and k: "k \<noteq> program_id \<or> \<not> (case spec of None \<Rightarrow> False | Some w \<Rightarrow> \<not> py_eq (tc_spec row) w)" for k
    unfolding cases_kept_def
  proof (intro ballI impI)
    fix x assume x: "x \<in> set (authorization_test_cases s)" "tc_program_id x = k"
    show "\<exists>c' \<in> set (authorization_test_cases s'). tc_id c' = tc_id x \<and> tc_program_id c' = k \<and> same_spec (tc_spec x) (tc_spec c')"
    proof (cases "tc_id x = cid")
      case False
      then have "x \<in> set (authorization_test_cases s')" using x by (auto simp: r(1) set_amend_key)
      with x show ?thesis by blast
    next
      case True
      then have "x = row" using d x row by (auto simp: drawn_def distinct_map dest: inj_onD)
      with k x row have "same_spec (tc_spec x) (tc_spec (?f x))" by (auto simp: i split: option.splits)
      moreover have "?f x \<in> set (authorization_test_cases s')" using x True by (auto simp: r(1) set_amend_key)
      ultimately show ?thesis using x i by metis
    qed
  qed
  show ?thesis
  proof (rule case_progress [OF r(3,2,4,5)])
    show "tests_clean s \<longrightarrow> tests_clean s'" using update_test_case_clean [OF c] by simp
    have "map tc_id (authorization_test_cases s') = map tc_id (authorization_test_cases s)" by (simp add: r(1) map_amend_key i)
    then show "drawn U s (map tc_id (authorization_test_cases s)) \<Longrightarrow> drawn U s' (map tc_id (authorization_test_cases s'))"
      using r(3) by (auto simp: outside_def intro: drawn_more)
  qed (rule kept)
qed

lemma delete_test_case_progress:
  assumes c: "delete_test_case env user program_id cid s = (d, s')"
  shows "progress U s s'"
proof (cases d)
  case (Inl e)
  then have "s' = s" using c by (auto simp: delete_test_case_def dest: transact_error)
  then show ?thesis by simp
next
  case (Inr v)
  then obtain row where row: "tests_404 program_id cid s = Inr row" and r:
    "authorization_test_cases s' = filter (\<lambda>x. tc_id x \<noteq> cid) (authorization_test_cases s)"
    "programs s' = programs (advance True program_id s)" "outside s s'" "scope_items s' = scope_items s" "authorizations s' = authorizations s"
    using c by (auto simp: delete_test_case_def edit_simps drop_key_def)
  have row: "row \<in> set (authorization_test_cases s)" "tc_id row = cid" "tc_program_id row = program_id"
    using row by (auto simp: tests_404_def stored_case_def dest: find_SomeD)
  have one: "x = row" if "drawn U s (map tc_id (authorization_test_cases s))" "x \<in> set (authorization_test_cases s)" "tc_id x = cid" for x
    using that row by (auto simp: drawn_def distinct_map dest: inj_onD)
  show ?thesis
  proof (rule case_progress [OF r(3,2,4,5)])
    show "tests_clean s \<longrightarrow> tests_clean s'" using delete_test_case_clean [OF c] by simp
    show "drawn U s' (map tc_id (authorization_test_cases s'))" if "drawn U s (map tc_id (authorization_test_cases s))"
      unfolding r(1) by (rule drawn_filter [OF that]) (use r(3) in \<open>simp add: outside_def\<close>)
  next
    fix k assume d: "drawn U s (map tc_id (authorization_test_cases s))" and k: "k \<noteq> program_id \<or> \<not> True"
    show "cases_kept k s s'" unfolding cases_kept_def
    proof (intro ballI impI)
      fix x assume x: "x \<in> set (authorization_test_cases s)" "tc_program_id x = k"
      with one [OF d x(1)] k row(3) have "tc_id x \<noteq> cid" by auto
      with x show "\<exists>c' \<in> set (authorization_test_cases s'). tc_id c' = tc_id x \<and> tc_program_id c' = k \<and> same_spec (tc_spec x) (tc_spec c')"
        by (auto simp: r(1) intro!: bexI [of _ x])
    qed
  qed
qed

lemma edit_progress:
  assumes "inj U" and "tables_ok U s" and "edit U s s'"
  shows "progress U s s'"
  using assms(3)
proof cases
  case e_add_scope then show ?thesis by (rule add_scope_item_progress [OF assms(1)])
next
  case e_delete_scope then show ?thesis using delete_scope_item_progress by blast
next
  case e_import then show ?thesis by (rule import_scope_progress [OF assms(1)])
next
  case e_authorize then show ?thesis by (rule create_authorization_progress [OF assms(1)])
next
  case e_reauthorize then show ?thesis using update_authorization_progress by blast
next
  case e_add_member then show ?thesis using member_progress(1) by blast
next
  case e_remove_member then show ?thesis using member_progress(2) by blast
next
  case e_engagement then show ?thesis using update_engagement_progress [OF assms(2)] by blast
next
  case e_create_case then show ?thesis by (rule create_test_case_progress [OF assms(1)])
next
  case e_update_case then show ?thesis using update_test_case_progress by blast
next
  case e_delete_case then show ?thesis using delete_test_case_progress by blast
qed

end
