(* ===== verification/Assessments.thy ===== *)
theory Assessments
  imports Test_Cases
begin

text \<open>
  What a reported run of a test case shows (\<open>backend/assessments.py\<close>, \<open>backend/assessment_evidence.py\<close>): the
  executions and the scanner's own assessments are compared with the case as it was when the job was claimed, and
  every identity of the case is evaluated, inconclusive, missing or skipped.  A row of the reported lists is a
  dictionary; a case that is read outside its validated shape raises what Python raises.
\<close>

section \<open>Reading reported values\<close>

text \<open>\<open>d.get(k, v)\<close>\<close>

definition dget_or :: "pydict \<Rightarrow> string \<Rightarrow> pyval \<Rightarrow> pyval" where
  "dget_or d k v = (case map_of d k of None \<Rightarrow> v | Some w \<Rightarrow> w)"

definition hashable :: "pyval \<Rightarrow> unit res" where
  "hashable v = requireE (\<not> is_list v \<and> \<not> is_dict v) TypeError"

definition text_or :: "pyval \<Rightarrow> string \<Rightarrow> string" where
  "text_or v t = py_str (or_val v (VStr t))"

text \<open>\<open>type(v) is int and lo <= v <= hi\<close>\<close>

definition status_in :: "int \<Rightarrow> int \<Rightarrow> pyval \<Rightarrow> bool" where
  "status_in lo hi v = (case v of VInt c \<Rightarrow> lo \<le> c \<and> c \<le> hi | _ \<Rightarrow> False)"

definition the_int :: "pyval \<Rightarrow> int" where
  "the_int v = (case v of VInt c \<Rightarrow> c | _ \<Rightarrow> 0)"

text \<open>\<open>code in v\<close> for a number\<close>

definition code_in :: "int \<Rightarrow> pyval \<Rightarrow> bool res" where
  "code_in c v = (case v of
       VList xs \<Rightarrow> Inr (list_ex (\<lambda>x. py_eq x (VInt c)) xs)
     | VDict d \<Rightarrow> Inr False
     | _ \<Rightarrow> Inl TypeError)"

definition dict_or_empty :: "pyval \<Rightarrow> pydict" where
  "dict_or_empty v = (case v of VDict d \<Rightarrow> d | _ \<Rightarrow> [])"

section \<open>The scanner's assessments\<close>

definition REASONS :: "string list" where
  "REASONS = [''status_only'', ''ambiguous_http_outcome'', ''execution_error'', ''no_expectation'', ''explicit_skip'',
     ''assertion_matched'', ''no_assertion_matched'', ''conflicting_assertions'', ''invalid_or_unsupported_json'',
     ''credential_rejected'', ''state_changed'', ''state_unchanged'', ''verifier_read_failed'', ''verifier_denied'',
     ''verifier_value_unavailable'', ''verifier_baseline_missing'', ''state_changing_concurrently'',
     ''target_value_already_present'', ''state_changed_unexpectedly'', ''verifier_unexpected_status'',
     ''write_execution_error'', ''no_positive_control'', ''positive_control_failed'', ''write_completion_unconfirmed'',
     ''write_environment_unverified'', ''verifier_reset_failed'', ''reset_baseline_mismatch'', ''execution_cancelled'',
     ''identity_preflight_failed'']"

definition CREDENTIALS :: "string list" where
  "CREDENTIALS = [''anonymous_identity'', ''not_checked'', ''preflight_passed'', ''preflight_failed'',
     ''preflight_passed_resource_401'', ''resource_401_unverified'']"

definition WRITES :: "string list" where
  "WRITES = [''not_configured'', ''not_applied'', ''inconclusive'', ''verified_effect'', ''verified_no_effect'']"

definition enum_value :: "pyval \<Rightarrow> string list \<Rightarrow> string \<Rightarrow> string" where
  "enum_value v allowed fallback = (case v of VStr t \<Rightarrow> if t \<in> set allowed then t else fallback | _ \<Rightarrow> fallback)"

definition safe_identity :: "pyval \<Rightarrow> string" where
  "safe_identity v = (case v of VStr t \<Rightarrow> if 0 < length t \<and> length t \<le> 200 then t else [] | _ \<Rightarrow> [])"

definition status_constraint :: "pydict \<Rightarrow> int \<Rightarrow> bool" where
  "status_constraint rule status = (case dget_or rule ''status_codes'' (VList []) of
       VList codes \<Rightarrow> list_all (status_in 100 599) codes \<and> (codes = [] \<or> VInt status \<in> set codes)
     | _ \<Rightarrow> False)"

record verification =
  vf_strategy :: string
  vf_environment :: string
  vf_reader_identity_id :: string
  vf_reader_credential_status :: string
  vf_before_statuses :: "int list"
  vf_after_status :: int
  vf_reset_status :: int

record semantic_row =
  sr_identity_id :: string
  sr_expected_access :: string
  sr_decision :: string
  sr_source :: string
  sr_reason :: string
  sr_credential_status :: string
  sr_write_verification :: string
  sr_matched_assertions :: "int list"
  sr_execution_index :: "int option"
  sr_verification :: "verification option"

definition safe_status :: "pyval \<Rightarrow> int" where
  "safe_status v = (if status_in 0 599 v then the_int v else 0)"

definition safe_ints :: "nat \<Rightarrow> int \<Rightarrow> int \<Rightarrow> pyval \<Rightarrow> int list" where
  "safe_ints n lo hi v = (case v of
       VList xs \<Rightarrow> if length xs \<le> n \<and> list_all (status_in lo hi) xs then map the_int xs else []
     | _ \<Rightarrow> [])"

definition safe_verification :: "pydict \<Rightarrow> verification" where
  "safe_verification v =
     \<lparr>vf_strategy = enum_value (dget v ''strategy'') [''changed'', ''created'', ''deleted'', ''legacy_change''] ''unknown'',
      vf_environment = enum_value (dget v ''environment'') [''unknown'', ''synchronous_isolated'', ''legacy''] ''unknown'',
      vf_reader_identity_id = safe_identity (dget v ''reader_identity_id''),
      vf_reader_credential_status = enum_value (dget v ''reader_credential_status'') CREDENTIALS ''not_recorded'',
      vf_before_statuses = safe_ints 2 0 599 (dget v ''before_statuses''),
      vf_after_status = safe_status (dget v ''after_status''),
      vf_reset_status = safe_status (dget v ''reset_status'')\<rparr>"

definition safe_semantic_row :: "pydict \<Rightarrow> semantic_row" where
  "safe_semantic_row row =
     \<lparr>sr_identity_id = safe_identity (dget row ''identity_id''),
      sr_expected_access = enum_value (dget row ''expected_access'') [''allow'', ''deny'', ''skip''] ''unknown'',
      sr_decision = enum_value (dget row ''decision'') [''allowed'', ''denied'', ''inconclusive'', ''skipped''] ''inconclusive'',
      sr_source = enum_value (dget row ''source'') [''none'', ''http_status'', ''response_assertion'', ''write_verification''] ''none'',
      sr_reason = enum_value (dget row ''reason'') REASONS ''unrecognized_assessment_reason'',
      sr_credential_status = enum_value (dget row ''credential_status'') CREDENTIALS ''not_recorded'',
      sr_write_verification = enum_value (dget row ''write_verification'') WRITES ''not_recorded'',
      sr_matched_assertions = safe_ints 32 0 31 (dget row ''matched_assertions''),
      sr_execution_index = (if status_in 0 99 (dget row ''execution_index'') then Some (the_int (dget row ''execution_index'')) else None),
      sr_verification = (case dget row ''verification'' of VDict v \<Rightarrow> Some (safe_verification v) | _ \<Rightarrow> None)\<rparr>"

section \<open>Identities\<close>

record assessed =
  as_identity_id :: pyval
  as_expected_decision :: pyval
  as_observed_outcome :: string
  as_state :: string
  as_reason :: string
  as_report :: "semantic_row option"
  as_verification :: "verification option"
  as_credential_status :: string

definition mark :: "string \<Rightarrow> string \<Rightarrow> assessed \<Rightarrow> assessed" where
  "mark st why i = i\<lparr>as_state := st, as_reason := why\<rparr>"

text \<open>\<open>expected\<close>: the reviewed decisions of a case, by identity.\<close>

definition expected_access :: "pydict \<Rightarrow> (pyval \<times> pyval) list res" where
  "expected_access spec = bindE (iter_val (dget_or spec ''expected_access'' (VList [])))
     (mapE (\<lambda>item. bindE (vindex item ''identity_id'') (\<lambda>k. ignoreE (hashable k)
        (bindE (vindex item ''decision'') (\<lambda>d. Inr (k, d))))))"

definition reported_by :: "pyval \<Rightarrow> pydict list \<Rightarrow> pydict list" where
  "reported_by identity executions = filter (\<lambda>e. identity = VStr (text_or_empty (dget e ''identity_id''))) executions"

definition failed_run :: "pydict \<Rightarrow> bool" where
  "failed_run row = (truthy (dget row ''error'') \<or> truthy (dget row ''error_kind''))"

definition allow_run :: "pydict \<Rightarrow> bool" where
  "allow_run row = (status_in 200 299 (dget row ''status_code'') \<and> text_or (dget row ''observed_outcome'') ''unknown'' = ''allow'')"

definition deny_run :: "pydict \<Rightarrow> pydict \<Rightarrow> bool res" where
  "deny_run spec row =
     (if status_in 100 599 (dget row ''status_code'') \<and> text_or (dget row ''observed_outcome'') ''unknown'' = ''deny'' then
        (let code = the_int (dget row ''status_code'') in
         if code \<in> {401, 403} then Inr True
         else bindE (code_in code (dget_or spec ''deny_status'' (VList []))) (\<lambda>known.
           Inr (known \<or> (200 \<le> code \<and> code < 300 \<and> truthy (dget spec ''deny_when'')))))
      else Inr False)"

text \<open>State and reason of an identity from its executions alone.\<close>

definition judge :: "pydict \<Rightarrow> pyval \<Rightarrow> pydict list \<Rightarrow> (string \<times> string) res" where
  "judge spec decision rows =
     bindE (in_names decision [''skip'', ''unknown'']) (\<lambda>unreviewed.
       if unreviewed then Inr (''skipped'', ''no_reviewed_expectation'')
       else case rows of
         [] \<Rightarrow> Inr (''missing'', ''execution_missing'')
       | [row] \<Rightarrow> bindE (deny_run spec row) (\<lambda>deny.
           Inr (if failed_run row then (''inconclusive'', ''execution_error'')
             else if \<not> allow_run row \<and> \<not> deny then (''inconclusive'', ''ambiguous_response'')
             else if decision = VStr ''allow'' \<and> \<not> allow_run row then (''inconclusive'', ''legitimate_baseline_denied'')
             else (''evaluated'', ''reported_allow_or_deny'')))
       | _ \<Rightarrow> Inr (''inconclusive'', ''duplicate_execution''))"

definition first_pass :: "pydict \<Rightarrow> (pyval \<times> pyval) list \<Rightarrow> pydict list \<Rightarrow> pyval \<Rightarrow> assessed res" where
  "first_pass spec expected executions identity =
     bindE (vindex identity ''id'') (\<lambda>k. ignoreE (hashable k)
     (let decision = (case filter (\<lambda>(i, d). py_eq i k) expected of [(i, d)] \<Rightarrow> d | _ \<Rightarrow> VStr ''unknown'');
          rows = reported_by k executions
      in bindE (judge spec decision rows) (\<lambda>(st, why).
         Inr \<lparr>as_identity_id = k, as_expected_decision = decision,
              as_observed_outcome = (case rows of [row] \<Rightarrow> text_or (dget row ''observed_outcome'') ''unknown'' | _ \<Rightarrow> ''unknown''),
              as_state = st, as_reason = why, as_report = None, as_verification = None, as_credential_status = []\<rparr>)))"

section \<open>What the scanner's assessment adds\<close>

definition write_oracle :: "pydict \<Rightarrow> pydict" where
  "write_oracle spec = dict_or_empty (dget spec ''write_verification'')"

definition oracle_reader :: "pydict \<Rightarrow> pydict" where
  "oracle_reader spec = dict_or_empty (dget (write_oracle spec) ''identity'')"

definition configured_for :: "pydict \<Rightarrow> pyval \<Rightarrow> pydict res" where
  "configured_for spec identity = bindE (iter_val (dget_or spec ''expected_access'' (VList []))) (\<lambda>es.
     bindE (mapE (\<lambda>r. bindE (vget r ''identity_id'') (\<lambda>v. Inr (dict_or_empty r, py_eq v identity))) es) (\<lambda>ps.
       Inr (case map fst (filter snd ps) of [d] \<Rightarrow> d | _ \<Rightarrow> [])))"

definition assertions_valid :: "pydict \<Rightarrow> semantic_row \<Rightarrow> string \<Rightarrow> pydict \<Rightarrow> bool" where
  "assertions_valid configured row decision run =
     (\<not> failed_run run \<and> status_in 100 599 (dget run ''status_code'')
      \<and> (case or_val (dget configured ''response_assertions'') (VList []) of
           VList rules \<Rightarrow> sr_matched_assertions row \<noteq> [] \<and> sr_reason row = ''assertion_matched''
             \<and> list_all (\<lambda>i. nat i < length rules \<and> (case rules ! nat i of
                  VDict rule \<Rightarrow> dget rule ''decision'' = VStr decision \<and> status_constraint rule (the_int (dget run ''status_code''))
                | _ \<Rightarrow> False)) (sr_matched_assertions row)
         | _ \<Rightarrow> False))"

definition write_valid :: "pydict \<Rightarrow> semantic_row \<Rightarrow> string \<Rightarrow> pydict \<Rightarrow> bool" where
  "write_valid spec row decision run =
     (let oracle = write_oracle spec in
      case (dget_or oracle ''after_status'' (VList []), sr_verification row) of
        (VList after_codes, Some v) \<Rightarrow>
          oracle \<noteq> [] \<and> list_all (status_in 400 499) after_codes
          \<and> dget (oracle_reader spec) ''id'' = VStr (vf_reader_identity_id v)
          \<and> or_val (dget oracle ''strategy'') (VStr ''legacy_change'') = VStr (vf_strategy v)
          \<and> or_val (dget oracle ''environment'') (VStr ''legacy'') = VStr (vf_environment v)
          \<and> length (vf_before_statuses v) = 2 \<and> 0 < vf_after_status v
          \<and> sr_reason row = (if decision = ''allow'' then ''state_changed'' else ''state_unchanged'')
          \<and> vf_environment v \<noteq> ''unknown''
          \<and> list_all (\<lambda>s. if dget oracle ''strategy'' = VStr ''created'' then s = 404 else 200 \<le> s \<and> s < 300) (vf_before_statuses v)
          \<and> ((200 \<le> vf_after_status v \<and> vf_after_status v < 300) \<or> vf_after_status v = 404 \<or> VInt (vf_after_status v) \<in> set after_codes)
          \<and> (truthy (dget oracle ''reset'') \<longrightarrow> 200 \<le> vf_reset_status v \<and> vf_reset_status v < 300 \<and> vf_reset_status v \<noteq> 202)
          \<and> (decision = ''deny'' \<longrightarrow> \<not> failed_run run \<and> status_in 100 599 (dget run ''status_code'') \<and> dget run ''status_code'' \<noteq> VInt 202)
      | _ \<Rightarrow> False)"

definition semantic_valid :: "pydict \<Rightarrow> pydict \<Rightarrow> bool \<Rightarrow> assessed \<Rightarrow> semantic_row \<Rightarrow> string \<Rightarrow> pydict \<Rightarrow> bool" where
  "semantic_valid spec configured protected i row decision run =
     (if sr_source row = ''response_assertion'' then assertions_valid configured row decision run
      else if sr_source row = ''write_verification'' then write_valid spec row decision run
      else if sr_source row = ''http_status'' \<and> \<not> protected then as_state i = ''evaluated'' \<and> as_observed_outcome i = decision
      else False)"

definition reports :: "pydict \<Rightarrow> semantic_row \<Rightarrow> assessed \<Rightarrow> assessed" where
  "reports spec row i = i\<lparr>as_report := Some row, as_credential_status := sr_credential_status row,
     as_verification := (case sr_verification row of
         Some v \<Rightarrow> if dget (oracle_reader spec) ''id'' = VStr (vf_reader_identity_id v) then Some v else None
       | None \<Rightarrow> None)\<rparr>"

definition index_agrees :: "semantic_row \<Rightarrow> pydict list \<Rightarrow> pyval \<Rightarrow> bool" where
  "index_agrees row executions identity = (case sr_execution_index row of
       None \<Rightarrow> True
     | Some k \<Rightarrow> nat k < length executions \<and> py_eq (dget (executions ! nat k) ''identity_id'') identity)"

definition semantic_judge :: "pydict \<Rightarrow> pydict \<Rightarrow> bool \<Rightarrow> pydict list \<Rightarrow> semantic_row \<Rightarrow> bool \<Rightarrow> assessed \<Rightarrow> assessed" where
  "semantic_judge spec configured protected executions row verified i =
     (let r = reports spec row i in
      if as_state r = ''skipped'' then r
      else if \<not> verified then mark ''inconclusive'' ''case_snapshot_unverified'' r
      else if sr_decision row \<notin> {''allowed'', ''denied''} then mark ''inconclusive'' (sr_reason row) r
      else case filter (\<lambda>e. py_eq (dget e ''identity_id'') (as_identity_id i)) executions of
        [run] \<Rightarrow> if \<not> index_agrees row executions (as_identity_id i) then mark ''inconclusive'' ''semantic_assessment_inconsistent'' r
          else (let decision = (if sr_decision row = ''allowed'' then ''allow'' else ''deny'') in
            if \<not> semantic_valid spec configured protected r row decision run then mark ''inconclusive'' ''semantic_assessment_inconsistent'' r
            else if as_expected_decision r = VStr ''allow'' \<and> decision \<noteq> ''allow'' then mark ''inconclusive'' ''legitimate_baseline_denied'' r
            else mark ''evaluated'' (''reported_'' @ sr_source row) r)
      | _ \<Rightarrow> mark ''inconclusive'' ''semantic_assessment_inconsistent'' r)"

definition apply_semantics :: "pydict \<Rightarrow> pydict list \<Rightarrow> semantic_row list \<Rightarrow> bool \<Rightarrow> assessed \<Rightarrow> assessed res" where
  "apply_semantics spec executions semantic verified i =
     bindE (configured_for spec (as_identity_id i)) (\<lambda>configured.
     (let protected = (truthy (dget configured ''response_assertions'') \<or> truthy (dget spec ''write_verification'')) in
      Inr (case filter (\<lambda>r. as_identity_id i = VStr (sr_identity_id r)) semantic of
          [] \<Rightarrow> if protected \<and> as_state i \<noteq> ''skipped'' then mark ''inconclusive'' ''semantic_assessment_missing'' i else i
        | [row] \<Rightarrow> if as_expected_decision i \<noteq> VStr (sr_expected_access row) then mark ''inconclusive'' ''semantic_assessment_inconsistent'' i
            else semantic_judge spec configured protected executions row verified i
        | _ \<Rightarrow> mark ''inconclusive'' ''semantic_assessment_inconsistent'' i)))"

section \<open>Session preflights\<close>

record preflight_row =
  pf_identity_id :: pyval
  pf_status :: string
  pf_reason :: string
  pf_status_code :: pyval

record session =
  ss_status :: string
  ss_identities :: "preflight_row list"
  ss_unexpected :: int

text \<open>\<open>d[k] = v\<close> for any hashable key\<close>

fun pset :: "(pyval \<times> 'v) list \<Rightarrow> pyval \<Rightarrow> 'v \<Rightarrow> (pyval \<times> 'v) list" where
  "pset [] k v = [(k, v)]"
| "pset ((k', v') # d) k v = (if py_eq k' k then (k', v) # d else (k', v') # pset d k v)"

definition declare_preflight :: "(pyval \<times> pyval) list \<Rightarrow> pyval \<Rightarrow> (pyval \<times> pyval) list res" where
  "declare_preflight d identity = bindE (vget identity ''preflight'') (\<lambda>p. if p = VNone then Inr d
     else bindE (vindex identity ''id'') (\<lambda>k. ignoreE (hashable k) (Inr (pset d k p))))"

fun foldE :: "('a \<Rightarrow> 'b \<Rightarrow> 'a res) \<Rightarrow> 'a \<Rightarrow> 'b list \<Rightarrow> 'a res" where
  "foldE f a [] = Inr a"
| "foldE f a (x # xs) = bindE (f a x) (\<lambda>b. foldE f b xs)"

definition declared_preflights :: "pydict \<Rightarrow> (pyval \<times> pyval) list res" where
  "declared_preflights spec = bindE (iter_val (dget_or spec ''identities'' (VList []))) (\<lambda>ids.
     bindE (foldE declare_preflight [] ids) (\<lambda>d. declare_preflight d (VDict (oracle_reader spec))))"

definition PREFLIGHT_FAILURES :: "string list" where
  "PREFLIGHT_FAILURES = [''credential_rejected'', ''identity_mismatch'', ''unexpected_status'', ''execution_error'']"

definition check_session :: "pydict list \<Rightarrow> bool \<Rightarrow> pyval \<times> pyval \<Rightarrow> preflight_row res" where
  "check_session rows verified = (\<lambda>(identity, config).
     bindE (case reported_by identity rows of
         [] \<Rightarrow> Inr (''missing'', ''preflight_missing'', VNone)
       | [row] \<Rightarrow>
           (let code = dget row ''status_code''; fallback = (\<lambda>_ :: unit. if dget row ''status'' = VStr ''failed'' then
                  bindE (in_names (dget row ''reason'') PREFLIGHT_FAILURES) (\<lambda>known.
                    Inr (if known then (''failed'', text_or_empty (dget row ''reason''), code) else (''inconclusive'', ''preflight_inconsistent'', code)))
                else Inr (''inconclusive'', ''preflight_inconsistent'', code))
            in if dget row ''status'' = VStr ''passed'' \<and> dget row ''reason'' = VStr ''identity_verified'' \<and> is_int code
               then bindE (vindex config ''expected_status'') (\<lambda>e.
                 if py_eq code e then Inr (''passed'', ''identity_verified'', code) else fallback ())
               else fallback ())
       | _ \<Rightarrow> Inr (''inconclusive'', ''duplicate_preflight'', VNone))
     (\<lambda>(st, why, code). Inr \<lparr>pf_identity_id = identity, pf_status = (if verified then st else ''inconclusive''),
        pf_reason = (if verified then why else ''case_snapshot_unverified''), pf_status_code = code\<rparr>))"

definition assess_preflight :: "pydict \<Rightarrow> pydict list \<Rightarrow> bool \<Rightarrow> session res" where
  "assess_preflight spec rows verified =
     bindE (declared_preflights spec) (\<lambda>declared.
     bindE (mapE (check_session rows verified) declared) (\<lambda>ids.
     (let unexpected = filter (\<lambda>r. \<not> list_ex (\<lambda>(k, _). k = VStr (text_or_empty (dget r ''identity_id''))) declared) rows
      in Inr \<lparr>ss_status = (if unexpected \<noteq> [] then ''inconclusive''
                else if declared = [] then ''not_configured''
                else if list_all (\<lambda>i. pf_status i = ''passed'') ids then ''passed''
                else if list_ex (\<lambda>i. pf_status i = ''failed'') ids then ''failed''
                else ''inconclusive''),
              ss_identities = ids, ss_unexpected = int (length unexpected)\<rparr>)))"

section \<open>\<open>assess\<close>\<close>

definition sends_credentials :: "pyval \<Rightarrow> bool res" where
  "sends_credentials credential = bindE (vget credential ''type'') (\<lambda>t. bindE (in_names t [''bearer'', ''api_key_header'']) (\<lambda>known.
     Inr (known \<or> (t = VStr ''static_header'' \<and> truthy (dget (dict_or_empty credential) ''header'')))))"

definition anonymous_reader :: "pyval \<Rightarrow> bool res" where
  "anonymous_reader credential = bindE (vget credential ''type'') (\<lambda>t.
     Inr (t = VStr ''static_header'' \<and> \<not> truthy (dget (dict_or_empty credential) ''header'')))"

text \<open>The status of an identity's credential, from the session preflight when it has one.\<close>

definition credential_of :: "session \<Rightarrow> pyval \<Rightarrow> string \<Rightarrow> string" where
  "credential_of session identity unchecked = (case find (\<lambda>p. py_eq (pf_identity_id p) identity) (ss_identities session) of
       None \<Rightarrow> unchecked
     | Some p \<Rightarrow> if pf_status p = ''passed'' then ''preflight_passed'' else ''preflight_failed'')"

definition reader_status :: "pydict \<Rightarrow> session \<Rightarrow> bool \<Rightarrow> verification \<Rightarrow> verification res" where
  "reader_status spec session verified v =
     (let reader = oracle_reader spec in
      bindE (anonymous_reader (or_val (dget reader ''credential'') (VDict []))) (\<lambda>anonymous.
        Inr (v\<lparr>vf_reader_credential_status := (if verified
             then credential_of session (dget reader ''id'') (if anonymous then ''anonymous_identity'' else ''not_checked'')
             else ''not_recorded'')\<rparr>)))"

definition is_401 :: "pydict \<Rightarrow> bool" where
  "is_401 row = py_eq (dget row ''status_code'') (VInt 401)"

definition denied_decision :: "assessed \<Rightarrow> bool" where
  "denied_decision i = (case as_report i of None \<Rightarrow> True | Some row \<Rightarrow> sr_decision row \<noteq> ''allowed'')"

definition with_reader :: "pydict \<Rightarrow> session \<Rightarrow> bool \<Rightarrow> assessed \<Rightarrow> assessed res" where
  "with_reader spec session verified i = (case as_verification i of
       None \<Rightarrow> Inr i
     | Some v \<Rightarrow> bindE (reader_status spec session verified v) (\<lambda>v'. Inr (i\<lparr>as_verification := Some v'\<rparr>)))"

text \<open>A rejected credential is no denial of the resource, unless the case says so.\<close>

definition rejected_pass :: "pydict \<Rightarrow> bool \<Rightarrow> assessed \<Rightarrow> assessed" where
  "rejected_pass spec rejected i = (if as_expected_decision i = VStr ''deny'' \<and> rejected
     \<and> \<not> truthy (dget spec ''unauthorized_is_denial'') \<and> denied_decision i
     then mark ''inconclusive'' ''credential_rejected'' i else i)"

definition declared_credential :: "pyval list \<Rightarrow> pyval \<Rightarrow> pyval" where
  "declared_credential identities k = (case find (\<lambda>d. py_eq (dget (dict_or_empty d) ''id'') k) identities of
       None \<Rightarrow> VDict []
     | Some d \<Rightarrow> or_val (dget (dict_or_empty d) ''credential'') (VDict []))"

definition credential_pass :: "pydict \<Rightarrow> pyval list \<Rightarrow> session \<Rightarrow> pydict list \<Rightarrow> bool \<Rightarrow> assessed \<Rightarrow> assessed res" where
  "credential_pass spec identities session executions verified i =
     (let resource_401 = (case reported_by (as_identity_id i) executions of [row] \<Rightarrow> is_401 row | _ \<Rightarrow> False)
      in bindE (sends_credentials (declared_credential identities (as_identity_id i))) (\<lambda>sends.
      (let checked = credential_of session (as_identity_id i) (if sends then ''not_checked'' else ''anonymous_identity'');
           status = (if sends \<and> resource_401 then (if checked = ''preflight_passed'' then ''preflight_passed_resource_401'' else ''resource_401_unverified'')
             else checked)
       in bindE (with_reader spec session verified (i\<lparr>as_credential_status := (if verified then status else ''not_recorded'')\<rparr>)) (\<lambda>j.
         Inr (rejected_pass spec (sends \<and> resource_401) j)))))"

text \<open>The three reasons that withdraw every conclusion at once.\<close>

definition unverified_pass :: "bool \<Rightarrow> assessed \<Rightarrow> assessed" where
  "unverified_pass verified i = (if \<not> verified \<and> as_state i = ''evaluated'' then mark ''inconclusive'' ''case_snapshot_unverified'' i else i)"

definition session_pass :: "session \<Rightarrow> assessed \<Rightarrow> assessed" where
  "session_pass session i = (if ss_status session \<notin> {''passed'', ''not_configured''} \<and> as_state i \<noteq> ''skipped''
     then mark ''inconclusive'' ''identity_preflight_not_established'' i else i)"

definition baseline_pass :: "bool \<Rightarrow> assessed \<Rightarrow> assessed" where
  "baseline_pass baseline i = (if \<not> baseline \<and> as_state i = ''evaluated'' then mark ''inconclusive'' ''legitimate_baseline_missing'' i else i)"

definition baseline_valid :: "bool \<Rightarrow> assessed list \<Rightarrow> bool" where
  "baseline_valid verified ids = (verified \<and> list_ex (\<lambda>i. as_expected_decision i = VStr ''allow'' \<and> as_state i = ''evaluated'') ids)"

record assessment =
  am_status :: string
  am_evaluated :: int
  am_inconclusive :: int
  am_missing :: int
  am_skipped :: int
  am_unexpected :: int
  am_baseline_valid :: bool
  am_candidate_findings :: int
  am_identities :: "assessed list"
  am_reasons :: "string list"
  am_case_hash :: "string option"
  am_case_snapshot_verified :: bool
  am_preflight :: session

definition state_count :: "string \<Rightarrow> assessed list \<Rightarrow> int" where
  "state_count st ids = int (length (filter (\<lambda>i. as_state i = st) ids))"

definition conclude :: "env \<Rightarrow> pydict \<Rightarrow> pydict list \<Rightarrow> int \<Rightarrow> bool \<Rightarrow> session \<Rightarrow> assessed list \<Rightarrow> assessment" where
  "conclude env spec executions candidates verified session found =
     (let ids0 = map (session_pass session) (map (unverified_pass verified) found);
          baseline = baseline_valid verified ids0;
          ids = map (baseline_pass baseline) ids0;
          evaluated = state_count ''evaluated'' ids;
          unexpected = int (length (filter (\<lambda>e. \<not> list_ex (\<lambda>i. as_identity_id i = VStr (text_or_empty (dget e ''identity_id''))) ids) executions));
          complete = (ids \<noteq> [] \<and> evaluated = int (length ids) \<and> unexpected = 0)
      in \<lparr>am_status = (if complete then ''conclusive'' else if evaluated \<noteq> 0 then ''partial'' else ''inconclusive''),
          am_evaluated = evaluated, am_inconclusive = state_count ''inconclusive'' ids,
          am_missing = state_count ''missing'' ids, am_skipped = state_count ''skipped'' ids, am_unexpected = unexpected,
          am_baseline_valid = baseline, am_candidate_findings = candidates, am_identities = ids,
          am_reasons = sort (remdups (map as_reason (filter (\<lambda>i. as_state i \<noteq> ''evaluated'') ids)
            @ (if baseline then [] else [''legitimate_baseline_missing'']) @ (if unexpected = 0 then [] else [''unexpected_identity''])
            @ (if spec = [] then [''case_snapshot_missing''] else []) @ (if verified then [] else [''case_snapshot_unverified'']))),
          am_case_hash = (if spec = [] then None else Some (case_hash env (VDict spec))),
          am_case_snapshot_verified = (spec \<noteq> [] \<and> verified), am_preflight = session\<rparr>)"

definition assess :: "env \<Rightarrow> pydict \<Rightarrow> pydict list \<Rightarrow> int \<Rightarrow> bool \<Rightarrow> pydict list \<Rightarrow> pydict list \<Rightarrow> assessment res" where
  "assess env spec executions candidates verified preflight semantic =
     bindE (assess_preflight spec preflight verified) (\<lambda>session.
     bindE (expected_access spec) (\<lambda>expected.
     bindE (iter_val (dget_or spec ''identities'' (VList []))) (\<lambda>identities.
     bindE (mapE (first_pass spec expected executions) identities) (\<lambda>first.
     bindE (mapE (apply_semantics spec executions (map safe_semantic_row semantic) verified) first) (\<lambda>second.
     bindE (mapE (credential_pass spec identities session executions verified) second) (\<lambda>third.
       Inr (conclude env spec executions candidates verified session third)))))))"

section \<open>What a conclusive assessment rests on\<close>

text \<open>
  The evidence behind an evaluated identity: a run of its own that ended without an error in a definite outcome, or an
  assessment of the scanner for that identity and its reviewed decision; where access is expected, only an allowed
  outcome counts.
\<close>

definition clean_run :: "pydict \<Rightarrow> assessed \<Rightarrow> pydict \<Rightarrow> bool" where
  "clean_run spec i row = (\<not> failed_run row \<and> (allow_run row \<or> deny_run spec row = Inr True)
     \<and> (as_expected_decision i = VStr ''allow'' \<longrightarrow> allow_run row))"

definition attested :: "semantic_row list \<Rightarrow> assessed \<Rightarrow> bool" where
  "attested semantic i = list_ex (\<lambda>r. as_identity_id i = VStr (sr_identity_id r)
     \<and> as_expected_decision i = VStr (sr_expected_access r) \<and> sr_decision r \<in> {''allowed'', ''denied''}
     \<and> (as_expected_decision i = VStr ''allow'' \<longrightarrow> sr_decision r = ''allowed'')) semantic"

definition backed :: "pydict \<Rightarrow> pydict list \<Rightarrow> semantic_row list \<Rightarrow> assessed \<Rightarrow> bool" where
  "backed spec executions semantic i = (as_expected_decision i \<notin> {VStr ''skip'', VStr ''unknown''}
     \<and> list_ex (\<lambda>row. clean_run spec i row \<or> attested semantic i) (reported_by (as_identity_id i) executions))"

definition same_identity :: "assessed \<Rightarrow> assessed \<Rightarrow> bool" where
  "same_identity i j = (as_identity_id j = as_identity_id i \<and> as_expected_decision j = as_expected_decision i)"

lemma same_identity_mark [simp]: "same_identity i (mark st why j) = same_identity i j" "as_state (mark st why j) = st"
  "as_identity_id (mark st why j) = as_identity_id j" "as_expected_decision (mark st why j) = as_expected_decision j"
  by (simp_all add: same_identity_def mark_def)

lemma same_identity_refl [simp]: "same_identity i i"
  by (simp add: same_identity_def)

lemma backed_same: "same_identity i j \<Longrightarrow> backed spec executions semantic i \<Longrightarrow> backed spec executions semantic j"
  by (simp add: same_identity_def backed_def clean_run_def attested_def)

lemma mapE_step:
  assumes "mapE f xs = Inr ys" and "y \<in> set ys" and "\<And>x y. x \<in> set xs \<Longrightarrow> f x = Inr y \<Longrightarrow> P x y"
  shows "\<exists>x \<in> set xs. P x y"
  using mapE_Inr_from [OF assms(1,2)] assms(3) by blast

lemma in_names_Inr: "in_names v names = Inr b \<Longrightarrow> b = (\<exists>t \<in> set names. v = VStr t)"
  by (simp add: in_names_def split: if_splits)

lemma first_pass_evaluated:
  assumes "first_pass spec expected executions identity = Inr i"
  shows "(as_expected_decision i \<in> {VStr ''skip'', VStr ''unknown''} \<longrightarrow> as_state i = ''skipped'')
    \<and> (as_state i = ''evaluated'' \<longrightarrow> backed spec executions semantic i)"
proof -
  from assms obtain k decision st why where k: "judge spec decision (reported_by k executions) = Inr (st, why)"
      "as_identity_id i = k" "as_expected_decision i = decision" "as_state i = st"
    by (auto simp: first_pass_def exn_simps Let_def)
  from k(1) obtain u where u: "in_names decision [''skip'', ''unknown''] = Inr u" by (auto simp: judge_def exn_simps)
  then have ud: "u = (decision \<in> {VStr ''skip'', VStr ''unknown''})" by (auto dest: in_names_Inr)
  show ?thesis
  proof (cases u)
    case True
    with k(1) u have "st = ''skipped''" by (simp add: judge_def)
    with k(4) show ?thesis by simp
  next
    case False
    have "backed spec executions semantic i" if e: "st = ''evaluated''"
    proof -
      from k(1) u False e obtain row where row: "reported_by k executions = [row]" by (auto simp: judge_def split: list.splits)
      with k(1) u False e obtain deny where "deny_run spec row = Inr deny" "\<not> failed_run row" "allow_run row \<or> deny"
          "decision = VStr ''allow'' \<longrightarrow> allow_run row"
        by (auto simp: judge_def exn_simps split: if_splits)
      with k(2,3) row ud False show ?thesis by (auto simp: backed_def clean_run_def)
    qed
    with k(3,4) ud False show ?thesis by simp
  qed
qed

lemma py_eq_str: "py_eq v (VStr t) \<longleftrightarrow> v = VStr t"
  by (cases v) (auto simp: num_key_def)

lemma reports_same: "same_identity i (reports spec row i)" "as_state (reports spec row i) = as_state i"
  by (simp_all add: same_identity_def reports_def)

lemma semantic_judge_evaluated:
  assumes "as_identity_id i = VStr (sr_identity_id row)" and "as_expected_decision i = VStr (sr_expected_access row)"
    and "row \<in> set semantic" and "j = semantic_judge spec configured protected executions row verified i"
  shows "same_identity i j \<and> (as_state j = ''evaluated'' \<longrightarrow> as_state i \<noteq> ''skipped''
    \<and> list_ex (\<lambda>run. attested semantic i) (reported_by (as_identity_id i) executions))"
proof -
  have same: "same_identity i j"
    unfolding assms(4) semantic_judge_def Let_def by (simp add: reports_same split: list.split)
  have "as_state i \<noteq> ''skipped'' \<and> list_ex (\<lambda>run. attested semantic i) (reported_by (as_identity_id i) executions)"
    if e: "as_state j = ''evaluated''"
  proof -
    define runs where "runs = filter (\<lambda>e. py_eq (dget e ''identity_id'') (as_identity_id i)) executions"
    from e have sk: "as_state i \<noteq> ''skipped''" by (auto simp: assms(4) semantic_judge_def reports_same)
    with e have d: "sr_decision row \<in> {''allowed'', ''denied''}"
      by (simp add: assms(4) semantic_judge_def reports_same Let_def split: if_splits)
    with e sk obtain run where r: "runs = [run]"
      by (auto simp: assms(4) semantic_judge_def reports_same Let_def runs_def [symmetric] split: if_splits list.splits)
    have ok: "as_expected_decision i = VStr ''allow'' \<longrightarrow> sr_decision row = ''allowed''"
    proof (rule ccontr)
      assume n: "\<not> ?thesis"
      then have "sr_decision row = ''denied''" "as_expected_decision (reports spec row i) = VStr ''allow''" using d by (auto simp: reports_def)
      with e sk r show False
        by (simp add: assms(4) semantic_judge_def reports_same Let_def runs_def [symmetric] split: if_splits)
    qed
    have "run \<in> set runs" using r by simp
    then have "run \<in> set executions" "dget run ''identity_id'' = VStr (sr_identity_id row)"
      by (auto simp: runs_def assms(1) py_eq_str)
    then have "run \<in> set (reported_by (as_identity_id i) executions)"
      by (auto simp: reported_by_def assms(1) text_or_empty_def or_val_def)
    with sk d ok assms(1-3) show ?thesis by (auto simp: list_ex_iff attested_def)
  qed
  with same show ?thesis by blast
qed

lemma apply_semantics_cases:
  assumes "apply_semantics spec executions semantic verified i = Inr j"
  obtains configured protected row where "row \<in> set semantic" "as_identity_id i = VStr (sr_identity_id row)"
      "as_expected_decision i = VStr (sr_expected_access row)" "j = semantic_judge spec configured protected executions row verified i"
    | "j = i" | why where "j = mark ''inconclusive'' why i"
proof -
  define rows where "rows = filter (\<lambda>r. as_identity_id i = VStr (sr_identity_id r)) semantic"
  from assms obtain configured protected where j: "j = (case rows of
        [] \<Rightarrow> if protected \<and> as_state i \<noteq> ''skipped'' then mark ''inconclusive'' ''semantic_assessment_missing'' i else i
      | [row] \<Rightarrow> if as_expected_decision i \<noteq> VStr (sr_expected_access row) then mark ''inconclusive'' ''semantic_assessment_inconsistent'' i
          else semantic_judge spec configured protected executions row verified i
      | _ \<Rightarrow> mark ''inconclusive'' ''semantic_assessment_inconsistent'' i)"
    unfolding apply_semantics_def Let_def rows_def [symmetric] bindE_eq_Inr by blast
  show thesis
  proof (cases "\<exists>row. rows = [row] \<and> as_expected_decision i = VStr (sr_expected_access row)")
    case True
    then obtain row where row: "rows = [row]" "as_expected_decision i = VStr (sr_expected_access row)" by blast
    then have m: "row \<in> set rows" by simp
    then have "row \<in> set semantic" "as_identity_id i = VStr (sr_identity_id row)" by (auto simp: rows_def)
    with row j show thesis by (intro that(1)) auto
  next
    case False
    with j that(2,3) show thesis by (auto split: list.splits if_splits)
  qed
qed

lemma apply_semantics_evaluated:
  assumes "apply_semantics spec executions semantic verified i = Inr j"
    and "as_expected_decision i \<in> {VStr ''skip'', VStr ''unknown''} \<longrightarrow> as_state i = ''skipped''"
    and "as_state i = ''evaluated'' \<longrightarrow> backed spec executions semantic i"
  shows "same_identity i j \<and> (as_state j = ''evaluated'' \<longrightarrow> backed spec executions semantic j)"
  using assms(1)
proof (cases rule: apply_semantics_cases)
  case (1 configured protected row)
  from semantic_judge_evaluated [OF 1(2,3,1,4)]
  have same: "same_identity i j" and e: "as_state j = ''evaluated'' \<longrightarrow> as_state i \<noteq> ''skipped''
      \<and> list_ex (\<lambda>run. attested semantic i) (reported_by (as_identity_id i) executions)" by auto
  have "backed spec executions semantic i" if "as_state j = ''evaluated''"
    using e that assms(2) by (auto simp: backed_def list_ex_iff)
  with same show ?thesis using backed_same by blast
qed (use assms(3) in auto)

lemma credential_pass_evaluated:
  assumes "credential_pass spec identities session executions verified i = Inr j"
  shows "same_identity i j \<and> (as_state j = ''evaluated'' \<longrightarrow> as_state i = ''evaluated'')"
proof -
  from assms obtain c j2 rejected where c: "with_reader spec session verified (i\<lparr>as_credential_status := c\<rparr>) = Inr j2"
      "j = rejected_pass spec rejected j2"
    unfolding credential_pass_def Let_def bindE_eq_Inr by blast
  from c(1) have "same_identity i j2 \<and> as_state j2 = as_state i"
    by (auto simp: with_reader_def same_identity_def exn_simps split: option.splits)
  with c(2) show ?thesis by (simp add: rejected_pass_def)
qed

lemma all_counted: "length (filter p xs) = length xs \<Longrightarrow> x \<in> set xs \<Longrightarrow> p x"
  by (metis length_filter_less less_irrefl)

lemma baseline_kept [simp]: "baseline_pass True i = i" "unverified_pass True i = i"
  by (simp_all add: baseline_pass_def unverified_pass_def)

lemma session_kept: "ss_status session \<in> {''passed'', ''not_configured''} \<Longrightarrow> session_pass session i = i"
  by (simp add: session_pass_def)

lemma baseline_withdrawn: "\<not> baseline \<Longrightarrow> as_state (baseline_pass baseline i) \<noteq> ''evaluated''"
  by (simp add: baseline_pass_def)

lemma session_withdrawn: "ss_status session \<notin> {''passed'', ''not_configured''} \<Longrightarrow> as_state (session_pass session i) \<noteq> ''evaluated''"
  by (simp add: session_pass_def)

lemma conclude_conclusive:
  assumes "am_status (conclude env spec executions n verified session found) = ''conclusive''"
  shows "am_identities (conclude env spec executions n verified session found) = found \<and> verified
    \<and> found \<noteq> [] \<and> list_all (\<lambda>i. as_state i = ''evaluated'') found \<and> ss_status session \<in> {''passed'', ''not_configured''}
    \<and> list_ex (\<lambda>i. as_expected_decision i = VStr ''allow'') found
    \<and> (\<forall>e \<in> set executions. \<exists>i \<in> set found. as_identity_id i = VStr (text_or_empty (dget e ''identity_id'')))"
proof -
  define ids0 where "ids0 = map (session_pass session) (map (unverified_pass verified) found)"
  define ids where "ids = map (baseline_pass (baseline_valid verified ids0)) ids0"
  have c: "am_identities (conclude env spec executions n verified session found) = ids"
    by (simp add: conclude_def Let_def ids_def ids0_def)
  define strays where "strays = filter (\<lambda>e. \<not> list_ex (\<lambda>i. as_identity_id i = VStr (text_or_empty (dget e ''identity_id''))) ids) executions"
  have "am_status (conclude env spec executions n verified session found) =
      (if ids \<noteq> [] \<and> state_count ''evaluated'' ids = int (length ids) \<and> int (length strays) = 0 then ''conclusive''
       else if state_count ''evaluated'' ids \<noteq> 0 then ''partial'' else ''inconclusive'')"
    by (simp only: conclude_def Let_def ids_def ids0_def strays_def assessment.select_convs)
  with assms have complete: "ids \<noteq> []" "state_count ''evaluated'' ids = int (length ids)" "strays = []"
    by (auto split: if_splits)
  from complete(2) have "length (filter (\<lambda>i. as_state i = ''evaluated'') ids) = length ids"
    by (simp only: state_count_def of_nat_eq_iff)
  from all_counted [OF this] have all: "\<forall>i \<in> set ids. as_state i = ''evaluated''" by blast
  have bl: "baseline_valid verified ids0"
  proof (rule ccontr)
    assume "\<not> ?thesis"
    then have "\<forall>i \<in> set ids. as_state i \<noteq> ''evaluated''" by (simp add: ids_def baseline_withdrawn)
    with all complete(1) show False by (cases ids) auto
  qed
  then have ids: "ids = ids0" by (simp add: ids_def map_idI)
  have v: verified using bl by (simp add: baseline_valid_def)
  then have u: "map (unverified_pass verified) found = found" by (simp add: map_idI)
  have s: "ss_status session \<in> {''passed'', ''not_configured''}"
  proof (rule ccontr)
    assume "\<not> ?thesis"
    then have "\<forall>i \<in> set ids0. as_state i \<noteq> ''evaluated''" by (simp add: ids0_def session_withdrawn)
    with all complete(1) ids show False by (cases ids) auto
  qed
  then have f: "ids = found" unfolding ids ids0_def u by (simp add: map_idI session_kept)
  have "list_ex (\<lambda>i. as_expected_decision i = VStr ''allow'') found"
    using bl f ids by (auto simp: baseline_valid_def list_ex_iff)
  with c v s f complete all show ?thesis by (auto simp: strays_def list_all_iff list_ex_iff filter_empty_conv)
qed

text \<open>
  C19: A conclusive assessment rests on evidence: it is only given for the case as it was verified at the claim, with
  every session preflight passed (or none configured); every identity of the case then has a reviewed decision and a
  reported run, whose outcome is definite and free of errors or is attested by the scanner for that very decision; some
  identity that must have access was seen to have it; and no run belongs to an identity the case does not name.
\<close>

theorem conclusive_rests_on_evidence:
  assumes "assess env spec executions n verified preflight semantic = Inr r" and "am_status r = ''conclusive''"
  shows "verified \<and> am_case_hash r = Some (case_hash env (VDict spec)) \<and> ss_status (am_preflight r) \<in> {''passed'', ''not_configured''}
    \<and> am_identities r \<noteq> [] \<and> list_all (backed spec executions (map safe_semantic_row semantic)) (am_identities r)
    \<and> list_ex (\<lambda>i. as_expected_decision i = VStr ''allow'') (am_identities r)
    \<and> (\<forall>e \<in> set executions. \<exists>i \<in> set (am_identities r). as_identity_id i = VStr (text_or_empty (dget e ''identity_id'')))"
proof -
  let ?sem = "map safe_semantic_row semantic"
  from assms(1) obtain session expected identities one two three where a:
      "assess_preflight spec preflight verified = Inr session"
      "iter_val (dget_or spec ''identities'' (VList [])) = Inr identities"
      "mapE (first_pass spec expected executions) identities = Inr one"
      "mapE (apply_semantics spec executions ?sem verified) one = Inr two"
      "mapE (credential_pass spec identities session executions verified) two = Inr three"
      "r = conclude env spec executions n verified session three"
    by (auto simp: assess_def exn_simps)
  note c = conclude_conclusive [OF assms(2) [unfolded a(6)], folded a(6)]
  have pre: "am_preflight r = session" by (simp add: a(6) conclude_def Let_def)
  have first: "(as_expected_decision i \<in> {VStr ''skip'', VStr ''unknown''} \<longrightarrow> as_state i = ''skipped'')
      \<and> (as_state i = ''evaluated'' \<longrightarrow> backed spec executions ?sem i)" if "i \<in> set one" for i
    using mapE_Inr_from [OF a(3) that] first_pass_evaluated by blast
  have second: "as_state j = ''evaluated'' \<longrightarrow> backed spec executions ?sem j" if "j \<in> set two" for j
    using mapE_Inr_from [OF a(4) that] first apply_semantics_evaluated by blast
  have third: "as_state k = ''evaluated'' \<longrightarrow> backed spec executions ?sem k" if "k \<in> set three" for k
    using mapE_Inr_from [OF a(5) that] second credential_pass_evaluated backed_same by blast
  have ne: "identities \<noteq> []"
    using c mapE_Inr_length [OF a(3)] mapE_Inr_length [OF a(4)] mapE_Inr_length [OF a(5)] by auto
  then have "spec \<noteq> []" using a(2) by (auto simp: dget_or_def iter_val_def)
  then have "am_case_hash r = Some (case_hash env (VDict spec))" by (simp add: a(6) conclude_def Let_def)
  with c third pre show ?thesis by (auto simp: list_all_iff)
qed

text \<open>A case with an identity that must have access and one that must not, and the runs that bear it out.\<close>

definition assess_env :: env where
  "assess_env = \<lparr>now = 0, uuid = (\<lambda>n. str_of_int (int n)), sha256 = (\<lambda>t. t)\<rparr>"

definition sample_identity :: "string \<Rightarrow> pyval" where
  "sample_identity k = VDict [(''id'', VStr k), (''credential'', VDict [(''type'', VStr ''bearer''), (''value_env'', VStr ''T'')])]"

definition sample_case :: "pyval \<Rightarrow> pydict" where
  "sample_case expectations = [(''id'', VStr ''c''), (''request'', VDict [(''method'', VStr ''GET''), (''url'', VStr ''https://acme.example/x'')]),
     (''identities'', VList [sample_identity ''owner'', sample_identity ''other'']), (''expected_access'', expectations)]"

definition sample_expectations :: pyval where
  "sample_expectations = VList [VDict [(''identity_id'', VStr ''owner''), (''decision'', VStr ''allow'')],
     VDict [(''identity_id'', VStr ''other''), (''decision'', VStr ''deny'')]]"

definition sample_run :: "string \<Rightarrow> int \<Rightarrow> string \<Rightarrow> pydict" where
  "sample_run k st outcome = [(''identity_id'', VStr k), (''status_code'', VInt st), (''observed_outcome'', VStr outcome)]"

definition sample_assessment :: "assessment res" where
  "sample_assessment = assess assess_env (sample_case sample_expectations) [sample_run ''owner'' 200 ''allow'', sample_run ''other'' 403 ''deny''] 0 True [] []"

lemma sample_conclusive: "case sample_assessment of Inr r \<Rightarrow> am_status r = ''conclusive'' | Inl e \<Rightarrow> False"
  by code_simp

theorem conclusive_rests_on_evidence_witness:
  "\<exists>r. sample_assessment = Inr r \<and> am_status r = ''conclusive'' \<and> am_identities r \<noteq> []
    \<and> list_all (backed (sample_case sample_expectations) [sample_run ''owner'' 200 ''allow'', sample_run ''other'' 403 ''deny''] []) (am_identities r)"
proof -
  obtain r where r: "sample_assessment = Inr r" "am_status r = ''conclusive''"
    using sample_conclusive by (auto split: sum.splits)
  from conclusive_rests_on_evidence [OF r(1) [unfolded sample_assessment_def] r(2)] r show ?thesis by (intro exI [of _ r]) simp
qed

definition STATES :: "string list" where
  "STATES = [''evaluated'', ''inconclusive'', ''missing'', ''skipped'']"

definition accounted :: "assessed \<Rightarrow> assessed \<Rightarrow> bool" where
  "accounted i j = (as_identity_id j = as_identity_id i \<and> (as_state i \<in> set STATES \<longrightarrow> as_state j \<in> set STATES))"

lemma accounted_mark [simp]: "st \<in> set STATES \<Longrightarrow> accounted i (mark st why j) \<longleftrightarrow> as_identity_id j = as_identity_id i"
  by (simp add: accounted_def)

lemma STATES_in [simp]: "''inconclusive'' \<in> set STATES" "''evaluated'' \<in> set STATES" "''missing'' \<in> set STATES" "''skipped'' \<in> set STATES"
  by (simp_all add: STATES_def)

lemma accounted_refl [simp]: "accounted i i"
  by (simp add: accounted_def)

lemma accounted_trans: "accounted i j \<Longrightarrow> accounted j k \<Longrightarrow> accounted i k"
  by (simp add: accounted_def)

lemma first_pass_accounted: "first_pass spec expected executions d = Inr i \<Longrightarrow> vindex d ''id'' = Inr (as_identity_id i) \<and> as_state i \<in> set STATES"
  by (auto simp: first_pass_def judge_def exn_simps Let_def split: if_splits list.splits)

lemma semantic_judge_accounted: "accounted i (semantic_judge spec configured protected executions row verified i)"
proof -
  have "accounted i (reports spec row i)" "as_identity_id (reports spec row i) = as_identity_id i" by (simp_all add: accounted_def reports_def)
  then show ?thesis unfolding semantic_judge_def Let_def by (simp split: list.split)
qed

lemma apply_semantics_accounted: "apply_semantics spec executions semantic verified i = Inr j \<Longrightarrow> accounted i j"
  by (erule apply_semantics_cases) (auto simp: semantic_judge_accounted)

lemma credential_pass_accounted:
  assumes "credential_pass spec identities session executions verified i = Inr j"
  shows "accounted i j"
proof -
  from assms obtain c j2 rejected where c: "with_reader spec session verified (i\<lparr>as_credential_status := c\<rparr>) = Inr j2"
      "j = rejected_pass spec rejected j2"
    unfolding credential_pass_def Let_def bindE_eq_Inr by blast
  from c(1) have "accounted i j2" by (auto simp: with_reader_def accounted_def exn_simps split: option.splits)
  with c(2) show ?thesis by (simp add: rejected_pass_def accounted_def)
qed

lemma mapE_related:
  "mapE f xs = Inr ys \<Longrightarrow> (\<And>x y. f x = Inr y \<Longrightarrow> P x y) \<Longrightarrow> list_all2 P xs ys"
  by (induction xs arbitrary: ys) (auto simp: exn_simps)

lemma conclude_accounted: "list_all2 accounted found (am_identities (conclude env spec executions n verified session found))"
proof -
  have "accounted i (baseline_pass b (session_pass session (unverified_pass verified i)))" for i b
    by (simp add: baseline_pass_def session_pass_def unverified_pass_def accounted_def)
  then show ?thesis by (simp add: conclude_def Let_def list.rel_map list.rel_refl)
qed

lemma counts_total:
  "\<forall>i \<in> set ids. as_state i \<in> set STATES \<Longrightarrow>
    state_count ''evaluated'' ids + state_count ''inconclusive'' ids + state_count ''missing'' ids + state_count ''skipped'' ids = int (length ids)"
  by (induction ids) (auto simp: state_count_def STATES_def)

text \<open>
  C32: Every identity of the case appears once in the assessment, in the order of the case, in exactly one of the four
  states, so the four counts add up to the number of identities.
\<close>

theorem every_identity_accounted:
  assumes "assess env spec executions n verified preflight semantic = Inr r" and "dget_or spec ''identities'' (VList []) = VList declared"
  shows "list_all2 (\<lambda>d i. vindex d ''id'' = Inr (as_identity_id i) \<and> as_state i \<in> set STATES) declared (am_identities r)
    \<and> am_evaluated r + am_inconclusive r + am_missing r + am_skipped r = int (length (am_identities r))"
proof -
  from assms obtain session expected one two three where a:
      "mapE (first_pass spec expected executions) declared = Inr one"
      "mapE (apply_semantics spec executions (map safe_semantic_row semantic) verified) one = Inr two"
      "mapE (credential_pass spec declared session executions verified) two = Inr three"
      "r = conclude env spec executions n verified session three"
    by (auto simp: assess_def exn_simps iter_val_def)
  have "list_all2 (\<lambda>d i. vindex d ''id'' = Inr (as_identity_id i) \<and> as_state i \<in> set STATES) declared one"
    by (rule mapE_related [OF a(1) first_pass_accounted])
  moreover have "list_all2 accounted one two" by (rule mapE_related [OF a(2) apply_semantics_accounted])
  moreover have "list_all2 accounted two three" by (rule mapE_related [OF a(3) credential_pass_accounted])
  moreover have "list_all2 accounted three (am_identities r)" unfolding a(4) by (rule conclude_accounted)
  ultimately have l: "list_all2 (\<lambda>d i. vindex d ''id'' = Inr (as_identity_id i) \<and> as_state i \<in> set STATES) declared (am_identities r)"
    by (fastforce simp: list_all2_conv_all_nth accounted_def)
  then have "\<forall>i \<in> set (am_identities r). as_state i \<in> set STATES"
    by (auto simp: list_all2_conv_all_nth in_set_conv_nth)
  from counts_total [OF this] l show ?thesis by (simp add: a(4) conclude_def Let_def)
qed

theorem every_identity_accounted_witness:
  "\<exists>r. sample_assessment = Inr r \<and> length (am_identities r) = 2
    \<and> am_evaluated r + am_inconclusive r + am_missing r + am_skipped r = int (length (am_identities r))"
proof -
  obtain r where r: "sample_assessment = Inr r" using sample_conclusive by (auto split: sum.splits)
  have d: "dget_or (sample_case sample_expectations) ''identities'' (VList []) = VList [sample_identity ''owner'', sample_identity ''other'']"
    by (simp add: sample_case_def dget_or_def)
  from every_identity_accounted [OF r [unfolded sample_assessment_def] d] r show ?thesis by (intro exI [of _ r]) (auto dest: list_all2_lengthD)
qed

text \<open>A case may be stored whose list of expectations is null; assessing any result of it then fails.\<close>

lemma null_expectations_fail:
  "validate_spec (VDict (sample_case VNone)) = Inr (VDict (sample_case VNone))"
  "assess assess_env (sample_case VNone) [] 0 True [] [] = Inl TypeError"
proof -
  have s: "check_shape (sample_case VNone) = Inr ()" "reject_literal_credentials (VDict (sample_case VNone)) = Inr ()"
      "reject_environment_references ''spec'' (VDict (sample_case VNone)) = Inr ()" "validate_preflight (VDict (sample_case VNone)) = Inr ()"
    by code_simp+
  have "int (length (dumps (VDict (sample_case VNone)))) < 1000" by code_simp
  then have l: "length (dumps (VDict (sample_case VNone))) \<le> MAX_SPEC_BYTES" by (simp add: MAX_SPEC_BYTES_def)
  have "sample_case VNone \<noteq> []" by (simp add: sample_case_def)
  with s l show "validate_spec (VDict (sample_case VNone)) = Inr (VDict (sample_case VNone))" by (intro validate_specI [OF refl])
  show "assess assess_env (sample_case VNone) [] 0 True [] [] = Inl TypeError" by code_simp
qed

end
