(* ===== verification/Redaction.thy ===== *)
theory Redaction
  imports Sanitize Json
begin

text \<open>
  Redaction of secrets before evidence is stored (\<open>backend/redaction.py\<close>).  The six patterns are scanners
  driven by \<open>re_sub\<close>, the left-to-right substitution of \<open>re.sub\<close>: a scanner sees the character before its
  position and the text from there on, and answers the replacement and what is left after the match.
\<close>

section \<open>Substitution\<close>

type_synonym scanner = "char option \<Rightarrow> string \<Rightarrow> (string \<times> string) option"

text \<open>No pattern matches the empty text.\<close>

function re_sub :: "scanner \<Rightarrow> char option \<Rightarrow> string \<Rightarrow> string" where
  "re_sub m p [] = []"
| "re_sub m p (c # s) = (case m p (c # s) of
       Some (r, rest) \<Rightarrow> if length rest \<le> length s then r @ re_sub m (Some ((c # s) ! (length s - length rest))) rest
         else c # re_sub m (Some c) s
     | None \<Rightarrow> c # re_sub m (Some c) s)"
  by pat_completeness auto
termination
  by (relation "measure (\<lambda>(m, p, s). length s)") auto

definition span :: "(char \<Rightarrow> bool) \<Rightarrow> string \<Rightarrow> string \<times> string" where
  "span p s = (takeWhile p s, dropWhile p s)"

definition alnum :: "char \<Rightarrow> bool" where
  "alnum c = (is_alpha c \<or> is_decimal_char c)"

definition name_char :: "char \<Rightarrow> bool" where
  "name_char c = (alnum c \<or> c = CHR ''-'' \<or> c = CHR ''_'')"

definition newline :: "char \<Rightarrow> bool" where
  "newline c = (c = CHR 0x0A)"

text \<open>A word boundary between two characters.\<close>

definition boundary :: "char option \<Rightarrow> char option \<Rightarrow> bool" where
  "boundary p q = ((case p of None \<Rightarrow> False | Some c \<Rightarrow> is_word c) \<noteq> (case q of None \<Rightarrow> False | Some c \<Rightarrow> is_word c))"

definition first_char :: "string \<Rightarrow> char option" where
  "first_char s = (case s of [] \<Rightarrow> None | c # _ \<Rightarrow> Some c)"

section \<open>What counts as secret\<close>

definition PLACEHOLDER :: string where "PLACEHOLDER = ''[REDACTED]''"

definition SENSITIVE_HEADERS :: "string list" where
  "SENSITIVE_HEADERS = [''authorization'', ''proxy-authorization'', ''cookie'', ''set-cookie'', ''x-api-key'', ''x-auth-token'',
     ''x-access-token'', ''x-csrf-token'', ''x-session-token'', ''api-key'', ''auth-token'', ''session'']"

definition SENSITIVE_KEYS :: "string list" where
  "SENSITIVE_KEYS = [''password'', ''passwd'', ''secret'', ''token'', ''access_token'', ''refresh_token'', ''id_token'', ''api_key'', ''apikey'',
     ''client_secret'', ''private_key'', ''session_id'', ''sessionid'', ''authorization'', ''credential'', ''credentials'', ''otp'', ''mfa_code'']"

definition all_keys :: "string list \<Rightarrow> string list" where
  "all_keys extra = SENSITIVE_KEYS @ map lower extra"

section \<open>The patterns\<close>

text \<open>
  \<open>_HEADER_LINE\<close>: a name at the start of a line, a colon, and the rest of the line.  The white space after the
  colon may run over line ends; when nothing follows it, its last character that ends no line is the value.
\<close>

definition header_value :: "string \<Rightarrow> string option" where
  "header_value r = (let (w, rest) = span is_ws r in
     if rest \<noteq> [] then Some (dropWhile (\<lambda>c. \<not> newline c) rest)
     else if list_all newline w then None
     else Some (rev (takeWhile newline (rev w))))"

definition header_line :: scanner where
  "header_line p s = (if p \<noteq> None \<and> p \<noteq> Some (CHR 0x0A) then None else
     (let (name, s1) = span name_char s in
      if name = [] then None
      else case snd (span is_ws s1) of
          c # s2 \<Rightarrow> if c = CHR '':'' then (case header_value s2 of
              None \<Rightarrow> None
            | Some rest \<Rightarrow> Some (if lower name \<in> set SENSITIVE_HEADERS then name @ '': '' @ PLACEHOLDER
                else take (length s - length rest) s, rest))
            else None
        | [] \<Rightarrow> None))"

text \<open>The key of a key and value pair, possibly in double quotes, with its separator.\<close>

definition unquote :: "string \<Rightarrow> string" where
  "unquote k = rstrip_where (\<lambda>c. c = CHR 0x22 \<or> c = CHR 0x27) (lstrip_where (\<lambda>c. c = CHR 0x22 \<or> c = CHR 0x27) k)"

definition keyed :: "string \<Rightarrow> (string \<times> char \<times> string) option" where
  "keyed s = (let (q1, s1) = (case s of c # s' \<Rightarrow> if c = CHR 0x22 then ([c], s') else ([], s) | [] \<Rightarrow> ([], s));
        (name, s2) = span name_char s1;
        (q2, s3) = (case s2 of c # s' \<Rightarrow> if c = CHR 0x22 then ([c], s') else ([], s2) | [] \<Rightarrow> ([], s2))
     in if name = [] then None
        else case snd (span is_ws s3) of
            c # s4 \<Rightarrow> if c = CHR '':'' \<or> c = CHR ''='' then Some (q1 @ name @ q2, c, snd (span is_ws s4)) else None
          | [] \<Rightarrow> None)"

text \<open>A quoted value, to its closing quote.\<close>

fun quoted_rest :: "char \<Rightarrow> string \<Rightarrow> string option" where
  "quoted_rest q [] = None"
| "quoted_rest q (c # s) =
     (if c = q then Some s
      else if c = CHR 0x22 \<or> c = CHR 0x27 then None
      else if c = CHR 0x5C then (case s of d # s' \<Rightarrow> if newline d then None else quoted_rest q s' | [] \<Rightarrow> None)
      else quoted_rest q s)"

definition keyed_quoted :: "string list \<Rightarrow> scanner" where
  "keyed_quoted ks p s = (case keyed s of
       Some (k, sep, q # s1) \<Rightarrow> if q = CHR 0x22 \<or> q = CHR 0x27 then (case quoted_rest q s1 of
           None \<Rightarrow> None
         | Some rest \<Rightarrow> Some (if lower (unquote k) \<in> set ks then k @ [sep, q] @ PLACEHOLDER @ [q] else take (length s - length rest) s, rest))
         else None
     | _ \<Rightarrow> None)"

definition delimiter :: "char \<Rightarrow> bool" where
  "delimiter c = (c \<in> set ''&;,}]'' \<or> c = CHR 0x0A \<or> c = CHR 0x0D)"

definition keyed_bare :: "string list \<Rightarrow> scanner" where
  "keyed_bare ks p s = (case keyed s of
       Some (k, sep, v # s1) \<Rightarrow> if v = CHR 0x22 \<or> v = CHR 0x27 \<or> is_ws v \<or> delimiter v then None
         else (let rest = dropWhile (\<lambda>c. \<not> delimiter c) s1
           in Some (if lower (unquote k) \<in> set ks then k @ [sep] @ PLACEHOLDER else take (length s - length rest) s, rest))
     | _ \<Rightarrow> None)"

text \<open>\<open>scheme://userinfo@\<close>\<close>

definition url_credentials :: scanner where
  "url_credentials p s = (let (scheme, s1) = span (\<lambda>c. alnum c \<or> c \<in> set ''+.-'') s in
     if scheme = [] \<or> \<not> is_alpha (hd scheme) \<or> \<not> startswith s1 ''://'' then None
     else (let (userinfo, s2) = span (\<lambda>c. c \<noteq> CHR ''/'' \<and> \<not> is_ws c \<and> c \<noteq> CHR ''@'') (drop 3 s1)
       in case s2 of
            c # rest \<Rightarrow> if userinfo \<noteq> [] \<and> c = CHR ''@'' then Some (scheme @ ''://'' @ PLACEHOLDER @ ''@'', rest) else None
          | [] \<Rightarrow> None))"

text \<open>Three dotted segments of a JSON web token; the last one ends at its last word boundary.\<close>

definition segment_end :: "string \<Rightarrow> string \<Rightarrow> nat option" where
  "segment_end seg rest = find (\<lambda>k. boundary (Some (seg ! (k - 1))) (if k < length seg then Some (seg ! k) else first_char rest))
     (rev [5..<Suc (length seg)])"

definition jwt :: scanner where
  "jwt p s = (if \<not> startswith s ''eyJ'' \<or> \<not> boundary p (Some (CHR ''e'')) then None else
     (let (a, s1) = span name_char (drop 3 s) in
      if length a < 5 \<or> \<not> startswith s1 ''.'' then None else
      (let (b, s2) = span name_char (drop 1 s1) in
       if length b < 5 \<or> \<not> startswith s2 ''.'' then None else
       (let (c, s3) = span name_char (drop 1 s2)
        in case segment_end c s3 of None \<Rightarrow> None | Some k \<Rightarrow> Some (PLACEHOLDER, drop k c @ s3)))))"

text \<open>A scheme word, white space, and a token of at least eight characters.\<close>

definition scheme_word :: "string \<Rightarrow> string option" where
  "scheme_word s = find (\<lambda>w. lower (take (length w) s) = w) [''bearer'', ''basic'', ''token'']"

definition bearer :: scanner where
  "bearer p s = (case scheme_word s of
       None \<Rightarrow> None
     | Some w \<Rightarrow> if \<not> boundary p (first_char s) then None else
         (let (sp, s1) = span is_ws (drop (length w) s);
              (t, rest) = span (\<lambda>c. alnum c \<or> c \<in> set ''-._~+/='') s1
          in if sp = [] \<or> length t < 8 then None else Some (take (length w) s @ '' '' @ PLACEHOLDER, rest)))"

section \<open>Redaction\<close>

definition redact_text :: "string list \<Rightarrow> string \<Rightarrow> string" where
  "redact_text extra v =
     (let t1 = re_sub header_line None v; t2 = re_sub (keyed_quoted (all_keys extra)) None t1;
          t3 = re_sub (keyed_bare (all_keys extra)) None t2; t4 = re_sub url_credentials None t3;
          t5 = re_sub jwt None t4
      in re_sub bearer None t5)"

definition secret_name :: "string list \<Rightarrow> string \<Rightarrow> bool" where
  "secret_name extra k = (lower k \<in> set (all_keys extra) \<or> lower k \<in> set SENSITIVE_HEADERS)"

fun redact_value :: "string list \<Rightarrow> pyval \<Rightarrow> pyval" where
  "redact_value extra (VDict d) = VDict (map (\<lambda>(k, v). (k, if secret_name extra k then VStr PLACEHOLDER else redact_value extra v)) d)"
| "redact_value extra (VList xs) = VList (map (redact_value extra) xs)"
| "redact_value extra (VStr t) = VStr (redact_text extra t)"
| "redact_value extra v = v"

definition redact_mapping :: "string list \<Rightarrow> pydict \<Rightarrow> pyval" where
  "redact_mapping extra d = redact_value extra (VDict d)"

text \<open>\<open>re.search\<close> of the last three patterns.\<close>

fun re_search :: "scanner \<Rightarrow> char option \<Rightarrow> string \<Rightarrow> bool" where
  "re_search m p [] = False"
| "re_search m p (c # s) = (m p (c # s) \<noteq> None \<or> re_search m (Some c) s)"

definition contains_obvious_secret :: "string \<Rightarrow> bool" where
  "contains_obvious_secret v = (re_search jwt None v \<or> re_search bearer None v \<or> re_search url_credentials None v)"

section \<open>Decoded structures\<close>

text \<open>Two values that differ at most under secret names.\<close>

inductive agree :: "string list \<Rightarrow> pyval \<Rightarrow> pyval \<Rightarrow> bool" for extra where
  agree_same: "agree extra v v"
| agree_dict: "list_all2 (\<lambda>x y. fst x = fst y \<and> (secret_name extra (fst x) \<or> agree extra (snd x) (snd y))) d d' \<Longrightarrow> agree extra (VDict d) (VDict d')"
| agree_list: "list_all2 (agree extra) xs ys \<Longrightarrow> agree extra (VList xs) (VList ys)"

lemma map_agree: "list_all2 P xs ys \<Longrightarrow> (\<And>x y. P x y \<Longrightarrow> f x = f y) \<Longrightarrow> map f xs = map f ys"
  by (induction xs ys rule: list_all2_induct) auto

lemma redact_agree: "agree extra v w \<Longrightarrow> redact_value extra v = redact_value extra w"
proof (induction rule: agree.induct)
  case (agree_dict d d')
  have "map (\<lambda>(k, v). (k, if secret_name extra k then VStr PLACEHOLDER else redact_value extra v)) d
      = map (\<lambda>(k, v). (k, if secret_name extra k then VStr PLACEHOLDER else redact_value extra v)) d'"
    by (rule map_agree [OF agree_dict.IH]) auto
  then show ?case by simp
next
  case (agree_list xs ys)
  show ?case by (simp add: map_agree [OF agree_list.IH])
qed simp

text \<open>A value in which every secret name holds the placeholder.\<close>

fun covered :: "string list \<Rightarrow> pyval \<Rightarrow> bool" where
  "covered extra (VDict d) = (\<forall>(k, v) \<in> set d. if secret_name extra k then v = VStr PLACEHOLDER else covered extra v)"
| "covered extra (VList xs) = (\<forall>v \<in> set xs. covered extra v)"
| "covered extra v = True"

lemma redact_covered: "covered extra (redact_value extra v)"
  by (induction extra v rule: redact_value.induct) auto

section \<open>Header blocks\<close>

text \<open>The text of a request: its first line, its headers, and whatever follows.\<close>

abbreviation nl :: char where "nl \<equiv> CHR 0x0A"

definition header_text :: "(string \<times> string) list \<Rightarrow> string" where
  "header_text hs = concat (map (\<lambda>(n, v). n @ '':'' @ v @ [nl]) hs)"

definition request_text :: "string \<Rightarrow> string \<Rightarrow> (string \<times> string) list \<Rightarrow> string \<Rightarrow> string" where
  "request_text m target hs rest = m @ '' '' @ target @ [nl] @ header_text hs @ rest"

text \<open>A header with a name and a value on its line, and two headers that differ at most in a sensitive value.\<close>

definition header_ok :: "string \<times> string \<Rightarrow> bool" where
  "header_ok h = (fst h \<noteq> [] \<and> list_all name_char (fst h) \<and> nl \<notin> set (snd h) \<and> \<not> list_all is_ws (snd h))"

definition header_alike :: "string \<times> string \<Rightarrow> string \<times> string \<Rightarrow> bool" where
  "header_alike h h' = (header_ok h \<and> header_ok h' \<and> fst h = fst h' \<and> (lower (fst h) \<in> set SENSITIVE_HEADERS \<or> snd h = snd h'))"

definition first_line_ok :: "string \<Rightarrow> string \<Rightarrow> bool" where
  "first_line_ok m target = (m \<noteq> [] \<and> list_all name_char m \<and> target \<noteq> [] \<and> nl \<notin> set target
     \<and> \<not> is_ws (hd target) \<and> hd target \<noteq> CHR '':'')"

lemma span_name [simp]: "list_all name_char n \<Longrightarrow> \<not> name_char c \<Longrightarrow> span name_char (n @ c # s) = (n, c # s)"
  by (auto simp: span_def list_all_iff takeWhile_append2 dropWhile_append2)

lemma not_name [simp]: "\<not> name_char (CHR '':'')" "\<not> name_char (CHR '' '')" "\<not> is_ws (CHR '':'')" "is_ws (CHR '' '')" "is_ws nl"
  "\<not> name_char nl"
  by code_simp+

lemma name_not_nl: "list_all name_char n \<Longrightarrow> nl \<notin> set n"
  by (auto simp: list_all_iff)

lemma header_value_line:
  assumes "nl \<notin> set v" and "\<not> list_all is_ws v"
  shows "header_value (v @ nl # s) = Some (nl # s)"
proof -
  obtain c where c: "c \<in> set v" "\<not> is_ws c" using assms(2) by (auto simp: list_all_iff)
  then have d: "dropWhile is_ws (v @ nl # s) = dropWhile is_ws v @ nl # s" by (simp add: dropWhile_append1)
  have "\<forall>x \<in> set (dropWhile is_ws v). \<not> newline x"
    using assms(1) by (auto simp: newline_def dest: set_dropWhileD)
  then show ?thesis by (simp add: header_value_def span_def d dropWhile_append2 newline_def)
qed

lemma header_line_hit:
  assumes "header_ok (n, v)" and "p = None \<or> p = Some nl"
  shows "header_line p (n @ CHR '':'' # v @ nl # s) =
    Some (if lower n \<in> set SENSITIVE_HEADERS then n @ '': '' @ PLACEHOLDER else n @ CHR '':'' # v, nl # s)"
proof -
  have "snd (span is_ws (CHR '':'' # v @ nl # s)) = CHR '':'' # v @ nl # s" by (simp add: span_def)
  with assms show ?thesis
    by (simp add: header_line_def header_ok_def header_value_line)
qed

lemma header_line_inside: "c \<noteq> nl \<Longrightarrow> header_line (Some c) s = None"
  by (simp add: header_line_def)

lemma re_sub_line_end: "p \<noteq> None \<Longrightarrow> p \<noteq> Some nl \<Longrightarrow> re_sub header_line p (nl # s) = nl # re_sub header_line (Some nl) s"
  by (simp add: header_line_def)

lemma re_sub_inside:
  "nl \<notin> set x \<Longrightarrow> c \<noteq> nl \<Longrightarrow> re_sub header_line (Some c) (x @ nl # s) = x @ nl # re_sub header_line (Some nl) s"
proof (induction x arbitrary: c)
  case Nil
  then show ?case by (simp add: header_line_inside)
next
  case (Cons d x)
  from Cons.prems(1) have "nl \<notin> set x" and "d \<noteq> nl" by auto
  from Cons.IH [OF this] Cons.prems(2) show ?case by (simp add: header_line_inside)
qed

lemma re_sub_match:
  assumes "m p (x @ rest) = Some (r, rest)" and "x \<noteq> []"
  shows "re_sub m p (x @ rest) = r @ re_sub m (Some (last x)) rest"
proof -
  obtain c y where x: "x = c # y" using assms(2) by (cases x) auto
  have "(c # y @ rest) ! length y = last (c # y)"
    by (metis append_Cons last_conv_nth length_Cons diff_Suc_1 lessI list.distinct(1) nth_append)
  with assms(1) show ?thesis by (simp add: x del: last.simps nth_Cons_Suc)
qed

lemma re_sub_header:
  assumes "header_ok (n, v)" and "p = None \<or> p = Some nl"
  shows "re_sub header_line p (n @ CHR '':'' # v @ nl # s) =
    (if lower n \<in> set SENSITIVE_HEADERS then n @ '': '' @ PLACEHOLDER else n @ CHR '':'' # v) @ nl # re_sub header_line (Some nl) s"
proof -
  define l where "l = n @ CHR '':'' # v"
  have "nl \<notin> set l" using assms(1) name_not_nl by (auto simp: header_ok_def l_def)
  moreover have ne: "l \<noteq> []" by (simp add: l_def)
  ultimately have "last l \<noteq> nl" by (metis last_in_set)
  then have e: "re_sub header_line (Some (last l)) (nl # s) = nl # re_sub header_line (Some nl) s"
    by (intro re_sub_line_end) auto
  have "header_line p (l @ nl # s) = Some (if lower n \<in> set SENSITIVE_HEADERS then n @ '': '' @ PLACEHOLDER else l, nl # s)"
    using header_line_hit [OF assms, of s] by (simp add: l_def)
  from re_sub_match [of header_line p l "nl # s", OF this ne] show ?thesis unfolding e by (simp add: l_def)
qed

lemma re_sub_headers:
  assumes "list_all2 header_alike hs hs'" and "p = None \<or> p = Some nl"
    and "\<And>q. q = p \<or> q = Some nl \<Longrightarrow> re_sub header_line q s = re_sub header_line q s'"
  shows "re_sub header_line p (header_text hs @ s) = re_sub header_line p (header_text hs' @ s')"
  using assms
proof (induction hs hs' arbitrary: p rule: list_all2_induct)
  case Nil
  then show ?case by (simp add: header_text_def)
next
  case (Cons h hs h' hs')
  obtain n v where h: "h = (n, v)" by (cases h)
  with Cons.hyps(1) obtain v' where h': "h' = (n, v')" by (cases h') (auto simp: header_alike_def)
  have e: "header_text ((m, u) # ks) @ r = m @ CHR '':'' # u @ nl # header_text ks @ r" for m u ks r
    by (simp add: header_text_def)
  have "re_sub header_line (Some nl) (header_text hs @ s) = re_sub header_line (Some nl) (header_text hs' @ s')"
    by (rule Cons.IH) (use Cons.prems in auto)
  then show ?case
    using Cons.hyps(1) Cons.prems(1) unfolding h h' e
    by (auto simp: re_sub_header header_alike_def)
qed

lemma re_sub_first_line:
  assumes "first_line_ok m target"
  shows "re_sub header_line None (m @ '' '' @ target @ [nl] @ s) = m @ '' '' @ target @ [nl] @ re_sub header_line (Some nl) s"
proof -
  obtain a m' where m: "m = a # m'" using assms by (cases m) (auto simp: first_line_ok_def)
  obtain b t' where t: "target = b # t'" using assms by (cases target) (auto simp: first_line_ok_def)
  have n: "name_char a" "a \<noteq> nl" "nl \<notin> set (m' @ '' '' @ target)"
    using assms name_not_nl [of m] by (auto simp: first_line_ok_def m)
  have "header_line None (m @ CHR '' '' # target @ nl # s) = None"
    using assms by (simp add: header_line_def first_line_ok_def t span_def [of is_ws])
  with re_sub_inside [OF n(3,2), of s] show ?thesis by (simp add: m)
qed

section \<open>Properties\<close>

text \<open>
  Redacting a decoded structure hides every secret it names: at any depth, the value under a sensitive name,
  compared without regard to case, is the placeholder, so two structures that differ only in such values redact to
  the same result; the names themselves stay, in their order.
\<close>

theorem redacted_structure_hides_secrets:
  assumes "agree extra (VDict d) (VDict d')"
  shows "redact_mapping extra d = redact_mapping extra d' \<and> covered extra (redact_mapping extra d)
    \<and> (\<exists>e. redact_mapping extra d = VDict e \<and> map fst e = map fst d)"
proof (intro conjI)
  show "redact_mapping extra d = redact_mapping extra d'"
    unfolding redact_mapping_def by (rule redact_agree [OF assms])
  show "covered extra (redact_mapping extra d)"
    unfolding redact_mapping_def by (rule redact_covered)
  show "\<exists>e. redact_mapping extra d = VDict e \<and> map fst e = map fst d"
    by (auto simp: redact_mapping_def o_def split_beta)
qed

lemma redacted_structure_hides_secrets_witness:
  "redact_mapping [] [(''user'', VStr ''ann''), (''Password'', VStr ''p1'')] = redact_mapping [] [(''user'', VStr ''ann''), (''Password'', VInt 7)]"
proof -
  have "secret_name [] ''Password''" by code_simp
  then have "agree [] (VDict [(''user'', VStr ''ann''), (''Password'', VStr ''p1'')]) (VDict [(''user'', VStr ''ann''), (''Password'', VInt 7)])"
    by (intro agree_dict) (simp add: agree_same)
  from redacted_structure_hides_secrets [OF this] show ?thesis by blast
qed

text \<open>
  C33: Redacting the text of a request leaves nothing of its sensitive headers: when every header has a value on
  its own line, two requests that differ only in the values of sensitive headers redact to the same text.
\<close>

theorem sensitive_headers_leave_no_trace:
  assumes "first_line_ok m target" and "list_all2 header_alike hs hs'"
  shows "redact_text extra (request_text m target hs rest) = redact_text extra (request_text m target hs' rest)"
proof -
  have "re_sub header_line (Some nl) (header_text hs @ rest) = re_sub header_line (Some nl) (header_text hs' @ rest)"
    by (rule re_sub_headers [OF assms(2)]) auto
  then have "re_sub header_line None (request_text m target hs rest) = re_sub header_line None (request_text m target hs' rest)"
    using re_sub_first_line [OF assms(1)] by (simp only: request_text_def)
  then show ?thesis by (simp add: redact_text_def)
qed

lemma sensitive_headers_leave_no_trace_witness:
  "redact_text [] (request_text ''GET'' ''/me'' [(''Host'', '' acme.example''), (''Cookie'', '' sid=4f1c'')] [nl])
     = redact_text [] (request_text ''GET'' ''/me'' [(''Host'', '' acme.example''), (''Cookie'', '' sid=9a77; a=b'')] [nl])"
proof -
  have "first_line_ok ''GET'' ''/me''" by code_simp
  moreover have "list_all2 header_alike [(''Host'', '' acme.example''), (''Cookie'', '' sid=4f1c'')]
      [(''Host'', '' acme.example''), (''Cookie'', '' sid=9a77; a=b'')]"
    by code_simp
  ultimately show ?thesis by (rule sensitive_headers_leave_no_trace)
qed

text \<open>
  A header without a value shields the next line: the white space after its colon runs over the line end, the next
  line becomes its value and is kept.
\<close>

lemma empty_header_leaks:
  "redact_text [] (''X-Empty:'' @ [nl] @ ''Cookie: sid=4f1c'') = ''X-Empty:'' @ [nl] @ ''Cookie: sid=4f1c''"
  by code_simp

text \<open>A second pass does not leave redacted text alone: the bracket that closes the placeholder ends a bare value.\<close>

lemma second_pass_differs:
  "redact_text [] ''password=x'' = ''password=[REDACTED]''" "redact_text [] ''password=[REDACTED]'' = ''password=[REDACTED]]''"
  by code_simp+

text \<open>The scheme of an authorization header does not survive.\<close>

lemma scheme_is_lost: "redact_text [] ''Authorization: Bearer 4f1c9a77'' = ''Authorization:[REDACTED]]''"
  by code_simp

end
