(* ===== verification/Gate_Results.thy ===== *)
theory Gate_Results
  imports Assessments Redaction
begin

text \<open>
  The upload of a VardrGate result (\<open>routers/jobs.py\<close>, \<open>upload_job_result\<close> and \<open>store_gate_result\<close>): its findings
  become scan items, its executions evidence, its assessment the job's, all redacted; a receipt makes a repeated
  upload harmless and a different one impossible.  The order of the keys of a stored document is that of the code;
  identifiers are drawn in the order the rows are added.
\<close>

section \<open>The body\<close>

record preflight_result =
  pr_identity_id :: string
  pr_status :: string
  pr_reason :: string
  pr_status_code :: int

record gate_upload =
  gu_case_hash :: string
  gu_test_case_id :: string
  gu_executions :: "pydict list"
  gu_findings :: "pydict list"
  gu_preflight :: "preflight_result list"
  gu_assessments :: "pydict list"

definition preflight_result_ok :: "preflight_result \<Rightarrow> bool" where
  "preflight_result_ok p = (1 \<le> length (pr_identity_id p) \<and> length (pr_identity_id p) \<le> 200 \<and> pr_status p \<in> {''passed'', ''failed''}
     \<and> pr_reason p \<in> set (''identity_verified'' # PREFLIGHT_FAILURES) \<and> 0 \<le> pr_status_code p \<and> pr_status_code p \<le> 599)"

definition gate_upload_ok :: "gate_upload \<Rightarrow> bool" where
  "gate_upload_ok b = ((gu_case_hash b = [] \<or> length (gu_case_hash b) = 64 \<and> list_all (\<lambda>c. c \<in> set ''abcdef0123456789'') (gu_case_hash b))
     \<and> length (gu_test_case_id b) \<le> 200 \<and> length (gu_executions b) \<le> 100 \<and> length (gu_findings b) \<le> 500
     \<and> length (gu_preflight b) \<le> 100 \<and> list_all preflight_result_ok (gu_preflight b) \<and> length (gu_assessments b) \<le> 100)"

definition preflight_dump :: "preflight_result \<Rightarrow> pydict" where
  "preflight_dump p = [(''identity_id'', VStr (pr_identity_id p)), (''status'', VStr (pr_status p)),
     (''reason'', VStr (pr_reason p)), (''status_code'', VInt (pr_status_code p))]"

section \<open>Documents\<close>

definition verification_json :: "verification \<Rightarrow> pyval" where
  "verification_json v = VDict [(''strategy'', VStr (vf_strategy v)), (''environment'', VStr (vf_environment v)),
     (''reader_identity_id'', VStr (vf_reader_identity_id v)), (''reader_credential_status'', VStr (vf_reader_credential_status v)),
     (''before_statuses'', VList (map VInt (vf_before_statuses v))), (''after_status'', VInt (vf_after_status v)),
     (''reset_status'', VInt (vf_reset_status v))]"

definition semantic_json :: "semantic_row \<Rightarrow> pyval" where
  "semantic_json r = VDict ([(''identity_id'', VStr (sr_identity_id r)), (''expected_access'', VStr (sr_expected_access r)),
     (''decision'', VStr (sr_decision r)), (''source'', VStr (sr_source r)), (''reason'', VStr (sr_reason r)),
     (''credential_status'', VStr (sr_credential_status r)), (''write_verification'', VStr (sr_write_verification r)),
     (''matched_assertions'', VList (map VInt (sr_matched_assertions r)))]
     @ (case sr_execution_index r of None \<Rightarrow> [] | Some i \<Rightarrow> [(''execution_index'', VInt i)])
     @ (case sr_verification r of None \<Rightarrow> [] | Some v \<Rightarrow> [(''verification'', verification_json v)]))"

definition assessed_json :: "assessed \<Rightarrow> pyval" where
  "assessed_json i = VDict ([(''identity_id'', as_identity_id i), (''expected_decision'', as_expected_decision i),
     (''observed_outcome'', VStr (as_observed_outcome i)), (''state'', VStr (as_state i)), (''reason'', VStr (as_reason i))]
     @ (case as_report i of
         None \<Rightarrow> [(''credential_status'', VStr (as_credential_status i))]
       | Some r \<Rightarrow> [(''reported_decision'', VStr (sr_decision r)), (''source'', VStr (sr_source r)),
           (''credential_status'', VStr (as_credential_status i)), (''write_verification'', VStr (sr_write_verification r)),
           (''matched_assertions'', VList (map VInt (sr_matched_assertions r)))])
     @ (case as_verification i of None \<Rightarrow> [] | Some v \<Rightarrow> [(''verification'', verification_json v)]))"

definition preflight_json :: "preflight_row \<Rightarrow> pyval" where
  "preflight_json p = VDict [(''identity_id'', pf_identity_id p), (''status'', VStr (pf_status p)),
     (''reason'', VStr (pf_reason p)), (''status_code'', pf_status_code p)]"

definition session_json :: "session \<Rightarrow> pyval" where
  "session_json x = VDict [(''status'', VStr (ss_status x)), (''identities'', VList (map preflight_json (ss_identities x))),
     (''unexpected'', VInt (ss_unexpected x))]"

definition text_or_null :: "string \<Rightarrow> pyval" where
  "text_or_null t = (if t = [] then VNone else VStr t)"

definition assessment_json :: "assessment \<Rightarrow> pydict" where
  "assessment_json a = [(''status'', VStr (am_status a)), (''evaluated'', VInt (am_evaluated a)), (''inconclusive'', VInt (am_inconclusive a)),
     (''missing'', VInt (am_missing a)), (''skipped'', VInt (am_skipped a)), (''unexpected'', VInt (am_unexpected a)),
     (''baseline_valid'', VBool (am_baseline_valid a)), (''candidate_findings'', VInt (am_candidate_findings a)),
     (''identities'', VList (map assessed_json (am_identities a))), (''reasons'', VList (map VStr (am_reasons a))),
     (''case_hash'', (case am_case_hash a of None \<Rightarrow> VNone | Some h \<Rightarrow> VStr h)),
     (''case_snapshot_verified'', VBool (am_case_snapshot_verified a)), (''preflight'', session_json (am_preflight a))]"

text \<open>\<open>json.dumps(v, indent=2, sort_keys=True)\<close>, at an indentation\<close>

definition pad :: "nat \<Rightarrow> string" where
  "pad n = replicate n (CHR '' '')"

fun dumps_indented :: "nat \<Rightarrow> pyval \<Rightarrow> string" where
  "dumps_indented n (VList xs) = (if xs = [] then ''[]'' else
     ''['' @ [nl] @ join_with ('','' @ [nl]) (map (\<lambda>x. pad (n + 2) @ dumps_indented (n + 2) x) xs) @ [nl] @ pad n @ '']'')"
| "dumps_indented n (VDict d) = (if d = [] then ''{}'' else
     ''{'' @ [nl] @ join_with ('','' @ [nl]) (map (\<lambda>(k, t). pad (n + 2) @ json_str k @ '': '' @ t)
       (sort_key fst (map (\<lambda>(k, v). (k, dumps_indented (n + 2) v)) d))) @ [nl] @ pad n @ ''}'')"
| "dumps_indented n v = dumps v"

section \<open>The receipt\<close>

definition MAX_RESULT_BYTES :: int where "MAX_RESULT_BYTES = 512000"

definition receipt_payload :: "bool \<Rightarrow> gate_upload \<Rightarrow> pydict" where
  "receipt_payload with_assessments b =
     (if gu_case_hash b = [] then [] else [(''case_hash'', VStr (gu_case_hash b))])
     @ [(''test_case_id'', VStr (gu_test_case_id b)), (''executions'', VList (map VDict (gu_executions b))), (''findings'', VList (map VDict (gu_findings b)))]
     @ (if gu_preflight b = [] then [] else [(''preflight'', VList (map (\<lambda>p. VDict (preflight_dump p)) (gu_preflight b)))])
     @ (if with_assessments \<and> gu_assessments b \<noteq> [] then [(''assessments'', VList (map (\<lambda>a. semantic_json (safe_semantic_row a)) (gu_assessments b)))] else [])"

definition payload_hash :: "env \<Rightarrow> bool \<Rightarrow> gate_upload \<Rightarrow> string" where
  "payload_hash env with_assessments b = sha256 env (dumps (VDict (receipt_payload with_assessments b)))"

record gate_result =
  gr_job_id :: string
  gr_scan_items_created :: int
  gr_evidence_created :: int
  gr_already_processed :: bool

definition get_receipt :: "string \<Rightarrow> db \<Rightarrow> JobResultReceipt option" where
  "get_receipt jid s = find (\<lambda>r. rcp_job_id r = jid) (job_result_receipts s)"

definition receipt_result :: "JobResultReceipt \<Rightarrow> gate_result" where
  "receipt_result r = \<lparr>gr_job_id = rcp_job_id r, gr_scan_items_created = rcp_scan_items_created r,
     gr_evidence_created = rcp_evidence_created r, gr_already_processed = True\<rparr>"

section \<open>Findings\<close>

definition VG_SEVERITIES :: "string list" where
  "VG_SEVERITIES = [''info'', ''low'', ''medium'', ''high'', ''critical'']"

definition finding_description :: "pydict \<Rightarrow> string" where
  "finding_description f =
     (let identity = strip (text_or_empty (dget f ''identity_id'')); confidence = strip (text_or_empty (dget f ''confidence''));
          lines = (case dget f ''evidence'' of VList xs \<Rightarrow> filter (\<lambda>t. strip t \<noteq> []) (map py_str (take 20 xs)) | _ \<Rightarrow> [])
      in redact_text [] (join_with [nl] ((if identity = [] then [] else [''identity: '' @ identity])
           @ (if confidence = [] then [] else [''confidence: '' @ confidence]) @ lines)))"

definition gate_severity :: "pydict \<Rightarrow> string" where
  "gate_severity f = (let sev = strip (lower (text_or (dget f ''severity'') ''info'')) in if sev \<in> set VG_SEVERITIES then sev else ''info'')"

definition gate_item :: "env \<Rightarrow> ScanJob \<Rightarrow> string \<Rightarrow> string \<Rightarrow> pydict \<Rightarrow> ScanItem" where
  "gate_item env job template target f =
     (let message = redact_text [] (text_or_empty (dget f ''message''))
      in \<lparr>si_id = [], si_program_id = job_program_id job, si_source = ''vardrgate'', si_template_id = template,
          si_title = (if take 200 message = [] then text_or (dget f ''category'') ''authorization finding'' else take 200 message),
          si_severity = gate_severity f, si_asset = target, si_matched_at = target,
          si_type = take 50 (text_or_empty (dget f ''category'')), si_description = finding_description f, si_status = ''new'',
          si_cwe = [], si_cvss = [], si_detection_method = [], si_payload = [], si_match_evidence = [], si_confidence = [],
          si_asset_id = None, si_job_id = Some (job_id job), si_created_at = Some (now env)\<rparr>)"

definition insert_item :: "env \<Rightarrow> ScanItem \<Rightarrow> db \<Rightarrow> db" where
  "insert_item env r s = drew (s\<lparr>scan_items := scan_items s @ [r\<lparr>si_id := new_uuid env s\<rparr>]\<rparr>)"

section \<open>Evidence\<close>

definition OUTCOMES :: "string list" where
  "OUTCOMES = [''allow'', ''deny'', ''not_found'', ''redirect'', ''server_error'', ''client_error'', ''error'']"

text \<open>The arrow of a title, U+2192, outside the characters of the model.\<close>

definition arrow :: string where
  "arrow = [CHR 0x9B]"

definition preflight_detail :: "gate_upload \<Rightarrow> bool \<Rightarrow> pydict \<Rightarrow> pydict" where
  "preflight_detail b verified e = [(''phase'', VStr ''identity_preflight''), (''case_hash'', text_or_null (gu_case_hash b)),
     (''case_snapshot_verified'', VBool verified)] @ e"

definition execution_detail :: "gate_upload \<Rightarrow> bool \<Rightarrow> string \<Rightarrow> pydict \<Rightarrow> pydict" where
  "execution_detail b verified identity e =
     (let rows = filter (\<lambda>a. py_eq (dget a ''identity_id'') (dget e ''identity_id'')) (gu_assessments b)
      in [(''case_hash'', text_or_null (gu_case_hash b)), (''case_snapshot_verified'', VBool verified), (''identity_id'', VStr identity),
          (''status_code'', dget e ''status_code''), (''observed_outcome'', dget e ''observed_outcome''),
          (''duration_ms'', dget e ''duration_ms''), (''headers'', or_val (dget e ''headers'') (VDict []))]
         @ (if truthy (dget e ''error'') then [(''error'', dget e ''error''), (''error_kind'', dget e ''error_kind'')] else [])
         @ (case dget e ''response_profile'' of VDict d \<Rightarrow> [(''response_profile'', VDict d)] | _ \<Rightarrow> [])
         @ (if rows = [] then [] else [(''scanner_assessments'', VList (map (\<lambda>a. semantic_json (safe_semantic_row a)) rows))]))"

definition evidence_body :: "gate_upload \<Rightarrow> bool \<Rightarrow> pydict \<times> bool \<Rightarrow> string" where
  "evidence_body b verified = (\<lambda>(e, pre).
     dumps_indented 0 (redact_mapping [] (if pre then preflight_detail b verified e
       else execution_detail b verified (redact_text [] (text_or (dget e ''identity_id'') ''unknown'')) e)))"

definition gate_evidence :: "env \<Rightarrow> ScanJob \<Rightarrow> AuthorizationTestCase option \<Rightarrow> string \<Rightarrow> gate_upload \<Rightarrow> bool \<Rightarrow> (string \<Rightarrow> string)
    \<Rightarrow> pydict \<times> bool \<Rightarrow> Evidence" where
  "gate_evidence env job stored template b verified decision_of = (\<lambda>(e, pre).
     let identity = redact_text [] (text_or (dget e ''identity_id'') ''unknown'');
         body = evidence_body b verified (e, pre)
     in \<lparr>ev_id = [], ev_program_id = job_program_id job, ev_finding_id = None, ev_asset_id = None, ev_kind = ''tool_result'',
         ev_title = take 200 (''vardrgate '' @ [CHR 0xB7] @ '' '' @ (if pre then ''session preflight '' @ [CHR 0xB7] @ '' '' else []) @ identity
           @ '' '' @ arrow @ '' '' @ py_str (dget_or e ''status_code'' (VStr ''?''))),
         ev_body = body, ev_content_hash = sha256 env body, ev_job_id = Some (job_id job),
         ev_case_id = map_option tc_id stored, ev_case_ref = (if template = [] then None else Some template),
         ev_identity_id = (if length identity \<le> 200 then Some identity else None),
         ev_observed_outcome = Some (enum_value (dget e ''observed_outcome'') OUTCOMES ''unknown''),
         ev_expected_decision = Some (if pre then ''unknown'' else decision_of identity),
         ev_collector = ''vardrrunner'', ev_source = ''vardrgate'', ev_sensitivity = ''confidential'', ev_retention = ''engagement'',
         ev_redacted = True, ev_collected_at = Some (now env), ev_created_at = now env\<rparr>)"

definition insert_evidence :: "env \<Rightarrow> Evidence \<Rightarrow> db \<Rightarrow> db" where
  "insert_evidence env r s = drew (s\<lparr>evidence := evidence s @ [r\<lparr>ev_id := new_uuid env s\<rparr>]\<rparr>)"

text \<open>
  The reviewed decision by identity, of the assessment just made; the decision of a validated case is one of three
  words, and anything else would not fit the column.
\<close>

definition decision_of :: "bool \<Rightarrow> assessment \<Rightarrow> string \<Rightarrow> string" where
  "decision_of verified a identity = (if \<not> verified then ''unknown'' else
     case find (\<lambda>i. as_identity_id i = VStr identity) (rev (am_identities a)) of
       None \<Rightarrow> ''unknown''
     | Some i \<Rightarrow> py_str (as_expected_decision i))"

section \<open>\<open>store_gate_result\<close>\<close>

text \<open>The case a result is filed under: its address and its name.\<close>

definition gate_template :: "pydict \<Rightarrow> gate_upload \<Rightarrow> (string \<times> string) res" where
  "gate_template spec b =
     (let template = take 200 (gu_test_case_id b) in
      if spec = [] then Inr ([], template)
      else bindE (vget (or_val (dget spec ''request'') (VDict [])) ''url'') (\<lambda>u.
        (let name = text_or_empty (dget spec ''id'') in
         ignoreE (requireE (template = [] \<or> template = name)
             (bad_request ''result test_case_id does not match the test case queued for this job''))
           (Inr (take 2000 (text_or_empty u), name)))))"

definition new_receipt :: "env \<Rightarrow> gate_upload \<Rightarrow> gate_result \<Rightarrow> db \<Rightarrow> JobResultReceipt" where
  "new_receipt env b r s = \<lparr>rcp_id = new_uuid env s, rcp_job_id = gr_job_id r, rcp_payload_hash = payload_hash env True b,
     rcp_scan_items_created = gr_scan_items_created r, rcp_evidence_created = gr_evidence_created r, rcp_created_at = now env\<rparr>"

definition gate_records :: "gate_upload \<Rightarrow> (pydict \<times> bool) list" where
  "gate_records b = map (\<lambda>e. (e, False)) (gu_executions b) @ map (\<lambda>p. (preflight_dump p, True)) (gu_preflight b)"

text \<open>Everything that is written, once the result is accepted.\<close>

definition file_result :: "env \<Rightarrow> current_user \<Rightarrow> ScanJob \<Rightarrow> gate_upload \<Rightarrow> db \<Rightarrow> (gate_result \<times> db) res" where
  "file_result env user job b s =
     (let queued = case_ref (as_dict (job_config job)); stored = stored_case queued (job_program_id job) s;
          spec = as_dict (job_case_snapshot job);
          authoritative = (if spec \<noteq> [] then spec else case stored of None \<Rightarrow> [] | Some c \<Rightarrow> as_dict (tc_spec c));
          verified = (spec \<noteq> [] \<and> gu_case_hash b = case_hash env (VDict spec))
      in ignoreE (requireE (spec = [] \<or> gu_case_hash b = [] \<or> verified) (bad_request ''Result case_hash does not match the claimed case snapshot''))
        (bindE (gate_template authoritative b) (\<lambda>(target, template).
         (let n = int (length (gu_findings b));
              s1 = fold (insert_item env) (map (gate_item env job template target) (gu_findings b)) s
          in bindE (assess env spec (gu_executions b) n verified (map preflight_dump (gu_preflight b))
             (map (\<lambda>x. as_dict (semantic_json (safe_semantic_row x))) (gu_assessments b))) (\<lambda>a.
             (let s2 = set_job (job_id job) (\<lambda>j. j\<lparr>job_assessment := VDict (assessment_json a
                    @ [(''case_id'', text_or_null queued), (''case_ref'', text_or_null template)])\<rparr>) s1;
                  s3 = fold (insert_evidence env) (map (gate_evidence env job stored template b verified (decision_of verified a)) (gate_records b)) s2;
                  s4 = log_action env (cu_github_id user) ''create'' ''vardrgate_result'' (job_id job) (Some (job_program_id job)) s3;
                  r = \<lparr>gr_job_id = job_id job, gr_scan_items_created = n, gr_evidence_created = int (length (gate_records b)), gr_already_processed = False\<rparr>
              in Inr (r, drew (s4\<lparr>job_result_receipts := job_result_receipts s4 @ [new_receipt env b r s4]\<rparr>))))))))"

definition store_gate_result :: "env \<Rightarrow> current_user \<Rightarrow> ScanJob \<Rightarrow> gate_upload \<Rightarrow> db \<Rightarrow> (gate_result \<times> db) res" where
  "store_gate_result env user job b s =
     ignoreE (requireE (int (length (dumps (VDict (receipt_payload True b)))) \<le> MAX_RESULT_BYTES) (HTTPException 413 ''result payload is too large''))
     (case get_receipt (job_id job) s of
        Some r \<Rightarrow>
          ignoreE (requireE (rcp_payload_hash r = payload_hash env True b \<or> rcp_payload_hash r = payload_hash env False b)
            (HTTPException 409 ''this job already has a different uploaded result'')) (Inr (receipt_result r, s))
      | None \<Rightarrow> file_result env user job b s)"

definition upload_job_result :: "env \<Rightarrow> current_user \<Rightarrow> string \<Rightarrow> gate_upload \<Rightarrow> db \<Rightarrow> gate_result res \<times> db" where
  "upload_job_result env user jid b s = transact s (
     bindE (someE not_found (accessible_job jid user s)) (\<lambda>job.
     ignoreE (writable_engagement job user s)
    (ignoreE (requireE (\<not> managed job) (HTTPException 409 ''managed result adapter required''))
    (ignoreE (requireE (job_tool_type job = VARDRGATE)
       (bad_request (''job '' @ jid @ '' is a '' @ [CHR 0x27] @ job_tool_type job @ [CHR 0x27] @ '' job; /upload accepts '' @ VARDRGATE @ '' results'')))
     (store_gate_result env user job b s)))))"

section \<open>What an upload changes\<close>

text \<open>Findings and evidence are added to their own tables.\<close>

definition filed :: "db \<Rightarrow> db \<Rightarrow> bool" where
  "filed s s' = (s' = s\<lparr>scan_items := scan_items s', evidence := evidence s', audit_logs := audit_logs s', uuids_drawn := uuids_drawn s'\<rparr>
     \<and> uuids_drawn s \<le> uuids_drawn s')"

lemma filed_refl: "filed s s"
  by (simp add: filed_def)

lemma filed_trans: "filed s t \<Longrightarrow> filed t u \<Longrightarrow> filed s u"
  by (cases s, cases t, cases u) (simp add: filed_def)

lemma filed_insert: "filed s (insert_item env r s)" "filed s (insert_evidence env v s)" "filed s (log_action env g a t i p s)"
  by (simp_all add: filed_def insert_item_def insert_evidence_def log_action_def drew_def)

lemma filed_fold: "filed s (fold (insert_item env) rs s)" "filed s (fold (insert_evidence env) vs s)"
proof -
  have "filed s (fold (insert_item env) rs s)" for s
    by (induction rs arbitrary: s) (auto simp: filed_refl intro: filed_trans filed_insert)
  then show "filed s (fold (insert_item env) rs s)" .
  have "filed s (fold (insert_evidence env) vs s)" for s
    by (induction vs arbitrary: s) (auto simp: filed_refl intro: filed_trans filed_insert)
  then show "filed s (fold (insert_evidence env) vs s)" .
qed

lemma file_result_shape:
  assumes "file_result env user job b s = Inr (r, s')"
  shows "\<exists>v s1 s4. filed s s1 \<and> filed (set_job (job_id job) (\<lambda>j. j\<lparr>job_assessment := v\<rparr>) s1) s4 \<and> gr_job_id r = job_id job
    \<and> \<not> gr_already_processed r \<and> s' = drew (s4\<lparr>job_result_receipts := job_result_receipts s4 @ [new_receipt env b r s4]\<rparr>)"
  using assms unfolding file_result_def Let_def
  by (fastforce simp: exn_simps intro: filed_fold filed_trans [OF filed_fold(2) filed_insert(3)])

lemma upload_shape:
  assumes "upload_job_result env user jid b s = (Inr r, s')"
  obtains (again) rc where "get_receipt jid s = Some rc" "s' = s" "r = receipt_result rc"
      "rcp_payload_hash rc \<in> {payload_hash env True b, payload_hash env False b}"
    | (filed) job where "get_receipt jid s = None" "accessible_job jid user s = Some job" "job_id job = jid"
      "file_result env user job b s = Inr (r, s')"
proof -
  from assms obtain job where j: "accessible_job jid user s = Some job" "store_gate_result env user job b s = Inr (r, s')"
    by (auto simp: upload_job_result_def transact_ok exn_simps)
  then have k: "job_id job = jid" by (auto simp: accessible_job_def dest: find_SomeD)
  show thesis
  proof (cases "get_receipt jid s")
    case None
    with j k show thesis by (intro filed [of job]) (auto simp: store_gate_result_def exn_simps simp del: dumps.simps)
  next
    case (Some rc)
    with j k show thesis by (intro again [of rc]) (auto simp: store_gate_result_def exn_simps simp del: dumps.simps)
  qed
qed

lemma select_convs_receipts: "job_result_receipts (s\<lparr>scan_items := a, evidence := b, audit_logs := c, uuids_drawn := d\<rparr>) = job_result_receipts s"
  by simp

lemma filed_receipts: "filed s s' \<Longrightarrow> job_result_receipts s' = job_result_receipts s"
  unfolding filed_def by (metis select_convs_receipts)

lemma find_append: "find p (xs @ ys) = (case find p xs of None \<Rightarrow> find p ys | Some x \<Rightarrow> Some x)"
  by (induction xs) auto

lemma upload_receipt:
  assumes "upload_job_result env user jid b s = (Inr r, s')"
  shows "\<exists>rc. get_receipt jid s' = Some rc \<and> receipt_result rc = r\<lparr>gr_already_processed := True\<rparr>
    \<and> rcp_payload_hash rc \<in> {payload_hash env True b, payload_hash env False b}"
  using assms
proof (cases rule: upload_shape)
  case (again rc)
  then show ?thesis by (simp add: receipt_result_def)
next
  case (filed job)
  from file_result_shape [OF filed(4)] filed(3) obtain v s1 s4 where f: "filed s s1" "gr_job_id r = jid"
      "filed (set_job jid (\<lambda>j. j\<lparr>job_assessment := v\<rparr>) s1) s4"
      "s' = drew (s4\<lparr>job_result_receipts := job_result_receipts s4 @ [new_receipt env b r s4]\<rparr>)" by auto
  then have "job_result_receipts s4 = job_result_receipts s" by (simp add: filed_receipts set_job_def)
  then have "job_result_receipts s' = job_result_receipts s @ [new_receipt env b r s4]" using f(4) by (simp add: drew_def)
  moreover have "rcp_job_id (new_receipt env b r s4) = jid" using f(2) by (simp add: new_receipt_def)
  ultimately have "get_receipt jid s' = Some (new_receipt env b r s4)"
    using filed(1) unfolding get_receipt_def by (simp add: find_append)
  then show ?thesis by (simp add: receipt_result_def new_receipt_def)
qed

text \<open>
  C20: A result is filed once: after a successful upload the job has a receipt, and while it stands, whoever uploads
  whatever for the job either gets the recorded counts back for the same payload, or is refused, and nothing is written;
  so neither the evidence nor the assessment of a job is ever replaced by a later upload.
\<close>

theorem result_filed_once:
  assumes "upload_job_result env user jid b s = (Inr r, s1)" and "get_receipt jid s2 = get_receipt jid s1"
    and "upload_job_result env2 user2 jid b2 s2 = (x, s3)"
  shows "s3 = s2 \<and> (case x of Inl e \<Rightarrow> True | Inr r2 \<Rightarrow> r2 = r\<lparr>gr_already_processed := True\<rparr>
    \<and> (\<exists>rc. get_receipt jid s2 = Some rc \<and> rcp_payload_hash rc \<in> {payload_hash env2 True b2, payload_hash env2 False b2}))"
proof (cases x)
  case (Inl e)
  with assms(3) show ?thesis by (auto simp: upload_job_result_def dest: transact_error)
next
  case (Inr r2)
  obtain rc where rc: "get_receipt jid s2 = Some rc" "receipt_result rc = r\<lparr>gr_already_processed := True\<rparr>"
    using upload_receipt [OF assms(1)] assms(2) by auto
  from assms(3) [unfolded Inr] show ?thesis
  proof (cases rule: upload_shape)
    case (again rc2)
    with rc Inr show ?thesis by auto
  next
    case (filed job)
    with rc(1) show ?thesis by simp
  qed
qed

text \<open>A run of an engagement whose case was not retained, uploaded twice.\<close>

definition gate_job :: ScanJob where
  "gate_job = \<lparr>job_id = ''u'', job_program_id = ''e1'', job_owner_github_id = ''alice'', job_tool_type = VARDRGATE,
     job_target_source = ''scope'', job_config = VDict [], job_case_snapshot = VNone,
     job_managed_approval_id = None, job_authorization_contract_required = False, job_assessment = VNone, job_status = ''running'',
     job_depends_on = None, job_created_at = 0, job_started_at = None, job_completed_at = None, job_error_message = []\<rparr>"

definition gate_board :: db where
  "gate_board = example_tenancy\<lparr>scan_jobs := [gate_job], uuids_drawn := 2\<rparr>"

definition gate_body :: gate_upload where
  "gate_body = \<lparr>gu_case_hash = [], gu_test_case_id = [], gu_executions = [[(''identity_id'', VStr ''a'')]], gu_findings = [], gu_preflight = [], gu_assessments = []\<rparr>"

definition gate_upload_at :: "db \<Rightarrow> gate_result res \<times> db" where
  "gate_upload_at s = upload_job_result assess_env (example_user ''alice'') ''u'' gate_body s"

lemma gate_upload_ok_at: "fst (gate_upload_at gate_board)
   = Inr \<lparr>gr_job_id = ''u'', gr_scan_items_created = 0, gr_evidence_created = 1, gr_already_processed = False\<rparr>"
  by code_simp

lemma gate_upload_again: "map_sum (\<lambda>_. ()) gr_already_processed (fst (gate_upload_at (snd (gate_upload_at gate_board)))) = Inr True"
  by code_simp

theorem result_filed_once_witness:
  "snd (gate_upload_at (snd (gate_upload_at gate_board))) = snd (gate_upload_at gate_board)
    \<and> (\<exists>r. fst (gate_upload_at (snd (gate_upload_at gate_board))) = Inr r \<and> gr_evidence_created r = 1)"
proof -
  let ?s = "snd (gate_upload_at gate_board)"
  obtain r where r: "fst (gate_upload_at gate_board) = Inr r" "gr_evidence_created r = 1" using gate_upload_ok_at by simp
  then have u: "upload_job_result assess_env (example_user ''alice'') ''u'' gate_body gate_board = (Inr r, ?s)"
    by (simp add: gate_upload_at_def prod_eq_iff)
  obtain r2 where r2: "fst (gate_upload_at ?s) = Inr r2" using gate_upload_again by (cases "fst (gate_upload_at ?s)") auto
  have "upload_job_result assess_env (example_user ''alice'') ''u'' gate_body ?s = (Inr r2, snd (gate_upload_at ?s))"
    using r2 by (simp add: gate_upload_at_def prod_eq_iff)
  from result_filed_once [OF u refl this] r2 r(2) show ?thesis by simp
qed

section \<open>What the evidence of a run shows\<close>

lemma dget_dset: "dget (dset d k v) k' = (if k' = k then v else dget d k')" "dget_or (dset d k v) k' w = (if k' = k then v else dget_or d k' w)"
  by (induction d k v rule: dset.induct) (auto simp: dget_def dget_or_def)

lemma agree_item: "k = k' \<Longrightarrow> agree ks v v' \<Longrightarrow> fst (k, v) = fst (k', v') \<and> (secret_name ks (fst (k, v)) \<or> agree ks (snd (k, v)) (snd (k', v')))"
  by simp

lemma agree_dict_empty: "agree ks (VDict d) (VDict d') \<Longrightarrow> d = [] \<longleftrightarrow> d' = []"
  by (auto elim!: agree.cases dest: list_all2_lengthD)

lemma agree_headers:
  assumes "agree [] (VDict h) (VDict h')"
  shows "agree [] (VDict (execution_detail b verified identity (dset e ''headers'' (VDict h))))
    (VDict (execution_detail b verified identity (dset e ''headers'' (VDict h'))))"
proof -
  have "agree [] (or_val (VDict h) (VDict [])) (or_val (VDict h') (VDict []))"
    using assms agree_dict_empty [OF assms] by (simp add: or_val_def agree_same)
  then show ?thesis
    unfolding execution_detail_def Let_def dget_dset
    by (intro agree_dict list_all2_appendI) (auto simp: agree_same intro!: list.rel_refl)
qed

text \<open>
  C31: The evidence of a run holds nothing of its sensitive headers: two runs that differ only in the values of sensitive
  response headers, at any depth, leave the same evidence row, hash and title included.
\<close>

theorem evidence_hides_headers:
  assumes "agree [] (VDict h) (VDict h')"
  shows "gate_evidence env job stored template b verified decision (dset e ''headers'' (VDict h), False)
    = gate_evidence env job stored template b verified decision (dset e ''headers'' (VDict h'), False)"
proof -
  have "evidence_body b verified (dset e ''headers'' (VDict h), False) = evidence_body b verified (dset e ''headers'' (VDict h'), False)"
    using redact_agree [OF agree_headers [OF assms]] by (simp add: evidence_body_def redact_mapping_def dget_dset del: redact_value.simps)
  then show ?thesis by (simp add: gate_evidence_def dget_dset Let_def)
qed

theorem evidence_hides_headers_witness:
  "evidence_body gate_body False (dset [] ''headers'' (VDict [(''Set-Cookie'', VStr ''sid=1'')]), False)
    = evidence_body gate_body False (dset [] ''headers'' (VDict [(''Set-Cookie'', VStr ''sid=2'')]), False)"
proof -
  have "secret_name [] ''Set-Cookie''" by code_simp
  then have "agree [] (VDict [(''Set-Cookie'', VStr ''sid=1'')]) (VDict [(''Set-Cookie'', VStr ''sid=2'')])"
    by (intro agree_dict) simp
  from evidence_hides_headers [OF this, of assess_env gate_job None "[]" gate_body False "\<lambda>_. []" "[]"] show ?thesis
    by (simp add: gate_evidence_def Let_def)
qed

end
