(* ===== verification/Requests.thy ===== *)
theory Requests
  imports Settlements Edits Gate_Results
begin

text \<open>
  One request of any kind, as a step of the system: the job and engagement endpoints, the edits of an
  engagement's authority, the operations of the issuer, and the settlements of managed attempts.
\<close>

section \<open>Requests of either kind\<close>

text \<open>The endpoints outside the issuer leave its records and the written authority alone, up to the deletion of an engagement.\<close>

definition managed_records :: "db \<Rightarrow> (ManagedApproval list \<times> ManagedContract list \<times> ManagedClock list)
    \<times> ScopeItem list \<times> Authorization list \<times> AuthorizationTestCase list" where
  "managed_records s = ((managed_approvals s, managed_contracts s, managed_clock s), authority_tables s)"

named_theorems records_keep

lemma records_keep_rows [records_keep]:
  "managed_records (set_job k f s) = managed_records s" "managed_records (set_execution k g s) = managed_records s"
  "managed_records (set_engagement k h s) = managed_records s" "managed_records (add_execution x s) = managed_records s"
  "managed_records (add_job j s) = managed_records s" "managed_records (drew s) = managed_records s"
  "managed_records (cascade_job k s) = managed_records s"
  "managed_records (log_action env gid act typ i p s) = managed_records s"
  "managed_records (insert_job env u j s) = managed_records s"
  "managed_records (s\<lparr>job_executions := xs\<rparr>) = managed_records s" "managed_records (s\<lparr>users := us\<rparr>) = managed_records s"
  "managed_records (s\<lparr>job_events := es\<rparr>) = managed_records s"
  by (simp_all add: managed_records_def authority_tables_def set_job_def set_execution_def set_engagement_def add_execution_def add_job_def drew_def
      cascade_job_def del_job_def del_execution_def log_action_def insert_job_def Let_def)

lemma transact_records:
  assumes "transact s m = (r, s')" and "\<And>a s''. m = Inr (a, s'') \<Longrightarrow> managed_records s'' = managed_records s"
  shows "managed_records s' = managed_records s"
  using assms by (cases m) (auto simp: transact_def split: prod.splits)

lemma settle_records:
  assumes "settle s m = (r, s')" and "\<And>a s''. m = Inr (a, s'') \<Longrightarrow> managed_records s'' = managed_records s"
  shows "managed_records s' = managed_records s"
  using assms by (cases m) (auto simp: settle_def split: prod.splits)

lemma insert_stages_records:
  "insert_stages env user program_id prev sts s = (js, s') \<Longrightarrow> managed_records s' = managed_records s"
proof (induction env user program_id prev sts s arbitrary: js s' rule: insert_stages.induct)
  case (2 env user program_id prev st config rest s)
  show ?case
    using 2(2) 2(1) [OF refl] by (fastforce simp: Let_def records_keep split: prod.splits)
qed simp

lemma triage_records: "managed_records (snd (triage t v jobs s)) = managed_records s"
proof -
  have "managed_records (fold (\<lambda>j s. case v j of Refused msg \<Rightarrow> set_job (job_id j) (fail_job t msg) s | _ \<Rightarrow> s) jobs s) = managed_records s"
    by (induction jobs arbitrary: s) (auto simp: records_keep split: verdict.splits)
  then show ?thesis by (simp add: triage_def)
qed

lemma pending_records: "get_pending_jobs env user s = (js, s') \<Longrightarrow> managed_records s' = managed_records s"
  using triage_records [of "now env" "dependency_verdict s" "pending_jobs user s" s]
    triage_records [of "now env" "case_verdict (snd (filter_by_dependencies (now env) (pending_jobs user s) s))"
      "fst (filter_by_dependencies (now env) (pending_jobs user s) s)" "snd (filter_by_dependencies (now env) (pending_jobs user s) s)"]
  by (auto simp: get_pending_jobs_def resolve_test_cases_def filter_by_dependencies_def split: prod.splits)

lemma claim_records: "claim_job env token rq user jid body s = (c, s') \<Longrightarrow> managed_records s' = managed_records s"
  unfolding claim_job_def
  by (erule transact_records)
    (auto simp: exn_simps take_claim_def issue_def Let_def records_keep split: option.splits)

lemma update_records: "update_job env user jid su s = (u, s') \<Longrightarrow> managed_records s' = managed_records s"
proof -
  have c: "cancel_controlled user jid su j x s = Inr (a, s'') \<Longrightarrow> managed_records s'' = managed_records s" for j x a s''
    by (auto simp: cancel_controlled_def exn_simps records_keep split: if_splits)
  have p: "patch_status (now env) jid su j s = Inr (a, s'') \<Longrightarrow> managed_records s'' = managed_records s" for j a s''
    by (auto simp: patch_status_def exn_simps records_keep split: if_splits)
  show "update_job env user jid su s = (u, s') \<Longrightarrow> managed_records s' = managed_records s"
    unfolding update_job_def
    by (erule transact_records) (cases "get_execution jid s", auto simp: exn_simps dest: c p)
qed

lemma finish_records: "finish_execution env rq user jid fb s = (a, s') \<Longrightarrow> managed_records s' = managed_records s"
  unfolding finish_execution_def
  by (erule settle_records) (auto simp: exn_simps settle_attempt_def records_keep split: if_splits)

lemma engagement_records:
  "configure_duration env user program_id limit s = (p, s') \<Longrightarrow> managed_records s' = managed_records s"
  "configure_targets env user program_id limit s = (p, s') \<Longrightarrow> managed_records s' = managed_records s"
  "configure_concurrency env user program_id limit s = (q, s') \<Longrightarrow> managed_records s' = managed_records s"
  "engage_stop_work env user program_id reason s = (d, s') \<Longrightarrow> managed_records s' = managed_records s"
  "release_stop_work env user program_id s = (d, s') \<Longrightarrow> managed_records s' = managed_records s"
  unfolding configure_duration_def configure_targets_def configure_concurrency_def engage_stop_work_def release_stop_work_def
  by (erule transact_records, auto simp: exn_simps Let_def records_keep split: if_splits)+

lemma delete_engagement_progress:
  assumes U: "uuid env = U" and h: "history U s s'" and d: "delete_engagement env user program_id s = (d, s')"
  shows "progress U s s'"
proof (cases d)
  case (Inl e)
  then have "s' = s" using d by (auto simp: delete_engagement_def dest: transact_error)
  then show ?thesis by simp
next
  case (Inr v)
  then have s': "s' = cascade_engagement program_id (log_action env (cu_github_id user) ''delete'' ''engagement'' program_id None s)"
    using d by (auto simp: delete_engagement_def transact_ok exn_simps)
  then have r: "managed_approvals s' = managed_approvals s" "managed_contracts s' = managed_contracts s" "managed_clock s' = managed_clock s"
    "uuids_drawn s \<le> uuids_drawn s'" "authorization_test_cases s' = filter (\<lambda>r. tc_program_id r \<noteq> program_id) (authorization_test_cases s)"
    "authorizations s' = filter (\<lambda>r. az_program_id r \<noteq> program_id) (authorizations s)"
    "scope_items s' = filter (\<lambda>r. sc_program_id r \<noteq> program_id) (scope_items s)" "get_engagement program_id s' = None"
    using s' by (simp_all add: log_action_def drew_def cascade_engagement_def del_engagement_def get_engagement_def by_key_drop_key Let_def)
  have "authority_kept k s s'" if "k \<noteq> program_id" for k
  proof -
    have "scope_of k s' = scope_of k s" "authorizations_of k s' = authorizations_of k s"
      unfolding scope_of_def authorizations_of_def r(6,7) filter_filter
      using that by (metis (mono_tags, lifting))+
    moreover have "cases_kept k s s'" unfolding cases_kept_def r(5) using that by fastforce
    ultimately show ?thesis by (simp add: authority_kept_def)
  qed
  then have "stands s s'" using r(8) unfolding stands_def by (metis option.distinct(1))
  moreover have "issuer_micro U s s'" using r by (intro other)
  moreover have "authority_ok U s \<longrightarrow> authority_ok U s'" using r by (auto simp: authority_ok_def intro: drawn_filter)
  moreover have "tests_clean s \<longrightarrow> tests_clean s'" using r(5) by (auto simp: tests_clean_def)
  ultimately show ?thesis using h by (simp add: progress_def r_into_rtranclp)
qed

lemma serve_records:
  assumes "serve U s s'"
  shows "managed_records s' = managed_records s \<or> (\<exists>env user e d. uuid env = U \<and> delete_engagement env user e s = (d, s'))"
  using assms
proof cases
  case s_create then show ?thesis unfolding create_job_def
    by - (rule disjI1, erule transact_records, auto simp: exn_simps Let_def records_keep)
next
  case s_pipeline then show ?thesis unfolding create_pipeline_def
    by - (rule disjI1, erule transact_records, auto simp: exn_simps intro: insert_stages_records)
next
  case s_refresh then show ?thesis unfolding refresh_execution_def
    by - (rule disjI1, erule transact_records, auto simp: exn_simps Let_def records_keep)
next
  case s_event then show ?thesis unfolding create_job_event_def
    by - (rule disjI1, erule transact_records, auto simp: exn_simps Let_def records_keep)
next
  case s_delete then show ?thesis unfolding delete_job_def
    by - (rule disjI1, erule transact_records, auto simp: exn_simps records_keep)
next
  case s_delete_engagement then show ?thesis by blast
next
  case s_sync then show ?thesis by (auto simp: auth_sync_def records_keep)
qed (rule disjI1, blast intro: pending_records claim_records update_records finish_records engagement_records)+

lemma serve_progress:
  assumes "inj U" and "tables_ok U s" and "serve U s s'"
  shows "progress U s s'"
  using serve_records [OF assms(3)]
proof
  have h: "history U s s'" by (rule serve_history [OF assms])
  assume r: "managed_records s' = managed_records s"
  then have "issuer_micro U s s'" using drawn_history [OF h] by (intro other) (simp_all add: managed_records_def)
  with h r show ?thesis by (intro evolution_progress) (simp add: evolution_def managed_records_def r_into_rtranclp)
next
  assume "\<exists>env user e d. uuid env = U \<and> delete_engagement env user e s = (d, s')"
  then show ?thesis using delete_engagement_progress serve_history [OF assms] by blast
qed

text \<open>An upload adds rows to tables of its own and records the assessment of the job.\<close>

lemma filed_keeps:
  assumes "filed s t"
  shows "micro U s t" "managed_records t = managed_records s" "scan_jobs t = scan_jobs s"
proof -
  have "scan_jobs t = scan_jobs s \<and> job_executions t = job_executions s \<and> programs t = programs s
      \<and> uuids_drawn s \<le> uuids_drawn t \<and> managed_records t = managed_records s"
    using assms by (cases s, cases t) (simp add: filed_def managed_records_def authority_tables_def)
  then show "micro U s t" "managed_records t = managed_records s" "scan_jobs t = scan_jobs s" by (auto intro: frame)
qed

lemma assessed_micro: "micro U s (set_job k (\<lambda>j. j\<lparr>job_assessment := v\<rparr>) s)"
  unfolding set_job_map by (rule moves) (auto simp: job_move_def legal_def managed_def)

lemma upload_progress:
  assumes "upload_job_result env user jid b s = (x, s')"
  shows "progress U s s'"
proof (cases x)
  case (Inl e)
  with assms show ?thesis by (auto simp: upload_job_result_def dest: transact_error)
next
  case (Inr r)
  from assms [unfolded Inr] show ?thesis
  proof (cases rule: upload_shape)
    case (again rc)
    then show ?thesis by simp
  next
    case (filed job)
    from file_result_shape [OF filed(4)] obtain v s1 s4 where f: "filed s s1"
        "filed (set_job (job_id job) (\<lambda>j. j\<lparr>job_assessment := v\<rparr>) s1) s4"
        "s' = drew (s4\<lparr>job_result_receipts := job_result_receipts s4 @ [new_receipt env b r s4]\<rparr>)" by blast
    note k = filed_keeps [OF f(1)] filed_keeps [OF f(2)]
    have "history U s s1" by (rule history_one) (rule k(1))
    also have "history U s1 (set_job (job_id job) (\<lambda>j. j\<lparr>job_assessment := v\<rparr>) s1)" by (rule history_one) (rule assessed_micro)
    also have "history U \<dots> s4" by (rule history_one) (rule k(4))
    also have "history U s4 s'" unfolding f(3) by (intro history_one frame) (simp_all add: drew_def)
    finally have h: "history U s s'" .
    have r: "managed_records s' = managed_records s"
      using k(2,5) unfolding f(3) by (simp add: managed_records_def authority_tables_def drew_def set_job_def)
    then have "issuer_micro U s s'" using drawn_history [OF h] by (intro other) (simp_all add: managed_records_def)
    with h r show ?thesis by (intro evolution_progress) (simp add: evolution_def managed_records_def r_into_rtranclp)
  qed
qed

text \<open>
  One request handled to its end: by one of the job and engagement endpoints, an edit of the authority, an
  operation of the issuer or a settlement, for any caller, body, clock readings and signatures.
\<close>

inductive act :: "(nat \<Rightarrow> string) \<Rightarrow> db \<Rightarrow> db \<Rightarrow> bool" for U where
  a_serve: "serve U s s' \<Longrightarrow> act U s s'"
| a_edit: "edit U s s' \<Longrightarrow> act U s s'"
| a_upload: "uuid env = U \<Longrightarrow> upload_job_result env user jid b s = (r, s') \<Longrightarrow> act U s s'"
| a_review: "review ac iss env ck rq rv s = (p, s') \<Longrightarrow> act U s s'"
| a_register: "register ac iss env ck rq jid enrollment_id authorization_id plan envelope s = (a, s') \<Longrightarrow> act U s s'"
| a_revoke: "revoke ac env ck rq jid s = (u, s') \<Longrightarrow> act U s s'"
| a_claim: "uuid env = U \<Longrightarrow> claim_control_ok body \<Longrightarrow> claim ac iss env ck token rq jid body s = (c, s') \<Longrightarrow> act U s s'"
| a_current: "current ac iss env ck rq jid cb contract_id attempt_id fence s = (r, s') \<Longrightarrow> act U s s'"
| a_refresh: "refresh ac iss env ck rq jid cb contract_id attempt_id fence s = (r, s') \<Longrightarrow> act U s s'"
| a_consume: "consume ac iss env ck rq jid cb contract_id attempt_id fence sha s = (r, s') \<Longrightarrow> act U s s'"
| a_finish: "finish_managed ac iss env ck rq jid cb contract_id attempt_id fence sha receipt outcome confirmed s = (v, s') \<Longrightarrow> act U s s'"
| a_report: "report_stop ac iss env ck rq jid cb contract_id attempt_id fence sha outcome cause confirmed s = (v, s') \<Longrightarrow> act U s s'"
| a_inspect_result: "inspect_result ac iss env ck rq jid cb contract_id attempt_id fence sha s = (v, s') \<Longrightarrow> act U s s'"
| a_inspect_stop: "inspect_stop ac iss env ck rq jid cb contract_id attempt_id fence sha s = (v, s') \<Longrightarrow> act U s s'"
| a_observe: "observe_claim ac iss env ck rq jid body plan_sha case_sha association_sha s = (v, s') \<Longrightarrow> act U s s'"

lemma act_progress:
  assumes "inj U" and "tables_ok U s" and "act U s s'"
  shows "progress U s s'"
  using assms(3)
proof cases
  case a_serve then show ?thesis by (rule serve_progress [OF assms(1,2)])
next
  case a_edit then show ?thesis by (rule edit_progress [OF assms(1,2)])
next
  case a_upload then show ?thesis using upload_progress by blast
next
  case a_review then show ?thesis by (intro evolution_progress, rule review_evolution [OF assms(1,2)])
next
  case a_register then show ?thesis by (intro evolution_progress, rule register_evolution [OF assms(1,2)])
next
  case a_revoke then show ?thesis by (intro evolution_progress, rule revoke_evolution [OF assms(1,2)])
next
  case a_claim then show ?thesis using claim_evolution [OF assms(1) _ assms(2)] evolution_progress by blast
next
  case a_current then show ?thesis unfolding current_def by (intro evolution_progress, rule control_evolution [OF assms(1,2)])
next
  case a_refresh then show ?thesis unfolding refresh_def by (intro evolution_progress, rule control_evolution [OF assms(1,2)])
next
  case a_consume then show ?thesis by (intro evolution_progress, rule consume_evolution [OF assms(1,2)])
next
  case a_finish then show ?thesis by (intro evolution_progress, rule finish_managed_evolution [OF assms(1,2)])
next
  case a_report then show ?thesis by (intro evolution_progress, rule report_stop_evolution [OF assms(1,2)])
next
  case a_inspect_result then show ?thesis by (intro evolution_progress, rule inspect_evolution(1) [OF assms(1,2)])
next
  case a_inspect_stop then show ?thesis by (intro evolution_progress, rule inspect_evolution(2) [OF assms(1,2)])
next
  case a_observe then show ?thesis by (intro evolution_progress, rule observe_claim_evolution [OF assms(1,2)])
qed

lemma acts_progress: "(act U)\<^sup>*\<^sup>* s s' \<Longrightarrow> inj U \<Longrightarrow> tables_ok U s \<Longrightarrow> progress U s s'"
proof (induction rule: rtranclp_induct)
  case (step s' s'')
  then have e: "progress U s s'" by blast
  then have "tables_ok U s'" using progress_ok step.prems by blast
  with act_progress [OF step.prems(1) _ step.hyps(2)] e show ?case by (blast intro: progress_trans)
qed simp

lemmas acts_history = acts_progress [unfolded progress_def, THEN conjunct1]
lemmas acts_issuer_history = acts_progress [unfolded progress_def, THEN conjunct2, THEN conjunct1]

end
