(* ===== verification/Issuance_Example.thy ===== *)
theory Issuance_Example
  imports Requests
begin

text \<open>
  A registered approval, evaluated: one engagement with all three budgets, one reviewed case, one enrolled
  runner, and an approval envelope signed over the context the projection computes.  The managed claim of
  the job goes through; so do renewal, consumption and revocation.
\<close>

section \<open>An example\<close>

definition ex_hash :: string where "ex_hash = replicate 64 (CHR ''a'')"

definition ex_env :: env where "ex_env = example_env\<lparr>sha256 := \<lambda>_. ex_hash\<rparr>"

definition ex_clocks :: clocks where
  "ex_clocks = \<lparr>wall = \<lambda>i. utc (instant example_clock), mono = \<lambda>i. 0, control_clock = \<lambda>i. instant example_clock\<rparr>"

definition ex_issuer :: issuer where
  "ex_issuer = \<lparr>iss_origin = ''https://map.example'', iss_wire = example_wire, iss_crypto = example_crypto\<rparr>"

definition ex_request :: pyval where
  "ex_request = VDict [(''method'', VStr ''GET''), (''url'', VStr ''https://acme.example/x'')]"

definition ex_case :: AuthorizationTestCase where
  "ex_case = \<lparr>tc_id = ''t1'', tc_program_id = ''e1'', tc_owner_github_id = ''alice'', tc_name = ''case'', tc_test_case_id = ''c'',
     tc_description = [], tc_spec = VDict [(''request'', ex_request)], tc_created_at = 0, tc_updated_at = None\<rparr>"

definition ex_plan :: pyval where
  "ex_plan = VDict [(''schema'', VStr ''vardr.execution-plan/1''), (''profile'', VStr ''gate-fixed-http/1''),
     (''case_hash'', VStr ex_hash), (''dispatches'', VList [VDict [(''request'', ex_request)]]), (''max_http_dispatches'', VInt 5)]"

definition ex_job :: ScanJob where
  "ex_job = (example_job ''pending'')\<lparr>job_tool_type := ''vardrgate_api_test'', job_config := VDict [(''test_case_id'', VStr ''t1'')],
     job_authorization_contract_required := True, job_managed_approval_id := Some ''issuer:a1''\<rparr>"

definition ex_enrollment :: ManagedEnrollment where
  "ex_enrollment = \<lparr>enr_id = ''n1'', enr_api_key_id = ''k1'', enr_owner = ''alice'', enr_principal_hash = ex_hash,
     enr_runner_id = ''r1'', enr_origin = ''https://map.example'', enr_revision = 1, enr_revoked = False\<rparr>"

definition ex_permission :: pyval where
  "ex_permission = VDict [(''not_before'', VStr ''2026-02-28T22:00:00Z''), (''expires_at'', VStr ''2026-02-28T23:30:00Z''),
     (''max_executions'', VInt 2), (''max_duration_seconds'', VInt 60), (''max_artifact_bytes'', VInt 1000),
     (''credential_grants'', VList [])]"

definition ex_base :: db where
  "ex_base = example_tenancy\<lparr>
     programs := [example_engagement\<lparr>eng_concurrency_limit := Some 1, eng_target_limit := Some 5, eng_duration_limit := Some 100\<rparr>],
     authorizations := [\<lparr>az_id = ''z1'', az_program_id = ''e1'', az_owner_github_id = ''alice'', az_permits = [], az_authorized_by = ''Bob'',
        az_authorized_at = None, az_reference = [], az_window_start = None, az_window_end = None, az_status = ''active'', az_notes = [],
        az_created_at = 0\<rparr>],
     scope_items := [\<lparr>sc_id = ''s1'', sc_program_id = ''e1'', sc_scope_type = ''in'', sc_value = ''acme.example'', sc_kind = ''domain'',
        sc_notes = [], sc_max_severity = [], sc_created_at = None\<rparr>],
     authorization_test_cases := [ex_case],
     api_keys := [\<lparr>key_id = ''k1'', key_github_id = ''alice'', key_key_hash = ex_hash, key_label = [], key_scope = ''runner'',
        key_created_at = 0, key_last_used_at = None\<rparr>],
     managed_enrollments := [ex_enrollment], scan_jobs := [ex_job], uuids_drawn := 2\<rparr>"

definition ex_context :: pydict where
  "ex_context = [(''runner_id'', VStr ''r1''), (''engagement_id'', VStr ''e1''), (''job_id'', VStr ''u''), (''authority_revision'', VInt 0),
     (''authority_sha256'', VStr ex_hash), (''plan_sha256'', VStr ex_hash), (''mode'', VStr ''strict''),
     (''scope'', VList [VDict [(''origin'', VStr ''https://acme.example:443''), (''path'', VStr ''/x''), (''method'', VStr ''GET''),
        (''excluded'', VBool False), (''reason'', VStr [])]]),
     (''exceptions'', VList []), (''not_before'', VStr ''2026-02-28T22:00:00Z''), (''expires_at'', VStr ''2026-02-28T23:30:00Z''),
     (''testing_start'', VStr ''2026-02-28T22:00:00Z''), (''testing_end'', VStr ''2026-02-28T23:30:00Z''),
     (''max_executions'', VInt 2), (''max_duration_seconds'', VInt 60), (''max_http_dispatches'', VInt 5),
     (''max_artifact_bytes'', VInt 1000), (''credential_grants'', VList []), (''control'', VStr ''managed_online'')]"

definition ex_receipt :: pydict where
  "ex_receipt = [(''approval_id'', VStr ''a1''), (''approved_at'', VStr ''2026-02-28T22:00:00Z''),
     (''approver_id'', VStr ''alice''), (''context'', VDict ex_context),
     (''issuer'', VDict [(''id'', VStr ''issuer''), (''key_id'', VStr ''op'')]), (''origin'', VStr ''map''),
     (''schema'', VStr ''vardr.execution-approval/1'')]"

definition ex_envelope :: pyval where
  "ex_envelope = (let data = dumps (VDict ex_receipt) in
     VDict [(''format'', VStr ''vardr.authorization-envelope/1''), (''purpose'', VStr ''approval''), (''payload'', VStr (b64 data)),
       (''signature'', VStr (b64 (take 64 (oa_public_key example_operator @ message ''approval'' data))))])"

text \<open>The receipt as the parser returns it, its fields in key order.\<close>

definition ex_signed :: pydict where
  "ex_signed = sort_key fst (map (\<lambda>(k, v). (k, in_key_order v)) ex_receipt)"

lemma ex_receipt_read: "wire_parse example_crypto (dumps (VDict ex_receipt)) MAX_PAYLOAD = Inr (VDict ex_signed)"
proof -
  have e: "encodable flt (VDict ex_receipt)" for flt
    by (simp add: ex_receipt_def ex_context_def) code_simp
  have d: "depth 0 (VDict ex_receipt)" by code_simp
  have c: "canonical (VDict ex_receipt) = Inr (dumps (VDict ex_receipt))"
    using serializable_encodable [OF e] by (simp only: canonical_def if_True)
  have l: "int (length (dumps (VDict ex_receipt))) \<le> MAX_PAYLOAD" by code_simp
  show ?thesis using wire_parse_canonical [OF e d c l] by (simp add: ex_signed_def del: dumps.simps)
qed

lemma ex_signed_fields:
  "dget ex_signed ''issuer'' = VDict [(''id'', VStr ''issuer''), (''key_id'', VStr ''op'')]"
  "dget ex_signed ''schema'' = VStr ''vardr.execution-approval/1''" "dget ex_signed ''origin'' = VStr ''map''"
  "dget ex_signed ''approver_id'' = VStr ''alice''" "dget ex_signed ''approval_id'' = VStr ''a1''"
  "set (map fst ex_signed) = set APPROVAL_FIELDS" "canonical (dget ex_signed ''context'') = Inr (dumps (VDict ex_context))"
  "approval_times ex_signed (VDict ex_context) (instant (utc (instant example_clock))) = Inr True"
  by code_simp+

abbreviation ex_now :: datetime where "ex_now \<equiv> utc (instant example_clock)"

lemma ex_approval: "approval example_crypto example_wire ex_envelope (VDict ex_context) ''alice'' ex_now = Inr ex_signed"
proof (rule approvalI)
  let ?data = "dumps (VDict ex_receipt)"
  let ?sig = "take 64 (oa_public_key example_operator @ message ''approval'' ?data)"
  let ?env = "[(''format'', VStr ''vardr.authorization-envelope/1''), (''purpose'', VStr ''approval''),
       (''payload'', VStr (b64 ?data)), (''signature'', VStr (b64 ?sig))]"
  show "ex_envelope = VDict ?env"
    unfolding ex_envelope_def Let_def by (rule refl)
  have "int (length ?data) \<le> MAX_PAYLOAD" by code_simp
  moreover have "?data \<noteq> []" by code_simp
  ultimately show "unb64 (dget ?env ''payload'') MAX_PAYLOAD = Inr ?data"
    using unb64_b64 by (simp add: dget_def del: dumps.simps)
  show "wire_parse example_crypto ?data MAX_PAYLOAD = Inr (VDict ex_signed)" by (rule ex_receipt_read)
  have "?sig \<noteq> []" by (simp add: message_def)
  then show "unb64 (dget ?env ''signature'') 64 = Inr ?sig"
    using unb64_b64 [of ?sig 64] by (simp add: dget_def del: dumps.simps)
  show "ed_verify example_crypto (oa_public_key example_operator) ?sig (message ''approval'' ?data)"
    by (simp add: example_crypto_def del: dumps.simps)
  show "find_anchor example_wire [(''id'', VStr ''issuer''), (''key_id'', VStr ''op'')] = Some example_operator"
    by (simp add: find_anchor_def example_wire_def example_operator_def dget_def)
  show "canonical (VDict ex_context) = Inr (dumps (VDict ex_context))" by code_simp
  show "canonical (dget ex_signed ''context'') = Inr (dumps (VDict ex_context))" by (rule ex_signed_fields)
  show "approval_times ex_signed (VDict ex_context) (instant ex_now) = Inr True" by (rule ex_signed_fields)
  show "stamp ex_now = Inr ''2026-02-28T22:59:59Z''" by code_simp
  show "read_identifier (dget ex_signed ''approval_id'') = Inr ''a1''" by code_simp
  show "vindex (VDict ex_context) ''max_executions'' = Inr (VInt 2)" by (simp add: vindex_def ex_context_def)
  show "set (map fst ex_signed) = set APPROVAL_FIELDS" by (rule ex_signed_fields)
  show "dget ex_signed ''issuer'' = VDict [(''id'', VStr ''issuer''), (''key_id'', VStr ''op'')]"
    "dget ex_signed ''schema'' = VStr ''vardr.execution-approval/1''" "dget ex_signed ''origin'' = VStr ''map''"
    "dget ex_signed ''approver_id'' = VStr ''alice''" by (rule ex_signed_fields)+
qed (simp_all add: dget_def vget_def vindex_def ex_signed_fields ex_context_def example_operator_def del: dumps.simps)

definition ex_approval_row :: "pyval \<Rightarrow> ManagedApproval" where
  "ex_approval_row envelope = \<lparr>apv_id = ''issuer:a1'', apv_issuer = ''issuer'', apv_approval_id = ''a1'', apv_job_id = ''u'',
     apv_engagement_id = ''e1'', apv_enrollment_id = ''n1'', apv_authorization_id = ''z1'', apv_revision = 0, apv_owner = ''alice'',
     apv_envelope = envelope, apv_plan = ex_plan, apv_context = VDict ex_context, apv_authority_snapshot = VNone, apv_issued = 0,
     apv_revoked = False\<rparr>"

text \<open>The board once the approval is registered; the envelope is left open so that evaluation need not open it.\<close>

definition ex_board :: "pyval \<Rightarrow> db" where
  "ex_board envelope = ex_base\<lparr>managed_approvals := [ex_approval_row envelope]\<rparr>"

definition ex_claim :: ClaimControl where
  "ex_claim = \<lparr>cc_runner_id = ''r1'', cc_origin = ''https://map.example'', cc_concurrency_budget = True,
     cc_target_binding = Some \<lparr>tb_profile = ''gate-fixed-http/1'', tb_case_sha256 = ex_hash, tb_origins = [''https://acme.example:443'']\<rparr>,
     cc_duration_seconds = Some 40\<rparr>"

definition ex_user :: current_user where
  "ex_user = \<lparr>cu_github_id = ''alice'', cu_username = [], cu_email = [], cu_scope = ''runner'', cu_auth_method = []\<rparr>"

definition ex_seen :: "db \<Rightarrow> db" where
  "ex_seen s = s\<lparr>managed_clock := [\<lparr>clk_id = 1, clk_observed = instant example_clock\<rparr>]\<rparr>"

definition ex_authenticated :: "db \<Rightarrow> db" where
  "ex_authenticated s = (ex_seen s)\<lparr>api_keys := map (\<lambda>k. k\<lparr>key_last_used_at := Some 1000\<rparr>) (api_keys s)\<rparr>"

lemma ex_times: "issuer_now ex_clocks i = Inr (instant example_clock)" "stamp (wall ex_clocks i) = Inr ''2026-02-28T22:59:59Z''"
proof -
  have "stamp ex_now = Inr ''2026-02-28T22:59:59Z''" by code_simp
  then show "stamp (wall ex_clocks i) = Inr ''2026-02-28T22:59:59Z''" by (simp add: ex_clocks_def)
  then show "issuer_now ex_clocks i = Inr (instant example_clock)"
    by (simp add: issuer_now_def) (simp add: ex_clocks_def utc_def instant_def)
qed

lemma ex_locked: "get_clock s = Some \<lparr>clk_id = 1, clk_observed = instant example_clock\<rparr> \<Longrightarrow>
  locked_time ex_clocks i s = Inr (set_clock (instant example_clock) s)"
  by (simp add: locked_time_def ex_times)

lemma ex_observed: "managed_clock s = [] \<Longrightarrow> observe ex_clocks i s = Inr (ex_seen s)"
  by (simp add: observe_def ex_times get_clock_def by_key_def ex_seen_def)

lemma ex_operation:
  assumes "managed_clock s = []" and "body (ex_seen s) = (Inr a, s')"
  shows "operation ex_clocks body s = (Inr a, s')"
  using assms by (simp add: operation_def ex_times ex_observed)

lemma ex_clock_set: "get_clock s = Some \<lparr>clk_id = 1, clk_observed = t\<rparr> \<Longrightarrow> get_clock (set_clock t s) = Some \<lparr>clk_id = 1, clk_observed = t\<rparr>"
  by (simp add: get_clock_def set_clock_def by_key_amend_key)

lemma ex_signed_in:
  "get_current_user example_auth ex_env example_key_request (ex_seen (ex_board v)) = (Inr ex_user, ex_authenticated (ex_board v))"
  by code_simp

lemma ex_projection:
  "\<exists>p. reproject ex_issuer ex_env ex_job ''alice'' ex_enrollment ''z1'' ex_plan (VDict ex_context) 0 [''pending''] (ex_authenticated (ex_board v))
     = Inr p \<and> pj_context p = ex_context \<and> pj_case p = tc_spec ex_case"
proof -
  have "(case reproject ex_issuer ex_env ex_job ''alice'' ex_enrollment ''z1'' ex_plan (VDict ex_context) 0 [''pending''] (ex_authenticated (ex_board v))
    of Inr p \<Rightarrow> pj_context p = ex_context \<and> pj_case p = tc_spec ex_case | Inl e \<Rightarrow> False)" by code_simp
  then show ?thesis by (auto split: sum.splits)
qed

lemma ex_permission:
  "\<exists>p. claim_permission ex_issuer ex_env ex_clocks i example_key_request ex_job ex_claim [''pending''] (ex_authenticated (ex_board ex_envelope))
     = Inr (ex_approval_row ex_envelope, p) \<and> pj_context p = ex_context \<and> pj_case p = tc_spec ex_case"
proof -
  obtain p where p: "reproject ex_issuer ex_env ex_job ''alice'' ex_enrollment ''z1'' ex_plan (VDict ex_context) 0 [''pending'']
      (ex_authenticated (ex_board ex_envelope)) = Inr p" "pj_context p = ex_context" "pj_case p = tc_spec ex_case"
    using ex_projection by blast
  have a: "job_approval ex_job (ex_authenticated (ex_board v)) = Some (ex_approval_row v)" for v by code_simp
  have e: "issuer_enrollment ex_issuer ''n1'' ''alice'' (ex_authenticated (ex_board v))
      = Inr (ex_enrollment, (hd (api_keys ex_base))\<lparr>key_last_used_at := Some 1000\<rparr>)" for v by code_simp
  have q: "enrolled_principal ex_issuer ex_env example_key_request ex_claim ex_enrollment ((hd (api_keys ex_base))\<lparr>key_last_used_at := Some 1000\<rparr>)"
    by code_simp
  have w: "iss_wire ex_issuer = example_wire" "iss_crypto ex_issuer = example_crypto" by (simp_all add: ex_issuer_def)
  have f: "apv_revoked (ex_approval_row v) = False" "apv_job_id (ex_approval_row v) = job_id ex_job" "apv_owner (ex_approval_row v) = ''alice''"
      "apv_engagement_id (ex_approval_row v) = job_program_id ex_job" "apv_enrollment_id (ex_approval_row v) = ''n1''"
      "apv_authorization_id (ex_approval_row v) = ''z1''" "apv_plan (ex_approval_row v) = ex_plan"
      "apv_context (ex_approval_row v) = VDict ex_context" "apv_revision (ex_approval_row v) = 0" "apv_envelope (ex_approval_row v) = v" for v
    by (simp_all add: ex_approval_row_def ex_job_def example_job_def)
  show ?thesis
    using p by (simp add: claim_permission_def a e q w f ex_times ex_approval)
qed

definition ex_locked_board :: "pyval \<Rightarrow> db" where
  "ex_locked_board v = set_clock (instant example_clock) (ex_authenticated (ex_board v))"

lemma ex_take:
  "case take_managed ex_env ex_clocks ''tok'' example_key_request ex_user ex_job (ex_approval_row v) (tc_spec ex_case) ex_claim (ex_locked_board v) of
     Inr (row, s) \<Rightarrow> managed_contracts s = [] \<and> uuids_drawn s = 2 \<and> exe_duration_seconds row = 40
       \<and> get_clock s = Some \<lparr>clk_id = 1, clk_observed = instant example_clock\<rparr>
   | Inl e \<Rightarrow> False"
  by code_simp

lemma ex_payload:
  "\<exists>c. wire_issue example_crypto example_wire ex_envelope (VDict ex_context) ''alice'' ex_now ''uu'' ''uuu'' 1 1 = Inr c"
proof -
  let ?p = "VDict [(''schema'', VStr ''vardr.authorization/1''),
       (''issuer'', VDict [(''id'', VStr ''issuer''), (''key_id'', VStr ''ck'')]),
       (''origin'', VStr ''map''), (''contract_id'', VStr ''uu''), (''approval_sha256'', VStr ex_hash),
       (''approval_id'', VStr ''a1''), (''execution_index'', VInt 1), (''plan_sha256'', VStr ex_hash),
       (''runner_id'', VStr ''r1''), (''engagement_id'', VStr ''e1''), (''job_id'', VStr ''u''), (''attempt_id'', VStr ''uuu''),
       (''fence'', VInt 1), (''issued_at'', VStr ''2026-02-28T22:59:59Z''), (''expires_at'', VStr ''2026-02-28T23:30:00Z''),
       (''authority_revision'', VInt 0)]"
  have ids: "read_identifier (VStr ''uu'') = Inr ''uu''" "read_identifier (VStr ''uuu'') = Inr ''uuu''"
    "read_identifier (VStr ''r1'') = Inr ''r1''" "read_identifier (VStr ''e1'') = Inr ''e1''" "read_identifier (VStr ''u'') = Inr ''u''"
    by code_simp+
  have "serializable ex_envelope" by (simp add: ex_envelope_def Let_def del: dumps.simps)
  then have d: "digest example_crypto ex_envelope = Inr ex_hash"
    by (simp only: digest_def canonical_def if_True bindE_Inr) (simp add: example_crypto_def ex_hash_def del: dumps.simps)
  have fields: "vindex (VDict ex_context) ''max_executions'' = Inr (VInt 2)" "vindex (VDict ex_context) ''plan_sha256'' = Inr (VStr ex_hash)"
    "vindex (VDict ex_context) ''runner_id'' = Inr (VStr ''r1'')" "vindex (VDict ex_context) ''engagement_id'' = Inr (VStr ''e1'')"
    "vindex (VDict ex_context) ''job_id'' = Inr (VStr ''u'')" "vindex (VDict ex_context) ''expires_at'' = Inr (VStr ''2026-02-28T23:30:00Z'')"
    "vindex (VDict ex_context) ''authority_revision'' = Inr (VInt 0)"
    by (simp_all add: vindex_def ex_context_def)
  have t: "stamp ex_now = Inr ''2026-02-28T22:59:59Z''" by code_simp
  have p: "contract_payload example_crypto example_wire ex_envelope ex_signed (VDict ex_context) ex_now ''uu'' ''uuu'' 1 1 = Inr ?p"
    by (simp add: contract_payload_def ids fields d t integer_def MAX_INTEGER_def ex_signed_fields example_wire_def)
  have "canonical ?p = Inr (dumps ?p)" "int (length (dumps ?p)) \<le> MAX_PAYLOAD" by code_simp+
  then have "\<exists>c. sign_contract example_crypto example_wire ?p = Inr c" by (simp add: sign_contract_def del: dumps.simps)
  then show ?thesis unfolding wire_issue_def ex_approval bindE_Inr p by blast
qed

lemma ex_claimed:
  "\<exists>mc s'. claim example_auth ex_issuer ex_env ex_clocks ''tok'' example_key_request ''u'' ex_claim (ex_board ex_envelope) = (Inr mc, s')"
proof -
  let ?s = "ex_authenticated (ex_board ex_envelope)"
  let ?a = "ex_approval_row ex_envelope"
  have l: "lock_job ''u'' ex_user (ex_authenticated (ex_board v)) = Inr ex_job" for v by code_simp
  have pend: "job_status ex_job = ''pending''" by code_simp
  obtain p where p: "claim_permission ex_issuer ex_env ex_clocks 2 example_key_request ex_job ex_claim [''pending''] ?s = Inr (?a, p)"
    "pj_context p = ex_context" "pj_case p = tc_spec ex_case" using ex_permission by blast
  have b: "managed_budgets ex_claim (ex_approval_row v) = Inr ()" for v by code_simp
  have "get_clock (ex_authenticated (ex_board v)) = Some \<lparr>clk_id = 1, clk_observed = instant example_clock\<rparr>" for v by code_simp
  then have t1: "locked_time ex_clocks 3 ?s = Inr (ex_locked_board ex_envelope)" by (simp add: ex_locked ex_locked_board_def)
  obtain row s2 where tk: "take_managed ex_env ex_clocks ''tok'' example_key_request ex_user ex_job ?a (tc_spec ex_case) ex_claim
      (ex_locked_board ex_envelope) = Inr (row, s2)" and s2: "managed_contracts s2 = []" "uuids_drawn s2 = 2"
      "get_clock s2 = Some \<lparr>clk_id = 1, clk_observed = instant example_clock\<rparr>"
    using ex_take [of ex_envelope] by (auto split: sum.splits prod.splits)
  have u: "new_uuid ex_env s2 = ''uu''" "new_uuid ex_env (drew s2) = ''uuu''"
    by (simp_all add: new_uuid_def drew_def s2 ex_env_def example_env_def numeral_2_eq_2)
  have m: "int_field (apv_context ?a) ''max_executions'' = Inr 2"
    by (simp add: int_field_def ex_approval_row_def vindex_def ex_context_def)
  have w: "iss_wire ex_issuer = example_wire" "iss_crypto ex_issuer = example_crypto" "apv_envelope ?a = ex_envelope" "apv_owner ?a = ''alice''"
      "apv_issued ?a = 0" by (simp_all add: ex_issuer_def ex_approval_row_def)
  obtain c where c: "wire_issue example_crypto example_wire ex_envelope (VDict ex_context) ''alice'' ex_now ''uu'' ''uuu'' 1 1 = Inr c"
    using ex_payload by blast
  then obtain s3 where i: "issue_contract ex_issuer ex_env ex_clocks ''u'' ?a p s2 = Inr (c, s3)"
      and s3: "get_clock s3 = get_clock s2"
    using m s2(1) by (simp add: issue_contract_def w p(2) u ex_times Let_def) (simp add: get_clock_def add_contract_def set_approval_def drew_def)
  have t2: "locked_time ex_clocks 6 s3 = Inr (set_clock (instant example_clock) s3)" using s2(3) s3 by (simp add: ex_locked)
  have "\<exists>mc s'. claimed ex_issuer ex_env ex_clocks ''tok'' example_key_request ''u'' ex_claim ex_user ?s = Inr (mc, s')"
    by (simp add: claimed_def l pend p b t1 tk i t2 ex_times w ex_approval)
  then obtain mc s' where c: "claimed ex_issuer ex_env ex_clocks ''tok'' example_key_request ''u'' ex_claim ex_user ?s = Inr (mc, s')" by blast
  have "managed_clock (ex_board v) = []" for v by code_simp
  then have "claim example_auth ex_issuer ex_env ex_clocks ''tok'' example_key_request ''u'' ex_claim (ex_board ex_envelope) = (Inr mc, s')"
    unfolding claim_def by (rule ex_operation) (simp add: authenticated_def ex_signed_in c)
  then show ?thesis by blast
qed

lemma inj_ex: "inj (uuid ex_env)"
  using inj_example by (simp add: ex_env_def)

lemma ex_board_ok: "tables_ok (uuid ex_env) (ex_board v)" "issuer_ok (uuid ex_env) (ex_board v)"
proof -
  show "tables_ok (uuid ex_env) (ex_board v)"
    by (auto simp: tables_ok_def attempts_open_def ex_board_def ex_base_def example_tenancy_def empty_db_def example_job_def ex_job_def
      ex_env_def example_env_def intro!: exI [of _ "1 :: nat"])
  have "allowance_of (ex_approval_row v) = 2"
    by (simp add: allowance_of_def int_field_def ex_approval_row_def vindex_def ex_context_def)
  then show "issuer_ok (uuid ex_env) (ex_board v)"
    by (simp add: issuer_ok_def contracts_ok_def approval_ok_def ordinals_def ex_board_def ex_base_def example_tenancy_def empty_db_def)
      (simp add: ex_approval_row_def)
qed

text \<open>The board while an attempt runs, its contract still unconsumed.\<close>

definition ex_running :: "pyval \<Rightarrow> db" where
  "ex_running v = (ex_board v)\<lparr>scan_jobs := [claimed_job (instant example_clock) (tc_spec ex_case) ex_job],
     job_executions := [\<lparr>exe_job_id = ''u'', exe_runner_id = ''r1'', exe_origin = ''https://map.example'', exe_owner = ''alice'',
        exe_principal_hash = ex_hash, exe_token_hash = ex_hash, exe_expires_at = instant example_clock + seconds 5, exe_state = ''active'',
        exe_capacity_reserved = True, exe_target_charge = 1, exe_target_binding = VNone, exe_duration_seconds = 40\<rparr>],
     managed_contracts := [\<lparr>con_id = ''uu'', con_job_id = ''u'', con_approval_record_id = ''issuer:a1'', con_ordinal = 1,
        con_attempt_id = ''uuu'', con_fence = 1, con_envelope = VStr ''contract'', con_consumed = False\<rparr>],
     uuids_drawn := 4\<rparr>"

lemma ex_running_ok: "tables_ok (uuid ex_env) (ex_running v)"
  by (auto simp: tables_ok_def attempts_open_def ex_running_def ex_board_def ex_base_def example_tenancy_def empty_db_def example_job_def ex_job_def
      claimed_job_def ex_env_def example_env_def intro!: exI [of _ "1 :: nat"])

definition ex_control :: ControlRequest where
  "ex_control = \<lparr>cc_runner_id = ''r1'', cc_origin = ''https://map.example'', cc_concurrency_budget = True,
     cc_target_binding = None, cc_duration_seconds = None, cc_token = ''tok''\<rparr>"

abbreviation ex_running_job :: ScanJob where
  "ex_running_job \<equiv> claimed_job (instant example_clock) (tc_spec ex_case) ex_job"

lemma ex_running_signed_in:
  "get_current_user example_auth ex_env example_key_request (ex_seen (ex_running v)) = (Inr ex_user, ex_authenticated (ex_running v))"
  by code_simp

lemma ex_running_permission:
  "\<exists>p. claim_permission ex_issuer ex_env ex_clocks i example_key_request ex_running_job ex_control [''running''] (ex_authenticated (ex_running ex_envelope))
     = Inr (ex_approval_row ex_envelope, p) \<and> pj_context p = ex_context"
proof -
  have c: "(case reproject ex_issuer ex_env ex_running_job ''alice'' ex_enrollment ''z1'' ex_plan (VDict ex_context) 0 [''running''] (ex_authenticated (ex_running v))
    of Inr p \<Rightarrow> pj_context p = ex_context | Inl e \<Rightarrow> False)" for v by code_simp
  obtain p where p: "reproject ex_issuer ex_env ex_running_job ''alice'' ex_enrollment ''z1'' ex_plan (VDict ex_context) 0 [''running'']
      (ex_authenticated (ex_running ex_envelope)) = Inr p" "pj_context p = ex_context"
    using c [of ex_envelope] by (auto split: sum.splits)
  have a: "job_approval ex_running_job (ex_authenticated (ex_running v)) = Some (ex_approval_row v)" for v by code_simp
  have e: "issuer_enrollment ex_issuer ''n1'' ''alice'' (ex_authenticated (ex_running v))
      = Inr (ex_enrollment, (hd (api_keys ex_base))\<lparr>key_last_used_at := Some 1000\<rparr>)" for v by code_simp
  have q: "enrolled_principal ex_issuer ex_env example_key_request ex_control ex_enrollment ((hd (api_keys ex_base))\<lparr>key_last_used_at := Some 1000\<rparr>)"
    by code_simp
  have w: "iss_wire ex_issuer = example_wire" "iss_crypto ex_issuer = example_crypto" by (simp_all add: ex_issuer_def)
  have f: "apv_revoked (ex_approval_row v) = False" "apv_job_id (ex_approval_row v) = job_id ex_running_job" "apv_owner (ex_approval_row v) = ''alice''"
      "apv_engagement_id (ex_approval_row v) = job_program_id ex_running_job" "apv_enrollment_id (ex_approval_row v) = ''n1''"
      "apv_authorization_id (ex_approval_row v) = ''z1''" "apv_plan (ex_approval_row v) = ex_plan"
      "apv_context (ex_approval_row v) = VDict ex_context" "apv_revision (ex_approval_row v) = 0" "apv_envelope (ex_approval_row v) = v" for v
    by (simp_all add: ex_approval_row_def claimed_job_def ex_job_def example_job_def)
  show ?thesis
    using p by (simp add: claim_permission_def a e q w f ex_times ex_approval)
qed

abbreviation ex_attempt :: JobExecution where "ex_attempt \<equiv> hd (job_executions (ex_running VNone))"
abbreviation ex_contract :: ManagedContract where "ex_contract \<equiv> hd (managed_contracts (ex_running VNone))"

definition ex_locked_running :: "pyval \<Rightarrow> db" where
  "ex_locked_running v = set_clock (instant example_clock) (ex_authenticated (ex_running v))"

lemma ex_live:
  assumes r: "if renew then \<exists>l. lease = Some l \<and> renew_lease ex_clocks ex_running_job ex_attempt (VDict ex_context) (ex_locked_running ex_envelope) = Inr (l, s2)
      else lease = None \<and> s2 = ex_locked_running ex_envelope"
    and c: "\<And>p. pj_context p = ex_context \<Longrightarrow> (case sha of None \<Rightarrow> Inr s2
      | Some sh \<Rightarrow> Issuance.consume_contract ex_issuer ex_clocks (ex_approval_row ex_envelope) p ex_contract ex_attempt sh s2) = Inr s3"
  shows "\<exists>ans. operation ex_clocks (authenticated (get_current_user example_auth ex_env example_key_request)
      (live_control ex_issuer ex_env ex_clocks example_key_request ''u'' ex_control ''uu'' ''uuu'' 1 renew sha)) (ex_running ex_envelope) = (Inr ans, s3)"
proof -
  let ?s = "ex_authenticated (ex_running ex_envelope)"
  have o: "owned ex_env example_key_request ''u'' ex_user ex_control (ex_authenticated (ex_running v)) = Inr ex_attempt" for v by code_simp
  have g: "get_job ''u'' (ex_authenticated (ex_running v)) = Some ex_running_job" for v by code_simp
  have f: "find (\<lambda>c. con_job_id c = ''u'') (managed_contracts (ex_authenticated (ex_running v))) = Some ex_contract" for v by code_simp
  have i: "con_id ex_contract = ''uu''" "con_attempt_id ex_contract = ''uuu''" "con_fence ex_contract = 1" by code_simp+
  have x: "exe_state ex_attempt = ''active''" "control_clock ex_clocks 0 < exe_expires_at ex_attempt" by code_simp+
  have "get_clock (ex_authenticated (ex_running v)) = Some \<lparr>clk_id = 1, clk_observed = instant example_clock\<rparr>" for v by code_simp
  then have t: "locked_time ex_clocks 3 ?s = Inr (ex_locked_running ex_envelope)" by (simp add: ex_locked ex_locked_running_def)
  obtain p where p: "claim_permission ex_issuer ex_env ex_clocks 2 example_key_request ex_running_job ex_control [''running''] ?s
      = Inr (ex_approval_row ex_envelope, p)" "pj_context p = ex_context" using ex_running_permission by blast
  have w: "iss_wire ex_issuer = example_wire" "iss_crypto ex_issuer = example_crypto" "apv_envelope (ex_approval_row ex_envelope) = ex_envelope"
    "apv_owner (ex_approval_row ex_envelope) = ''alice''" by (simp_all add: ex_issuer_def ex_approval_row_def)
  have r': "(if renew then bindE (renew_lease ex_clocks ex_running_job ex_attempt (VDict ex_context) (ex_locked_running ex_envelope)) (\<lambda>(l, s2). Inr (Some l, s2))
      else Inr (None, ex_locked_running ex_envelope)) = Inr (lease, s2)"
    using r by (auto split: if_splits)
  have "\<exists>ans. live_control ex_issuer ex_env ex_clocks example_key_request ''u'' ex_control ''uu'' ''uuu'' 1 renew sha ex_user ?s = Inr (ans, s3)"
    by (simp only: live_control_def o g f p(1) t bindE_Inr someE_def option.case prod.case i x simp_thms wire_require_True ignoreE_Inr
        ex_times w p(2) ex_approval r' c [OF p(2)]) simp
  then obtain ans where l: "live_control ex_issuer ex_env ex_clocks example_key_request ''u'' ex_control ''uu'' ''uuu'' 1 renew sha ex_user ?s = Inr (ans, s3)"
    by blast
  have "managed_clock (ex_running v) = []" for v by code_simp
  then show ?thesis by (intro exI ex_operation) (simp_all add: authenticated_def ex_running_signed_in l)
qed

lemma ex_renewed: "\<exists>ans s'. refresh example_auth ex_issuer ex_env ex_clocks example_key_request ''u'' ex_control ''uu'' ''uuu'' 1 (ex_running ex_envelope) = (Inr ans, s')"
proof -
  have c: "case renew_lease ex_clocks ex_running_job ex_attempt (VDict ex_context) (ex_locked_running v) of Inr x \<Rightarrow> True | Inl e \<Rightarrow> False" for v
    by code_simp
  obtain l s2 where "renew_lease ex_clocks ex_running_job ex_attempt (VDict ex_context) (ex_locked_running ex_envelope) = Inr (l, s2)"
    using c [of ex_envelope] by (auto split: sum.splits)
  with ex_live [of True "Some l" s2 None s2] show ?thesis unfolding refresh_def by auto
qed

lemma ex_consumed: "\<exists>ans s'. consume example_auth ex_issuer ex_env ex_clocks example_key_request ''u'' ex_control ''uu'' ''uuu'' 1 ex_hash (ex_running ex_envelope) = (Inr ans, s')"
proof -
  let ?s1 = "set_contract ''uu'' (\<lambda>r. r\<lparr>con_consumed := True\<rparr>) (ex_locked_running ex_envelope)"
  have k: "get_clock (set_contract ''uu'' f (ex_locked_running v)) = Some \<lparr>clk_id = 1, clk_observed = instant example_clock\<rparr>" for v f by code_simp
  have w: "iss_wire ex_issuer = example_wire" "iss_crypto ex_issuer = example_crypto" "apv_envelope (ex_approval_row ex_envelope) = ex_envelope"
    "apv_owner (ex_approval_row ex_envelope) = ''alice''" by (simp_all add: ex_issuer_def ex_approval_row_def)
  have d: "digest example_crypto (con_envelope ex_contract) = Inr ex_hash" by code_simp
  have n: "con_consumed ex_contract = False" "con_id ex_contract = ''uu''" by code_simp+
  have e: "max (instant example_clock) (control_clock ex_clocks 2) < exe_expires_at ex_attempt" by code_simp
  have "Issuance.consume_contract ex_issuer ex_clocks (ex_approval_row ex_envelope) p ex_contract ex_attempt ex_hash (ex_locked_running ex_envelope)
      = Inr (set_clock (instant example_clock) ?s1)" if "pj_context p = ex_context" for p
    by (simp only: Issuance.consume_contract_def w d n that bindE_Inr wire_require_True simp_thms ignoreE_Inr Let_def ex_locked [OF k] ex_times
        ex_approval e)
  with ex_live [of False None "ex_locked_running ex_envelope" "Some ex_hash" "set_clock (instant example_clock) ?s1"]
  have "\<exists>ans. operation ex_clocks (authenticated (get_current_user example_auth ex_env example_key_request)
      (live_control ex_issuer ex_env ex_clocks example_key_request ''u'' ex_control ''uu'' ''uuu'' 1 False (Some ex_hash))) (ex_running ex_envelope)
        = (Inr ans, set_clock (instant example_clock) ?s1)" by simp
  moreover have "ignoreE (integer (VInt 1) 1 MAX_INTEGER) (wire_require (lower_hex_digest ex_hash) ''consumption_contract_binding'') = Inr ()" by code_simp
  ultimately show ?thesis unfolding consume_def by auto
qed

text \<open>An operator's browser session; the decoded token is alice's.\<close>

definition ex_auth :: auth_env where
  "ex_auth = example_auth\<lparr>ac_methods := ''github'', jwt_decode := \<lambda>_. Some [(''sub'', VStr ''alice'')]\<rparr>"

definition ex_session_request :: request where
  "ex_session_request = example_request\<lparr>rq_authorization := Some ''Bearer jwt''\<rparr>"

lemma ex_revoked: "\<exists>s'. revoke ex_auth ex_env ex_clocks ex_session_request ''u'' (ex_board v) = (Inr (), s')"
proof -
  have "case fst (revoke ex_auth ex_env ex_clocks ex_session_request ''u'' (ex_board v)) of Inr u \<Rightarrow> True | Inl e \<Rightarrow> False" by code_simp
  then show ?thesis by (cases "revoke ex_auth ex_env ex_clocks ex_session_request ''u'' (ex_board v)") (auto split: sum.splits)
qed

end
