(* ===== verification/Managed_Safety.thy ===== *)
theory Managed_Safety
  imports Issuance_Example
begin

text \<open>
  What managed authorization promises, over every sequence of requests to the job endpoints and the issuer:
  approvals are not overdrawn, contracts are consumed once, trusted time does not go back, revocation is
  final, claims rest on standing authority and leases stay within it.
\<close>

section \<open>Operations that went through\<close>

definition rows_kept :: "db \<Rightarrow> db \<Rightarrow> bool" where
  "rows_kept s s' = (scan_jobs s' = scan_jobs s \<and> job_executions s' = job_executions s \<and> programs s' = programs s
     \<and> managed_approvals s' = managed_approvals s \<and> managed_contracts s' = managed_contracts s
     \<and> managed_enrollments s' = managed_enrollments s \<and> authorization_test_cases s' = authorization_test_cases s
     \<and> managed_results s' = managed_results s \<and> managed_stops s' = managed_stops s)"

lemma rows_kept_lookup:
  assumes "rows_kept s s'"
  shows "get_job k s' = get_job k s" "get_execution k s' = get_execution k s" "get_engagement k s' = get_engagement k s"
    "get_approval k s' = get_approval k s" "job_contract k s' = job_contract k s" "ordinals k s' = ordinals k s"
    "job_stopped j s' = job_stopped j s" "get_enrollment k s' = get_enrollment k s" "stored_case x y s' = stored_case x y s"
  using assms by (simp_all add: rows_kept_def get_job_def get_execution_def get_engagement_def get_approval_def job_contract_def
      ordinals_def job_stopped_def get_enrollment_def stored_case_def)

lemma untouched_rows: "untouched s s' \<Longrightarrow> rows_kept s s'"
  by (simp add: untouched_def rows_kept_def)

lemma observe_rows: "observe ck i s = Inr s' \<Longrightarrow> rows_kept s s'"
  by (auto simp: observe_def rows_kept_def set_clock_def exn_simps split: option.splits)

lemma rows_kept_trans: "rows_kept s t \<Longrightarrow> rows_kept t u \<Longrightarrow> rows_kept s u"
  by (simp add: rows_kept_def)

lemma operated:
  assumes "operation ck (authenticated auth body) s = (Inr a, s')" and "\<And>r s1 s2. auth s1 = (r, s2) \<Longrightarrow> untouched s1 s2"
  obtains user s1 where "rows_kept s s1" "body user s1 = Inr (a, s')"
proof -
  obtain s0 where o: "observe ck 1 s = Inr s0" "authenticated auth body s0 = (Inr a, s')"
    using assms(1) by (auto simp: operation_def exn_simps split: sum.splits prod.splits)
  then obtain user s1 where "auth s0 = (Inr user, s1)" "body user s1 = Inr (a, s')"
    by (auto simp: authenticated_def transact_def split: sum.splits prod.splits)
  moreover have "rows_kept s s0" by (rule observe_rows [OF o(1)])
  ultimately show thesis using that assms(2) untouched_rows rows_kept_trans by blast
qed

lemma live_operated:
  assumes "operation ck (authenticated (get_current_user ac env rq)
      (live_control iss env ck rq jid cb contract_id attempt_id fence renew sha)) s = (Inr ans, s')"
  obtains user s1 where "rows_kept s s1" "live_control iss env ck rq jid cb contract_id attempt_id fence renew sha user s1 = Inr (ans, s')"
  using assms by (rule operated) (auto intro: current_user_untouched)

section \<open>One contract, consumed once\<close>

lemma job_contract_consumed:
  "job_contract jid s = Some c \<Longrightarrow> job_contract jid (set_contract (con_id c) (\<lambda>r. r\<lparr>con_consumed := True\<rparr>) s) = Some (c\<lparr>con_consumed := True\<rparr>)"
  by (simp add: job_contract_set)

lemma renew_lease_contracts:
  assumes "renew_lease ck j x permission s = Inr (l, s')"
  shows "managed_contracts s' = managed_contracts s"
proof -
  obtain t where "locked_time ck 6 (set_execution (exe_job_id x) (\<lambda>r. r\<lparr>exe_expires_at := t\<rparr>) s) = Inr s'"
    using assms by (auto simp: renew_lease_def exn_simps Let_def split: option.splits)
  from locked_time_frame [OF this] show ?thesis by (simp add: set_execution_def)
qed

lemma live_control_consumes:
  assumes l: "live_control iss env ck rq jid cb contract_id attempt_id fence renew (Some sha) user s = Inr (ans, s')"
  shows "\<exists>c. job_contract jid s = Some c \<and> con_id c = contract_id \<and> con_attempt_id c = attempt_id \<and> con_fence c = fence
    \<and> \<not> con_consumed c \<and> digest (iss_crypto iss) (con_envelope c) = Inr sha \<and> job_contract jid s' = Some (c\<lparr>con_consumed := True\<rparr>)"
  using l
proof (rule live_control_parts)
  fix x j c a p s1 lease s2
  assume c: "job_contract jid s = Some c" "con_id c = contract_id" "con_attempt_id c = attempt_id" "con_fence c = fence"
    and t: "locked_time ck 3 s = Inr s1"
    and r: "if renew then \<exists>l. lease = Some l \<and> renew_lease ck j x (VDict (pj_context p)) s1 = Inr (l, s2) else lease = None \<and> s2 = s1"
    and k: "case Some sha of None \<Rightarrow> s' = s2 | Some sha \<Rightarrow> Issuance.consume_contract iss ck a p c x sha s2 = Inr s'"
  have "managed_contracts s2 = managed_contracts s"
    using r locked_time_frame [OF t] renew_lease_contracts by (auto split: if_splits)
  then have c2: "job_contract jid s2 = Some c" using c(1) by (simp add: job_contract_def)
  obtain s3 where k': "s3 = set_contract (con_id c) (\<lambda>r. r\<lparr>con_consumed := True\<rparr>) s2" "locked_time ck 5 s3 = Inr s'"
      "\<not> con_consumed c" "digest (iss_crypto iss) (con_envelope c) = Inr sha"
    using k by (auto simp: Issuance.consume_contract_def exn_simps Let_def)
  have "job_contract jid s3 = Some (c\<lparr>con_consumed := True\<rparr>)" unfolding k'(1) by (rule job_contract_consumed [OF c2])
  then have "job_contract jid s' = Some (c\<lparr>con_consumed := True\<rparr>)" using locked_time_frame [OF k'(2)] by (simp add: job_contract_def)
  with c k' show ?thesis by blast
qed

lemma consume_ok:
  assumes "consume ac iss env ck rq jid cb contract_id attempt_id fence sha s = (Inr ans, s')"
  shows "\<exists>c. job_contract jid s = Some c \<and> con_id c = contract_id \<and> con_attempt_id c = attempt_id \<and> con_fence c = fence
    \<and> \<not> con_consumed c \<and> digest (iss_crypto iss) (con_envelope c) = Inr sha \<and> job_contract jid s' = Some (c\<lparr>con_consumed := True\<rparr>)"
proof -
  have "operation ck (authenticated (get_current_user ac env rq)
      (live_control iss env ck rq jid cb contract_id attempt_id fence False (Some sha))) s = (Inr ans, s')"
    using assms by (auto simp: consume_def split: sum.splits)
  then obtain user s1 where k: "rows_kept s s1"
      and l: "live_control iss env ck rq jid cb contract_id attempt_id fence False (Some sha) user s1 = Inr (ans, s')"
    by (rule live_operated)
  from live_control_consumes [OF l] show ?thesis unfolding rows_kept_lookup(5) [OF k] .
qed

text \<open>
  C11: A contract is consumed at most once.  A consumption that succeeds found the job's contract unconsumed and
  was given its id, its attempt, its fence and the digest of its signed envelope, and leaves it consumed; after
  any further requests, every other consumption for the job, whoever asks and whatever it presents, is refused.
\<close>

theorem contract_consumed_at_most_once:
  assumes "inj U" and "tables_ok U s"
    and "consume ac iss env ck rq jid cb contract_id attempt_id fence sha s = (Inr ans, s1)"
    and "(act U)\<^sup>*\<^sup>* s1 s2"
    and "consume ac' iss' env' ck' rq' jid cb' contract_id' attempt_id' fence' sha' s2 = (r, s3)"
  shows "(\<exists>c. job_contract jid s = Some c \<and> \<not> con_consumed c \<and> con_id c = contract_id \<and> con_attempt_id c = attempt_id
      \<and> con_fence c = fence \<and> digest (iss_crypto iss) (con_envelope c) = Inr sha
      \<and> job_contract jid s2 = Some (c\<lparr>con_consumed := True\<rparr>))
    \<and> (\<exists>e. r = Inl e)"
proof -
  obtain c where c: "job_contract jid s = Some c" "\<not> con_consumed c" "con_id c = contract_id" "con_attempt_id c = attempt_id"
      "con_fence c = fence" "digest (iss_crypto iss) (con_envelope c) = Inr sha" "job_contract jid s1 = Some (c\<lparr>con_consumed := True\<rparr>)"
    using consume_ok [OF assms(3)] by blast
  have "tables_ok U s1" using evolution_ok [OF consume_evolution [OF assms(1-3)] assms(1,2)] .
  then obtain d where d: "job_contract jid s2 = Some d" "contract_move (c\<lparr>con_consumed := True\<rparr>) d"
    using contract_history [OF acts_issuer_history [OF assms(4,1)] c(7)] by blast
  then have d': "d = c\<lparr>con_consumed := True\<rparr>" by (auto simp: contract_move_def)
  have "\<exists>e. r = Inl e"
  proof (cases r)
    case (Inr ans')
    with consume_ok [of ac' iss' env' ck' rq' jid cb' contract_id' attempt_id' fence' sha' s2 ans' s3] assms(5) d(1) d' show ?thesis by auto
  qed simp
  with c d(1) d' show ?thesis by blast
qed

theorem contract_consumed_at_most_once_witness:
  "\<exists>ans s1 c e s2. consume example_auth ex_issuer ex_env ex_clocks example_key_request ''u'' ex_control ''uu'' ''uuu'' 1 ex_hash (ex_running ex_envelope) = (Inr ans, s1)
     \<and> job_contract ''u'' s1 = Some c \<and> con_consumed c
     \<and> consume example_auth ex_issuer ex_env ex_clocks example_key_request ''u'' ex_control ''uu'' ''uuu'' 1 ex_hash s1 = (Inl e, s2)"
proof -
  let ?c = "consume example_auth ex_issuer ex_env ex_clocks example_key_request ''u'' ex_control ''uu'' ''uuu'' 1 ex_hash"
  obtain ans s1 where 1: "?c (ex_running ex_envelope) = (Inr ans, s1)" using ex_consumed by blast
  obtain r s2 where 2: "?c s1 = (r, s2)" by (cases "?c s1")
  from contract_consumed_at_most_once [OF inj_ex ex_running_ok 1 rtranclp.rtrancl_refl 2] 1 2 show ?thesis by fastforce
qed

text \<open>
  C10: Approvals are not overdrawn.  Through any sequence of requests, of operators and runners, by the job
  endpoints and by the issuer, the contracts issued under an approval carry exactly the ordinals 1, 2, \<dots> up
  to its counter, the counter stays within the number of executions the operator signed, at most 1000, no
  job ever gets a second contract and every contract belongs to a registered approval.
\<close>

theorem contracts_within_signed_allowance:
  assumes "inj U" and "tables_ok U s" and "issuer_ok U s" and "(act U)\<^sup>*\<^sup>* s s'"
  shows "distinct (map con_job_id (managed_contracts s'))
    \<and> (\<forall>c \<in> set (managed_contracts s'). \<exists>a \<in> set (managed_approvals s'). con_approval_record_id c = apv_id a)
    \<and> (\<forall>a \<in> set (managed_approvals s'). ordinals (apv_id a) s' = [1..apv_issued a]
        \<and> apv_issued a \<le> allowance_of a \<and> allowance_of a \<le> 1000)"
proof -
  have "issuer_ok U s'" by (rule issuer_ok_history [OF acts_issuer_history [OF assms(4,1,2)] assms(1,3)])
  then show ?thesis by (auto simp: issuer_ok_def contracts_ok_def approval_ok_def)
qed

theorem contracts_within_signed_allowance_witness:
  "\<exists>mc s'. claim example_auth ex_issuer ex_env ex_clocks ''tok'' example_key_request ''u'' ex_claim (ex_board ex_envelope) = (Inr mc, s')
     \<and> (\<exists>a. get_approval ''issuer:a1'' s' = Some a \<and> ordinals (apv_id a) s' = [1..apv_issued a] \<and> apv_issued a \<le> allowance_of a)"
proof -
  obtain mc s' where c: "claim example_auth ex_issuer ex_env ex_clocks ''tok'' example_key_request ''u'' ex_claim (ex_board ex_envelope) = (Inr mc, s')"
    using ex_claimed by blast
  have "claim_control_ok ex_claim" by code_simp
  then have a: "(act (uuid ex_env))\<^sup>*\<^sup>* (ex_board ex_envelope) s'" using c by (intro r_into_rtranclp a_claim [OF refl])
  have "get_approval ''issuer:a1'' (ex_board v) = Some (ex_approval_row v)" for v by code_simp
  then obtain b where b: "get_approval ''issuer:a1'' s' = Some b"
    using approval_history [OF acts_issuer_history [OF a inj_ex ex_board_ok(1)]] by blast
  then have "b \<in> set (managed_approvals s')" by (auto simp: get_approval_def dest: by_key_Some)
  with contracts_within_signed_allowance [OF inj_ex ex_board_ok a] b c show ?thesis by blast
qed

text \<open>
  C15: Trusted time does not go back.  Once an operation has observed a time, no sequence of requests, failing
  ones included, lowers the stored time, and an operation whose own clocks read an earlier time is refused
  before it authenticates anybody and writes nothing.
\<close>

theorem trusted_clock_never_goes_back:
  assumes "inj U" and "tables_ok U s" and "(act U)\<^sup>*\<^sup>* s s'" and "clock_at_least t s"
    and "stamp (wall ck 0) = Inr shown" and "issuer_now ck 1 = Inr u" and "u < t"
  shows "clock_at_least t s' \<and> operation ck body s' = (Inl (WireRefused ''clock_rollback''), s')"
proof -
  have c: "clock_at_least t s'" by (rule clock_history [OF acts_issuer_history [OF assms(3,1,2)] assms(4)])
  then obtain r where r: "get_clock s' = Some r" "u < clk_observed r"
    using assms(7) by (auto simp: clock_at_least_def split: option.splits)
  then have "observe ck 1 s' = Inl (WireRefused ''clock_rollback'')"
    using assms(6) by (simp add: observe_def wire_require_def requireE_def)
  with c show ?thesis by (simp add: operation_def assms(5))
qed

theorem trusted_clock_never_goes_back_witness:
  "\<exists>ck s'. s' = snd (revoke ex_auth ex_env ex_clocks ex_session_request ''u'' (ex_seen (ex_board VNone)))
     \<and> clock_at_least (instant example_clock) s' \<and> operation ck (\<lambda>s. (Inr (), s)) s' = (Inl (WireRefused ''clock_rollback''), s')"
proof -
  let ?ck = "ex_clocks\<lparr>wall := \<lambda>i. utc 0\<rparr>"
  let ?r = "revoke ex_auth ex_env ex_clocks ex_session_request ''u'' (ex_seen (ex_board VNone))"
  have ok: "tables_ok (uuid ex_env) (ex_seen (ex_board VNone))"
    using ex_board_ok(1) [of VNone] by (simp add: ex_seen_def tables_ok_def attempts_open_def)
  have a: "(act (uuid ex_env))\<^sup>*\<^sup>* (ex_seen (ex_board VNone)) (snd ?r)"
    by (rule r_into_rtranclp, rule a_revoke [OF prod.collapse [symmetric]])
  have c: "clock_at_least (instant example_clock) (ex_seen (ex_board VNone))"
    by (simp add: clock_at_least_def ex_seen_def get_clock_def by_key_def)
  have w: "stamp (wall ?ck 0) = Inr ''1970-01-01T00:00:00Z''" and n: "issuer_now ?ck 1 = Inr 0" and l: "0 < instant example_clock" by code_simp+
  from trusted_clock_never_goes_back [OF inj_ex ok a c w n l] show ?thesis by blast
qed

section \<open>Revocation\<close>

lemma revoked_ordinals:
  assumes "issuer_micro U s s'" and "get_approval k s = Some a" and "apv_revoked a"
  shows "ordinals k s' = ordinals k s"
  using assms(1)
proof cases
  case (enter_contract b c n m)
  then have "apv_id b \<noteq> k" using assms(2,3) by auto
  then show ?thesis using enter_contract by (simp add: ordinals_def add_contract_def set_approval_def)
next
  case (consume_contract i)
  have "map con_ordinal (filter (\<lambda>c. con_approval_record_id c = k) (amend_key con_id i (\<lambda>r. r\<lparr>con_consumed := True\<rparr>) cs))
      = map con_ordinal (filter (\<lambda>c. con_approval_record_id c = k) cs)" for cs
    by (induction cs) (auto simp: amend_key_def amend_def)
  then show ?thesis unfolding consume_contract by (simp add: ordinals_def set_contract_def)
qed (simp_all add: ordinals_def set_clock_def add_approval_def set_approval_def)

lemma revoked_history:
  "issuer_history U s s' \<Longrightarrow> get_approval k s = Some a \<Longrightarrow> apv_revoked a \<Longrightarrow>
     ordinals k s' = ordinals k s \<and> (\<exists>b. get_approval k s' = Some b \<and> apv_revoked b)"
proof (induction rule: rtranclp_induct)
  case (step y z)
  then obtain b where b: "get_approval k y = Some b" "apv_revoked b" "ordinals k y = ordinals k s" by blast
  with revoked_ordinals [OF step.hyps(2) b(1,2)] approval_micro [OF step.hyps(2) b(1)] show ?case
    by (auto simp: approval_move_def)
qed simp

lemma revoked_permission:
  assumes "job_managed_approval_id j = Some k" and "get_approval k s = Some a" and "apv_revoked a"
  shows "claim_permission iss env ck i rq j body sts s = Inl (WireRefused ''approval_unavailable'')"
  using assms by (simp add: claim_permission_def job_approval_def wire_require_def requireE_def)

lemma live_control_revoked:
  assumes l: "live_control iss env ck rq jid cb contract_id attempt_id fence renew sha user s = Inr (ans, s')"
    and "get_job jid s = Some j" and "job_managed_approval_id j = Some k" and "get_approval k s = Some a"
  shows "\<not> apv_revoked a"
  using l
proof (rule live_control_parts)
  fix i b p assume "get_job jid s = Some i" "claim_permission iss env ck 2 rq i cb [''running''] s = Inr (b, p)"
  with assms(2) have "claim_permission iss env ck 2 rq j cb [''running''] s = Inr (b, p)" by simp
  then show "\<not> apv_revoked a" by (auto simp: revoked_permission [OF assms(3,4)])
qed

lemma claimed_revoked:
  assumes l: "claimed iss env ck token rq jid body user s = Inr (mc, s')"
    and "get_job jid s = Some j" and "job_managed_approval_id j = Some k" and "get_approval k s = Some a"
  shows "\<not> apv_revoked a"
  using l
proof (rule claimed_parts)
  fix i b p assume "lock_job jid user s = Inr i" "claim_permission iss env ck 2 rq i body [''pending''] s = Inr (b, p)"
  with assms(2) lock_job_get have "claim_permission iss env ck 2 rq j body [''pending''] s = Inr (b, p)" by fastforce
  then show "\<not> apv_revoked a" by (auto simp: revoked_permission [OF assms(3,4)])
qed

lemma control_revoked:
  assumes c: "operation ck (authenticated (get_current_user ac env rq)
      (live_control iss env ck rq jid cb contract_id attempt_id fence renew sha)) s = (Inr ans, s')"
    and "get_job jid s = Some j" and "job_managed_approval_id j = Some k" and "get_approval k s = Some a"
  shows "\<not> apv_revoked a"
  using c
proof (rule live_operated)
  fix user s1 assume k: "rows_kept s s1" and l: "live_control iss env ck rq jid cb contract_id attempt_id fence renew sha user s1 = Inr (ans, s')"
  show ?thesis by (rule live_control_revoked [OF l]) (use assms(2-4) in \<open>simp_all add: rows_kept_lookup [OF k]\<close>)
qed

lemma claim_revoked:
  assumes c: "claim ac iss env ck token rq jid body s = (Inr mc, s')"
    and "get_job jid s = Some j" and "job_managed_approval_id j = Some k" and "get_approval k s = Some a"
  shows "\<not> apv_revoked a"
  using c unfolding claim_def
proof (rule operated)
  fix user s1 assume k: "rows_kept s s1" and l: "claimed iss env ck token rq jid body user s1 = Inr (mc, s')"
  show ?thesis by (rule claimed_revoked [OF l]) (use assms(2-4) in \<open>simp_all add: rows_kept_lookup [OF k]\<close>)
qed (rule current_user_untouched)

lemma revoke_ok:
  assumes "revoke ac env ck rq jid s = (Inr (), s')"
  shows "\<exists>j k a b. get_job jid s = Some j \<and> job_managed_approval_id j = Some k \<and> get_approval k s = Some a \<and>
    get_approval k s' = Some b \<and> apv_revoked b"
  using assms unfolding revoke_def
proof (rule operated)
  fix user s1 assume k: "rows_kept s s1" and r: "revoked ck jid user s1 = Inr ((), s')"
  obtain j where j: "lock_job jid user s1 = Inr j" using r by (auto simp: revoked_def exn_simps)
  then obtain a s2 where a: "job_approval j s1 = Some a" "locked_time ck 2 s1 = Inr s2"
      "s' = set_approval (apv_id a) (\<lambda>r. r\<lparr>apv_revoked := True\<rparr>) s2"
    using r by (auto simp: revoked_def exn_simps split: option.splits)
  then obtain i where i: "job_managed_approval_id j = Some i" "get_approval i s1 = Some a" by (auto simp: job_approval_def split: option.splits)
  have id: "apv_id a = i" using approvals.get_key [OF i(2)] .
  have "get_approval i s2 = Some a" using i(2) locked_time_frame [OF a(2)] by (simp add: get_approval_def)
  then have "get_approval i s' = Some (a\<lparr>apv_revoked := True\<rparr>)" using a(3) id by (simp add: approvals.get_upd)
  then show ?thesis using lock_job_get [OF j] i by (auto simp: rows_kept_lookup [OF k])
qed (rule operator_untouched)

text \<open>
  C13: Revocation is final.  Revoking finds the approval the job rests on and marks it; after any further
  requests it is still revoked and no contract has been issued under it since, and while a job rests on it
  the job can be neither claimed nor checked, renewed or consumed by any runner.
\<close>

theorem revocation_is_final:
  assumes "inj U" and "tables_ok U s" and "revoke ac env ck rq jid s = (Inr (), s1)" and "(act U)\<^sup>*\<^sup>* s1 s2"
  shows "\<exists>k a. get_approval k s2 = Some a \<and> apv_revoked a \<and> ordinals k s2 = ordinals k s1
    \<and> (\<exists>j. get_job jid s = Some j \<and> job_managed_approval_id j = Some k)
    \<and> (\<forall>i j iss ac env ck token rq cb cid aid fence sha body. get_job i s2 = Some j \<and> job_managed_approval_id j = Some k \<longrightarrow>
        isl (fst (claim ac iss env ck token rq i body s2)) \<and> isl (fst (current ac iss env ck rq i cb cid aid fence s2))
        \<and> isl (fst (refresh ac iss env ck rq i cb cid aid fence s2)) \<and> isl (fst (consume ac iss env ck rq i cb cid aid fence sha s2)))"
proof -
  obtain j k b where k: "get_job jid s = Some j" "job_managed_approval_id j = Some k" "get_approval k s1 = Some b" "apv_revoked b"
    using revoke_ok [OF assms(3)] by blast
  have ok: "tables_ok U s1" using evolution_ok [OF revoke_evolution [OF assms(1-3)] assms(1,2)] .
  obtain a where a: "get_approval k s2 = Some a" "apv_revoked a" "ordinals k s2 = ordinals k s1"
    using revoked_history [OF acts_issuer_history [OF assms(4,1) ok] k(3,4)] by blast
  have "isl (fst (claim ac iss env ck token rq i body s2))" if "get_job i s2 = Some j" "job_managed_approval_id j = Some k"
    for i j iss ac env ck token rq body
    using claim_revoked [OF _ that a(1)] a(2) by (metis prod.collapse sum.collapse(2))
  moreover have c: "isl (fst (operation ck (authenticated (get_current_user ac env rq)
      (live_control iss env ck rq i cb cid aid fence renew sha)) s2))" if "get_job i s2 = Some j" "job_managed_approval_id j = Some k"
    for i j iss ac env ck rq cb cid aid fence renew sha
    using control_revoked [OF _ that a(1)] a(2) by (metis prod.collapse sum.collapse(2))
  moreover have "isl (fst (consume ac iss env ck rq i cb cid aid fence sha s2))" if "get_job i s2 = Some j" "job_managed_approval_id j = Some k"
    for i j iss ac env ck rq cb cid aid fence sha
    using c [OF that] by (simp add: consume_def split: sum.splits)
  ultimately show ?thesis unfolding current_def refresh_def using a k(1,2)
    by (intro exI [of _ k] exI [of _ a] conjI allI impI) (blast | simp)+
qed

theorem revocation_is_final_witness:
  "\<exists>s1 k a. revoke ex_auth ex_env ex_clocks ex_session_request ''u'' (ex_board ex_envelope) = (Inr (), s1)
     \<and> get_approval k s1 = Some a \<and> apv_revoked a
     \<and> (\<exists>j. get_job ''u'' (ex_board ex_envelope) = Some j \<and> job_managed_approval_id j = Some k)"
proof -
  obtain s1 where r: "revoke ex_auth ex_env ex_clocks ex_session_request ''u'' (ex_board ex_envelope) = (Inr (), s1)" using ex_revoked by blast
  from revocation_is_final [OF inj_ex ex_board_ok(1) r rtranclp.rtrancl_refl] r show ?thesis by blast
qed

section \<open>Claims rest on standing authority\<close>

lemma projected_context:
  assumes "project_current_authority env jid aid actor plan al sts s = Inr p" and "get_job jid s = Some j"
  shows "\<exists>e. get_engagement (job_program_id j) s = Some e \<and> eng_stop_work_at e = None \<and> eng_owner_github_id e = actor
    \<and> map_of (pj_context p) ''runner_id'' = Some (VStr (al_runner_id al)) \<and> map_of (pj_context p) ''job_id'' = Some (VStr (job_id j))
    \<and> map_of (pj_context p) ''engagement_id'' = Some (VStr (eng_id e))
    \<and> map_of (pj_context p) ''authority_revision'' = Some (VInt (al_revision al))
    \<and> (\<exists>b. serializable plan \<and> b = dumps plan \<and> map_of (pj_context p) ''plan_sha256'' = Some (VStr (sha256 env b)))
    \<and> (\<exists>c. stored_case (case_ref (as_dict (job_config j))) (eng_id e) s = Some c \<and> pj_case p = tc_spec c)"
  using assms
  by (auto simp: project_current_authority_def project_context_def reviewed_case_def nm_require_def nm_digest_def exn_simps Let_def
      split: option.splits if_splits)


lemma reprojected_context:
  assumes "reproject iss env j actor enr aid plan permission revision sts s = Inr p" and "get_job (job_id j) s = Some j"
  shows "\<exists>e. get_engagement (job_program_id j) s = Some e \<and> eng_stop_work_at e = None \<and> eng_owner_github_id e = actor
    \<and> eng_managed_authority_revision e = revision
    \<and> dget (pj_context p) ''runner_id'' = VStr (enr_runner_id enr) \<and> dget (pj_context p) ''job_id'' = VStr (job_id j)
    \<and> dget (pj_context p) ''engagement_id'' = VStr (eng_id e)
    \<and> dget (pj_context p) ''authority_revision'' = VInt revision
    \<and> dget (pj_context p) ''plan_sha256'' = VStr (sha256 env (dumps plan))
    \<and> (\<exists>c. stored_case (case_ref (as_dict (job_config j))) (eng_id e) s = Some c \<and> pj_case p = tc_spec c)"
proof -
  obtain al q sha where q: "permission_allowance (enr_runner_id enr) revision permission = Inr al"
      "project_current_authority env (job_id j) aid actor plan al sts s = Inr q" "pj_case p = pj_case q"
      "pj_context p = dset (pj_context q) ''authority_sha256'' (VStr sha)"
      "\<exists>e. get_engagement (job_program_id j) s = Some e \<and> revision = eng_managed_authority_revision e"
    using assms(1) by (auto simp: reproject_def exn_simps Let_def)
  have al: "al_runner_id al = enr_runner_id enr" "al_revision al = revision"
    using q(1) by (auto simp: permission_allowance_def exn_simps)
  from projected_context [OF q(2) assms(2)] q(3-5) al show ?thesis
    by (auto simp: dget_def map_of_dset)
qed

lemma enrollment_row:
  "issuer_enrollment iss k owner s = Inr (enr, key) \<Longrightarrow> get_enrollment k s = Some enr \<and> \<not> enr_revoked enr
     \<and> enr_owner enr = owner \<and> enr_origin enr = iss_origin iss"
  by (auto simp: issuer_enrollment_def exn_simps split: option.splits)

definition standing :: "issuer \<Rightarrow> env \<Rightarrow> request \<Rightarrow> string \<Rightarrow> ScanJob \<Rightarrow> ManagedApproval \<Rightarrow> pydict \<Rightarrow> db \<Rightarrow> bool" where
  "standing iss env rq runner j a context s =
     (job_managed_approval_id j = Some (apv_id a) \<and> get_approval (apv_id a) s = Some a \<and> \<not> apv_revoked a
      \<and> apv_job_id a = job_id j \<and> apv_engagement_id a = job_program_id j
      \<and> (\<exists>e. get_engagement (job_program_id j) s = Some e \<and> eng_stop_work_at e = None \<and> eng_owner_github_id e = apv_owner a
          \<and> eng_managed_authority_revision e = apv_revision a)
      \<and> (\<exists>enr. get_enrollment (apv_enrollment_id a) s = Some enr \<and> \<not> enr_revoked enr \<and> enr_owner enr = apv_owner a
          \<and> enr_runner_id enr = runner \<and> principal env rq = Inr (enr_principal_hash enr))
      \<and> dget context ''runner_id'' = VStr runner \<and> dget context ''job_id'' = VStr (job_id j)
      \<and> dget context ''engagement_id'' = VStr (job_program_id j) \<and> dget context ''authority_revision'' = VInt (apv_revision a)
      \<and> dget context ''plan_sha256'' = VStr (sha256 env (dumps (apv_plan a)))
      \<and> (\<exists>t receipt. approval (iss_crypto iss) (iss_wire iss) (apv_envelope a) (VDict context) (apv_owner a) (utc t) = Inr receipt))"

lemma permission_stands:
  assumes c: "claim_permission iss env ck i rq j body sts s = Inr (a, p)" and j: "get_job (job_id j) s = Some j"
  shows "standing iss env rq (cc_runner_id body) j a (pj_context p) s"
    and "\<exists>c. stored_case (case_ref (as_dict (job_config j))) (job_program_id j) s = Some c \<and> pj_case p = tc_spec c"
proof -
  note st = claim_permission_standing [OF c j]
  obtain enr key t receipt where e: "apv_job_id a = job_id j" "apv_engagement_id a = job_program_id j"
      "issuer_enrollment iss (apv_enrollment_id a) (apv_owner a) s = Inr (enr, key)" "enrolled_principal iss env rq body enr key"
      "reproject iss env j (apv_owner a) enr (apv_authorization_id a) (apv_plan a) (apv_context a) (apv_revision a) sts s = Inr p"
      "approval (iss_crypto iss) (iss_wire iss) (apv_envelope a) (VDict (pj_context p)) (apv_owner a) (utc t) = Inr receipt"
    using c by (auto simp: claim_permission_def exn_simps split: option.splits)
  obtain g where g: "get_engagement (job_program_id j) s = Some g" "eng_stop_work_at g = None" "eng_owner_github_id g = apv_owner a"
    "eng_managed_authority_revision g = apv_revision a" "dget (pj_context p) ''runner_id'' = VStr (enr_runner_id enr)"
    "dget (pj_context p) ''job_id'' = VStr (job_id j)" "dget (pj_context p) ''engagement_id'' = VStr (eng_id g)"
    "dget (pj_context p) ''authority_revision'' = VInt (apv_revision a)"
    "dget (pj_context p) ''plan_sha256'' = VStr (sha256 env (dumps (apv_plan a)))"
    "\<exists>c. stored_case (case_ref (as_dict (job_config j))) (eng_id g) s = Some c \<and> pj_case p = tc_spec c"
    using reprojected_context [OF e(5) j] by blast
  have id: "eng_id g = job_program_id j" using engagements.get_key [OF g(1)] .
  show "\<exists>c. stored_case (case_ref (as_dict (job_config j))) (job_program_id j) s = Some c \<and> pj_case p = tc_spec c"
    using g(10) id by simp
  have r: "enr_runner_id enr = cc_runner_id body" "principal env rq = Inr (enr_principal_hash enr)"
    using e(4) by (simp_all add: enrolled_principal_def)
  show "standing iss env rq (cc_runner_id body) j a (pj_context p) s"
    unfolding standing_def using st e(1,2,6) g enrollment_row [OF e(3)] r id by auto
qed

lemma standing_rows: "rows_kept s s' \<Longrightarrow> standing iss env rq runner j a context s' = standing iss env rq runner j a context s"
  by (simp add: standing_def rows_kept_lookup)

lemma take_managed_rows:
  assumes t: "take_managed env ck token rq user j a spec body s = Inr (row, s')" and j: "get_job (job_id j) s = Some j"
  shows "\<exists>u. get_job (job_id j) s' = Some (claimed_job u spec j)" and "get_execution (job_id j) s' = Some row"
proof -
  obtain e tr e1 dr e2 u where i: "get_engagement (job_program_id j) s = Some e"
      "issue (env\<lparr>now := control_clock ck 0\<rparr>) rq token (job_id j) user body tr dr (started u j spec e e2 s) = Inr (row, s')"
    using take_managed_issued [OF t] by blast
  note r = issue_row [OF i(2)]
  show "get_execution (job_id j) s' = Some row"
    using r executions.get_add [of row "started u j spec e e2 s" "job_id j"] by auto
  have "get_job (job_id j) s' = get_job (job_id j) (started u j spec e e2 s)"
    using r by (simp add: get_job_def add_execution_def)
  then show "\<exists>u. get_job (job_id j) s' = Some (claimed_job u spec j)" using started_rows(1) [OF j i(1)] by auto
qed

lemma claimed_effect:
  assumes c: "claimed iss env ck token rq jid body user s = Inr (mc, s')"
  shows "\<exists>j a context spec t. get_job jid s = Some j \<and> job_status j = ''pending''
    \<and> standing iss env rq (cc_runner_id body) j a context s
    \<and> stored_case (case_ref (as_dict (job_config j))) (job_program_id j) s = Some spec
    \<and> get_job jid s' = Some (claimed_job t (tc_spec spec) j)
    \<and> get_execution jid s' = Some (mc_execution mc)
    \<and> (\<exists>c. managed_contracts s' = managed_contracts s @ [c] \<and> con_job_id c = jid \<and> con_approval_record_id c = apv_id a
        \<and> con_ordinal c = apv_issued a + 1 \<and> con_envelope c = mc_contract mc \<and> \<not> con_consumed c
        \<and> jid \<notin> con_job_id ` set (managed_contracts s))"
  using c
proof (rule claimed_parts)
  fix j a p s1 row s2 envelope s3
  assume l: "lock_job jid user s = Inr j" and pend: "job_status j = ''pending''"
    and perm: "claim_permission iss env ck 2 rq j body [''pending''] s = Inr (a, p)"
    and t1: "locked_time ck 3 s = Inr s1" and tk: "take_managed env ck token rq user j a (pj_case p) body s1 = Inr (row, s2)"
    and i: "issue_contract iss env ck jid a p s2 = Inr (envelope, s3)" and t2: "locked_time ck 6 s3 = Inr s'"
    and m: "mc_execution mc = row" "mc_contract mc = envelope"
  have gj: "get_job (job_id j) s = Some j" and id: "job_id j = jid" using lock_job_get [OF l] jobs.get_key by auto
  note f1 = locked_time_frame [OF t1] and f2 = locked_time_frame [OF t2]
  have gj1: "get_job (job_id j) s1 = Some j" using gj f1 by (simp add: get_job_def)
  obtain u where u: "get_job jid s2 = Some (claimed_job u (pj_case p) j)" using take_managed_rows(1) [OF tk gj1] id by auto
  have x: "get_execution jid s2 = Some row" using take_managed_rows(2) [OF tk gj1] id by simp
  have c2: "managed_contracts s2 = managed_contracts s"
  proof -
    obtain e tr e1 dr e2 u where "issue (env\<lparr>now := control_clock ck 0\<rparr>) rq token (job_id j) user body tr dr (started u j (pj_case p) e e2 s1) = Inr (row, s2)"
      using take_managed_issued [OF tk] by blast
    from conjunct1 [OF issue_row [OF this]] f1 show ?thesis by (simp add: started_def add_execution_def set_engagement_def set_job_def)
  qed
  obtain c where c: "s3 = add_contract c (set_approval (apv_id a) (\<lambda>r. r\<lparr>apv_issued := apv_issued a + 1\<rparr>) (s2\<lparr>uuids_drawn := uuids_drawn s2 + 2\<rparr>))"
    "con_job_id c = jid" "con_approval_record_id c = apv_id a" "con_ordinal c = apv_issued a + 1" "\<not> con_consumed c"
    "con_envelope c = envelope" "jid \<notin> con_job_id ` set (managed_contracts s2)"
    using issue_contract_row [OF i] by blast
  have s3: "scan_jobs s' = scan_jobs s2" "job_executions s' = job_executions s2" "managed_contracts s' = managed_contracts s2 @ [c]"
    using f2 c(1) by (simp_all add: add_contract_def set_approval_def)
  have post: "get_job jid s' = Some (claimed_job u (pj_case p) j)" "get_execution jid s' = Some row"
    using s3(1,2) u x by (simp_all add: get_job_def get_execution_def)
  obtain spec where spec: "stored_case (case_ref (as_dict (job_config j))) (job_program_id j) s = Some spec" "pj_case p = tc_spec spec"
    using permission_stands(2) [OF perm gj] by blast
  have "managed_contracts s' = managed_contracts s @ [c]" using s3(3) c2 by simp
  then show ?thesis
    using lock_job_get [OF l] pend permission_stands(1) [OF perm gj] spec post c(2-7) m unfolding c2
    by (intro exI [of _ j] exI [of _ a] exI [of _ "pj_context p"] exI [of _ spec] exI [of _ u]) auto
qed



section \<open>Leases\<close>

lemma whole_seconds_le: "0 < whole_seconds d \<Longrightarrow> seconds (whole_seconds d) \<le> d"
  by (auto simp: whole_seconds_def split: if_splits)

lemma lease_within:
  assumes "0 < min n (whole_seconds (m - t))"
  shows "t + seconds (min n (whole_seconds (m - t))) \<le> m"
proof -
  have "0 < whole_seconds (m - t)" using assms by simp
  then have "seconds (whole_seconds (m - t)) \<le> m - t" by (rule whole_seconds_le)
  moreover have "seconds (min n (whole_seconds (m - t))) \<le> seconds (whole_seconds (m - t))" by simp
  ultimately show ?thesis by simp
qed

text \<open>Everything an accepted lease lies within.\<close>

definition within_authority :: "pyval \<Rightarrow> int \<Rightarrow> int \<Rightarrow> int \<Rightarrow> bool" where
  "within_authority permission begun duration e =
     (\<exists>t1 t2 grants gs cs m. wire_time permission ''expires_at'' = Inr t1 \<and> wire_time permission ''testing_end'' = Inr t2
        \<and> vindex permission ''credential_grants'' = Inr grants \<and> iter_val grants = Inr gs
        \<and> mapE (\<lambda>g. wire_time g ''expires_at'') gs = Inr cs \<and> int_field permission ''max_duration_seconds'' = Inr m
        \<and> e \<le> t1 \<and> e \<le> t2 \<and> (\<forall>c \<in> set cs. e \<le> c) \<and> e \<le> begun + seconds (min duration m))"

lemma renew_lease_bounds:
  assumes r: "renew_lease ck j x permission s = Inr ((lease, shown), s')" and x: "get_execution (exe_job_id x) s = Some x"
  shows "\<exists>e t. job_started_at j = Some t \<and> 0 < lease \<and> lease \<le> LEASE_SECONDS
    \<and> get_execution (exe_job_id x) s' = Some (x\<lparr>exe_expires_at := e\<rparr>) \<and> stamp (utc e) = Inr shown
    \<and> within_authority permission t (exe_duration_seconds x) e"
proof -
  obtain t begun cs e where t: "job_started_at j = Some begun" "ceilings permission begun (exe_duration_seconds x) = Inr cs"
      "lease = min LEASE_SECONDS (whole_seconds (Min (set cs) - t))" "0 < lease" "e = t + seconds lease"
      "locked_time ck 6 (set_execution (exe_job_id x) (\<lambda>r. r\<lparr>exe_expires_at := e\<rparr>) s) = Inr s'" "stamp (utc e) = Inr shown"
    using r by (auto simp: renew_lease_def exn_simps Let_def split: option.splits)
  have le: "e \<le> Min (set cs)" using lease_within [of LEASE_SECONDS "Min (set cs)" t] t(3-5) by simp
  have "within_authority permission begun (exe_duration_seconds x) e"
    using t(2) le unfolding ceilings_def within_authority_def by (auto simp: exn_simps)
  moreover have "get_execution (exe_job_id x) s' = Some (x\<lparr>exe_expires_at := e\<rparr>)"
    using locked_time_frame [OF t(6)] x executions.get_upd [of "\<lambda>r. r\<lparr>exe_expires_at := e\<rparr>" "exe_job_id x" "exe_job_id x" s]
    by (simp add: get_execution_def)
  ultimately show ?thesis using t by auto
qed

lemma owned_binding:
  assumes "owned env rq jid user cb s = Inr x"
  shows "get_execution jid s = Some x" and "exe_runner_id x = cc_runner_id cb" and "exe_token_hash x = sha256 env (cc_token cb)"
    and "principal env rq = Inr (exe_principal_hash x)"
  using assms by (auto simp: owned_def exn_simps split: option.splits if_splits)



end
