(* ===== verification/Settlement_Safety.thy ===== *)
theory Settlement_Safety
  imports Managed_Safety
begin

text \<open>
  What the settlement protocol promises over every sequence of requests: a managed attempt gets one outcome,
  once; success needs standing authority at the moment it is recorded; and an observer that is told of no
  claim is told so of a job nothing was issued for.
\<close>

section \<open>Settlements\<close>

text \<open>A request that settled the managed attempt of job \<open>jid\<close> with an outcome, or was answered again for it.\<close>

inductive settles :: "string \<Rightarrow> string \<Rightarrow> db \<Rightarrow> db \<Rightarrow> bool" where
  by_completion: "finish_managed ac iss env ck rq jid cb k t f sha receipt outcome True s = (Inr v, s') \<Longrightarrow> settles jid outcome s s'"
| by_stop: "report_stop ac iss env ck rq jid cb k t f sha outcome cause True s = (Inr v, s') \<Longrightarrow> settles jid outcome s s'"

lemma settles_act: "settles jid outcome s s' \<Longrightarrow> act U s s'"
  by (induction rule: settles.induct) (auto intro: a_finish a_report)

lemma fenced_operated:
  assumes "fenced ac env ck rq fence body s = (Inr v, s')"
  obtains user s1 where "rows_kept s s1" "body user s1 = Inr (v, s')"
proof -
  have o: "operation ck (\<lambda>s. case integer (VInt fence) 1 MAX_INTEGER of
       Inl e \<Rightarrow> (Inl e, s) | Inr _ \<Rightarrow> authenticated (get_current_user ac env rq) body s) s = (Inr v, s')"
    using assms by (simp add: fenced_def)
  show thesis
  proof (cases "integer (VInt fence) 1 MAX_INTEGER")
    case Inl then show thesis using o by (auto simp: operation_def split: sum.splits)
  next
    case Inr
    then have "operation ck (authenticated (get_current_user ac env rq) body) s = (Inr v, s')" using o by simp
    then show thesis by (rule operated) (auto intro: current_user_untouched that)
  qed
qed

lemma finish_managed_operated:
  assumes "finish_managed ac iss env ck rq jid cb k t f sha receipt outcome confirmed s = (Inr v, s')"
  obtains user s1 where "rows_kept s s1" "outcome \<in> set FINAL_STATES"
    "finish_result iss env ck rq jid cb k t f sha receipt outcome user s1 = Inr (v, s')"
proof -
  have o: "outcome \<in> {''completed'', ''failed'', ''cancelled''}"
    and "fenced ac env ck rq f (finish_result iss env ck rq jid cb k t f sha receipt outcome) s = (Inr v, s')"
    using assms by (auto simp: finish_managed_def split: if_splits)
  with that show thesis using outcomes_final by (auto elim!: fenced_operated)
qed

lemma report_stop_operated:
  assumes "report_stop ac iss env ck rq jid cb k t f sha outcome cause confirmed s = (Inr v, s')"
  obtains user s1 where "rows_kept s s1" "outcome \<in> set FINAL_STATES"
    "report_body iss env ck rq jid cb k t f sha outcome cause user s1 = Inr (v, s')"
proof -
  have o: "outcome = cause_outcome cause"
    and "fenced ac env ck rq f (report_body iss env ck rq jid cb k t f sha outcome cause) s = (Inr v, s')"
    using assms by (auto simp: report_stop_def split: if_splits)
  with that show thesis using cause_outcome_final by (auto elim!: fenced_operated)
qed

text \<open>What a settlement leaves: the outcome in the attempt, the job closed, the capacity free.\<close>

definition settled :: "string \<Rightarrow> string \<Rightarrow> db \<Rightarrow> bool" where
  "settled jid outcome s = (\<exists>x. get_execution jid s = Some x \<and> exe_state x = outcome \<and> outcome \<in> set FINAL_STATES \<and> \<not> exe_capacity_reserved x)"

lemma ended:
  assumes "get_execution jid r = Some x" and "outcome \<in> set FINAL_STATES" and "locked_time ck i (end_attempt jid outcome g r) = Inr s'"
  shows "settled jid outcome s'"
  using end_attempt_execution [OF assms(1), of outcome g] locked_time_frame [OF assms(3)] assms(2)
  by (simp add: settled_def get_execution_def)

lemma settles_effect:
  assumes "settles jid outcome s s'"
  shows "settled jid outcome s' \<and> (\<exists>x. get_execution jid s = Some x
    \<and> (if exe_state x \<in> set FINAL_STATES then exe_state x = outcome \<and> rows_kept s s' else exe_capacity_reserved x))"
  using assms
proof cases
  case (by_completion ac iss env ck rq cb k t f sha receipt v)
  then obtain user s1 where k: "rows_kept s s1" and o: "outcome \<in> set FINAL_STATES"
    and f: "finish_result iss env ck rq jid cb k t f sha receipt outcome user s1 = Inr (v, s')" by (rule finish_managed_operated)
  from f show ?thesis
  proof (cases rule: finish_result_cases)
    case (again j x a c)
    then show ?thesis using result_owned_parts(2) [OF again(1)] o k rows_kept_lookup [OF k] by (auto simp: settled_def)
  next
    case (first j x a c r)
    note own = result_owned_parts [OF first(1)]
    from first(5) show ?thesis
    proof (rule complete_result_parts)
      fix u live s2
      let ?r = "set_result (con_id c) (\<lambda>q. q\<lparr>mr_outcome := Some outcome, mr_finished_at := Some u\<rparr>) s1"
      assume x: "exe_state x \<notin> set FINAL_STATES" "exe_capacity_reserved x"
        and s2: "s2 = end_attempt (job_id j) outcome (finished_job u outcome) ?r" "locked_time ck 6 s2 = Inr s'"
      have "get_execution jid ?r = Some x" using own(2) by (simp add: get_execution_def set_result_def)
      then have "settled jid outcome s'" using ended [OF _ o] s2 own(5) by blast
      with x own(2) rows_kept_lookup [OF k] show ?thesis by auto
    qed
  qed
next
  case (by_stop ac iss env ck rq cb k t f sha cause v)
  then obtain user s1 where k: "rows_kept s s1" and o: "outcome \<in> set FINAL_STATES"
    and f: "report_body iss env ck rq jid cb k t f sha outcome cause user s1 = Inr (v, s')" by (rule report_stop_operated)
  from f show ?thesis
  proof (cases rule: report_body_cases)
    case (again j x a c)
    then show ?thesis using result_owned_parts(2) [OF again(1)] o k rows_kept_lookup [OF k] by (auto simp: settled_def)
  next
    case (first j x a c)
    note own = result_owned_parts [OF first(1)]
    from first(3) show ?thesis
    proof (rule record_stop_parts)
      fix u row s2
      let ?r = "s1\<lparr>managed_stops := managed_stops s1 @ [row]\<rparr>"
      assume x: "exe_state x \<notin> set FINAL_STATES" "exe_capacity_reserved x"
        and s2: "s2 = end_attempt (exe_job_id x) outcome (stopped_job u cause) ?r" "locked_time ck 3 s2 = Inr s'"
      have "get_execution jid ?r = Some x" using own(2) by (simp add: get_execution_def)
      then have "settled jid outcome s'" using ended [OF _ o] s2 own(3) by blast
      with x own(2) rows_kept_lookup [OF k] show ?thesis by auto
    qed
  qed
qed

text \<open>A settled attempt stays settled, as long as its job exists.\<close>

lemma settled_history:
  assumes "history U s s'" and "inj U" and "tables_ok U s" and "settled jid outcome s" and "get_execution jid s' = Some y"
  shows "exe_state y = outcome \<and> \<not> exe_capacity_reserved y"
proof -
  obtain x where x: "get_execution jid s = Some x" "exe_state x = outcome" "outcome \<in> set FINAL_STATES" "\<not> exe_capacity_reserved x"
    using assms(4) by (auto simp: settled_def)
  obtain j where "get_job jid s = Some j" using execution_has_job [OF assms(3) x(1)] by blast
  then have "tracked U jid j (Some x) s'" using tracked_history [OF assms(1-3)] tracked_start [OF assms(3) _ x(1)] by blast
  moreover obtain j' where "get_job jid s' = Some j'"
    using execution_has_job [OF tables_ok_history [OF assms(1-3)] assms(5)] by blast
  ultimately have "exec_move x y" using assms(5) by (simp add: tracked_def)
  with x show ?thesis unfolding exec_move_def by blast
qed

text \<open>
  C16: A managed attempt is settled once.  Whichever request settles it, a completion or a stop, leaves the
  attempt in exactly that outcome with its capacity free; after any further requests, a completion or stop
  of the same job that succeeds names the very same outcome and changes no job, attempt, contract, result
  or stop row: a retry is answered, never repeated, and a stop and a success never both happen.
\<close>

theorem managed_attempt_settled_once:
  assumes "inj U" and "tables_ok U s" and "settles jid outcome s s1" and "(act U)\<^sup>*\<^sup>* s1 s2" and "settles jid outcome' s2 s3"
  shows "settled jid outcome s1 \<and> outcome' = outcome \<and> rows_kept s2 s3"
proof -
  have e: "progress U s s1" by (rule act_progress [OF assms(1,2) settles_act [OF assms(3)]])
  have ok1: "tables_ok U s1" by (rule progress_ok [OF e assms(1,2)])
  have s1: "settled jid outcome s1" using settles_effect [OF assms(3)] by blast
  obtain y where y: "get_execution jid s2 = Some y"
      "if exe_state y \<in> set FINAL_STATES then exe_state y = outcome' \<and> rows_kept s2 s3 else exe_capacity_reserved y"
    using settles_effect [OF assms(5)] by blast
  have "exe_state y = outcome \<and> \<not> exe_capacity_reserved y"
    by (rule settled_history [OF acts_history [OF assms(4,1) ok1] assms(1) ok1 s1 y(1)])
  with y s1 show ?thesis by (auto split: if_splits)
qed

section \<open>A settlement, evaluated\<close>

lemma claim_permission_cong:
  "claim_permission iss env ck i rq j body sts (s\<lparr>managed_contracts := cs, managed_results := rs\<rparr>)
     = claim_permission iss env ck i rq j body sts s"
  by (simp add: claim_permission_def job_approval_def get_approval_def issuer_enrollment_def get_enrollment_def reproject_def
      get_engagement_def project_current_authority_def get_job_def authority_row_def stored_case_def scope_rows_def cong: option.case_cong)

text \<open>The board once the contract is consumed and the result is retained.\<close>

definition ex_result :: ManagedResult where
  "ex_result = \<lparr>mr_contract_id = ''uu'', mr_job_id = ''u'', mr_attempt_id = ''uuu'', mr_fence = 1, mr_contract_sha256 = ex_hash,
     mr_artifact_sha256 = ex_hash, mr_case_sha256 = ex_hash, mr_receipt_sha256 = ex_hash, mr_evidence_created = 1,
     mr_scan_items_created = 0, mr_preflight_failed = False, mr_outcome = None, mr_finished_at = None\<rparr>"

definition ex_spent :: "ManagedResult list \<Rightarrow> pyval \<Rightarrow> db" where
  "ex_spent rs v = (ex_running v)\<lparr>managed_contracts := [ex_contract\<lparr>con_consumed := True\<rparr>], managed_results := rs\<rparr>"

lemma ex_spent_ok: "tables_ok (uuid ex_env) (ex_spent rs v)"
  using ex_running_ok [of v] by (simp add: ex_spent_def tables_ok_def attempts_open_def)

abbreviation ex_stop :: "string \<Rightarrow> db \<Rightarrow> pyval res \<times> db" where
  "ex_stop cause \<equiv> report_stop example_auth ex_issuer ex_env ex_clocks example_key_request ''u'' ex_control ''uu'' ''uuu'' 1 ex_hash
     (cause_outcome cause) cause True"

lemma ex_stopped:
  "case ex_stop ''tool_timeout'' (ex_spent [] v) of (Inr x, s1) \<Rightarrow> (case ex_stop ''tool_timeout'' s1 of (Inr y, s2) \<Rightarrow> y = x | _ \<Rightarrow> False) | _ \<Rightarrow> False"
  by code_simp

theorem managed_attempt_settled_once_witness:
  "\<exists>x s1 s2. ex_stop ''tool_timeout'' (ex_spent [] VNone) = (Inr x, s1) \<and> ex_stop ''tool_timeout'' s1 = (Inr x, s2)
     \<and> settled ''u'' ''failed'' s1 \<and> rows_kept s1 s2"
proof -
  obtain x s1 s2 where r: "ex_stop ''tool_timeout'' (ex_spent [] VNone) = (Inr x, s1)" "ex_stop ''tool_timeout'' s1 = (Inr x, s2)"
    using ex_stopped [of VNone]
    by (cases "ex_stop ''tool_timeout'' (ex_spent [] VNone)"; cases "fst (ex_stop ''tool_timeout'' (ex_spent [] VNone))")
      (auto split: prod.splits sum.splits)
  have o: "cause_outcome ''tool_timeout'' = ''failed''" by code_simp
  have "settles ''u'' ''failed'' (ex_spent [] VNone) s1" "settles ''u'' ''failed'' s1 s2"
    using r unfolding o by (auto intro: by_stop)
  from managed_attempt_settled_once [OF inj_ex ex_spent_ok this(1) rtranclp.rtrancl_refl this(2)] r show ?thesis by auto
qed

section \<open>Success needs standing authority\<close>

lemma max_succ_le: "max t k + 1 \<le> e \<longleftrightarrow> t < e \<and> k < (e :: int)"
  by auto

lemma completion_live_within:
  assumes "completion_live iss ck i k check_state j x a permission = Inr ()"
  shows "\<exists>t begun. issuer_now ck i = Inr t \<and> max t (control_clock ck k) < exe_expires_at x \<and> job_started_at j = Some begun
    \<and> (check_state \<longrightarrow> exe_state x = ''active'')
    \<and> within_authority (VDict permission) begun (exe_duration_seconds x) (max t (control_clock ck k) + 1)"
  using assms unfolding completion_live_def within_authority_def max_succ_le
  by (auto simp: exn_simps Let_def split: option.splits)

text \<open>
  C17: A managed attempt succeeds only under standing authority.  When a completion of an unsettled attempt is
  accepted as successful, its runner presented the attempt's token and the digest of the job's consumed contract;
  the result of this contract had been retained, under the receipt named, with no failed preflight; the
  approval stood, at its authority revision and without a stop; and the attempt was active, and by both clocks
  within its lease, the permission's expiry, the testing window, every credential grant and the allotted
  running time.  The attempt is completed, its capacity free, and its job done.
\<close>

theorem managed_success_rests_on_standing_authority:
  assumes "finish_managed ac iss env ck rq jid cb contract_id attempt_id fence sha receipt ''completed'' True s = (Inr v, s')"
    and "get_execution jid s = Some x" and "exe_state x \<notin> set FINAL_STATES"
  shows "\<exists>j a c r context t begun. get_job jid s = Some j \<and> job_status j = ''running'' \<and> standing iss env rq (cc_runner_id cb) j a context s
    \<and> exe_token_hash x = sha256 env (cc_token cb) \<and> principal env rq = Inr (exe_principal_hash x)
    \<and> job_contract jid s = Some c \<and> con_consumed c \<and> con_id c = contract_id \<and> digest (iss_crypto iss) (con_envelope c) = Inr sha
    \<and> get_result contract_id s = Some r \<and> mr_receipt_sha256 r = receipt \<and> \<not> mr_preflight_failed r \<and> mr_outcome r = None
    \<and> exe_state x = ''active'' \<and> issuer_now ck 3 = Inr t \<and> max t (control_clock ck 0) < exe_expires_at x \<and> job_started_at j = Some begun
    \<and> within_authority (VDict context) begun (exe_duration_seconds x) (max t (control_clock ck 0) + 1)
    \<and> settled jid ''completed'' s' \<and> (\<exists>j'. get_job jid s' = Some j' \<and> job_status j' = ''done'')"
  using assms(1)
proof (rule finish_managed_operated)
  fix user s1 assume k: "rows_kept s s1" and o: "''completed'' \<in> set FINAL_STATES"
    and f: "finish_result iss env ck rq jid cb contract_id attempt_id fence sha receipt ''completed'' user s1 = Inr (v, s')"
  note lk = rows_kept_lookup [OF k]
  have x1: "get_execution jid s1 = Some x" using assms(2) lk by simp
  from f show ?thesis
  proof (cases rule: finish_result_cases)
    case (again j y a c)
    with result_owned_parts(2) [OF again(1)] x1 assms(3) o show ?thesis by auto
  next
    case (first j y a c r)
    note own = result_owned_parts [OF first(1)]
    have y: "y = x" using own(2) x1 by simp
    from first(5) show ?thesis unfolding y
    proof (rule complete_result_parts)
      fix u live s2
      let ?r = "set_result (con_id c) (\<lambda>q. q\<lparr>mr_outcome := Some ''completed'', mr_finished_at := Some u\<rparr>) s1"
      assume l: "if ''completed'' = ''completed'' then \<not> mr_preflight_failed r \<and> (\<exists>a p. live = Some (a, pj_context p)
          \<and> claim_permission iss env ck 2 rq j cb [''running''] s1 = Inr (a, p) \<and> completion_live iss ck 3 0 True j x a (pj_context p) = Inr ())
        else live = None"
        and s2: "s2 = end_attempt (job_id j) ''completed'' (finished_job u ''completed'') ?r" "locked_time ck 6 s2 = Inr s'"
      obtain b p where p: "claim_permission iss env ck 2 rq j cb [''running''] s1 = Inr (b, p)"
          "completion_live iss ck 3 0 True j x b (pj_context p) = Inr ()" "\<not> mr_preflight_failed r" using l by auto
      have gj: "get_job (job_id j) s1 = Some j" using own(4,5) by simp
      have "job_status j = ''running''"
        using p(1) by (auto simp: claim_permission_def reproject_def project_current_authority_def nm_require_def exn_simps gj Let_def split: option.splits)
      moreover have "get_job jid s' = Some (finished_job u ''completed'' j)"
        using end_attempt_job [of jid ?r j "finished_job u ''completed''" "''completed''"] own(4,5) s2 locked_time_frame [OF s2(2)]
        by (auto simp: get_job_def set_result_def)
      moreover have "get_execution jid ?r = Some x" using own(2) y by (simp add: get_execution_def set_result_def)
      then have "settled jid ''completed'' s'" using ended [OF _ o] s2 own(5) by blast
      moreover have "get_result contract_id s = Some r"
        using first(2) own(8) k by (auto simp: stored_result_def get_result_def rows_kept_def exn_simps split: option.splits)
      ultimately show ?thesis
        using own owned_binding [OF own(1)] y first(3,4) p(3) permission_stands(1) [OF p(1) gj] completion_live_within [OF p(2)]
        unfolding lk standing_rows [OF k] by (auto simp: finished_job_def)
    qed
  qed
qed

abbreviation ex_spent_contract :: ManagedContract where
  "ex_spent_contract \<equiv> ex_contract\<lparr>con_consumed := True\<rparr>"

lemma ex_spent_permission:
  "\<exists>p. claim_permission ex_issuer ex_env ex_clocks i example_key_request ex_running_job ex_control [''running'']
      (ex_authenticated (ex_spent rs ex_envelope)) = Inr (ex_approval_row ex_envelope, p) \<and> pj_context p = ex_context"
proof -
  have "ex_authenticated (ex_spent rs v) = (ex_authenticated (ex_running v))\<lparr>managed_contracts := [ex_spent_contract], managed_results := rs\<rparr>" for v
    by (simp add: ex_authenticated_def ex_seen_def ex_spent_def)
  then show ?thesis using ex_running_permission by (simp only: claim_permission_cong)
qed

lemma ex_completion_live:
  "completion_live ex_issuer ex_clocks i k b ex_running_job ex_attempt (ex_approval_row ex_envelope) ex_context = Inr ()"
proof -
  have w: "iss_wire ex_issuer = example_wire" "iss_crypto ex_issuer = example_crypto" "apv_envelope (ex_approval_row ex_envelope) = ex_envelope"
    "apv_owner (ex_approval_row ex_envelope) = ''alice''" by (simp_all add: ex_issuer_def ex_approval_row_def)
  obtain e where e: "wire_time (VDict ex_context) ''expires_at'' = Inr e" "wire_time (VDict ex_context) ''testing_end'' = Inr e"
      "instant example_clock < e" "instant example_clock + seconds 40 < e"
  proof -
    have "case (wire_time (VDict ex_context) ''expires_at'', wire_time (VDict ex_context) ''testing_end'') of
        (Inr d, Inr e) \<Rightarrow> d = e \<and> instant example_clock < e \<and> instant example_clock + seconds 40 < e | _ \<Rightarrow> False" by code_simp
    with that show thesis by (auto split: sum.splits)
  qed
  have g: "vindex (VDict ex_context) ''credential_grants'' = Inr (VList [])" "iter_val (VList []) = Inr []"
    "int_field (VDict ex_context) ''max_duration_seconds'' = Inr 60" by code_simp+
  have x: "job_started_at ex_running_job = Some (instant example_clock)" "exe_duration_seconds ex_attempt = 40" "exe_state ex_attempt = ''active''"
    "control_clock ex_clocks k = instant example_clock" "instant example_clock < exe_expires_at ex_attempt" by code_simp+
  show ?thesis
    using e g x by (simp add: completion_live_def ex_times w Let_def ex_approval)
qed

lemma ex_completed:
  "\<exists>v s'. finish_managed example_auth ex_issuer ex_env ex_clocks example_key_request ''u'' ex_control ''uu'' ''uuu'' 1 ex_hash ex_hash
     ''completed'' True (ex_spent [ex_result] ex_envelope) = (Inr v, s')"
proof -
  let ?s = "ex_authenticated (ex_spent [ex_result] ex_envelope)"
  let ?a = "ex_approval_row ex_envelope"
  have own: "result_owned ex_issuer ex_env example_key_request ''u'' ex_control ''uu'' ''uuu'' 1 ex_hash ex_user (ex_authenticated (ex_spent [ex_result] v))
      = Inr (ex_running_job, ex_attempt, ex_approval_row v, ex_spent_contract)" for v by code_simp
  have row: "stored_result example_crypto ex_attempt ex_spent_contract ex_hash (ex_authenticated (ex_spent [ex_result] v)) = Inr (Some ex_result)" for v
    by code_simp
  have r: "mr_receipt_sha256 ex_result = ex_hash" "mr_outcome ex_result = None" "mr_preflight_failed ex_result = False"
    by (simp_all add: ex_result_def)
  have x: "exe_state ex_attempt = ''active''" "exe_capacity_reserved ex_attempt" by code_simp+
  obtain p where p: "claim_permission ex_issuer ex_env ex_clocks 2 example_key_request ex_running_job ex_control [''running''] ?s = Inr (?a, p)"
    "pj_context p = ex_context" using ex_spent_permission by blast
  have "get_clock (ex_authenticated (ex_spent [ex_result] v)) = Some \<lparr>clk_id = 1, clk_observed = instant example_clock\<rparr>" for v by code_simp
  then have t: "locked_time ex_clocks 6 (end_attempt k oc g (set_result i f ?s))
      = Inr (set_clock (instant example_clock) (end_attempt k oc g (set_result i f ?s)))" for k oc g i f
    by (intro ex_locked) (simp add: get_clock_def end_attempt_def set_job_def set_execution_def set_result_def)
  have w: "iss_crypto ex_issuer = example_crypto" by (simp add: ex_issuer_def)
  have "\<exists>v s'. finish_result ex_issuer ex_env ex_clocks example_key_request ''u'' ex_control ''uu'' ''uuu'' 1 ex_hash ex_hash ''completed'' ex_user ?s = Inr (v, s')"
    by (simp add: finish_result_def own row w r complete_result_def x p t ex_times ex_completion_live Let_def completion_reply_def)
  then obtain v s' where f: "finish_result ex_issuer ex_env ex_clocks example_key_request ''u'' ex_control ''uu'' ''uuu'' 1 ex_hash ex_hash ''completed'' ex_user ?s
      = Inr (v, s')" by blast
  have u: "get_current_user example_auth ex_env example_key_request (ex_seen (ex_spent rs v)) = (Inr ex_user, ex_authenticated (ex_spent rs v))" for rs v
    by code_simp
  have m: "managed_clock (ex_spent rs v) = []" for rs v by code_simp
  have "integer (VInt 1) 1 MAX_INTEGER = Inr 1" by code_simp
  then have "fenced example_auth ex_env ex_clocks example_key_request 1
      (finish_result ex_issuer ex_env ex_clocks example_key_request ''u'' ex_control ''uu'' ''uuu'' 1 ex_hash ex_hash ''completed'')
      (ex_spent [ex_result] ex_envelope) = (Inr v, s')"
    unfolding fenced_def by (intro ex_operation [OF m]) (simp add: authenticated_def u f)
  then show ?thesis by (simp add: finish_managed_def)
qed

theorem managed_success_rests_on_standing_authority_witness:
  "\<exists>v s' j a context. finish_managed example_auth ex_issuer ex_env ex_clocks example_key_request ''u'' ex_control ''uu'' ''uuu'' 1 ex_hash ex_hash
       ''completed'' True (ex_spent [ex_result] ex_envelope) = (Inr v, s')
     \<and> standing ex_issuer ex_env example_key_request ''r1'' j a context (ex_spent [ex_result] ex_envelope) \<and> settled ''u'' ''completed'' s'"
proof -
  obtain v s' where f: "finish_managed example_auth ex_issuer ex_env ex_clocks example_key_request ''u'' ex_control ''uu'' ''uuu'' 1 ex_hash ex_hash
     ''completed'' True (ex_spent [ex_result] ex_envelope) = (Inr v, s')" using ex_completed by blast
  have x: "get_execution ''u'' (ex_spent [ex_result] v) = Some ex_attempt" for v by code_simp
  have y: "exe_state ex_attempt \<notin> set FINAL_STATES" by code_simp
  have "cc_runner_id ex_control = ''r1''" by (simp add: ex_control_def)
  with managed_success_rests_on_standing_authority [OF f x y] f show ?thesis by metis
qed

end
