(* ===== verification/Authority_Safety.thy ===== *)
theory Authority_Safety
  imports Settlement_Safety
begin

text \<open>
  Authority over whole runs of requests: an engagement's revision stands for everything written about it, an
  approval is only ever used under the authority it was given for, and no stored test case holds a secret.
\<close>

section \<open>The revision stands for the authority\<close>

lemma revision_stands:
  assumes p: "progress U s s'" and "authority_ok U s" "get_engagement k s = Some e" "get_engagement k s' = Some e'"
    and "eng_managed_authority_revision e' = eng_managed_authority_revision e"
  shows "eng_authority e' = eng_authority e \<and> authority_kept k s s'"
proof -
  have "authority_move e e'" using engagement_history [of U s s' k e'] assms by (auto simp: progress_def)
  moreover have "stands s s'" using p assms(2) by (simp add: progress_def)
  ultimately show ?thesis using assms(3-5) by (simp add: stands_def authority_move_def)
qed


text \<open>On the example board: adding a note to the authorization.\<close>

definition plain_dates :: date_codec where
  "plain_dates = \<lparr>from_iso = (\<lambda>_. None), aware_column = dt_us\<rparr>"

definition note_only :: authorization_update where
  "note_only = \<lparr>au_permits = None, au_authorized_by = Some ''Bob'', au_authorized_at = None, au_reference = None, au_window_start = None,
     au_window_end = None, au_status = Some ''active'', au_notes = Some ''seen''\<rparr>"

abbreviation noted :: "db" where
  "noted \<equiv> snd (update_authorization plain_sanitizer plain_dates ex_env ex_user ''e1'' ''z1'' note_only (ex_board VNone))"

lemma not_drawn [simp]: "x \<noteq> CHR ''u'' \<Longrightarrow> replicate n (CHR ''u'') \<noteq> x # xs"
  by (cases n) auto

lemma ex_authority_ok: "authority_ok (uuid ex_env) (ex_board v)"
  by (simp add: authority_ok_def drawn_def ex_board_def ex_base_def ex_case_def ex_env_def example_env_def)

lemma noted_act: "act (uuid ex_env) (ex_board VNone) noted"
  by (rule a_edit, rule e_reauthorize [OF refl], rule prod.collapse [symmetric])


section \<open>Approvals meet the authority they were given for\<close>

lemma claim_stands:
  assumes "claim ac iss env ck token rq jid body s = (Inr mc, s')"
  shows "\<exists>j a ctx spec t. get_job jid s = Some j \<and> standing iss env rq (cc_runner_id body) j a ctx s
    \<and> stored_case (case_ref (as_dict (job_config j))) (job_program_id j) s = Some spec
    \<and> get_job jid s' = Some (claimed_job t (tc_spec spec) j)"
  using assms unfolding claim_def
proof (rule operated)
  fix user s1 assume k: "rows_kept s s1" and c: "claimed iss env ck token rq jid body user s1 = Inr (mc, s')"
  with claimed_effect [OF c] show ?thesis by (simp only: rows_kept_lookup [OF k] standing_rows [OF k]) blast
qed (rule current_user_untouched)



section \<open>Stored test cases\<close>


text \<open>A case is created whose one identity names its secret in the runner's environment.\<close>

definition clean_spec :: pyval where
  "clean_spec = VDict [(''id'', VStr ''c''), (''request'', ex_request),
     (''identities'', VList [VDict [(''id'', VStr ''a''), (''credential'', VDict [(''type'', VStr ''bearer''), (''value_env'', VStr ''TOKEN'')])]])]"

abbreviation no_cases :: db where
  "no_cases \<equiv> (ex_board VNone)\<lparr>authorization_test_cases := []\<rparr>"

abbreviation one_case :: db where
  "one_case \<equiv> snd (create_test_case plain_sanitizer ex_env ex_user ''e1'' ''n'' None clean_spec no_cases)"

lemma clean_spec_ok: "validate_spec clean_spec = Inr clean_spec"
proof -
  have d: "\<exists>d. clean_spec = VDict d \<and> d \<noteq> [] \<and> check_shape d = Inr ()"
    unfolding clean_spec_def by (intro exI conjI, rule refl, simp, code_simp)
  have "length (dumps clean_spec) = 145" by code_simp
  then have l: "length (dumps clean_spec) \<le> MAX_SPEC_BYTES" by (simp add: MAX_SPEC_BYTES_def)
  have "reject_literal_credentials clean_spec = Inr ()" "reject_environment_references ''spec'' clean_spec = Inr ()"
    "validate_preflight clean_spec = Inr ()" by code_simp+
  with d l show ?thesis by (blast intro: validate_specI)
qed

lemma one_case_stored: "map tc_spec (authorization_test_cases one_case) = [clean_spec]"
proof -
  have w: "writable ''e1'' ex_user no_cases
      = Inr (example_engagement\<lparr>eng_concurrency_limit := Some 1, eng_target_limit := Some 5, eng_duration_limit := Some 100\<rparr>)" by code_simp
  have z: "strip_html plain_sanitizer ''n'' = ''n''" "strip_html plain_sanitizer [] = []" by code_simp+
  show ?thesis using w
    by (auto simp: create_test_case_def clean_spec_ok z Let_def log_action_def drew_def)
qed


end
