(* ===== verification/Assets.thy ===== *)
theory Assets
  imports Models Ipaddr
begin

text \<open>
  Canonical asset identity and the asset graph (\<open>backend/assets.py\<close>): an observed string is reduced to
  an identity, the identity's key joins observations within an engagement, and assets and edges are
  found or created by key.
\<close>

section \<open>Identity\<close>

definition DOMAIN :: string where "DOMAIN = ''domain''"
definition IP :: string where "IP = ''ip_address''"

record AssetIdentity =
  ai_asset_type :: string
  ai_hostname :: string
  ai_ip :: string
  ai_port :: "int option"
  ai_scheme :: string

definition identity_base :: "AssetIdentity \<Rightarrow> string" where
  "identity_base i = (if ai_ip i \<noteq> [] then ai_ip i else ai_hostname i)"

text \<open>\<open>if self.port\<close>: a port of 0 counts as none.\<close>

definition label :: "AssetIdentity \<Rightarrow> string" where
  "label i = (case ai_port i of
       None \<Rightarrow> identity_base i
     | Some p \<Rightarrow> if p = 0 then identity_base i else identity_base i @ '':'' @ str_of_int p)"

definition canonical_key :: "AssetIdentity \<Rightarrow> string" where
  "canonical_key i = ai_asset_type i @ '':'' @ label i"

text \<open>
  Host and port of an authority; \<open>None\<close> is an unclosed bracket.  \<open>isdigit\<close> guards \<open>int\<close>, which raises
  \<open>ValueError\<close> on the superscript digits that \<open>isdigit\<close> accepts.
\<close>

definition host_and_port :: "string \<Rightarrow> int option \<Rightarrow> (string \<times> int option) option res" where
  "host_and_port authority default_port =
     (if startswith authority ''['' then
        (case find_sub '']'' authority of
           None \<Rightarrow> Inr None
         | Some close \<Rightarrow>
             let inner = drop 1 (take close authority); rest = drop (close + 1) authority
             in if startswith rest '':'' \<and> isdigit (drop 1 rest)
                then bindE (int_of_str (drop 1 rest)) (\<lambda>p. Inr (Some (inner, Some p)))
                else Inr (Some (inner, default_port)))
      else if count_char (CHR '':'') authority = 1 then
        (case split_once '':'' authority of
           None \<Rightarrow> Inr (Some (authority, default_port))
         | Some (head, tail) \<Rightarrow>
             if isdigit tail then bindE (int_of_str tail) (\<lambda>p. Inr (Some (head, Some p)))
             else Inr (Some (authority, default_port)))
      else Inr (Some (authority, default_port)))"

definition classify :: "string \<Rightarrow> string \<Rightarrow> int option \<Rightarrow> AssetIdentity option" where
  "classify scheme h port =
     (let host = lower (rstrip_char (CHR ''.'') h);
          port = (if port = None \<and> scheme \<in> {''http'', ''https''}
                  then Some (if scheme = ''https'' then 443 else 80) else port)
      in if host = [] then None
         else if ip_address host \<noteq> None then
           Some \<lparr>ai_asset_type = IP, ai_hostname = [], ai_ip = host, ai_port = port, ai_scheme = scheme\<rparr>
         else if contains host '' '' \<or> \<not> contains host ''.'' then None
         else Some \<lparr>ai_asset_type = DOMAIN, ai_hostname = host, ai_ip = [], ai_port = port, ai_scheme = scheme\<rparr>)"

definition parse :: "string \<Rightarrow> int option \<Rightarrow> AssetIdentity option res" where
  "parse observed default_port =
     (let raw = strip observed in
      if raw = [] then Inr None
      else
        let (scheme, remainder) = (case split_once ''://'' raw of None \<Rightarrow> ([], raw) | Some (a, b) \<Rightarrow> (lower a, b));
            authority = before ''/'' remainder;
            authority = (case split_once ''@'' authority of None \<Rightarrow> authority | Some (_, b) \<Rightarrow> b)
        in bindE (host_and_port authority default_port) (\<lambda>hp. case hp of
             None \<Rightarrow> Inr None
           | Some (h, port) \<Rightarrow> Inr (classify scheme h port)))"

section \<open>The graph\<close>

text \<open>\<open>host_level\<close> drops the port, so that a URL and a bare host name are the same node.\<close>

definition node_identity :: "string \<Rightarrow> int option \<Rightarrow> bool \<Rightarrow> AssetIdentity option res" where
  "node_identity observed default_port host_level =
     bindE (parse observed default_port) (\<lambda>i.
       Inr (if host_level then map_option (\<lambda>i. i\<lparr>ai_port := None\<rparr>) i else i))"

definition find_asset :: "string \<Rightarrow> string \<Rightarrow> db \<Rightarrow> Asset option" where
  "find_asset program_id k s = find (\<lambda>a. ast_program_id a = program_id \<and> ast_canonical_key a = k) (assets s)"

definition new_asset :: "env \<Rightarrow> string \<Rightarrow> AssetIdentity \<Rightarrow> string \<Rightarrow> string \<Rightarrow> int \<Rightarrow> db \<Rightarrow> Asset" where
  "new_asset env program_id i source confidence t s =
     \<lparr>ast_id = new_uuid env s, ast_program_id = program_id, ast_canonical_key = canonical_key i,
      ast_asset_type = ai_asset_type i, ast_label = label i, ast_hostname = ai_hostname i, ast_ip = ai_ip i,
      ast_port = ai_port i, ast_scheme = ai_scheme i, ast_environment = [], ast_criticality = [],
      ast_exposure = [], ast_owner_note = [], ast_tags = [], ast_source = source,
      ast_confidence = confidence, ast_first_seen_at = Some t, ast_last_seen_at = Some t, ast_created_at = now env\<rparr>"

definition upsert :: "env \<Rightarrow> string \<Rightarrow> string \<Rightarrow> string \<Rightarrow> string \<Rightarrow> int option \<Rightarrow> bool \<Rightarrow> int option \<Rightarrow> db
    \<Rightarrow> (Asset option \<times> db) res" where
  "upsert env program_id observed source confidence default_port host_level seen_at s =
     bindE (node_identity observed default_port host_level) (\<lambda>identity.
       let t = (case seen_at of None \<Rightarrow> now env | Some u \<Rightarrow> u) in
       case identity of
         None \<Rightarrow> Inr (None, s)
       | Some i \<Rightarrow>
           (case find_asset program_id (canonical_key i) s of
              Some a \<Rightarrow>
                let a' = a\<lparr>ast_last_seen_at := Some t\<rparr>
                in Inr (Some a', s\<lparr>assets := amend_key ast_id (ast_id a) (\<lambda>r. r\<lparr>ast_last_seen_at := Some t\<rparr>) (assets s)\<rparr>)
            | None \<Rightarrow>
                let a = new_asset env program_id i source confidence t s
                in Inr (Some a, drew (s\<lparr>assets := assets s @ [a]\<rparr>))))"

definition relate :: "env \<Rightarrow> string \<Rightarrow> Asset option \<Rightarrow> Asset option \<Rightarrow> string \<Rightarrow> string \<Rightarrow> string \<Rightarrow> int option \<Rightarrow> db
    \<Rightarrow> AssetRelationship option \<times> db" where
  "relate env program_id src dst relationship source confidence seen_at s =
     (case (src, dst) of
        (Some a, Some b) \<Rightarrow>
          if ast_id a = ast_id b then (None, s)
          else
            let t = (case seen_at of None \<Rightarrow> now env | Some u \<Rightarrow> u) in
            (case find (\<lambda>e. ar_src_asset_id e = ast_id a \<and> ar_dst_asset_id e = ast_id b
                 \<and> ar_relationship e = relationship) (asset_relationships s) of
               Some e \<Rightarrow>
                 (Some (e\<lparr>ar_last_seen_at := Some t\<rparr>),
                  s\<lparr>asset_relationships := amend_key ar_id (ar_id e) (\<lambda>r. r\<lparr>ar_last_seen_at := Some t\<rparr>) (asset_relationships s)\<rparr>)
             | None \<Rightarrow>
                 let e = \<lparr>ar_id = new_uuid env s, ar_program_id = program_id, ar_src_asset_id = ast_id a,
                          ar_dst_asset_id = ast_id b, ar_relationship = relationship, ar_source = source,
                          ar_confidence = confidence, ar_first_seen_at = Some t, ar_last_seen_at = Some t,
                          ar_created_at = now env\<rparr>
                 in (Some e, drew (s\<lparr>asset_relationships := asset_relationships s @ [e]\<rparr>)))
      | _ \<Rightarrow> (None, s))"

text \<open>The candidates of \<open>parent_domain\<close>: the host without its first 1, 2, ... labels, two labels at least.\<close>

definition parent_candidates :: "string \<Rightarrow> string list" where
  "parent_candidates hostname =
     (let parts = split_char (CHR ''.'') hostname
      in map (\<lambda>i. join_with ''.'' (drop i parts)) [1 ..< length parts - 1])"

definition parent_domain :: "string \<Rightarrow> Asset \<Rightarrow> db \<Rightarrow> Asset option" where
  "parent_domain program_id a s =
     (if ast_asset_type a \<noteq> DOMAIN \<or> ast_hostname a = [] then None
      else fold (\<lambda>c found. case found of Some p \<Rightarrow> Some p
             | None \<Rightarrow> find_asset program_id (DOMAIN @ '':'' @ c) s) (parent_candidates (ast_hostname a)) None)"

section \<open>Observations over time\<close>

text \<open>
  The importers build the graph by finding or creating assets and relating two stored ones; \<open>U\<close> is the
  stream ids are drawn from.
\<close>

inductive observes :: "(nat \<Rightarrow> string) \<Rightarrow> db \<Rightarrow> db \<Rightarrow> bool" for U where
  o_upsert: "uuid env = U \<Longrightarrow> upsert env p obs src conf dp hl t s = Inr (a, s') \<Longrightarrow> observes U s s'"
| o_relate: "uuid env = U \<Longrightarrow> a \<in> set (assets s) \<Longrightarrow> b \<in> set (assets s) \<Longrightarrow>
    relate env p (Some a) (Some b) rel src conf t s = (e, s') \<Longrightarrow> observes U s s'"

definition asset_key :: "Asset \<Rightarrow> string \<times> string" where
  "asset_key a = (ast_program_id a, ast_canonical_key a)"

definition edge_key :: "AssetRelationship \<Rightarrow> string \<times> string \<times> string" where
  "edge_key e = (ar_src_asset_id e, ar_dst_asset_id e, ar_relationship e)"

definition drawn :: "(nat \<Rightarrow> string) \<Rightarrow> db \<Rightarrow> string \<Rightarrow> bool" where
  "drawn U s i = (\<exists>n < uuids_drawn s. i = U n)"

text \<open>Keys and ids are unique, and every edge joins two different stored assets.\<close>

definition graph_ok :: "(nat \<Rightarrow> string) \<Rightarrow> db \<Rightarrow> bool" where
  "graph_ok U s = (distinct (map ast_id (assets s)) \<and> distinct (map asset_key (assets s))
     \<and> distinct (map edge_key (asset_relationships s))
     \<and> (\<forall>a \<in> set (assets s). drawn U s (ast_id a))
     \<and> (\<forall>e \<in> set (asset_relationships s). ar_src_asset_id e \<noteq> ar_dst_asset_id e
          \<and> {ar_src_asset_id e, ar_dst_asset_id e} \<subseteq> ast_id ` set (assets s)))"

lemma asset_key_seen [simp]: "asset_key (a\<lparr>ast_last_seen_at := t\<rparr>) = asset_key a"
  by (simp add: asset_key_def)

lemma edge_key_seen [simp]: "edge_key (e\<lparr>ar_last_seen_at := t\<rparr>) = edge_key e"
  by (simp add: edge_key_def)

lemma find_asset_key: "find_asset p k s = find (\<lambda>a. asset_key a = (p, k)) (assets s)"
  by (simp add: find_asset_def asset_key_def)

lemma find_asset_by_key: "find_asset p k s = by_key asset_key (p, k) (assets s)"
  by (simp add: find_asset_key by_key_def)

lemma fresh_id: "inj U \<Longrightarrow> \<forall>a \<in> set (assets s). drawn U s (ast_id a) \<Longrightarrow> uuid env = U \<Longrightarrow>
    new_uuid env s \<notin> ast_id ` set (assets s)"
  by (auto simp: drawn_def new_uuid_def inj_def) (metis less_irrefl)

lemma drawn_drew [simp]: "drawn U s i \<Longrightarrow> drawn U (drew (s\<lparr>assets := xs\<rparr>)) i"
    "drawn U s i \<Longrightarrow> drawn U (drew (s\<lparr>asset_relationships := es\<rparr>)) i"
    "drawn U (s\<lparr>assets := xs\<rparr>) i = drawn U s i" "drawn U (s\<lparr>asset_relationships := es\<rparr>) i = drawn U s i"
  by (auto simp: drawn_def drew_def intro: less_SucI)

text \<open>What one observation changes of the assets: nothing, the time one was last seen, or one new row.\<close>

lemma upsert_cases:
  assumes "upsert env p obs src conf dp hl t s = Inr (r, s')"
  obtains "s' = s" "r = None"
  | a :: Asset and u where "r = Some (a\<lparr>ast_last_seen_at := Some u\<rparr>)" "find_asset p (ast_canonical_key a) s = Some a"
      "s' = s\<lparr>assets := amend_key ast_id (ast_id a) (\<lambda>r. r\<lparr>ast_last_seen_at := Some u\<rparr>) (assets s)\<rparr>"
  | i u where "r = Some (new_asset env p i src conf u s)" "find_asset p (canonical_key i) s = None"
      "s' = drew (s\<lparr>assets := assets s @ [new_asset env p i src conf u s]\<rparr>)"
proof -
  from assms obtain idn where idn: "node_identity obs dp hl = Inr idn" by (auto simp: upsert_def bindE_eq_Inr)
  show ?thesis
  proof (cases idn)
    case None
    with idn assms that(1) show ?thesis by (simp add: upsert_def)
  next
    case (Some i)
    show ?thesis
    proof (cases "find_asset p (canonical_key i) s")
      case None
      with Some idn assms show ?thesis by (auto simp: upsert_def Let_def intro: that(3))
    next
      case (Some a)
      then have "ast_canonical_key a = canonical_key i"
        using find_SomeD unfolding find_asset_def by fastforce
      with Some \<open>idn = Some i\<close> idn assms show ?thesis by (auto simp: upsert_def Let_def intro: that(2))
    qed
  qed
qed

lemma relate_cases:
  assumes "relate env p (Some a) (Some b) rel src conf t s = (r, s')"
  obtains "s' = s" "r = None"
  | e :: AssetRelationship and u where "s' = s\<lparr>asset_relationships := amend_key ar_id (ar_id e) (\<lambda>r. r\<lparr>ar_last_seen_at := Some u\<rparr>) (asset_relationships s)\<rparr>"
  | e :: AssetRelationship where "s' = drew (s\<lparr>asset_relationships := asset_relationships s @ [e]\<rparr>)"
      "edge_key e = (ast_id a, ast_id b, rel)" "ast_id a \<noteq> ast_id b" "edge_key e \<notin> edge_key ` set (asset_relationships s)"
proof (cases "ast_id a = ast_id b")
  case True
  with assms that(1) show ?thesis by (simp add: relate_def)
next
  case False
  let ?m = "\<lambda>e. ar_src_asset_id e = ast_id a \<and> ar_dst_asset_id e = ast_id b \<and> ar_relationship e = rel"
  show ?thesis
  proof (cases "find ?m (asset_relationships s)")
    case None
    then have "(ast_id a, ast_id b, rel) \<notin> edge_key ` set (asset_relationships s)"
      by (auto simp: find_None_iff edge_key_def)
    with None False assms that(3) show ?thesis by (auto simp: relate_def Let_def edge_key_def)
  next
    case (Some e)
    with False assms that(2) [of e] show ?thesis by (auto simp: relate_def Let_def)
  qed
qed

lemma graph_ok_upsert:
  assumes "inj U" and "uuid env = U" and "graph_ok U s" and "upsert env p obs src conf dp hl t s = Inr (r, s')"
  shows "graph_ok U s'"
  using assms(4)
proof (cases rule: upsert_cases)
  case 1
  with assms(3) show ?thesis by simp
next
  case (2 a u)
  define f where "f = (\<lambda>r :: Asset. r\<lparr>ast_last_seen_at := Some u\<rparr>)"
  have f: "ast_id (f r) = ast_id r" "asset_key (f r) = asset_key r" for r by (simp_all add: f_def)
  have s': "s' = s\<lparr>assets := amend_key ast_id (ast_id a) f (assets s)\<rparr>" using 2(3) by (simp add: f_def)
  have m: "map ast_id (amend_key ast_id (ast_id a) f (assets s)) = map ast_id (assets s)"
    by (rule map_amend_key) (rule f)
  have ids: "ast_id ` set (amend_key ast_id (ast_id a) f (assets s)) = ast_id ` set (assets s)"
    using arg_cong [OF m, of set] by simp
  have k: "map asset_key (amend_key ast_id (ast_id a) f (assets s)) = map asset_key (assets s)"
    by (rule map_amend_key) (rule f)
  have "\<forall>x \<in> set (amend_key ast_id (ast_id a) f (assets s)). drawn U s (ast_id x)"
    using assms(3) ids unfolding graph_ok_def by (metis image_iff)
  with assms(3) m k ids show ?thesis unfolding s' graph_ok_def by simp
next
  case (3 i u)
  have "new_uuid env s \<notin> ast_id ` set (assets s)"
    using fresh_id [OF assms(1) _ assms(2)] assms(3) by (simp add: graph_ok_def)
  moreover have "(p, canonical_key i) \<notin> asset_key ` set (assets s)"
    using 3(2) by (auto simp: find_asset_by_key by_key_None)
  moreover have "drawn U s' (new_uuid env s)"
    using assms(2) unfolding 3(3) by (auto simp: drawn_def drew_def new_uuid_def)
  moreover have "\<forall>x \<in> set (assets s). drawn U s' (ast_id x)"
    using assms(3) unfolding 3(3) by (simp add: graph_ok_def)
  moreover have "assets s' = assets s @ [new_asset env p i src conf u s]" "asset_relationships s' = asset_relationships s"
    using 3(3) by (simp_all add: drew_def)
  ultimately show ?thesis
    using assms(3) unfolding graph_ok_def by (auto simp: new_asset_def asset_key_def)
qed

lemma graph_ok_relate:
  assumes "graph_ok U s" and "a \<in> set (assets s)" and "b \<in> set (assets s)"
    and "relate env p (Some a) (Some b) rel src conf t s = (r, s')"
  shows "graph_ok U s'"
  using assms(4)
proof (cases rule: relate_cases)
  case 1
  with assms(1) show ?thesis by simp
next
  case (2 e u)
  let ?f = "\<lambda>r :: AssetRelationship. r\<lparr>ar_last_seen_at := Some u\<rparr>"
  have k: "map edge_key (amend_key ar_id (ar_id e) ?f (asset_relationships s)) = map edge_key (asset_relationships s)"
    by (rule map_amend_key) simp
  have "edge_key ` set (amend_key ar_id (ar_id e) ?f (asset_relationships s)) = edge_key ` set (asset_relationships s)"
    using arg_cong [OF k, of set] by simp
  then have "\<forall>x \<in> set (amend_key ar_id (ar_id e) ?f (asset_relationships s)).
      \<exists>y \<in> set (asset_relationships s). edge_key x = edge_key y"
    by (metis image_iff)
  with assms(1) k show ?thesis unfolding 2 graph_ok_def edge_key_def by fastforce
next
  case (3 e)
  have e: "ar_src_asset_id e = ast_id a" "ar_dst_asset_id e = ast_id b" using 3(2) by (auto simp: edge_key_def)
  have "\<forall>x \<in> set (assets s). drawn U (drew (s\<lparr>asset_relationships := asset_relationships s @ [e]\<rparr>)) (ast_id x)"
    using assms(1) by (simp add: graph_ok_def)
  with 3(3,4) e assms(1-3) show ?thesis unfolding 3(1) graph_ok_def by (simp add: drew_def)
qed

lemma graph_ok_observes: "inj U \<Longrightarrow> observes U s s' \<Longrightarrow> graph_ok U s \<Longrightarrow> graph_ok U s'"
  by (erule observes.cases) (blast intro: graph_ok_upsert graph_ok_relate)+

text \<open>
  C39: The asset graph stays consistent through any sequence of observations: within an engagement a
  canonical key names at most one asset, an edge is stored once per pair and verb, and every edge joins two
  different stored assets.
\<close>

theorem asset_graph_consistent:
  assumes "inj U" and "graph_ok U s" and "(observes U)\<^sup>*\<^sup>* s s'"
  shows "distinct (map (\<lambda>a. (ast_program_id a, ast_canonical_key a)) (assets s'))
    \<and> distinct (map (\<lambda>e. (ar_src_asset_id e, ar_dst_asset_id e, ar_relationship e)) (asset_relationships s'))
    \<and> (\<forall>e \<in> set (asset_relationships s'). ar_src_asset_id e \<noteq> ar_dst_asset_id e
        \<and> {ar_src_asset_id e, ar_dst_asset_id e} \<subseteq> ast_id ` set (assets s'))"
proof -
  from assms(3) have "graph_ok U s'"
    by induction (use assms(1,2) graph_ok_observes in blast)+
  then show ?thesis by (simp add: graph_ok_def asset_key_def [abs_def] edge_key_def [abs_def])
qed

text \<open>A graph built from nothing: a URL and its host are one asset, and a service is exposed by it.\<close>

definition graph_env :: env where
  "graph_env = \<lparr>now = 1000, uuid = (\<lambda>n. replicate n (CHR ''u'')), sha256 = (\<lambda>s. s)\<rparr>"

definition upserted :: "string \<Rightarrow> int option \<Rightarrow> bool \<Rightarrow> db \<Rightarrow> Asset option \<times> db" where
  "upserted obs dp hl s = (case upsert graph_env ''e1'' obs ''httpx'' ''confirmed'' dp hl None s of
     Inl _ \<Rightarrow> (None, s) | Inr r \<Rightarrow> r)"

definition graph_one :: db where "graph_one = snd (upserted ''https://api.acme.com/v1'' None True empty_db)"
definition graph_two :: db where "graph_two = snd (upserted ''api.acme.com'' (Some 8443) False graph_one)"

lemma inj_graph_env: "inj (uuid graph_env)"
  by (auto simp: graph_env_def inj_def dest: arg_cong [where f = length])

lemma graph_ok_empty: "graph_ok U empty_db"
  by (simp add: graph_ok_def empty_db_def)

lemma upserted_observes: "observes (uuid graph_env) s (snd (upserted obs dp hl s)) \<or> snd (upserted obs dp hl s) = s"
proof (cases "upsert graph_env ''e1'' obs ''httpx'' ''confirmed'' dp hl None s")
  case (Inr r)
  then show ?thesis by (cases r) (auto simp: upserted_def intro: o_upsert)
qed (simp add: upserted_def)

lemma upserted_step: "(observes (uuid graph_env))\<^sup>*\<^sup>* s (snd (upserted obs dp hl s))"
  using upserted_observes [of s obs dp hl] by (auto intro: r_into_rtranclp)

lemma graph_two_observed: "(observes (uuid graph_env))\<^sup>*\<^sup>* empty_db graph_two"
  unfolding graph_two_def graph_one_def by (rule rtranclp_trans [OF upserted_step upserted_step])

lemma upserted_Some:
  "fst (upserted obs dp hl s) = Some a \<Longrightarrow>
     upsert graph_env ''e1'' obs ''httpx'' ''confirmed'' dp hl None s = Inr (Some a, snd (upserted obs dp hl s))"
  by (auto simp: upserted_def split: sum.splits)

theorem asset_graph_consistent_witness:
  "length (assets graph_two) = 2 \<and> distinct (map (\<lambda>a. (ast_program_id a, ast_canonical_key a)) (assets graph_two))"
proof -
  have "length (assets graph_two) = 2" by code_simp
  with asset_graph_consistent [OF inj_graph_env graph_ok_empty graph_two_observed] show ?thesis by blast
qed

lemma find_asset_observes:
  assumes "inj U" and "observes U s s'" and "graph_ok U s" and "find_asset p k s = Some a"
  shows "\<exists>b. find_asset p k s' = Some b \<and> ast_id b = ast_id a"
  using assms(2)
proof cases
  case (o_upsert env q obs src conf dp hl t r)
  from o_upsert(2) show ?thesis
  proof (cases rule: upsert_cases)
    case (2 c u)
    have "find_asset p k s' = map_option (\<lambda>r. if ast_id r = ast_id c then r\<lparr>ast_last_seen_at := Some u\<rparr> else r) (find_asset p k s)"
      unfolding 2 find_asset_key amend_key_def amend_def by (simp add: find_map_keep)
    with assms(4) show ?thesis by auto
  next
    case (3 i u)
    then show ?thesis using assms(4) by (simp add: find_asset_by_key by_key_append drew_def)
  qed (use assms(4) in auto)
next
  case (o_relate env b c q rel src conf t e)
  from o_relate(4) have "assets s' = assets s" by (cases rule: relate_cases) (auto simp: drew_def)
  with assms(4) show ?thesis by (simp add: find_asset_by_key)
qed

lemma upsert_found:
  assumes "upsert env p obs src conf dp hl t s = Inr (Some a, s')" and "node_identity obs dp hl = Inr (Some i)"
  shows "\<exists>b. find_asset p (canonical_key i) s' = Some b \<and> ast_id b = ast_id a"
proof (cases "find_asset p (canonical_key i) s")
  case None
  define u where "u = (case t of None \<Rightarrow> now env | Some u \<Rightarrow> u)"
  from None assms have "a = new_asset env p i src conf u s" "assets s' = assets s @ [new_asset env p i src conf u s]"
    by (auto simp: upsert_def Let_def drew_def u_def)
  moreover have "asset_key (new_asset env p i src conf u s) = (p, canonical_key i)"
    by (simp add: new_asset_def asset_key_def)
  ultimately show ?thesis
    using None by (simp add: find_asset_by_key by_key_append) (simp add: by_key_def)
next
  case (Some b)
  define u where "u = (case t of None \<Rightarrow> now env | Some u \<Rightarrow> u)"
  from Some assms have "a = b\<lparr>ast_last_seen_at := Some u\<rparr>"
    "assets s' = amend_key ast_id (ast_id b) (\<lambda>r. r\<lparr>ast_last_seen_at := Some u\<rparr>) (assets s)"
    by (auto simp: upsert_def Let_def u_def)
  with Some show ?thesis by (auto simp: find_asset_key amend_key_def amend_def find_map_keep)
qed

text \<open>
  Observations with the same canonical key always land on the same asset of the engagement, whatever was
  observed or related in between and whichever of the two spellings, sources or ports the second one used.
\<close>

theorem same_key_same_asset:
  assumes "inj U" and "graph_ok U s0"
    and "uuid env1 = U" and "upsert env1 p obs1 src1 conf1 dp1 hl1 t1 s0 = Inr (Some a, s1)"
    and "(observes U)\<^sup>*\<^sup>* s1 s2"
    and "uuid env2 = U" and "upsert env2 p obs2 src2 conf2 dp2 hl2 t2 s2 = Inr (Some b, s3)"
    and "node_identity obs1 dp1 hl1 = Inr (Some i1)" and "node_identity obs2 dp2 hl2 = Inr (Some i2)"
    and "canonical_key i1 = canonical_key i2"
  shows "ast_id b = ast_id a"
proof -
  have g1: "graph_ok U s1" by (rule graph_ok_upsert [OF assms(1,3,2,4)])
  from assms(5) have "graph_ok U s2 \<and> (\<exists>c. find_asset p (canonical_key i1) s2 = Some c \<and> ast_id c = ast_id a)"
  proof induction
    case base
    show ?case using g1 upsert_found [OF assms(4,8)] by blast
  next
    case (step y z)
    then obtain c where c: "graph_ok U y" "find_asset p (canonical_key i1) y = Some c" "ast_id c = ast_id a" by blast
    with step.hyps(2) show ?case
      using graph_ok_observes [OF assms(1)] find_asset_observes [OF assms(1) step.hyps(2) c(1,2)] by fastforce
  qed
  then obtain c where "find_asset p (canonical_key i2) s2 = Some c" "ast_id c = ast_id a" using assms(10) by auto
  with assms(7,9) show ?thesis by (auto simp: upsert_def Let_def)
qed

theorem same_key_same_asset_witness:
  "\<exists>a b. fst (upserted ''https://api.acme.com/v1'' None True empty_db) = Some a
     \<and> fst (upserted ''API.acme.com.'' None False graph_two) = Some b \<and> ast_id b = ast_id a"
proof -
  let ?i = "\<lambda>sch. \<lparr>ai_asset_type = DOMAIN, ai_hostname = ''api.acme.com'', ai_ip = [], ai_port = None, ai_scheme = sch\<rparr>"
  have "\<not> Option.is_none (fst (upserted ''https://api.acme.com/v1'' None True empty_db))" by code_simp
  then obtain a where a: "fst (upserted ''https://api.acme.com/v1'' None True empty_db) = Some a"
    by (auto simp: Option.is_none_def)
  have "\<not> Option.is_none (fst (upserted ''API.acme.com.'' None False graph_two))" by code_simp
  then obtain b where b: "fst (upserted ''API.acme.com.'' None False graph_two) = Some b"
    by (auto simp: Option.is_none_def)
  have n: "node_identity ''https://api.acme.com/v1'' None True = Inr (Some (?i ''https''))"
    "node_identity ''API.acme.com.'' None False = Inr (Some (?i []))"
    "canonical_key (?i ''https'') = canonical_key (?i [])" by code_simp+
  have "(observes (uuid graph_env))\<^sup>*\<^sup>* (snd (upserted ''https://api.acme.com/v1'' None True empty_db)) graph_two"
    unfolding graph_two_def graph_one_def by (rule upserted_step)
  from same_key_same_asset [OF inj_graph_env graph_ok_empty refl upserted_Some [OF a] this refl upserted_Some [OF b] n]
  show ?thesis using a b by blast
qed

section \<open>Keys\<close>

lemma str_of_int_no_colon: "CHR '':'' \<notin> set (str_of_int n)"
proof -
  have "list_all is_decimal_char (str_of_pos (if n < 0 then - n else n))" by (rule str_of_pos_decimal) simp
  moreover have "\<not> is_decimal_char (CHR '':'')" by (simp add: is_decimal_char_def code_def)
  ultimately show ?thesis by (auto simp: str_of_int_def list_all_iff split: if_splits)
qed

lemma classify_kind:
  assumes "classify scheme h port = Some i"
  shows "ai_asset_type i = IP \<and> ai_hostname i = [] \<or> ai_asset_type i = DOMAIN \<and> ai_ip i = []"
  using assms unfolding classify_def Let_def by (auto split: if_splits)

lemma parse_kind:
  assumes "parse obs dp = Inr (Some i)"
  shows "ai_asset_type i = IP \<and> ai_hostname i = [] \<or> ai_asset_type i = DOMAIN \<and> ai_ip i = []"
proof -
  obtain scheme h port where "classify scheme h port = Some i"
    using assms unfolding parse_def Let_def
    by (cases "strip obs = []") (auto simp: bindE_eq_Inr case_prod_beta split: option.splits)
  then show ?thesis by (rule classify_kind)
qed

lemma colon_split: "c \<notin> set a \<Longrightarrow> c \<notin> set b \<Longrightarrow> a @ c # x = b @ c # y \<Longrightarrow> a = b \<and> x = y"
proof (induction a arbitrary: b)
  case Nil
  then show ?case by (cases b) auto
next
  case (Cons d a)
  then show ?case by (cases b) auto
qed

lemma str_of_int_inject: "str_of_int m = str_of_int n \<longleftrightarrow> m = n"
proof
  assume eq: "str_of_int m = str_of_int n"
  have no_sign: "str_of_pos a \<noteq> CHR ''-'' # x" if "0 \<le> a" for a x
    using str_of_pos_decimal [OF that] decimal_not_sign by fastforce
  have no_sign': "CHR ''-'' # x \<noteq> str_of_pos a" if "0 \<le> a" for a x
    using no_sign [OF that] by metis
  show "m = n"
    using eq by (cases "m < 0"; cases "n < 0") (simp_all add: str_of_int_def str_of_pos_inject no_sign no_sign')
qed simp

text \<open>The port a key distinguishes: a port of 0 is as good as none.\<close>

definition shown_port :: "AssetIdentity \<Rightarrow> int option" where
  "shown_port i = (if ai_port i = Some 0 then None else ai_port i)"

lemma label_shown: "label i = identity_base i @ (case shown_port i of None \<Rightarrow> [] | Some p \<Rightarrow> CHR '':'' # str_of_int p)"
  by (auto simp: label_def shown_port_def split: option.splits)

lemma label_inject:
  assumes "CHR '':'' \<notin> set (identity_base i)" and "CHR '':'' \<notin> set (identity_base j)" and "label i = label j"
  shows "identity_base i = identity_base j \<and> shown_port i = shown_port j"
proof (cases "shown_port i")
  case None
  with assms show ?thesis by (cases "shown_port j") (auto simp: label_shown)
next
  case (Some p)
  show ?thesis
  proof (cases "shown_port j")
    case None
    with Some assms(3) have "identity_base i @ CHR '':'' # str_of_int p = identity_base j" by (simp add: label_shown)
    with assms(2) show ?thesis by (metis in_set_conv_decomp)
  next
    case (Some q)
    with \<open>shown_port i = Some p\<close> assms(3)
    have "identity_base i @ CHR '':'' # str_of_int p = identity_base j @ CHR '':'' # str_of_int q"
      by (simp add: label_shown)
    from colon_split [OF assms(1,2) this] Some \<open>shown_port i = Some p\<close> show ?thesis
      by (simp add: str_of_int_inject)
  qed
qed

text \<open>
  Apart from IPv6 addresses, a key identifies what was observed: two identities whose hosts contain no
  colon have the same canonical key only if they have the same type, host name, address and port.
\<close>

theorem canonical_key_injective:
  assumes "parse obs1 dp1 = Inr (Some i)" and "parse obs2 dp2 = Inr (Some j)"
    and "CHR '':'' \<notin> set (identity_base i)" and "CHR '':'' \<notin> set (identity_base j)"
    and "canonical_key i = canonical_key j"
  shows "ai_asset_type i = ai_asset_type j \<and> ai_hostname i = ai_hostname j \<and> ai_ip i = ai_ip j
    \<and> shown_port i = shown_port j"
proof -
  have no_colon: "CHR '':'' \<notin> set (ai_asset_type x)" if "parse obs dp = Inr (Some x)" for obs dp x
    using parse_kind [OF that] by (auto simp: IP_def DOMAIN_def)
  have t: "ai_asset_type i = ai_asset_type j" and l: "label i = label j"
    using colon_split [OF no_colon [OF assms(1)] no_colon [OF assms(2)]] assms(5) by (auto simp: canonical_key_def)
  from t label_inject [OF assms(3,4) l] parse_kind [OF assms(1)] parse_kind [OF assms(2)] show ?thesis
    by (auto simp: identity_base_def IP_def DOMAIN_def split: if_splits)
qed

theorem canonical_key_injective_witness:
  "\<exists>i j. parse ''https://api.acme.com/v1'' None = Inr (Some i) \<and> parse ''API.acme.com:443'' None = Inr (Some j)
     \<and> canonical_key i = ''domain:api.acme.com:443'' \<and> shown_port i = shown_port j \<and> ai_hostname i = ai_hostname j"
proof -
  let ?i = "\<lparr>ai_asset_type = DOMAIN, ai_hostname = ''api.acme.com'', ai_ip = [], ai_port = Some 443, ai_scheme = ''https''\<rparr>"
  let ?j = "\<lparr>ai_asset_type = DOMAIN, ai_hostname = ''api.acme.com'', ai_ip = [], ai_port = Some 443, ai_scheme = []\<rparr>"
  have i: "parse ''https://api.acme.com/v1'' None = Inr (Some ?i)" by code_simp
  have j: "parse ''API.acme.com:443'' None = Inr (Some ?j)" by code_simp
  have c: "CHR '':'' \<notin> set (identity_base ?i)" "CHR '':'' \<notin> set (identity_base ?j)" by code_simp+
  have k: "canonical_key ?i = canonical_key ?j" "canonical_key ?i = ''domain:api.acme.com:443''" by code_simp+
  from canonical_key_injective [OF i j c k(1)] i j k show ?thesis by blast
qed

text \<open>
  The excluded case is real: an IPv6 address with a port and a longer IPv6 address without one share a key,
  although the key's contract is that two different things never produce the same string; and two spellings
  of one IPv6 address get different keys.
\<close>

lemma ipv6_keys_collide:
  "\<exists>i j. parse ''[2001:db8::1]:80'' None = Inr (Some i) \<and> parse ''2001:db8::1:80'' None = Inr (Some j)
     \<and> ip_address (ai_ip i) \<noteq> ip_address (ai_ip j) \<and> canonical_key i = canonical_key j"
proof -
  let ?i = "\<lparr>ai_asset_type = IP, ai_hostname = [], ai_ip = ''2001:db8::1'', ai_port = Some 80, ai_scheme = []\<rparr>"
  let ?j = "\<lparr>ai_asset_type = IP, ai_hostname = [], ai_ip = ''2001:db8::1:80'', ai_port = None, ai_scheme = []\<rparr>"
  have "parse ''[2001:db8::1]:80'' None = Inr (Some ?i)" "parse ''2001:db8::1:80'' None = Inr (Some ?j)"
    "ip_address (ai_ip ?i) \<noteq> ip_address (ai_ip ?j)" "canonical_key ?i = canonical_key ?j" by code_simp+
  then show ?thesis by blast
qed

lemma ipv6_spellings_diverge:
  "\<exists>i j. parse ''[::1]'' None = Inr (Some i) \<and> parse ''[0:0:0:0:0:0:0:1]'' None = Inr (Some j)
     \<and> ip_address (ai_ip i) = ip_address (ai_ip j) \<and> canonical_key i \<noteq> canonical_key j"
proof -
  let ?i = "\<lparr>ai_asset_type = IP, ai_hostname = [], ai_ip = ''::1'', ai_port = None, ai_scheme = []\<rparr>"
  let ?j = "\<lparr>ai_asset_type = IP, ai_hostname = [], ai_ip = ''0:0:0:0:0:0:0:1'', ai_port = None, ai_scheme = []\<rparr>"
  have "parse ''[::1]'' None = Inr (Some ?i)" "parse ''[0:0:0:0:0:0:0:1]'' None = Inr (Some ?j)"
    "ip_address (ai_ip ?i) = ip_address (ai_ip ?j)" "canonical_key ?i \<noteq> canonical_key ?j" by code_simp+
  then show ?thesis by blast
qed

section \<open>Host-level observations\<close>

text \<open>A host as it stands between the slashes of a URL: no credentials, port, bracket or white space.\<close>

definition plain_host :: "string \<Rightarrow> bool" where
  "plain_host h = (h \<noteq> [] \<and> list_all (\<lambda>c. \<not> is_ws c \<and> c \<notin> set ''/@:['') h)"

lemma strip_plain:
  assumes "plain_host h"
  shows "strip h = h"
proof (rule strip_id)
  show "h \<noteq> []" "\<not> is_ws (hd h)" "\<not> is_ws (last h)"
    using assms by (auto simp: plain_host_def list_all_iff)
qed

lemma plain_host_chars: "plain_host h \<Longrightarrow> c \<in> set ''/@:['' \<Longrightarrow> c \<notin> set h"
  by (auto simp: plain_host_def list_all_iff)

lemma host_and_port_plain:
  assumes "plain_host h"
  shows "host_and_port h dp = Inr (Some (h, dp))"
proof -
  have "CHR ''['' \<notin> set h" "CHR '':'' \<notin> set h" using plain_host_chars [OF assms] by simp_all
  then have "\<not> startswith h ''[''" "count_char (CHR '':'') h = 0"
    by (auto simp: startswith_iff count_char_def filter_empty_conv)
  then show ?thesis by (simp add: host_and_port_def)
qed

lemma parse_plain:
  assumes "plain_host h"
  shows "parse h dp = Inr (classify [] h dp)"
proof -
  have "\<not> contains h ''://''" using plain_host_chars [OF assms, of "CHR '':''"] by (auto simp: contains_iff)
  moreover have "\<not> contains h ''/''" "\<not> contains h ''@''"
    using plain_host_chars [OF assms] by (auto simp: contains_char)
  moreover have "h \<noteq> []" using assms by (simp add: plain_host_def)
  ultimately show ?thesis
    using assms by (simp add: parse_def strip_plain host_and_port_plain before_no split_once_None_iff [THEN iffD2])
qed

lemma strip_url: "\<exists>rest. strip (''https://'' @ h @ CHR ''/'' # path) = ''https://'' @ h @ CHR ''/'' # rest"
proof -
  have "lstrip_where is_ws (''https://'' @ h @ CHR ''/'' # path) = ''https://'' @ h @ CHR ''/'' # path"
    by (simp add: lstrip_where_def is_ws_def code_def)
  moreover have "\<exists>rest. rstrip_where is_ws (a @ CHR ''/'' # path) = a @ CHR ''/'' # rest" for a
    by (simp add: rstrip_where_def dropWhile_append is_ws_def code_def)
  ultimately show ?thesis by (metis append_assoc strip_def)
qed

lemma parse_url:
  assumes "plain_host h"
  shows "parse (''https://'' @ h @ CHR ''/'' # path) dp = Inr (classify ''https'' h dp)"
proof -
  obtain rest where r: "strip (''https://'' @ h @ CHR ''/'' # path) = ''https://'' @ h @ CHR ''/'' # rest"
    using strip_url by blast
  have "split_once ''://'' (''https://'' @ h @ CHR ''/'' # rest) = Some (''https'', h @ CHR ''/'' # rest)"
    by (simp add: split_once_def startswith_def)
  moreover have "before ''/'' (h @ CHR ''/'' # rest) = h"
    using plain_host_chars [OF assms, of "CHR ''/''"] by (auto simp: before_def split_once_char)
  moreover have "\<not> contains h ''@''" using plain_host_chars [OF assms] by (auto simp: contains_char)
  moreover have "lower ''https'' = ''https''" by code_simp
  ultimately show ?thesis
    unfolding parse_def r using assms by (simp add: host_and_port_plain split_once_None_iff [THEN iffD2])
qed

lemma classify_key_without_port:
  "map_option (\<lambda>i. canonical_key (i\<lparr>ai_port := None\<rparr>)) (classify scheme h port)
   = map_option (\<lambda>i. canonical_key (i\<lparr>ai_port := None\<rparr>)) (classify scheme' h port')"
  by (simp add: classify_def Let_def canonical_key_def label_def identity_base_def)

text \<open>
  At host level a URL and a bare host name are observations of the same thing: whatever path follows
  and whatever default port the caller assumes, both give the same canonical key, or neither is an asset.
\<close>

theorem host_level_observations_converge:
  assumes "plain_host h"
  shows "bindE (node_identity (''https://'' @ h @ CHR ''/'' # path) dp True) (\<lambda>i. Inr (map_option canonical_key i))
    = bindE (node_identity h dp' True) (\<lambda>i. Inr (map_option canonical_key i))"
  unfolding node_identity_def parse_plain [OF assms] parse_url [OF assms]
  using classify_key_without_port [of "''https''" h dp "[]" dp'] by (simp add: option.map_comp comp_def)

theorem host_level_observations_converge_witness:
  "bindE (node_identity ''https://api.acme.com/v1?x=1'' (Some 8443) True) (\<lambda>i. Inr (map_option canonical_key i))
     = Inr (Some ''domain:api.acme.com'')"
proof -
  have "plain_host ''api.acme.com''" by code_simp
  from host_level_observations_converge [OF this, of "''v1?x=1''" "Some 8443" None]
  have "bindE (node_identity ''https://api.acme.com/v1?x=1'' (Some 8443) True) (\<lambda>i. Inr (map_option canonical_key i))
    = bindE (node_identity ''api.acme.com'' None True) (\<lambda>i. Inr (map_option canonical_key i))" by simp
  also have "\<dots> = Inr (Some ''domain:api.acme.com'')" by code_simp
  finally show ?thesis .
qed

end
