(* ===== verification/Spec2Isabelle.thy ===== *)
theory Spec2Isabelle
  imports Authority_Safety Assets
begin

text \<open>
  VardrMap is the server of a security-testing workbench: operators describe an engagement (scope,
  authorization, budgets), queue scan jobs for it, and runners on the operators' machines claim the jobs,
  execute them under a lease and report back.  This library models the Python backend (\<open>src/backend\<close>)
  and proves what it promises about who may do what, which work may run, and how often.

  \<^bold>\<open>The theories\<close>

  \<^item> \<open>Prelude\<close>: exceptions and results, the Python string and list primitives of the source, the error
    combinators \<open>bindE\<close>, \<open>ignoreE\<close>, \<open>requireE\<close>, and the commit-or-roll-back wrapper \<open>transact\<close>.
    \<open>Pyval\<close> has the values of JSON bodies (\<open>str\<close>, \<open>repr\<close>, \<open>int\<close>, truth), \<open>Ipaddr\<close>, \<open>Urls\<close> and \<open>Json\<close>
    the parts of \<open>ipaddress\<close>, \<open>urllib.parse.urlsplit\<close> and \<open>json.dumps\<close> the source calls.
  \<^item> \<open>Policy\<close> is \<open>policy.py\<close>: which targets an engagement permits.  \<open>Enforcement\<close> is \<open>enforcement.py\<close>:
    the same decision over the stored rows, advisory except for stop-work.
  \<^item> \<open>Models\<close> is \<open>models.py\<close>: one record per table, the database as a record of row lists, and keyed
    lookup, insertion, update and deletion for each table, all instances of the locale \<open>keyed_table\<close>.
    A database row is found by its primary key; ids come from a stream \<open>uuid\<close> that draws each id once.
  \<^item> \<open>Access\<close> is the tenancy half of \<open>deps.py\<close>, \<open>Local_Auth\<close> its authentication half with
    \<open>local_auth.py\<close>, \<open>auth_methods.py\<close> and \<open>routers/local_auth.py\<close>.
  \<^item> \<open>Job_Config\<close> is the validation of job configurations (\<open>routers/jobs.py\<close> to line 362), \<open>Jobs\<close> the job
    endpoints, \<open>Engagements\<close> the endpoints of \<open>routers/engagements.py\<close> that govern execution, and
    \<open>Execution_Control\<close> the attempt rows and budgets (\<open>execution_control.py\<close>, \<open>target_budget.py\<close>,
    \<open>duration_budget.py\<close>, \<open>concurrency_budget.py\<close>).
  \<^item> \<open>Sanitize\<close> is \<open>security.py\<close>, \<open>Test_Cases\<close> is \<open>routers/test_cases.py\<close> (what a stored test case may hold),
    \<open>Scope_Import\<close> the CSV import of \<open>routers/scope.py\<close> with the standard library's reader, and
    \<open>Authority_Records\<close> the other endpoints an engagement's authority is edited with: \<open>routers/scope.py\<close>,
    \<open>routers/authorizations.py\<close>, \<open>routers/members.py\<close> and the update of \<open>routers/engagements.py\<close>.
  \<^item> \<open>Redaction\<close> is \<open>redaction.py\<close>: the patterns of \<open>redact_text\<close> as scanners, and \<open>redact_mapping\<close>.
    \<open>Assessments\<close> is \<open>assessments.py\<close> with \<open>assessment_evidence.py\<close>: what the runs of a test case show, and that a
    conclusive verdict rests on evidence.  \<open>Gate_Results\<close> is the upload of a result (\<open>store_gate_result\<close> of
    \<open>routers/jobs.py\<close>): redacted evidence, the assessment of the job, and a receipt that makes it final.
  \<^item> \<open>Assets\<close> is the asset graph (\<open>assets.py\<close>): canonical keys and the find-or-create of assets and edges.
  \<^item> \<open>Json_Loads\<close> is the standard library's JSON decoder, \<open>Calendar\<close> the proleptic Gregorian calendar of
    \<open>datetime\<close>, and \<open>Wire\<close> is \<open>managed_wire.py\<close>: canonical documents, their bounded parser, signed approvals and
    contracts.
  \<^item> \<open>Issuance\<close> is \<open>managed_issuance.py\<close> with the projection of \<open>nm1_authorization.py\<close>: an operator registers a
    signed approval, an enrolled runner claims the job against it and renews and consumes its contract.
    \<open>Managed_Results\<close> is how such an attempt ends and is observed (\<open>managed_results.py\<close>, \<open>managed_stops.py\<close>,
    \<open>managed_observations.py\<close>).
  \<^item> \<open>Lifecycle\<close> is the abstract specification: the changes a job, an attempt and a budget ledger may
    make (\<open>micro\<close>), closed under composition as \<open>history\<close>, with the invariants of every history.
    \<open>Protocol\<close> proves that each endpoint is such a history.  \<open>Issuer_Protocol\<close> adds the abstract protocol of
    approvals, contracts and the trusted clock (\<open>issuer_micro\<close>), \<open>Settlements\<close> the completions and stops, \<open>Edits\<close>
    the edits of an engagement's authority, and \<open>Requests\<close> puts every request of any kind together (\<open>act\<close>) and
    proves each a history of both protocols that keeps what authority rests on (\<open>progress\<close>).
  \<^item> The conclusions: \<open>Managed_Safety\<close> for managed authorization, on the example of \<open>Issuance_Example\<close>,
    \<open>Settlement_Safety\<close> for the end of managed attempts, \<open>Authority_Safety\<close> for the authority revision and the
    stored test cases, and this theory for sequences of requests by any callers.

  \<^bold>\<open>How the code is represented\<close>

  A handler is a function from the request, the caller and the stored rows to the response or exception
  and the rows committed when it ends; each runs in one transaction under the locks the source takes, so
  a sequence of handlers is a sequence of commits.  Exceptions are the values of \<open>exn\<close>; where the source
  commits before it raises (a failed login, a refused completion, an observed clock) the model does too.
  Times are microseconds as integers, Python integers are \<open>int\<close>, and strings are lists of characters up to
  code 255.  Recursion is structural or on decreasing lengths, but for the JSON decoder, whose fuel is the
  length of its input, which is proved to be enough.  SHA-256, HMAC, Argon2, Ed25519, JWT decoding,
  \<open>float(text)\<close>, random tokens and the clocks are parameters (\<open>env\<close>, \<open>auth_env\<close>, \<open>crypto\<close>, \<open>clocks\<close>).
  Python's recursion limit is not modelled, and where the code's answer depends on the C library (years
  before 1000 in \<open>strftime\<close>) the model answers \<open>OutsideModel\<close>.

  \<^bold>\<open>What is not modelled\<close>: the frontend, the Burp extension, integration scripts, migrations, logging,
  webhooks, server-sent events, rate limiting and JSON rendering (input and output only); the ORM session
  guards of the issuer; the importers of tool output and the
  read-only coverage reports; routers that read and write single rows behind the modelled guards.
\<close>

section \<open>Histories of requests\<close>

text \<open>
  C3: Every request the modelled endpoints serve, and so every sequence of requests by any callers, is a
  sequence of changes the abstract execution protocol allows, and keeps the tables' keys and the rule that
  a job with an open attempt is running.
\<close>

theorem endpoints_refine_protocol:
  assumes "inj U" and "tables_ok U s" and "(act U)\<^sup>*\<^sup>* s s'"
  shows "history U s s' \<and> tables_ok U s'"
  using acts_history [OF assms(3,1,2)] tables_ok_history assms(1,2) by blast

lemma example_claim_served:
  "serve (uuid example_env) (example_board ''pending'')
     (snd (claim_job example_env ''tok'' example_key_request (example_user ''alice'') ''u'' (Some example_claim)
        (example_board ''pending'')))"
  using example_claim_ok by (auto intro: s_claim [OF refl _ prod.collapse [symmetric]])

theorem endpoints_refine_protocol_witness:
  "tables_ok (uuid example_env) (snd (claim_job example_env ''tok'' example_key_request (example_user ''alice'') ''u''
     (Some example_claim) (example_board ''pending'')))"
  by (rule conjunct2 [OF endpoints_refine_protocol [OF inj_example example_board_ok
      r_into_rtranclp [of "act (uuid example_env)", OF a_serve [OF example_claim_served]]]])

text \<open>
  C7: A finished job never reopens: once a job is done or failed, no sequence of requests changes its status,
  its tool, its configuration or its engagement; at most the job is deleted, and then its id never returns
  with another job.
\<close>

theorem finished_jobs_never_reopen:
  assumes "inj U" and "tables_ok U s" and "(act U)\<^sup>*\<^sup>* s s'"
    and "get_job k s = Some j" and "job_status j \<in> {''done'', ''failed''}" and "get_job k s' = Some j'"
  shows "job_status j' = job_status j \<and> job_tool_type j' = job_tool_type j \<and> job_config j' = job_config j
    \<and> job_program_id j' = job_program_id j"
proof -
  have "tracked U k j (get_execution k s) s" by (rule tracked_start [OF assms(2,4) refl])
  then have "tracked U k j (get_execution k s) s'"
    by (rule tracked_history [OF acts_history [OF assms(3,1,2)] assms(1,2)])
  with assms(5,6) show ?thesis by (auto simp: tracked_def evolves_def)
qed

theorem finished_jobs_never_reopen_witness:
  "job_status (the (get_job ''u'' (snd (update_job example_env (example_user ''alice'') ''u''
     \<lparr>su_status = ''pending'', su_error_message = None\<rparr> (example_board ''done''))))) = ''done''"
proof -
  let ?s = "example_board ''done''"
  let ?r = "update_job example_env (example_user ''alice'') ''u'' \<lparr>su_status = ''pending'', su_error_message = None\<rparr> ?s"
  have sv: "(act (uuid example_env))\<^sup>*\<^sup>* ?s (snd ?r)"
    by (rule r_into_rtranclp, rule a_serve, rule s_update [OF refl prod.collapse [symmetric]])
  have g: "get_job ''u'' ?s = Some (example_job ''done'')" by code_simp
  have d: "job_status (example_job ''done'') \<in> {''done'', ''failed''}" by code_simp
  have "get_job ''u'' (snd ?r) \<noteq> None" by code_simp
  then obtain j' where j': "get_job ''u'' (snd ?r) = Some j'" by blast
  from finished_jobs_never_reopen [OF inj_example example_board_ok sv g d j'] j' show ?thesis
    by (simp add: example_job_def)
qed

text \<open>
  C4: Budgets are never exceeded: if every engagement is within its origin, duration and concurrency
  budgets, it still is after any sequence of requests, policy changes, claims of any shape, cancellations
  and deletions included.  An engagement with no limit has spent nothing and reserved nothing.
\<close>

theorem budgets_never_exceeded:
  assumes "inj U" and "tables_ok U s" and "in_budget s" and "(act U)\<^sup>*\<^sup>* s s'" and "e \<in> set (programs s')"
  shows "within (eng_target_limit e) (eng_targets_spent e)
    \<and> within (eng_duration_limit e) (eng_duration_allocated e)
    \<and> within (eng_concurrency_limit e) (int (reserved (eng_id e) s'))"
  using in_budget_history [OF acts_history [OF assms(4,1,2)] assms(1,2,3)] assms(5)
  by (auto simp: in_budget_def budget_ok_def)

definition budget_board :: db where
  "budget_board = (example_board ''pending'')\<lparr>programs := [example_engagement\<lparr>eng_duration_limit := Some 60,
     eng_concurrency_limit := Some 1\<rparr>]\<rparr>"

definition budget_claim :: ClaimControl where
  "budget_claim = example_claim\<lparr>cc_concurrency_budget := True, cc_duration_seconds := Some 40\<rparr>"

lemma budget_board_ok: "tables_ok (uuid example_env) budget_board" "in_budget budget_board"
  by (auto simp: tables_ok_def attempts_open_def in_budget_def budget_ok_def within_def reserved_def reserved_rows_def
      budget_board_def example_board_def example_tenancy_def empty_db_def example_job_def example_engagement_def
      example_env_def intro!: exI [of _ "1 :: nat"])

theorem budgets_never_exceeded_witness:
  "\<exists>s' e. snd (claim_job example_env ''tok'' example_key_request (example_user ''alice'') ''u'' (Some budget_claim) budget_board) = s'
     \<and> programs s' = [e] \<and> eng_duration_allocated e = 40 \<and> reserved ''e1'' s' = 1
     \<and> within (eng_concurrency_limit e) (int (reserved (eng_id e) s'))"
proof -
  let ?r = "claim_job example_env ''tok'' example_key_request (example_user ''alice'') ''u'' (Some budget_claim) budget_board"
  have ok: "claim_control_ok budget_claim" by code_simp
  have sv: "(act (uuid example_env))\<^sup>*\<^sup>* budget_board (snd ?r)"
    using ok by (intro r_into_rtranclp a_serve s_claim [OF refl _ prod.collapse [symmetric]]) auto
  have p: "map eng_duration_allocated (programs (snd ?r)) = [40]" by code_simp
  then obtain e where e: "programs (snd ?r) = [e]" "eng_duration_allocated e = 40" by (cases "programs (snd ?r)") auto
  have "reserved ''e1'' (snd ?r) = 1" by code_simp
  with e budgets_never_exceeded [OF inj_example budget_board_ok sv, of e] show ?thesis by auto
qed

text \<open>
  C6: An attempt keeps its reserved capacity until it is finally completed, failed or cancelled: through any
  sequence of requests it stays bound to the runner, owner and token it was issued to, a final state is
  never rewritten, an attempt that left the active state never returns to it, and capacity is given back
  only by a final state, so an uncertain or cancel-requested attempt still counts against the limit.
\<close>

theorem capacity_held_until_final:
  assumes "inj U" and "tables_ok U s" and "(act U)\<^sup>*\<^sup>* s s'"
    and "get_execution k s = Some x" and "get_execution k s' = Some y"
  shows "exe_owner y = exe_owner x \<and> exe_runner_id y = exe_runner_id x \<and> exe_token_hash y = exe_token_hash x
    \<and> (exe_state x \<in> set FINAL_STATES \<longrightarrow> exe_state y = exe_state x)
    \<and> (exe_state y = ''active'' \<longrightarrow> exe_state x = ''active'')
    \<and> (exe_capacity_reserved x \<longrightarrow> exe_capacity_reserved y \<or> exe_state y \<in> set FINAL_STATES)"
proof -
  note h = acts_history [OF assms(3,1,2)]
  obtain j where "get_job k s = Some j" using execution_has_job [OF assms(2,4)] by blast
  then have "tracked U k j (Some x) s'"
    using tracked_history [OF h assms(1,2)] tracked_start [OF assms(2) _ assms(4)] by blast
  moreover obtain j' where "get_job k s' = Some j'"
    using execution_has_job [OF tables_ok_history [OF h assms(1,2)] assms(5)] by blast
  ultimately have "exec_move x y" using assms(5) by (simp add: tracked_def)
  then show ?thesis unfolding exec_move_def by blast
qed

definition attempt_board :: db where
  "attempt_board = snd (claim_job example_env ''tok'' example_key_request (example_user ''alice'') ''u'' (Some budget_claim) budget_board)"

lemma attempt_board_ok: "tables_ok (uuid example_env) attempt_board"
proof -
  have ok: "claim_control_ok budget_claim" by code_simp
  have "serve (uuid example_env) budget_board attempt_board"
    unfolding attempt_board_def using ok by (intro s_claim [OF refl _ prod.collapse [symmetric]]) auto
  then show ?thesis
    using serve_history [OF inj_example budget_board_ok(1)] tables_ok_history [OF _ inj_example budget_board_ok(1)] by blast
qed

definition uncertain_finish :: FinishControl where
  "uncertain_finish = \<lparr>cc_runner_id = ''r1'', cc_origin = ''https://map.example'', cc_concurrency_budget = True,
     cc_target_binding = None, cc_duration_seconds = Some 40, cc_token = ''tok'', cc_outcome = ''uncertain''\<rparr>"

theorem capacity_held_until_final_witness:
  "\<exists>x y. get_execution ''u'' attempt_board = Some x \<and> exe_capacity_reserved x
     \<and> get_execution ''u'' (snd (finish_execution example_env example_key_request (example_user ''alice'') ''u'' uncertain_finish attempt_board)) = Some y
     \<and> exe_state y = ''uncertain'' \<and> exe_capacity_reserved y"
proof -
  let ?f = "finish_execution example_env example_key_request (example_user ''alice'') ''u'' uncertain_finish attempt_board"
  note tok = attempt_board_ok
  have sv: "(act (uuid example_env))\<^sup>*\<^sup>* attempt_board (snd ?f)"
    by (rule r_into_rtranclp, rule a_serve, rule s_finish [OF refl _ prod.collapse [symmetric]]) (simp add: uncertain_finish_def)
  have "map_option exe_capacity_reserved (get_execution ''u'' attempt_board) = Some True" by code_simp
  moreover have "map_option exe_state (get_execution ''u'' (snd ?f)) = Some ''uncertain''" by code_simp
  ultimately obtain x y where x: "get_execution ''u'' attempt_board = Some x" "exe_capacity_reserved x"
    and y: "get_execution ''u'' (snd ?f) = Some y" "exe_state y = ''uncertain''" by auto
  have "''uncertain'' \<notin> set FINAL_STATES" by (simp add: FINAL_STATES_def)
  with capacity_held_until_final [OF inj_example tok sv x(1) y(1)] x y show ?thesis by auto
qed



definition cancelled_finish :: FinishControl where
  "cancelled_finish = uncertain_finish\<lparr>cc_outcome := ''cancelled''\<rparr>"


text \<open>
  C24: Status columns hold only their words: through any sequence of requests every job is pending, running,
  done or failed, and every attempt is in one of its six states.
\<close>

theorem statuses_stay_in_vocabulary:
  assumes "inj U" and "tables_ok U s" and "statuses_ok s" and "(act U)\<^sup>*\<^sup>* s s'"
  shows "(\<forall>j \<in> set (scan_jobs s'). job_status j \<in> {''pending'', ''running'', ''done'', ''failed''})
    \<and> (\<forall>x \<in> set (job_executions s'). exe_state x \<in> {''active'', ''cancel_requested'', ''uncertain'', ''completed'', ''failed'', ''cancelled''})"
  using statuses_ok_history [OF acts_history [OF assms(4,1,2)] assms(3)]
  by (simp add: statuses_ok_def VALID_STATUSES_def EXECUTION_STATES_def FINAL_STATES_def)

theorem statuses_stay_in_vocabulary_witness:
  "\<exists>x. get_execution ''u'' attempt_board = Some x
     \<and> exe_state x \<in> {''active'', ''cancel_requested'', ''uncertain'', ''completed'', ''failed'', ''cancelled''}"
proof -
  have "get_execution ''u'' attempt_board \<noteq> None" by code_simp
  then obtain x where x: "get_execution ''u'' attempt_board = Some x" by blast
  have s: "statuses_ok budget_board" by code_simp
  have ok: "claim_control_ok budget_claim" by code_simp
  have "(act (uuid example_env))\<^sup>*\<^sup>* budget_board attempt_board"
    unfolding attempt_board_def using ok
    by (intro r_into_rtranclp a_serve s_claim [OF refl _ prod.collapse [symmetric]]) auto
  from statuses_stay_in_vocabulary [OF inj_example budget_board_ok(1) s this] x show ?thesis
    by (auto simp: get_execution_def dest: by_key_Some)
qed

end
